(* ===== verification/PyPrelude.thy ===== *)
theory PyPrelude
  imports Main "HOL-Library.Sublist"
begin

text \<open>
  Shared vocabulary of the development: Python strings as lists of code points, the string
  methods the sources call, exceptions as values, an error monad and a state-and-error monad,
  and the dynamic values (YAML and JSON data) the configuration code inspects.

  A Python \<^verbatim>\<open>str\<close> is a sequence of Unicode code points, so it is modelled as a list of numbers (integers, which the
  simplifier evaluates in binary);
  \<open>L ''abc''\<close> is the ASCII literal.  Whitespace and decimal digits are those of
  \<^verbatim>\<open>str.isspace\<close> and of the category Nd (Unicode 14, Python 3.11).
\<close>

named_theorems py_simps \<open>unfolding rules of the Python vocabulary, used when evaluating\<close>

section \<open>Strings\<close>

type_synonym pystr = "int list"

definition L :: "string \<Rightarrow> pystr" where
  "L s = map of_char s"

lemma L_eq_iff [simp]: "L s = L t \<longleftrightarrow> s = t"
  by (auto simp: L_def inj_def)

lemma length_L [simp]: "length (L s) = length s"
  by (simp add: L_def)

lemma L_eq_Nil [simp]: "L s = [] \<longleftrightarrow> s = []" "[] = L s \<longleftrightarrow> s = []"
  by (auto simp: L_def)

lemma L_append: "L (s @ t) = L s @ L t"
  by (simp add: L_def)

subsection \<open>Character classes\<close>

definition space_points :: "int list" where
  "space_points = [9, 10, 11, 12, 13, 28, 29, 30, 31, 32, 0x85, 0xa0, 0x1680, 0x2000, 0x2001,
     0x2002, 0x2003, 0x2004, 0x2005, 0x2006, 0x2007, 0x2008, 0x2009, 0x200a, 0x2028, 0x2029,
     0x202f, 0x205f, 0x3000]"

definition py_isspace :: "int \<Rightarrow> bool" where
  "py_isspace c = List.member space_points c"

definition digit_zeros :: "int list" where
  "digit_zeros = [0x30, 0x660, 0x6f0, 0x7c0, 0x966, 0x9e6, 0xa66, 0xae6, 0xb66, 0xbe6, 0xc66,
     0xce6, 0xd66, 0xde6, 0xe50, 0xed0, 0xf20, 0x1040, 0x1090, 0x17e0, 0x1810, 0x1946, 0x19d0,
     0x1a80, 0x1a90, 0x1b50, 0x1bb0, 0x1c40, 0x1c50, 0xa620, 0xa8d0, 0xa900, 0xa9d0, 0xa9f0,
     0xaa50, 0xabf0, 0xff10, 0x104a0, 0x10d30, 0x11066, 0x110f0, 0x11136, 0x111d0, 0x112f0,
     0x11450, 0x114d0, 0x11650, 0x116c0, 0x11730, 0x118e0, 0x11950, 0x11c50, 0x11d50, 0x11da0,
     0x16a60, 0x16ac0, 0x16b50, 0x1d7ce, 0x1d7d8, 0x1d7e2, 0x1d7ec, 0x1d7f6, 0x1e140, 0x1e2f0,
     0x1e950, 0x1fbf0]"

text \<open>The decimal value of a code point, for every digit that \<^verbatim>\<open>int()\<close> accepts.\<close>

definition py_digit :: "int \<Rightarrow> int option" where
  "py_digit c = (case find (\<lambda>z. z \<le> c \<and> c < z + 10) digit_zeros of
     None \<Rightarrow> None | Some z \<Rightarrow> Some (c - z))"

lemma py_digit_less: "py_digit c = Some d \<Longrightarrow> 0 \<le> d \<and> d < 10"
  by (auto simp: py_digit_def find_Some_iff split: option.splits)

lemma py_digit_ascii: "0 \<le> d \<Longrightarrow> d < 10 \<Longrightarrow> py_digit (48 + d) = Some d"
  by (simp add: py_digit_def digit_zeros_def)

subsection \<open>Stripping\<close>

text \<open>\<^verbatim>\<open>lstrip\<close>/\<^verbatim>\<open>rstrip\<close> drop the characters of a set from one end.\<close>

definition py_lstrip :: "(int \<Rightarrow> bool) \<Rightarrow> pystr \<Rightarrow> pystr" where
  "py_lstrip P s = dropWhile P s"

definition py_rstrip :: "(int \<Rightarrow> bool) \<Rightarrow> pystr \<Rightarrow> pystr" where
  "py_rstrip P s = rev (dropWhile P (rev s))"

definition py_strip :: "pystr \<Rightarrow> pystr" where
  "py_strip s = py_rstrip py_isspace (py_lstrip py_isspace s)"

definition py_rstrip_chars :: "pystr \<Rightarrow> pystr \<Rightarrow> pystr" where
  "py_rstrip_chars cs s = py_rstrip (\<lambda>c. List.member cs c) s"

definition py_lstrip_chars :: "pystr \<Rightarrow> pystr \<Rightarrow> pystr" where
  "py_lstrip_chars cs s = py_lstrip (\<lambda>c. List.member cs c) s"

lemma py_lstrip_suffix: "suffix (py_lstrip P s) s"
  by (simp add: py_lstrip_def suffix_dropWhile)

lemma py_rstrip_prefix: "prefix (py_rstrip P s) s"
  unfolding py_rstrip_def by (metis rev_rev_ident suffix_dropWhile suffix_to_prefix)

lemma set_py_strip: "set (py_strip s) \<subseteq> set s"
  unfolding py_strip_def
  by (metis (no_types, lifting) order_trans py_lstrip_suffix py_rstrip_prefix set_mono_prefix set_mono_suffix)

lemma length_py_strip: "length (py_strip s) \<le> length s"
  unfolding py_strip_def
  by (meson le_trans prefix_length_le py_lstrip_suffix py_rstrip_prefix suffix_length_le)

lemma py_rstrip_id: "s = [] \<or> \<not> P (last s) \<Longrightarrow> py_rstrip P s = s"
  by (cases s rule: rev_cases) (auto simp: py_rstrip_def)

lemma py_lstrip_id: "s = [] \<or> \<not> P (hd s) \<Longrightarrow> py_lstrip P s = s"
  by (cases s) (auto simp: py_lstrip_def)

lemma py_strip_id:
  assumes "\<forall>c \<in> set s. \<not> py_isspace c"
  shows "py_strip s = s"
proof -
  have "py_lstrip py_isspace s = s"
    using assms by (cases s) (auto simp: py_lstrip_def)
  moreover have "py_rstrip py_isspace s = s"
    using assms by (cases s rule: rev_cases) (auto simp: py_rstrip_def)
  ultimately show ?thesis by (simp add: py_strip_def)
qed

subsection \<open>Splitting, joining, searching\<close>

text \<open>\<^verbatim>\<open>s.split(sep)\<close> for a one-character separator: at least one piece, possibly empty ones.\<close>

fun py_split_char :: "int \<Rightarrow> pystr \<Rightarrow> pystr list" where
  "py_split_char c [] = [[]]"
| "py_split_char c (x # s) =
     (if x = c then [] # py_split_char c s
      else (case py_split_char c s of [] \<Rightarrow> [[x]] | p # ps \<Rightarrow> (x # p) # ps))"

text \<open>\<^verbatim>\<open>s.split(sep, 1)\<close> where the separator is known to occur.\<close>

definition py_split1 :: "int \<Rightarrow> pystr \<Rightarrow> pystr \<times> pystr" where
  "py_split1 c s = (takeWhile (\<lambda>x. x \<noteq> c) s, tl (dropWhile (\<lambda>x. x \<noteq> c) s))"

text \<open>\<^verbatim>\<open>s.split()\<close>: the maximal runs of non-space characters.\<close>

function py_split_ws :: "pystr \<Rightarrow> pystr list" where
  "py_split_ws [] = []"
| "py_split_ws (x # s) =
     (if py_isspace x then py_split_ws s
      else (x # takeWhile (\<lambda>c. \<not> py_isspace c) s) # py_split_ws (dropWhile (\<lambda>c. \<not> py_isspace c) s))"
  by pat_completeness auto
termination
  by (relation "measure length") (auto simp: le_imp_less_Suc length_dropWhile_le)

fun py_join :: "pystr \<Rightarrow> pystr list \<Rightarrow> pystr" where
  "py_join sep [] = []"
| "py_join sep [p] = p"
| "py_join sep (p # q # ps) = p @ sep @ py_join sep (q # ps)"

definition py_startswith :: "pystr \<Rightarrow> pystr \<Rightarrow> bool" where
  "py_startswith s p = (take (length p) s = p)"

fun py_contains :: "pystr \<Rightarrow> pystr \<Rightarrow> bool" where
  "py_contains p [] = (p = [])"
| "py_contains p (x # s) = (py_startswith (x # s) p \<or> py_contains p s)"

text \<open>\<^verbatim>\<open>s.replace(old, new)\<close> for a non-empty \<open>old\<close>: left to right, without overlap.\<close>

function py_replace :: "pystr \<Rightarrow> pystr \<Rightarrow> pystr \<Rightarrow> pystr" where
  "py_replace old new s =
     (if old = [] \<or> s = [] then s
      else if py_startswith s old then new @ py_replace old new (drop (length old) s)
      else hd s # py_replace old new (tl s))"
  by pat_completeness auto
termination
  by (relation "measure (\<lambda>(old, new, s). length s)") auto

declare py_replace.simps [simp del]

lemma py_startswith_iff: "py_startswith s p \<longleftrightarrow> prefix p s"
  unfolding py_startswith_def by (metis append_eq_conv_conj prefix_def)

lemma py_split_char_not_Nil [simp]: "py_split_char c s \<noteq> []"
  by (induction s) (auto split: list.splits)

lemma py_join_Cons: "ps \<noteq> [] \<Longrightarrow> py_join sep (p # ps) = p @ sep @ py_join sep ps"
  by (cases ps) auto

lemma py_join_split_char: "py_join [c] (py_split_char c s) = s"
proof (induction s)
  case Nil
  then show ?case by simp
next
  case (Cons x s)
  obtain p ps where ps: "py_split_char c s = p # ps"
    by (cases "py_split_char c s") auto
  show ?case
  proof (cases "x = c")
    case True
    then show ?thesis using Cons by (simp add: py_join_Cons)
  next
    case False
    then show ?thesis using Cons ps by (cases ps) auto
  qed
qed

lemma py_split_char_no_sep: "p \<in> set (py_split_char c s) \<Longrightarrow> c \<notin> set p"
  by (induction s arbitrary: p) (auto split: list.splits if_splits)

lemma py_split_char_free: "c \<notin> set s \<Longrightarrow> py_split_char c s = [s]"
  by (induction s) auto

lemma py_split_char_append:
  "c \<notin> set p \<Longrightarrow> py_split_char c (p @ c # s) = p # py_split_char c s"
  by (induction p) auto

lemma py_split_char_join:
  assumes "ps \<noteq> []" and "\<forall>p \<in> set ps. c \<notin> set p"
  shows "py_split_char c (py_join [c] ps) = ps"
  using assms
proof (induction ps)
  case Nil
  then show ?case by simp
next
  case (Cons p ps)
  then show ?case
    by (cases "ps = []") (auto simp: py_split_char_free py_join_Cons py_split_char_append)
qed

lemma set_py_split_char: "p \<in> set (py_split_char c s) \<Longrightarrow> set p \<subseteq> set s"
proof (induction s arbitrary: p)
  case (Cons x s)
  then show ?case by (fastforce split: list.splits if_splits)
qed simp

subsection \<open>Numbers and text\<close>

text \<open>Decimal text of a non-negative number and of an integer, as \<^verbatim>\<open>str(n)\<close> prints it.\<close>

function dec_str :: "int \<Rightarrow> pystr" where
  "dec_str n = (if n < 10 then [48 + n] else dec_str (n div 10) @ [48 + n mod 10])"
  by pat_completeness auto
termination
  by (relation "measure nat") auto

declare dec_str.simps [simp del]

definition int_str :: "int \<Rightarrow> pystr" where
  "int_str i = (if i < 0 then 45 # dec_str (- i) else dec_str i)"

text \<open>Zero-padded decimal text (\<^verbatim>\<open>%02d\<close>, \<^verbatim>\<open>%04d\<close>).\<close>

definition pad_str :: "nat \<Rightarrow> int \<Rightarrow> pystr" where
  "pad_str w n = replicate (w - length (dec_str n)) 48 @ dec_str n"

text \<open>
  \<^verbatim>\<open>int(text)\<close>: surrounding whitespace, an optional sign, then digits in which single
  underscores may separate digits; anything else is a \<^verbatim>\<open>ValueError\<close> (\<open>None\<close> here).
  \<open>digits_val acc s\<close> reads digits, the flag says whether an underscore may come next.
\<close>

fun digits_val :: "bool \<Rightarrow> int \<Rightarrow> pystr \<Rightarrow> int option" where
  "digits_val after_digit acc [] = (if after_digit then Some acc else None)"
| "digits_val after_digit acc (c # s) =
     (if c = 95 then (if after_digit then digits_val False acc s else None)
      else (case py_digit c of
              None \<Rightarrow> None
            | Some d \<Rightarrow> digits_val True (10 * acc + d) s))"

definition py_int :: "pystr \<Rightarrow> int option" where
  "py_int s =
     (case py_strip s of
        [] \<Rightarrow> None
      | c # t \<Rightarrow>
          if c = 45 then map_option uminus (digits_val False 0 t)
          else if c = 43 then digits_val False 0 t
          else digits_val False 0 (c # t))"

lemma dec_str_not_Nil [simp]: "dec_str n \<noteq> []"
  by (subst dec_str.simps) simp

lemma dec_str_digits: "0 \<le> n \<Longrightarrow> c \<in> set (dec_str n) \<Longrightarrow> 48 \<le> c \<and> c < 58"
proof (induction n arbitrary: c rule: dec_str.induct)
  case (1 n)
  show ?case
  proof (cases "n < 10")
    case True
    with "1.prems" show ?thesis by (subst (asm) dec_str.simps) simp
  next
    case False
    with "1.prems" have "c \<in> set (dec_str (n div 10)) \<or> c = 48 + n mod 10"
      by (subst (asm) dec_str.simps) auto
    with "1.IH"[OF False] False show ?thesis by auto
  qed
qed

lemma digits_val_append:
  "digits_val b acc (s @ [48 + d]) = (case digits_val b acc s of
      Some n \<Rightarrow> Some (10 * n + d)
    | None \<Rightarrow> digits_val b acc (s @ [48 + d]))" if "0 \<le> d" "d < 10"
proof (induction b acc s rule: digits_val.induct)
  case (1 after_digit acc)
  then show ?case using that by (simp add: py_digit_ascii)
next
  case (2 after_digit acc c s)
  then show ?case by (auto split: option.splits)
qed

lemma digits_val_dec_str: "0 \<le> n \<Longrightarrow> digits_val False 0 (dec_str n) = Some n"
proof (induction n rule: dec_str.induct)
  case (1 n)
  show ?case
  proof (cases "n < 10")
    case True
    with "1.prems" show ?thesis by (subst dec_str.simps) (simp add: py_digit_ascii)
  next
    case False
    then have IH: "digits_val False 0 (dec_str (n div 10)) = Some (n div 10)"
      using "1.IH" by simp
    have "0 \<le> n mod 10" "n mod 10 < 10" by simp_all
    from digits_val_append[OF this, of False 0 "dec_str (n div 10)"] IH
    have "digits_val False 0 (dec_str (n div 10) @ [48 + n mod 10]) = Some (10 * (n div 10) + n mod 10)"
      by simp
    with False show ?thesis by (subst dec_str.simps) simp
  qed
qed

lemma not_isspace_digit: "48 \<le> c \<Longrightarrow> c < 58 \<Longrightarrow> \<not> py_isspace c"
  by (auto simp: py_isspace_def space_points_def)

lemma py_int_int_str: "py_int (int_str i) = Some i"
proof (cases "i < 0")
  case True
  have "\<not> py_isspace 45" by (simp add: py_isspace_def space_points_def)
  then have "py_strip (45 # dec_str (- i)) = 45 # dec_str (- i)"
    using True dec_str_digits[of "- i"] by (intro py_strip_id) (auto simp: not_isspace_digit)
  with True show ?thesis
    by (simp add: py_int_def int_str_def digits_val_dec_str)
next
  case False
  then have "py_strip (dec_str i) = dec_str i"
    using dec_str_digits[of i] by (intro py_strip_id) (auto simp: not_isspace_digit)
  moreover obtain c t where ct: "dec_str i = c # t"
    by (cases "dec_str i") auto
  moreover have "c \<noteq> 45" "c \<noteq> 43"
    using dec_str_digits[of i c] ct False by auto
  moreover have "digits_val False 0 (c # t) = Some i"
    using digits_val_dec_str[of i] ct False by simp
  ultimately show ?thesis using False
    by (simp add: py_int_def int_str_def ct del: digits_val.simps)
qed

end
