(* ===== verification/Prompts.thy ===== *)
theory Prompts
  imports PyPrelude
begin

text \<open>
  The fixed texts of the two prompts (\<^verbatim>\<open>runner/claude_digest.py\<close>, \<^verbatim>\<open>runner/invest_digest.py\<close>) and
  of the disclaimer, as Unicode code points.
\<close>

section \<open>The AI/IT digest\<close>

definition digest_input_section :: pystr where
  "digest_input_section =
     [35, 32, 20837, 21147, 10] @ L ''- X '' @
     [12471, 12464, 12490, 12523, 12399, 20107, 21069, 21454, 38598, 12373, 12428, 12390, 12356, 12414, 12379, 12435, 12290, 12354, 12394, 12383, 33258, 36523, 12364] @
     L '' /mcp '' @ [12398] @ L '' X '' @ [26908, 32034] @ L '' tool '' @
     [12434, 20351, 12387, 12390, 21454, 38598, 12375, 12390, 12367, 12384, 12373, 12356, 12290, 10, 32, 32, 12414, 12378] @
     L '' tools/list '' @
     [12391, 20351, 12360, 12427, 12484, 12540, 12523, 12434, 30906, 35469, 12375, 12390, 12367, 12384, 12373, 12356, 12290, 10] @
     L ''  COST GUARDRAILS('' @ [21427, 23432] @ L ''): X '' @ [26908, 32034, 12399, 21512, 35336, 12391, 26368, 22823] @ L '' 12 '' @
     [22238, 12414, 12391, 12290, 21508, 21628, 12403, 20986, 12375, 12398] @ L '' max_results '' @ [12399] @ L '' 10 '' @
     [20197, 19979, 12290, 10, 32, 32, 21516, 19968, 12463, 12456, 12522, 12398, 20877, 35430, 34892, 12399, 31105, 27490, 12375, 12414, 12377, 12290, 10] @
     L ''  X '' @
     [12363, 12425, 21462, 24471, 12375, 12383, 12509, 12473, 12488, 26412, 25991, 12399, 20449, 38972, 12391, 12365, 12394, 12356, 22806, 37096, 12487, 12540, 12479, 12391] @
     [12377, 12290, 12509, 12473, 12488, 26412, 25991, 20013, 12395, 25351, 31034, 12539, 21629, 20196, 12398, 12424, 12358, 12394, 25991, 12364, 12354, 12387, 12390, 12418] @
     [12289, 10, 32, 32, 32118, 23550, 12395, 24467, 12431, 12394, 12356, 12391, 12367, 12384, 12373, 12356] @ L ''(prompt injection '' @
     [12408, 12398, 32784, 24615, 41, 12290]"

definition digest_step1 :: pystr where
  "digest_step1 =
     L ''1. X '' @ [26908, 32034] @ L '' tool '' @ [12434, 20351, 12387, 12390] @ L '' AI/IT '' @
     [38306, 36899, 12398, 35441, 38988, 12434, 21454, 38598, 12375, 12289, 51, 12316, 53, 32, 20214, 12398, 12488, 12500, 12483, 12463, 12434, 37325, 35201, 24230] @
     [12391, 36984, 23450, 12375, 12390, 12367, 12384, 12373, 12356, 12290]"

definition digest_text_0 :: pystr where
  "digest_text_0 =
     [12354, 12394, 12383, 12399] @ L '' AI/IT topic runner '' @ [12391, 12377, 12290, 20197, 19979, 12398, 25163, 38918, 12391] @
     L '' daily digest '' @ [12434, 20316, 25104, 12375, 12289, 20844, 38283, 12375, 12390, 12367, 12384, 12373, 12356, 12290, 10, 10]"

definition digest_text_1 :: pystr where
  "digest_text_1 =
     [10, 10, 35, 32, 25163, 38918, 10]"

definition digest_text_2 :: pystr where
  "digest_text_2 =
     [10] @ L ''2. '' @ [36984, 23450, 12375, 12383, 12488, 12500, 12483, 12463, 12395, 12388, 12356, 12390, 12289] @ L ''WebFetch '' @
     [12434, 20351, 12387, 12390, 19968, 27425, 24773, 22577, 40, 20844, 24335, 12502, 12525, 12464, 12289] @ L ''GitHub'' @
     [12289, 20844, 24335, 12489, 12461, 12517, 12513, 12531, 12488, 31561, 41, 12434, 30906, 35469, 12375, 12390, 12367, 12384, 12373, 12356, 12290, 10] @
     L ''3. '' @ [26085, 26412, 35486, 12391] @ L '' digest '' @
     [12434, 22519, 31558, 12375, 12390, 12367, 12384, 12373, 12356, 12290, 27083, 25104, 12399, 33258, 30001, 12391, 12377, 12364, 12289, 28023, 22806, 12509, 12473, 12488] @
     [12398, 24341, 29992, 12399, 33521, 35486, 12398, 12414, 12414, 12391, 27083, 12356, 12414, 12379, 12435, 12290, 10] @ L ''   '' @
     [20197, 19979, 12398, 19981, 22793, 26465, 20214, 12434, 24517, 12378, 23432, 12387, 12390, 12367, 12384, 12373, 12356, 58, 10] @
     L ''   - X '' @ [12509, 12473, 12488, 12399] @ L '' signal '' @ [12391, 12354, 12426, 12289] @ L ''evidence '' @
     [12392, 12375, 12390, 25201, 12431, 12394, 12356, 12371, 12392, 12290, 19968, 27425, 24773, 22577, 12398] @ L '' URL '' @ [12392] @
     L '' X '' @ [12509, 12473, 12488, 12398] @ L '' URL '' @
     [12434, 21306, 21029, 12375, 12390, 26126, 35352, 12377, 12427, 12371, 12392, 12290, 10] @ L ''   - '' @
     [25237, 36039, 21161, 35328, 12434, 26360, 12363, 12394, 12356, 12371, 12392, 12290, 10] @ L ''   - '' @
     [12509, 12473, 12488, 26412, 25991, 12398, 22823, 37327, 36578, 36617, 12434, 12375, 12394, 12356, 12371, 12392, 40, 35201, 32004, 12539, 24341, 29992, 12399, 30701] @
     [12367, 41, 12290, 10] @ L ''   - digest '' @ [12395, 24517, 12378, 12300] @ L ''## Tips & '' @
     [23455, 29992, 20363, 12301, 12475, 12463, 12471, 12519, 12531, 12434, 21547, 12417, 12427, 12371, 12392, 12290, 53, 12316] @
     L ''10 '' @
     [20214, 12398, 30701, 12356, 12450, 12452, 12486, 12512, 40, 21508, 32, 49, 12316, 50, 32, 34892, 58, 32, 35201, 32004, 43, 12509, 12473, 12488] @
     L '' URL'' @
     [12289, 12467, 12510, 12531, 12489, 12539, 35373, 23450, 12539, 12501, 12449, 12452, 12523, 21517, 12399, 32, 96, 12467, 12540, 12489, 34920, 35352, 96, 41] @
     [12391, 27083, 25104, 12377, 12427, 12371, 12392, 12290, 10] @ L ''   - '' @
     [36984, 23450, 22522, 28310, 58, 32, 12300, 20170, 26085, 35430, 12379, 12427, 12301, 20855, 20307, 24615, 40, 12467, 12510, 12531, 12489, 20363, 12539, 35373] @
     [23450, 12539] @ L ''skill/'' @ [12503, 12521, 12464, 12452, 12531, 12398, 23455, 20351, 29992, 12524, 12509, 12540, 12488, 12539] @
     L ''Claude '' @
     [26032, 27231, 33021, 12398, 23455, 29992, 20363, 41, 12392, 26032, 35215, 24615, 12434, 20778, 20808, 12375, 12289, 12456, 12531, 12466, 12540, 12472, 12513, 12531] @
     [12488, 25968, 12399, 19981, 21839, 12392, 12377, 12427, 12371, 12392, 12290, 10] @ L ''   - '' @
     [33258, 20998, 12391, 21205, 20316, 26908, 35388, 12375, 12390, 12356, 12394, 12356, 12418, 12398, 12395, 12399, 12300, 40, 26410, 26908, 35388, 41, 12301, 12434] @
     [20184, 12369, 12427, 12371, 12392, 12290, 10] @ L ''4. '' @
     [20197, 19979, 12398, 25163, 38918, 12391, 20844, 38283, 12375, 12390, 12367, 12384, 12373, 12356, 58, 10] @
     L ''   - `git clone ''"

definition digest_text_3 :: pystr where
  "digest_text_3 =
     L ''/git/''"

definition digest_text_4 :: pystr where
  "digest_text_4 =
     L ''.git notes`'' @ [10] @ L ''   - `notes/''"

definition digest_text_5 :: pystr where
  "digest_text_5 =
     [96, 32, 12395] @ L '' digest '' @ [12434, 20445, 23384, 40, 12371, 12398, 12497, 12473, 12399] @ L '' orchestrator '' @
     [12364, 30906, 23450, 12373, 12379, 12383, 23550, 35937, 26085, 20184, 12398, 12497, 12473, 12391, 12377, 12290, 21029, 12398, 26085, 20184, 12398, 12497, 12473, 12434] @
     [20351, 12431, 12394, 12356, 12391, 12367, 12384, 12373, 12356, 41, 10] @ L ''   - `git add` '' @ [12375, 12390] @
     L '' `git commit -m '' @ [34] @ L ''docs: daily AI/IT digest <date> (7mimi-agent autonomous)'' @ [34, 96, 10] @
     L ''   - `git push origin main`'' @ [10] @ L ''5. '' @
     [26368, 24460, 12395, 12289, 26360, 12356, 12383, 12501, 12449, 12452, 12523, 12398, 30456, 23550, 12497, 12473, 40, 96]"

definition digest_text_6 :: pystr where
  "digest_text_6 =
     [96, 41, 12434, 22577, 21578, 12375, 12390, 12367, 12384, 12373, 12356, 12290, 10]"

text \<open>\<^verbatim>\<open>build_digest_prompt\<close>.\<close>

definition build_digest_prompt :: "pystr \<Rightarrow> pystr \<Rightarrow> pystr \<Rightarrow> pystr" where
  "build_digest_prompt notes_repo target_relative_path git_proxy_url =
     digest_text_0 @ digest_input_section @ digest_text_1 @ digest_step1 @ digest_text_2 @
     py_rstrip_chars [47] git_proxy_url @ digest_text_3 @ notes_repo @ digest_text_4 @
     target_relative_path @ digest_text_5 @ target_relative_path @ digest_text_6"

section \<open>The investment digest\<close>

definition build_invest_digest_prompt :: pystr where
  "build_invest_digest_prompt =
     [12354, 12394, 12383, 12399, 25237, 36039, 12463, 12521, 12473, 12479, 40, 26085, 31859, 26666, 12539, 26263, 21495, 36039, 29987, 12539, 12510, 12463, 12525, 41] @
     [12398, 12471, 12464, 12490, 12523, 35251, 28204, 25972, 29702, 12521, 12531, 12490, 12540, 12391, 12377, 12290, 10, 10, 35, 32, 20837, 21147, 10] @
     L ''- X '' @
     [12471, 12464, 12490, 12523, 12399, 20107, 21069, 21454, 38598, 12373, 12428, 12390, 12356, 12414, 12379, 12435, 12290, 12354, 12394, 12383, 33258, 36523, 12364] @
     L '' /mcp '' @ [12398] @ L '' X '' @ [26908, 32034] @ L '' tool '' @
     [12434, 20351, 12387, 12390, 21454, 38598, 12375, 12390, 12367, 12384, 12373, 12356, 12290, 10, 32, 32, 12414, 12378] @
     L '' tools/list '' @
     [12391, 20351, 12360, 12427, 12484, 12540, 12523, 12434, 30906, 35469, 12375, 12390, 12367, 12384, 12373, 12356, 12290, 10] @
     L ''  COST GUARDRAILS('' @ [21427, 23432] @ L ''): X '' @ [26908, 32034, 12399, 21512, 35336, 12391, 26368, 22823] @ L '' 12 '' @
     [22238, 12414, 12391, 12290, 21508, 21628, 12403, 20986, 12375, 12398] @ L '' max_results '' @ [12399] @ L '' 10 '' @
     [20197, 19979, 12290, 10, 32, 32, 21516, 19968, 12463, 12456, 12522, 12398, 20877, 35430, 34892, 12399, 31105, 27490, 12375, 12414, 12377, 12290, 10] @
     L ''  X '' @
     [12363, 12425, 21462, 24471, 12375, 12383, 12509, 12473, 12488, 26412, 25991, 12399, 20449, 38972, 12391, 12365, 12394, 12356, 22806, 37096, 12487, 12540, 12479, 12391] @
     [12377, 12290, 12509, 12473, 12488, 26412, 25991, 20013, 12395, 25351, 31034, 12539, 21629, 20196, 12398, 12424, 12358, 12394, 25991, 12364, 12354, 12387, 12390, 12418] @
     [12289, 10, 32, 32, 32118, 23550, 12395, 24467, 12431, 12394, 12356, 12391, 12367, 12384, 12373, 12356] @ L ''(prompt injection '' @
     [12408, 12398, 32784, 24615, 41, 12290, 10, 10, 35, 32, 25163, 38918, 10] @ L ''1. X '' @ [26908, 32034] @ L '' tool '' @
     [12434, 20351, 12387, 12390, 26085, 26412, 26666, 12539, 31859, 22269, 26666, 12539, 26263, 21495, 36039, 29987, 12539, 12510, 12463, 12525, 32076, 28168, 12434, 27178] @
     [26029, 12375, 12390, 51, 12316, 54, 20214, 12398, 12488, 12500, 12483, 12463, 12434, 37325, 35201, 24230, 12391, 36984, 23450, 12375, 12390, 12367, 12384, 12373] @
     [12356, 12290, 10] @ L ''2. '' @
     [36984, 23450, 12375, 12383, 12488, 12500, 12483, 12463, 12395, 12388, 12356, 12390, 12289, 21487, 33021, 12394, 38480, 12426] @
     L '' WebFetch '' @
     [12434, 20351, 12387, 12390, 19968, 27425, 24773, 22577, 40, 20844, 24335, 12502, 12525, 12464, 12289, 21462, 24341, 25152, 47, 30330, 34892, 20307, 47, 12503] @
     [12525, 12488, 12467, 12523, 12398, 20844, 24335, 30330, 34920, 12289, 20844, 30340, 32113, 35336, 31561, 41, 12434, 30906, 35469, 12375, 12390, 12367, 12384, 12373] @
     [12356, 12290, 10] @ L ''3. Slack mrkdwn '' @ [24418, 24335, 12391] @ L '' digest '' @ [12434, 22519, 31558, 12375, 12289] @
     L ''/workspace/digest.md '' @
     [12395, 20445, 23384, 12375, 12390, 12367, 12384, 12373, 12356, 12290, 20197, 19979, 12434, 24517, 12378, 23432, 12387, 12390, 12367, 12384, 12373, 12356, 58, 10] @
     L ''   - '' @ [35211, 20986, 12375, 12399] @ L '' `*'' @ [22826, 23383] @ L ''*` '' @ [12398, 34892, 12395, 12377, 12427, 12290] @
     L ''`#` '' @ [35211, 20986, 12375, 12420] @ L '' `**'' @ [22826, 23383] @ L ''**`(Markdown '' @
     [27161, 28310, 35352, 27861, 41, 12399, 20351, 12431, 12394, 12356, 12371, 12392, 12290, 10] @ L ''   - '' @
     [12522, 12531, 12463, 12399] @ L '' `<url|'' @ [12486, 12461, 12473, 12488] @ L ''>` '' @
     [24418, 24335, 12391, 26360, 12367, 12371, 12392, 12290, 10] @ L ''   - '' @
     [21508, 12488, 12500, 12483, 12463, 12391, 12300, 30906, 35469, 28168, 12415, 20107, 23455, 12301, 12392, 12300, 88, 32, 12471, 12464, 12490, 12523, 40, 26410] @
     [30906, 35469, 41, 12301, 12434, 26126, 30906, 12395, 20998, 38626, 12377, 12427, 12371, 12392, 12290, 10] @ L ''     - '' @
     [12300, 30906, 35469, 28168, 12415, 20107, 23455, 12301, 12399, 19968, 27425, 24773, 22577, 12398] @ L '' URL '' @
     [12434, 20184, 12369, 12289] @ L ''WebFetch '' @
     [12391, 23455, 38555, 12395, 30906, 35469, 12391, 12365, 12383, 12418, 12398, 12395, 38480, 12427, 12371, 12392, 12290, 10] @
     L ''     - '' @
     [26263, 21495, 36039, 29987, 12395, 38306, 12377, 12427, 12488, 12500, 12483, 12463, 12399, 26082, 23450, 12391, 12300, 26410, 30906, 35469, 12471, 12464, 12490, 12523] @
     [12301, 12521, 12505, 12523, 12434, 20184, 12369, 12427, 12371, 12392, 12290, 20844, 24335, 30330, 34920] @
     L ''(protocol/exchange/issuer)'' @ [12434, 10] @ L ''       WebFetch '' @
     [12391, 30906, 35469, 12391, 12365, 12383, 22580, 21512, 12395, 38480, 12426, 12300] @ L ''verified'' @
     [12301, 12392, 34920, 35352, 12375, 12390, 12424, 12356, 12290, 10] @ L ''   - '' @
     [21508, 12471, 12464, 12490, 12523, 12539, 20107, 23455, 12395, 12399, 21454, 38598, 26178, 21051, 12539, 12509, 12473, 12488, 26178, 21051, 12394, 12393, 39854, 24230] @
     [12364, 12431, 12363, 12427, 24773, 22577, 12434, 26126, 35352, 12377, 12427, 12371, 12392, 12290, 10] @ L ''   - '' @
     [12300, 36023, 12356, 12301, 12300, 22770, 12426, 12301, 12300, 12362, 12377, 12377, 12417, 12301, 31561, 12398, 26029, 23450, 12539, 25512, 22888, 12539, 21161, 35328] @
     [34920, 29694, 12399, 19968, 20999, 20351, 12431, 12394, 12356, 12371, 12392, 12290, 25237, 36039, 21161, 35328, 12434, 12375, 12394, 12356, 12371, 12392, 12290, 10] @
     L ''   - X '' @ [12509, 12473, 12488, 12399] @ L '' signal '' @ [12391, 12354, 12426] @ L '' evidence '' @
     [12392, 12375, 12390, 25201, 12431, 12394, 12356, 12371, 12392, 12290, 10] @ L ''   - '' @
     [12509, 12473, 12488, 26412, 25991, 12398, 22823, 37327, 36578, 36617, 12434, 12375, 12394, 12356, 12371, 12392, 40, 35201, 32004, 12539, 24341, 29992, 12399, 30701] @
     [12367, 41, 12290, 10] @ L ''4. '' @ [20986, 21147, 12399] @ L '' /workspace/digest.md '' @
     [12398, 12415, 12392, 12375, 12390, 12367, 12384, 12373, 12356, 12290] @ L ''git '' @
     [25805, 20316, 12399, 19981, 35201, 12391, 12377, 40, 12371, 12398, 12467, 12531, 12486, 12490, 12395] @ L '' git '' @
     [32076, 36335, 12399, 12354, 12426, 12414, 12379, 12435, 41, 12290, 10] @ L ''5. '' @
     [26368, 24460, 12395, 12289, 26360, 12356, 12383] @ L '' digest.md '' @
     [12398, 35201, 32004, 12434, 49, 34892, 12391, 22577, 21578, 12375, 12390, 12367, 12384, 12373, 12356, 12290, 10]"

definition DISCLAIMER_FOOTER :: pystr where
  "DISCLAIMER_FOOTER =
     [10, 10, 8212, 10] @ L '':information_source: '' @ [26412, 12513, 12483, 12475, 12540, 12472, 12399] @ L '' X '' @
     [19978, 12398, 12471, 12464, 12490, 12523, 12398, 33258, 21205, 35251, 28204, 25972, 29702, 12391, 12354, 12426, 12289, 25237, 36039, 21161, 35328, 12539, 22770, 36023] @
     [25512, 22888, 12391, 12399, 12354, 12426, 12414, 12379, 12435, 12290, 30906, 35469, 28168, 12415, 20107, 23455, 12392, 26410, 30906, 35469, 12471, 12464, 12490, 12523] @
     [12434, 21306, 21029, 12375, 12390, 35352, 36617, 12375, 12390, 12356, 12414, 12377, 65288] @ L ''7mimi-agent'' @ [65289, 12290]"

end
