(* ===== verification/PyValue.thy ===== *)
theory PyValue
  imports PyPrelude
begin

text \<open>
  Exceptions as values, the error monad, the state-and-error monad of the effectful code, and
  the dynamic values (\<^verbatim>\<open>Any\<close>: what \<^verbatim>\<open>yaml.safe_load\<close> and \<^verbatim>\<open>json.loads\<close> return) with the
  operations on them that can raise.

  Dictionaries are association lists in insertion order with string keys.  A float is given by
  the shortest decimal \<open>m * 10 ^ e\<close> that Python prints for it.
\<close>

section \<open>Exceptions\<close>

datatype exc_type =
    ValueError | RuntimeError | PermissionError | KeyError | TypeError | AttributeError
  | IndexError | NotImplementedError | FileNotFoundError | OverflowError | JSONDecodeError
  | OSError | HTTPError | URLError | TimeoutExpired | IntegrityError | OperationalError | ProgrammingError
  | UnicodeDecodeError | UnicodeEncodeError
  | McpClientError | McpSessionError | SlackNotifyError | TimeoutError | OtherError pystr
  | KeyboardInterrupt | SystemExit | Diverged

text \<open>An exception: its class and \<^verbatim>\<open>str(exc)\<close>.\<close>

datatype pyexc = Exc (exc_type: exc_type) (exc_msg: pystr)

text \<open>
  \<^verbatim>\<open>except C\<close> also catches the subclasses of \<open>C\<close>.  \<^verbatim>\<open>except Exception\<close> catches everything but
  \<^verbatim>\<open>KeyboardInterrupt\<close> and \<^verbatim>\<open>SystemExit\<close>.  \<open>OtherError\<close> stands for the exception classes that the
  code never names.  \<open>Diverged\<close> is no exception of Python: it is the value of a loop that has not
  returned when the fuel of its model is used up, and no handler catches it.
\<close>

definition is_Exception :: "pyexc \<Rightarrow> bool" where
  "is_Exception e = (exc_type e \<noteq> KeyboardInterrupt \<and> exc_type e \<noteq> SystemExit \<and> exc_type e \<noteq> Diverged)"

definition is_RuntimeError :: "pyexc \<Rightarrow> bool" where
  "is_RuntimeError e = (exc_type e = RuntimeError \<or> exc_type e = NotImplementedError \<or> exc_type e = SlackNotifyError)"

definition is_ValueError :: "pyexc \<Rightarrow> bool" where
  "is_ValueError e = (exc_type e = ValueError \<or> exc_type e = JSONDecodeError \<or> exc_type e = UnicodeDecodeError \<or> exc_type e = UnicodeEncodeError)"

definition is_OSError :: "pyexc \<Rightarrow> bool" where
  "is_OSError e = (exc_type e \<in> {OSError, PermissionError, FileNotFoundError, HTTPError, URLError, TimeoutError})"

fun exc_type_name :: "exc_type \<Rightarrow> pystr" where
  "exc_type_name ValueError = L ''ValueError''"
| "exc_type_name RuntimeError = L ''RuntimeError''"
| "exc_type_name PermissionError = L ''PermissionError''"
| "exc_type_name KeyError = L ''KeyError''"
| "exc_type_name TypeError = L ''TypeError''"
| "exc_type_name AttributeError = L ''AttributeError''"
| "exc_type_name IndexError = L ''IndexError''"
| "exc_type_name NotImplementedError = L ''NotImplementedError''"
| "exc_type_name FileNotFoundError = L ''FileNotFoundError''"
| "exc_type_name OverflowError = L ''OverflowError''"
| "exc_type_name JSONDecodeError = L ''JSONDecodeError''"
| "exc_type_name OSError = L ''OSError''"
| "exc_type_name HTTPError = L ''HTTPError''"
| "exc_type_name URLError = L ''URLError''"
| "exc_type_name TimeoutExpired = L ''TimeoutExpired''"
| "exc_type_name IntegrityError = L ''IntegrityError''"
| "exc_type_name OperationalError = L ''OperationalError''"
| "exc_type_name ProgrammingError = L ''ProgrammingError''"
| "exc_type_name UnicodeDecodeError = L ''UnicodeDecodeError''"
| "exc_type_name UnicodeEncodeError = L ''UnicodeEncodeError''"
| "exc_type_name McpClientError = L ''McpClientError''"
| "exc_type_name McpSessionError = L ''McpSessionError''"
| "exc_type_name SlackNotifyError = L ''SlackNotifyError''"
| "exc_type_name TimeoutError = L ''TimeoutError''"
| "exc_type_name (OtherError n) = n"
| "exc_type_name Diverged = []"
| "exc_type_name KeyboardInterrupt = L ''KeyboardInterrupt''"
| "exc_type_name SystemExit = L ''SystemExit''"

type_synonym 'a result = "pyexc + 'a"

section \<open>The error monad\<close>

fun ebind :: "'a result \<Rightarrow> ('a \<Rightarrow> 'b result) \<Rightarrow> 'b result" where
  "ebind (Inl e) f = Inl e"
| "ebind (Inr x) f = f x"

lemma ebind_Inr_iff [simp]: "ebind m f = Inr y \<longleftrightarrow> (\<exists>x. m = Inr x \<and> f x = Inr y)"
  by (cases m) auto

lemma ebind_Inl_iff: "ebind m f = Inl e \<longleftrightarrow> m = Inl e \<or> (\<exists>x. m = Inr x \<and> f x = Inl e)"
  by (cases m) auto

lemma ebind_Inr_right [simp]: "ebind m Inr = m"
  by (cases m) auto

lemma ebind_cong [fundef_cong]:
  "m = m' \<Longrightarrow> (\<And>x. m' = Inr x \<Longrightarrow> f x = g x) \<Longrightarrow> ebind m f = ebind m' g"
  by (cases m') auto

lemma ebind_assoc: "ebind (ebind m f) g = ebind m (\<lambda>x. ebind (f x) g)"
  by (cases m) auto

text \<open>A comprehension \<^verbatim>\<open>[f(x) for x in xs]\<close>: the first exception ends it.\<close>

fun emap :: "('a \<Rightarrow> 'b result) \<Rightarrow> 'a list \<Rightarrow> 'b list result" where
  "emap f [] = Inr []"
| "emap f (x # xs) = ebind (f x) (\<lambda>y. ebind (emap f xs) (\<lambda>ys. Inr (y # ys)))"

text \<open>A loop \<^verbatim>\<open>for x in xs: acc = f(acc, x)\<close>.\<close>

fun efold :: "('s \<Rightarrow> 'a \<Rightarrow> 's result) \<Rightarrow> 's \<Rightarrow> 'a list \<Rightarrow> 's result" where
  "efold f s [] = Inr s"
| "efold f s (x # xs) = ebind (f s x) (\<lambda>s'. efold f s' xs)"

lemma length_emap: "emap f xs = Inr ys \<Longrightarrow> length ys = length xs"
  by (induction xs arbitrary: ys) auto

lemma emap_Inr: "emap (\<lambda>x. Inr (g x)) xs = Inr (map g xs)"
  by (induction xs) auto

lemma efold_append: "efold f s (xs @ ys) = ebind (efold f s xs) (\<lambda>s'. efold f s' ys)"
  by (induction xs arbitrary: s) (auto simp: ebind_assoc)

lemma efold_invariant:
  assumes "efold f s xs = Inr s'" and "I s"
    and "\<And>s x s'. x \<in> set xs \<Longrightarrow> I s \<Longrightarrow> f s x = Inr s' \<Longrightarrow> I s'"
  shows "I s'"
  using assms
proof (induction xs arbitrary: s)
  case Nil
  then show ?case by simp
next
  case (Cons x xs)
  from Cons.prems(1) obtain s1 where s1: "f s x = Inr s1" "efold f s1 xs = Inr s'" by auto
  from Cons.prems(2,3) s1(1) have "I s1" by (meson list.set_intros(1))
  with Cons.IH[OF s1(2)] Cons.prems(3) show ?case by (meson list.set_intros(2))
qed

section \<open>The state-and-error monad\<close>

text \<open>An effectful call: it may raise, and the state changes made before the raise remain.\<close>

type_synonym ('s, 'a) eff = "'s \<Rightarrow> 'a result \<times> 's"

definition ret :: "'a \<Rightarrow> ('s, 'a) eff" where
  "ret x = (\<lambda>s. (Inr x, s))"

definition raise_exc :: "exc_type \<Rightarrow> pystr \<Rightarrow> ('s, 'a) eff" where
  "raise_exc t m = (\<lambda>s. (Inl (Exc t m), s))"

definition sbind :: "('s, 'a) eff \<Rightarrow> ('a \<Rightarrow> ('s, 'b) eff) \<Rightarrow> ('s, 'b) eff" where
  "sbind m f = (\<lambda>s. case m s of (Inl e, s') \<Rightarrow> (Inl e, s') | (Inr x, s') \<Rightarrow> f x s')"

text \<open>\<^verbatim>\<open>try: m except E as exc: h(exc)\<close>, for the exceptions selected by \<open>p\<close>.\<close>

definition catch :: "('s, 'a) eff \<Rightarrow> (pyexc \<Rightarrow> bool) \<Rightarrow> (pyexc \<Rightarrow> ('s, 'a) eff) \<Rightarrow> ('s, 'a) eff" where
  "catch m p h = (\<lambda>s. case m s of (Inl e, s') \<Rightarrow> (if p e then h e s' else (Inl e, s')) | (Inr x, s') \<Rightarrow> (Inr x, s'))"

definition lift_res :: "'a result \<Rightarrow> ('s, 'a) eff" where
  "lift_res r = (\<lambda>s. (r, s))"

text \<open>A loop whose body has effects and no result.\<close>

fun for_each :: "('a \<Rightarrow> ('s, unit) eff) \<Rightarrow> 'a list \<Rightarrow> ('s, unit) eff" where
  "for_each f [] = ret ()"
| "for_each f (x # xs) = sbind (f x) (\<lambda>_. for_each f xs)"

lemma ret_apply [simp]: "ret x s = (Inr x, s)"
  by (simp add: ret_def)

lemma raise_exc_apply [simp]: "raise_exc t m s = (Inl (Exc t m), s)"
  by (simp add: raise_exc_def)

lemma lift_res_apply [simp]: "lift_res r s = (r, s)"
  by (simp add: lift_res_def)

lemma sbind_Inr [simp]: "m s = (Inr x, s') \<Longrightarrow> sbind m f s = f x s'"
  by (simp add: sbind_def)

lemma sbind_Inl [simp]: "m s = (Inl e, s') \<Longrightarrow> sbind m f s = (Inl e, s')"
  by (simp add: sbind_def)

lemma sbind_cases:
  assumes "sbind m f s = (r, s')"
  obtains (err) e where "m s = (Inl e, s')" "r = Inl e"
        | (ok) x s1 where "m s = (Inr x, s1)" "f x s1 = (r, s')"
  using assms by (cases "m s") (auto simp: sbind_def split: sum.splits)

lemma sbind_InrE:
  assumes "sbind m f s = (Inr y, s')"
  obtains x s1 where "m s = (Inr x, s1)" "f x s1 = (Inr y, s')"
  using assms by (auto elim: sbind_cases)

lemma result_pair: "\<not> isl (fst x) \<Longrightarrow> x = (Inr (projr (fst x)), snd x)"
  by (simp add: prod_eq_iff)

lemma catch_Inr [simp]: "m s = (Inr x, s') \<Longrightarrow> catch m p h s = (Inr x, s')"
  by (simp add: catch_def)

lemma catch_Inl [simp]: "m s = (Inl e, s') \<Longrightarrow> catch m p h s = (if p e then h e s' else (Inl e, s'))"
  by (simp add: catch_def)

section \<open>Dynamic values\<close>

datatype pyval =
    PNone
  | PBool bool
  | PInt int
  | PFloat int int
  | PStr pystr
  | PList "pyval list"
  | PDict "(pystr \<times> pyval) list"

fun type_name :: "pyval \<Rightarrow> pystr" where
  "type_name PNone = L ''NoneType''"
| "type_name (PBool _) = L ''bool''"
| "type_name (PInt _) = L ''int''"
| "type_name (PFloat _ _) = L ''float''"
| "type_name (PStr _) = L ''str''"
| "type_name (PList _) = L ''list''"
| "type_name (PDict _) = L ''dict''"

fun truthy :: "pyval \<Rightarrow> bool" where
  "truthy PNone = False"
| "truthy (PBool b) = b"
| "truthy (PInt i) = (i \<noteq> 0)"
| "truthy (PFloat m e) = (m \<noteq> 0)"
| "truthy (PStr s) = (s \<noteq> [])"
| "truthy (PList xs) = (xs \<noteq> [])"
| "truthy (PDict kvs) = (kvs \<noteq> [])"

text \<open>\<^verbatim>\<open>a or b\<close>.\<close>

definition py_or :: "pyval \<Rightarrow> pyval \<Rightarrow> pyval" where
  "py_or a b = (if truthy a then a else b)"

abbreviation empty_dict :: pyval where "empty_dict \<equiv> PDict []"
abbreviation empty_list :: pyval where "empty_list \<equiv> PList []"

definition attribute_error :: "pyval \<Rightarrow> string \<Rightarrow> pyexc" where
  "attribute_error v a = Exc AttributeError
     (L '''' @ [39] @ type_name v @ [39] @ L '' object has no attribute '' @ [39] @ L a @ [39])"

text \<open>\<^verbatim>\<open>v.get(k, d)\<close> and \<^verbatim>\<open>v.get(k)\<close>: only dictionaries have \<^verbatim>\<open>get\<close>.\<close>

definition assoc_get :: "(pystr \<times> 'a) list \<Rightarrow> pystr \<Rightarrow> 'a \<Rightarrow> 'a" where
  "assoc_get kvs k d = (case map_of kvs k of None \<Rightarrow> d | Some v \<Rightarrow> v)"

fun py_get_def :: "pyval \<Rightarrow> pystr \<Rightarrow> pyval \<Rightarrow> pyval result" where
  "py_get_def (PDict kvs) k d = Inr (assoc_get kvs k d)"
| "py_get_def v k d = Inl (attribute_error v ''get'')"

definition py_get :: "pyval \<Rightarrow> pystr \<Rightarrow> pyval result" where
  "py_get v k = py_get_def v k PNone"

text \<open>\<^verbatim>\<open>v[k]\<close> for a text \<open>k\<close>.\<close>

fun py_index :: "pyval \<Rightarrow> string \<Rightarrow> pyval result" where
  "py_index (PDict kvs) k = (case map_of kvs (L k) of None \<Rightarrow> Inl (Exc KeyError ([39] @ L k @ [39])) | Some v \<Rightarrow> Inr v)"
| "py_index (PList xs) k = Inl (Exc TypeError (L ''list indices must be integers or slices, not str''))"
| "py_index (PStr s) k = Inl (Exc TypeError (L ''string indices must be integers, not '' @ [39] @ L ''str'' @ [39]))"
| "py_index v k = Inl (Exc TypeError ([39] @ type_name v @ [39] @ L '' object is not subscriptable''))"

text \<open>\<^verbatim>\<open>v.items()\<close>, \<^verbatim>\<open>v.values()\<close>.\<close>

fun py_items :: "pyval \<Rightarrow> (pystr \<times> pyval) list result" where
  "py_items (PDict kvs) = Inr kvs"
| "py_items v = Inl (attribute_error v ''items'')"

fun py_values :: "pyval \<Rightarrow> pyval list result" where
  "py_values (PDict kvs) = Inr (map snd kvs)"
| "py_values v = Inl (attribute_error v ''values'')"

text \<open>\<^verbatim>\<open>for x in v\<close>.\<close>

fun py_iter :: "pyval \<Rightarrow> pyval list result" where
  "py_iter (PList xs) = Inr xs"
| "py_iter (PDict kvs) = Inr (map (PStr \<circ> fst) kvs)"
| "py_iter (PStr s) = Inr (map (\<lambda>c. PStr [c]) s)"
| "py_iter v = Inl (Exc TypeError ([39] @ type_name v @ [39] @ L '' object is not iterable''))"

fun is_dict :: "pyval \<Rightarrow> bool" where
  "is_dict (PDict _) = True" | "is_dict _ = False"

fun is_list :: "pyval \<Rightarrow> bool" where
  "is_list (PList _) = True" | "is_list _ = False"

fun is_str :: "pyval \<Rightarrow> bool" where
  "is_str (PStr _) = True" | "is_str _ = False"

text \<open>Lists and dictionaries cannot be keys or set elements.\<close>

definition hashable :: "pyval \<Rightarrow> bool" where
  "hashable v = (\<not> is_list v \<and> \<not> is_dict v)"

definition unhashable_error :: "pyval \<Rightarrow> pyexc" where
  "unhashable_error v = Exc TypeError (L ''unhashable type: '' @ [39] @ type_name v @ [39])"

text \<open>\<^verbatim>\<open>k in d\<close> for a dictionary \<open>d\<close> with string keys.\<close>

definition in_dict :: "pyval \<Rightarrow> (pystr \<times> 'a) list \<Rightarrow> bool result" where
  "in_dict k kvs = (if hashable k then Inr (case k of PStr s \<Rightarrow> List.member (map fst kvs) s | _ \<Rightarrow> False)
                    else Inl (unhashable_error k))"

text \<open>\<^verbatim>\<open>set(xs)\<close>: its elements must be hashable; and membership of a string.\<close>

definition py_set :: "pyval list \<Rightarrow> pyval list result" where
  "py_set xs = (case find (\<lambda>x. \<not> hashable x) xs of None \<Rightarrow> Inr xs | Some x \<Rightarrow> Inl (unhashable_error x))"

text \<open>
  \<^verbatim>\<open>a == b\<close>: numbers (and booleans, which are numbers) by value, lists element by element,
  dictionaries key by key whatever their order.
\<close>

fun num_val :: "pyval \<Rightarrow> (int \<times> int) option" where
  "num_val (PBool b) = Some (if b then 1 else 0, 0)"
| "num_val (PInt i) = Some (i, 0)"
| "num_val (PFloat m e) = Some (m, e)"
| "num_val v = None"

definition num_eq :: "int \<times> int \<Rightarrow> int \<times> int \<Rightarrow> bool" where
  "num_eq = (\<lambda>(m, e) (m', e'). m * 10 ^ nat (e - min e e') = m' * 10 ^ nat (e' - min e e'))"

function py_eq :: "pyval \<Rightarrow> pyval \<Rightarrow> bool" where
  "py_eq a b =
     (case (a, b) of
        (PNone, PNone) \<Rightarrow> True
      | (PStr s, PStr t) \<Rightarrow> s = t
      | (PList xs, PList ys) \<Rightarrow> length xs = length ys \<and> list_all (\<lambda>(x, y). py_eq x y) (zip xs ys)
      | (PDict xs, PDict ys) \<Rightarrow> length xs = length ys \<and>
          list_all (\<lambda>(k, x). case map_of ys k of None \<Rightarrow> False | Some y \<Rightarrow> py_eq x y) xs
      | _ \<Rightarrow> (case (num_val a, num_val b) of (Some x, Some y) \<Rightarrow> num_eq x y | _ \<Rightarrow> False))"
  by pat_completeness auto
termination
proof (relation "measure (size \<circ> fst)", goal_cases)
  case 1
  then show ?case by simp
next
  case (2 a b p q xs ys z x y)
  then have "x \<in> set xs" by (auto dest: set_zip_leftD)
  then show ?case using 2 by (auto dest: size_list_estimation'[of x xs "size x" size])
next
  case (3 a b p q xs ys z k x y)
  then have "size x < Suc (size_list (size_prod (\<lambda>_. 0) size) xs)"
    using size_list_estimation'[of "(k, x)" xs "size_prod (\<lambda>_. 0) size (k, x)" "size_prod (\<lambda>_. 0) size"] by auto
  then show ?case using 3 by auto
qed

declare py_eq.simps [simp del]

lemma py_eq_str [simp]: "py_eq v (PStr s) \<longleftrightarrow> v = PStr s" "py_eq (PStr s) v \<longleftrightarrow> v = PStr s"
  by (cases v; auto simp: py_eq.simps)+

text \<open>\<^verbatim>\<open>k in v\<close> for a text \<open>k\<close>.\<close>

fun py_in :: "string \<Rightarrow> pyval \<Rightarrow> bool result" where
  "py_in k (PDict kvs) = Inr (List.member (map fst kvs) (L k))"
| "py_in k (PList xs) = Inr (List.member xs (PStr (L k)))"
| "py_in k (PStr s) = Inr (py_contains (L k) s)"
| "py_in k v = Inl (Exc TypeError (L ''argument of type '' @ [39] @ type_name v @ [39] @ L '' is not iterable''))"

text \<open>Dictionary update \<^verbatim>\<open>d[k] = v\<close>: in place when the key is there, at the end otherwise.\<close>

fun dict_set :: "pystr \<Rightarrow> 'a \<Rightarrow> (pystr \<times> 'a) list \<Rightarrow> (pystr \<times> 'a) list" where
  "dict_set k v [] = [(k, v)]"
| "dict_set k v ((k', v') # kvs) = (if k = k' then (k', v) # kvs else (k', v') # dict_set k v kvs)"

definition dict_update :: "(pystr \<times> 'a) list \<Rightarrow> (pystr \<times> 'a) list \<Rightarrow> (pystr \<times> 'a) list" where
  "dict_update d kvs = fold (\<lambda>(k, v). dict_set k v) kvs d"

lemma map_of_dict_set [simp]: "map_of (dict_set k v d) = (map_of d)(k \<mapsto> v)"
  by (induction d) auto

lemma keys_dict_set: "fst ` set (dict_set k v d) = insert k (fst ` set d)"
proof (induction d)
  case (Cons a d)
  then show ?case by (cases a) auto
qed simp

lemma dict_set_fresh: "k \<notin> fst ` set d \<Longrightarrow> dict_set k v d = d @ [(k, v)]"
  by (induction d) auto

lemma distinct_dict_set: "distinct (map fst d) \<Longrightarrow> distinct (map fst (dict_set k v d))"
proof (induction d)
  case (Cons a d)
  have "fst a \<notin> fst ` set (dict_set k v d)" if "k \<noteq> fst a"
    using Cons.prems that by (simp add: keys_dict_set)
  with Cons show ?case by (cases a) auto
qed simp

lemma map_of_dict_update: "map_of (dict_update d kvs) = map_of d ++ map_of (rev kvs)"
  unfolding dict_update_def
proof (induction kvs arbitrary: d)
  case (Cons a kvs)
  then show ?case by (cases a) (auto simp: fun_eq_iff map_add_def split: option.splits)
qed simp

lemma keys_dict_update: "fst ` set (dict_update d kvs) = fst ` set d \<union> fst ` set kvs"
  unfolding dict_update_def
proof (induction kvs arbitrary: d)
  case (Cons a kvs)
  then show ?case by (cases a) (auto simp: keys_dict_set)
qed simp

lemma distinct_dict_update: "distinct (map fst d) \<Longrightarrow> distinct (map fst (dict_update d kvs))"
  unfolding dict_update_def
proof (induction kvs arbitrary: d)
  case (Cons a kvs)
  then show ?case by (cases a) (auto simp: distinct_dict_set)
qed simp

lemma py_get_def_Inr [simp]:
  "py_get_def v k d = Inr x \<longleftrightarrow> (\<exists>kvs. v = PDict kvs \<and> x = assoc_get kvs k d)"
  by (cases v) auto

lemma py_get_dict [simp]: "py_get (PDict kvs) k = Inr (assoc_get kvs k PNone)"
  by (simp add: py_get_def)

lemma py_get_Inr: "py_get v k = Inr x \<longleftrightarrow> (\<exists>kvs. v = PDict kvs \<and> x = assoc_get kvs k PNone)"
  by (simp add: py_get_def)

section \<open>Text of values\<close>

text \<open>
  \<^verbatim>\<open>repr\<close> of a string: the quote is a double one when the text has a single and no double quote;
  backslash, the quote, tab, newline, carriage return and the other control characters are
  escaped; other code points print as themselves.
\<close>

definition hex_digit :: "int \<Rightarrow> int" where
  "hex_digit d = (if d < 10 then 48 + d else 87 + d)"

definition repr_char :: "int \<Rightarrow> int \<Rightarrow> pystr" where
  "repr_char q c =
     (if c = q \<or> c = 92 then [92, c]
      else if c = 9 then [92, 116]
      else if c = 10 then [92, 110]
      else if c = 13 then [92, 114]
      else if c < 32 \<or> (127 \<le> c \<and> c < 161) \<or> c = 173 then [92, 120, hex_digit (c div 16), hex_digit (c mod 16)]
      else [c])"

definition str_repr :: "pystr \<Rightarrow> pystr" where
  "str_repr s =
     (let q = (if List.member s 39 \<and> \<not> List.member s 34 then 34 else 39)
      in q # concat (map (repr_char q) s) @ [q])"

text \<open>\<^verbatim>\<open>repr\<close> of a float from its shortest decimal digits and the position of the point.\<close>

function strip_zeros :: "int \<Rightarrow> int \<Rightarrow> int \<times> int" where
  "strip_zeros m e = (if m \<le> 0 then (0, 0) else if m mod 10 = 0 then strip_zeros (m div 10) (e + 1) else (m, e))"
  by pat_completeness auto
termination
  by (relation "measure (\<lambda>(m, e). nat m)") auto

declare strip_zeros.simps [simp del]

definition float_repr :: "int \<Rightarrow> int \<Rightarrow> pystr" where
  "float_repr m e =
     (let (d, e') = strip_zeros \<bar>m\<bar> e;
          ds = dec_str d; n = int (length ds); p = n + e';
          body = (if d = 0 then L ''0.0''
                  else if -4 < p \<and> p \<le> 16 then
                    (if p \<le> 0 then L ''0.'' @ replicate (nat (- p)) 48 @ ds
                     else if p \<ge> n then ds @ replicate (nat (p - n)) 48 @ L ''.0''
                     else take (nat p) ds @ [46] @ drop (nat p) ds)
                  else take 1 ds @ (if n = 1 then [] else 46 # drop 1 ds) @ L ''e''
                       @ (if p - 1 < 0 then [45] else [43]) @ pad_str 2 \<bar>p - 1\<bar>)
      in (if m < 0 then [45] else []) @ body)"

fun py_repr :: "pyval \<Rightarrow> pystr" where
  "py_repr PNone = L ''None''"
| "py_repr (PBool b) = (if b then L ''True'' else L ''False'')"
| "py_repr (PInt i) = int_str i"
| "py_repr (PFloat m e) = float_repr m e"
| "py_repr (PStr s) = str_repr s"
| "py_repr (PList xs) = [91] @ py_join (L '', '') (map py_repr xs) @ [93]"
| "py_repr (PDict kvs) = [123] @ py_join (L '', '') (map (\<lambda>(k, v). str_repr k @ L '': '' @ py_repr v) kvs) @ [125]"

fun py_str :: "pyval \<Rightarrow> pystr" where
  "py_str (PStr s) = s"
| "py_str v = py_repr v"

text \<open>\<^verbatim>\<open>int(v)\<close>.\<close>

fun py_int_of :: "pyval \<Rightarrow> int result" where
  "py_int_of (PInt i) = Inr i"
| "py_int_of (PBool b) = Inr (if b then 1 else 0)"
| "py_int_of (PFloat m e) = Inr (if e \<ge> 0 then m * 10 ^ nat e else if m \<ge> 0 then m div 10 ^ nat (- e) else - ((- m) div 10 ^ nat (- e)))"
| "py_int_of (PStr s) = (case py_int s of Some i \<Rightarrow> Inr i
     | None \<Rightarrow> Inl (Exc ValueError (L ''invalid literal for int() with base 10: '' @ str_repr s)))"
| "py_int_of v = Inl (Exc TypeError (L ''int() argument must be a string, a bytes-like object or a real number, not '' @ [39] @ type_name v @ [39]))"

section \<open>UTF-8\<close>

text \<open>\<^verbatim>\<open>len(s.encode("utf-8"))\<close>: a lone surrogate cannot be encoded.\<close>

definition surrogate :: "int \<Rightarrow> bool" where
  "surrogate c = (0xd800 \<le> c \<and> c < 0xe000)"

definition encode_error :: "pystr \<Rightarrow> pyexc" where
  "encode_error s =
     (let i = length (takeWhile (\<lambda>c. \<not> surrogate c) s); run = takeWhile surrogate (drop i s); c = hd run
      in Exc UnicodeEncodeError ([39] @ L ''utf-8'' @ [39] @
           (if length run = 1
            then L '' codec can'' @ [39] @ L ''t encode character '' @ [39, 92, 117, hex_digit (c div 4096), hex_digit (c div 256 mod 16),
                 hex_digit (c div 16 mod 16), hex_digit (c mod 16), 39] @ L '' in position '' @ int_str (int i)
            else L '' codec can'' @ [39] @ L ''t encode characters in position '' @ int_str (int i) @ [45] @ int_str (int (i + length run) - 1))
           @ L '': surrogates not allowed''))"

definition utf8_width :: "int \<Rightarrow> int" where
  "utf8_width c = (if c < 0x80 then 1 else if c < 0x800 then 2 else if c < 0x10000 then 3 else 4)"

definition utf8_len :: "pystr \<Rightarrow> int result" where
  "utf8_len s = (if list_ex surrogate s then Inl (encode_error s) else Inr (sum_list (map utf8_width s)))"

section \<open>Ordinary exceptions only\<close>

text \<open>
  Code that raises nothing but \<^verbatim>\<open>Exception\<close>s, so that \<^verbatim>\<open>except Exception\<close> catches whatever it
  raises; and code that never raises.
\<close>

definition tame_res :: "'a result \<Rightarrow> bool" where
  "tame_res r \<longleftrightarrow> (\<forall>e. r = Inl e \<longrightarrow> is_Exception e)"

definition raises_only_Exception :: "('s, 'a) eff \<Rightarrow> bool" where
  "raises_only_Exception f \<longleftrightarrow> (\<forall>s e s'. f s = (Inl e, s') \<longrightarrow> is_Exception e)"

definition never_raises :: "('s, 'a) eff \<Rightarrow> bool" where
  "never_raises f \<longleftrightarrow> (\<forall>s e s'. f s \<noteq> (Inl e, s'))"

named_theorems tame_intros \<open>code that raises ordinary exceptions only\<close>

lemma tame_Inr [tame_intros]: "tame_res (Inr x)"
  by (simp add: tame_res_def)

lemma tame_Inl [tame_intros]: "t \<noteq> KeyboardInterrupt \<Longrightarrow> t \<noteq> SystemExit \<Longrightarrow> t \<noteq> Diverged \<Longrightarrow> tame_res (Inl (Exc t m))"
  by (simp add: tame_res_def is_Exception_def)

lemma tame_ebind [tame_intros]: "tame_res m \<Longrightarrow> (\<And>x. tame_res (f x)) \<Longrightarrow> tame_res (ebind m f)"
  by (cases m) (auto simp: tame_res_def)

lemma tame_attribute_error [tame_intros]: "tame_res (Inl (attribute_error v a))"
  by (simp add: attribute_error_def tame_res_def is_Exception_def)

lemma tame_unhashable_error [tame_intros]: "tame_res (Inl (unhashable_error v))"
  by (simp add: unhashable_error_def tame_res_def is_Exception_def)

lemma encode_error_type [simp]: "is_Exception (encode_error s)"
  by (simp add: encode_error_def Let_def is_Exception_def)

lemma tame_utf8_len [tame_intros]: "tame_res (utf8_len s)"
  by (simp add: utf8_len_def tame_res_def)

lemma tame_py_get_def [tame_intros]: "tame_res (py_get_def v k d)"
  by (cases v) (simp_all add: tame_intros)

lemma tame_py_get [tame_intros]: "tame_res (py_get v k)"
  by (simp add: py_get_def tame_intros)

lemma tame_py_index [tame_intros]: "tame_res (py_index v k)"
  by (cases v) (simp_all add: tame_intros split: option.splits)

lemma tame_py_in [tame_intros]: "tame_res (py_in k v)"
  by (cases v) (simp_all add: tame_intros)

lemma tame_py_int_of [tame_intros]: "tame_res (py_int_of v)"
  by (cases v) (simp_all add: tame_intros split: option.splits)

lemma tame_py_items [tame_intros]: "tame_res (py_items v)"
  by (cases v) (simp_all add: tame_intros)

lemma tame_py_values [tame_intros]: "tame_res (py_values v)"
  by (cases v) (simp_all add: tame_intros)

lemma tame_py_iter [tame_intros]: "tame_res (py_iter v)"
  by (cases v) (simp_all add: tame_intros)

lemma tame_res_if [tame_intros]: "tame_res a \<Longrightarrow> tame_res b \<Longrightarrow> tame_res (if c then a else b)"
  by simp

lemma tame_res_option [tame_intros]: "tame_res a \<Longrightarrow> (\<And>x. tame_res (b x)) \<Longrightarrow> tame_res (case c of None \<Rightarrow> a | Some x \<Rightarrow> b x)"
  by (cases c) simp_all

lemma tame_emap [tame_intros]: "(\<And>x. tame_res (f x)) \<Longrightarrow> tame_res (emap f xs)"
  by (induction xs) (auto intro: tame_intros)

lemma roe_ret [tame_intros]: "raises_only_Exception (ret x)"
  by (simp add: raises_only_Exception_def)

lemma roe_lift_res [tame_intros]: "tame_res r \<Longrightarrow> raises_only_Exception (lift_res r)"
  by (simp add: raises_only_Exception_def tame_res_def)

lemma roe_raise [tame_intros]: "t \<noteq> KeyboardInterrupt \<Longrightarrow> t \<noteq> SystemExit \<Longrightarrow> t \<noteq> Diverged \<Longrightarrow> raises_only_Exception (raise_exc t m)"
  by (simp add: raises_only_Exception_def is_Exception_def)

lemma roe_sbind [tame_intros]:
  "raises_only_Exception m \<Longrightarrow> (\<And>x. raises_only_Exception (f x)) \<Longrightarrow> raises_only_Exception (sbind m f)"
  unfolding raises_only_Exception_def by (metis sbind_cases sum.inject(1))

lemma roe_catch [tame_intros]:
  "raises_only_Exception m \<Longrightarrow> (\<And>e. raises_only_Exception (h e)) \<Longrightarrow> raises_only_Exception (catch m p h)"
  unfolding raises_only_Exception_def catch_def by (auto split: prod.splits sum.splits if_splits)

lemma roe_if [tame_intros]:
  "raises_only_Exception a \<Longrightarrow> raises_only_Exception b \<Longrightarrow> raises_only_Exception (if c then a else b)"
  by simp

lemma roe_option [tame_intros]:
  "raises_only_Exception a \<Longrightarrow> (\<And>x. raises_only_Exception (b x)) \<Longrightarrow> raises_only_Exception (case c of None \<Rightarrow> a | Some x \<Rightarrow> b x)"
  by (cases c) simp_all

lemma roe_prod [tame_intros]: "(\<And>x y. raises_only_Exception (a x y)) \<Longrightarrow> raises_only_Exception (case c of (x, y) \<Rightarrow> a x y)"
  by (cases c) simp

lemma roe_for_each [tame_intros]: "(\<And>x. raises_only_Exception (f x)) \<Longrightarrow> raises_only_Exception (for_each f xs)"
  by (induction xs) (auto intro: tame_intros)

lemma roe_never: "never_raises m \<Longrightarrow> raises_only_Exception m"
  by (simp add: never_raises_def raises_only_Exception_def)

lemma never_catch:
  "raises_only_Exception m \<Longrightarrow> (\<And>e. never_raises (h e)) \<Longrightarrow> never_raises (catch m is_Exception h)"
  unfolding raises_only_Exception_def never_raises_def catch_def by (auto split: prod.splits sum.splits if_splits)

lemma never_ret: "never_raises (ret x)"
  by (simp add: never_raises_def)

lemma never_sbind: "never_raises m \<Longrightarrow> (\<And>x. never_raises (f x)) \<Longrightarrow> never_raises (sbind m f)"
  unfolding never_raises_def by (metis sbind_cases)

lemma never_raisesE:
  assumes "never_raises m"
  obtains x s' where "m s = (Inr x, s')"
proof (cases "m s")
  case (Pair r s')
  with assms that show ?thesis by (cases r) (auto simp: never_raises_def)
qed

end
