(* ===== verification/Database.thy ===== *)
theory Database
  imports PyValue
begin

text \<open>
  The SQLite database behind \<^verbatim>\<open>db/repository.py\<close>: the tables of \<^verbatim>\<open>db/schema.sql\<close>, and the two
  statements the repository issues on them, insertion of a row and update of the row with a given
  id.  A statement that violates a constraint raises and leaves the database as it was.

  A row lists its columns in the order of the schema.  Columns convert what is stored to their
  affinity; a Python \<^verbatim>\<open>bool\<close> is stored as an integer.
\<close>

section \<open>Schema\<close>

datatype affinity = TextAff | IntAff

record column =
  col_name :: pystr
  col_aff :: affinity
  col_notnull :: bool
  col_default :: pyval

record table_def =
  tab_name :: pystr
  tab_cols :: "column list"
  tab_fks :: "(pystr \<times> pystr) list"

definition text_col :: "string \<Rightarrow> column" where
  "text_col c = \<lparr>col_name = L c, col_aff = TextAff, col_notnull = False, col_default = PNone\<rparr>"

definition need_col :: "string \<Rightarrow> column" where
  "need_col c = (text_col c)\<lparr>col_notnull := True\<rparr>"

definition int_col :: "string \<Rightarrow> column" where
  "int_col c = (text_col c)\<lparr>col_aff := IntAff\<rparr>"

definition sessions_def :: table_def where
  "sessions_def = \<lparr>tab_name = L ''sessions'', tab_cols = [text_col ''id'', need_col ''source'', need_col ''role'',
     need_col ''status'', need_col ''workspace_path'', need_col ''created_at'', need_col ''updated_at'',
     text_col ''last_active_at'', text_col ''expires_at'', (need_col ''metadata_json'')\<lparr>col_default := PStr (L ''{}'')\<rparr>],
     tab_fks = []\<rparr>"

definition tasks_def :: table_def where
  "tasks_def = \<lparr>tab_name = L ''tasks'', tab_cols = [text_col ''id'', need_col ''session_id'', need_col ''role'',
     need_col ''status'', need_col ''input_json'', text_col ''output_json'', text_col ''error_json'',
     need_col ''created_at'', text_col ''started_at'', text_col ''finished_at''],
     tab_fks = [(L ''session_id'', L ''sessions'')]\<rparr>"

definition tool_events_def :: table_def where
  "tool_events_def = \<lparr>tab_name = L ''tool_events'', tab_cols = [text_col ''id'', need_col ''session_id'', text_col ''task_id'',
     need_col ''role'', need_col ''tool_name'', need_col ''decision'', int_col ''success'', int_col ''duration_ms'',
     text_col ''input_hash'', text_col ''input_redacted_json'', text_col ''output_hash'', int_col ''output_size'',
     text_col ''error_json'', text_col ''policy_version'', need_col ''created_at''],
     tab_fks = [(L ''session_id'', L ''sessions''), (L ''task_id'', L ''tasks'')]\<rparr>"

definition research_queue_def :: table_def where
  "research_queue_def = \<lparr>tab_name = L ''research_queue'', tab_cols = [text_col ''id'', need_col ''source'', need_col ''topic'',
     text_col ''ticker'', text_col ''company_name'', need_col ''reason'', need_col ''source_refs_json'',
     (int_col ''score'')\<lparr>col_notnull := True, col_default := PInt 0\<rparr>, need_col ''status'', text_col ''assigned_role'',
     need_col ''created_at'', need_col ''updated_at'', (need_col ''metadata_json'')\<lparr>col_default := PStr (L ''{}'')\<rparr>],
     tab_fks = []\<rparr>"

definition documents_def :: table_def where
  "documents_def = \<lparr>tab_name = L ''documents'', tab_cols = [text_col ''id'', text_col ''repo'', need_col ''path'', need_col ''title'',
     need_col ''doc_type'', need_col ''status'', (need_col ''source_refs_json'')\<lparr>col_default := PStr (L ''[]'')\<rparr>,
     text_col ''commit_sha'', need_col ''created_at'', need_col ''updated_at'',
     (need_col ''metadata_json'')\<lparr>col_default := PStr (L ''{}'')\<rparr>], tab_fks = []\<rparr>"

text \<open>The tables that the code writes; \<^verbatim>\<open>x_posts\<close> and \<^verbatim>\<open>web_sources\<close> are created but never used.\<close>

definition schema :: "table_def list" where
  "schema = [sessions_def, tasks_def, tool_events_def, research_queue_def, documents_def]"

section \<open>Statements\<close>

type_synonym row = "(pystr \<times> pyval) list"
type_synonym database = "pystr \<rightharpoonup> row list"

text \<open>\<^verbatim>\<open>migrate\<close> creates the tables that are missing and touches no existing one.\<close>

definition create_tables :: "database \<Rightarrow> database" where
  "create_tables db = (\<lambda>t. case db t of Some rows \<Rightarrow> Some rows
     | None \<Rightarrow> if list_ex (\<lambda>d. tab_name d = t) schema then Some [] else None)"

definition max_int64 :: int where "max_int64 = 9223372036854775808"

text \<open>Binding a Python value to a parameter (numbered from 1).\<close>

fun bind_value :: "nat \<Rightarrow> pyval \<Rightarrow> pyval result" where
  "bind_value n (PBool b) = Inr (PInt (if b then 1 else 0))"
| "bind_value n (PInt i) = (if - max_int64 \<le> i \<and> i < max_int64 then Inr (PInt i)
     else Inl (Exc OverflowError (L ''Python int too large to convert to SQLite INTEGER'')))"
| "bind_value n (PStr s) = (if list_ex surrogate s then Inl (encode_error s) else Inr (PStr s))"
| "bind_value n (PList xs) = Inl (Exc ProgrammingError (L ''Error binding parameter '' @ int_str (int n)
     @ L '': type '' @ [39] @ L ''list'' @ [39] @ L '' is not supported''))"
| "bind_value n (PDict xs) = Inl (Exc ProgrammingError (L ''Error binding parameter '' @ int_str (int n)
     @ L '': type '' @ [39] @ L ''dict'' @ [39] @ L '' is not supported''))"
| "bind_value n v = Inr v"

fun bind_values :: "nat \<Rightarrow> row \<Rightarrow> row result" where
  "bind_values n [] = Inr []"
| "bind_values n ((c, v) # r) = ebind (bind_value n v) (\<lambda>v'. ebind (bind_values (Suc n) r) (\<lambda>r'. Inr ((c, v') # r')))"

text \<open>A text column stores a number as its text; an integer column stores integer text as the number.\<close>

definition well_formed_int :: "pystr \<Rightarrow> int option" where
  "well_formed_int s = (case py_int s of None \<Rightarrow> None | Some i \<Rightarrow> if int_str i = s \<and> - max_int64 \<le> i \<and> i < max_int64 then Some i else None)"

fun coerce :: "affinity \<Rightarrow> pyval \<Rightarrow> pyval" where
  "coerce TextAff (PInt i) = PStr (int_str i)"
| "coerce TextAff (PFloat m e) = PStr (float_repr m e)"
| "coerce IntAff (PStr s) = (case well_formed_int s of None \<Rightarrow> PStr s | Some i \<Rightarrow> PInt i)"
| "coerce a v = v"

definition full_row :: "table_def \<Rightarrow> row \<Rightarrow> row" where
  "full_row t r = map (\<lambda>c. (col_name c, coerce (col_aff c) (assoc_get r (col_name c) (col_default c)))) (tab_cols t)"

definition cell :: "row \<Rightarrow> pystr \<Rightarrow> pyval" where
  "cell r c = assoc_get r c PNone"

definition row_id :: "row \<Rightarrow> pyval" where
  "row_id r = cell r (L ''id'')"

definition null_column :: "table_def \<Rightarrow> row \<Rightarrow> column option" where
  "null_column t r = find (\<lambda>c. col_notnull c \<and> cell r (col_name c) = PNone) (tab_cols t)"

definition constraint_error :: "string \<Rightarrow> table_def \<Rightarrow> pystr \<Rightarrow> pyexc" where
  "constraint_error k t c = Exc IntegrityError (L k @ L '' constraint failed: '' @ tab_name t @ [46] @ c)"

definition no_table :: "pystr \<Rightarrow> pyexc" where
  "no_table t = Exc OperationalError (L ''no such table: '' @ t)"

text \<open>A reference is satisfied when it is null or the id of a row of the other table.\<close>

definition fk_ok :: "database \<Rightarrow> row \<Rightarrow> pystr \<times> pystr \<Rightarrow> bool" where
  "fk_ok db r = (\<lambda>(c, p). cell r c = PNone \<or>
     (case db p of None \<Rightarrow> False | Some rows \<Rightarrow> list_ex (\<lambda>q. row_id q = cell r c) rows))"

definition sql_insert :: "table_def \<Rightarrow> row \<Rightarrow> database \<Rightarrow> database result" where
  "sql_insert t params db =
     (case db (tab_name t) of
        None \<Rightarrow> Inl (no_table (tab_name t))
      | Some rows \<Rightarrow>
          ebind (bind_values 1 params) (\<lambda>vals.
          let r = full_row t vals in
          case null_column t r of
            Some c \<Rightarrow> Inl (constraint_error ''NOT NULL'' t (col_name c))
          | None \<Rightarrow>
              if row_id r \<noteq> PNone \<and> list_ex (\<lambda>q. row_id q = row_id r) rows then Inl (constraint_error ''UNIQUE'' t (L ''id''))
              else if \<not> list_all (fk_ok db r) (tab_fks t) then Inl (Exc IntegrityError (L ''FOREIGN KEY constraint failed''))
              else Inr (db(tab_name t \<mapsto> rows @ [r]))))"

text \<open>\<^verbatim>\<open>UPDATE t SET ... WHERE id = ?\<close>, for columns that are neither the id nor a reference.\<close>

definition set_cols :: "table_def \<Rightarrow> row \<Rightarrow> row \<Rightarrow> row" where
  "set_cols t vals r = map (\<lambda>c. (col_name c, case map_of vals (col_name c) of None \<Rightarrow> cell r (col_name c)
                                            | Some v \<Rightarrow> coerce (col_aff c) v)) (tab_cols t)"

definition sql_update :: "table_def \<Rightarrow> row \<Rightarrow> pyval \<Rightarrow> database \<Rightarrow> database result" where
  "sql_update t params key db =
     (case db (tab_name t) of
        None \<Rightarrow> Inl (no_table (tab_name t))
      | Some rows \<Rightarrow>
          ebind (bind_values 1 params) (\<lambda>vals.
          ebind (bind_value (Suc (length params)) key) (\<lambda>k.
          let upd = (\<lambda>r. if row_id r = coerce TextAff k \<and> k \<noteq> PNone then set_cols t vals r else r);
              rows' = map upd rows
          in case find (\<lambda>r. null_column t r \<noteq> None) rows' of
               Some r \<Rightarrow> Inl (constraint_error ''NOT NULL'' t (case null_column t r of Some c \<Rightarrow> col_name c | None \<Rightarrow> []))
             | None \<Rightarrow> Inr (db(tab_name t \<mapsto> rows')))))"

section \<open>The invariant of the database\<close>

text \<open>
  Every row has the columns of its table and no null where one is forbidden, ids are unique, and
  every reference points to an existing row.
\<close>

definition row_wf :: "table_def \<Rightarrow> row \<Rightarrow> bool" where
  "row_wf t r \<longleftrightarrow> map fst r = map col_name (tab_cols t) \<and> null_column t r = None"

definition db_wf :: "database \<Rightarrow> bool" where
  "db_wf db \<longleftrightarrow> (\<forall>t \<in> set schema. \<forall>rows. db (tab_name t) = Some rows \<longrightarrow>
     distinct (filter (\<lambda>v. v \<noteq> PNone) (map row_id rows)) \<and>
     (\<forall>r \<in> set rows. row_wf t r \<and> list_all (fk_ok db r) (tab_fks t)))"

text \<open>The ids stored in a table, and the row with an id.\<close>

definition table_ids :: "database \<Rightarrow> pystr \<Rightarrow> pyval set" where
  "table_ids db p = (case db p of None \<Rightarrow> {} | Some rows \<Rightarrow> row_id ` set rows)"

definition row_of :: "database \<Rightarrow> table_def \<Rightarrow> pyval \<Rightarrow> row option" where
  "row_of db t k = (case db (tab_name t) of None \<Rightarrow> None | Some rows \<Rightarrow> find (\<lambda>r. row_id r = k) rows)"

lemma fk_ok_ids: "fk_ok db r (c, p) \<longleftrightarrow> cell r c = PNone \<or> cell r c \<in> table_ids db p"
  by (cases "db p") (auto simp: fk_ok_def table_ids_def list_ex_iff image_iff eq_commute[of "cell r c"])

lemma fk_ok_mono: "fk_ok db r x \<Longrightarrow> \<forall>p. table_ids db p \<subseteq> table_ids db' p \<Longrightarrow> fk_ok db' r x"
  by (cases x) (auto simp: fk_ok_ids)

text \<open>What holds of each table of the schema.\<close>

definition table_ok :: "table_def \<Rightarrow> bool" where
  "table_ok t \<longleftrightarrow> distinct (map col_name (tab_cols t)) \<and> L ''id'' \<in> set (map col_name (tab_cols t)) \<and>
     L ''id'' \<notin> fst ` set (tab_fks t)"

lemma schema_table_ok: "t \<in> set schema \<Longrightarrow> table_ok t"
proof -
  have "list_all table_ok schema" by code_simp
  then show "t \<in> set schema \<Longrightarrow> table_ok t" by (simp add: list_all_iff)
qed

lemma schema_names: "t \<in> set schema \<Longrightarrow> t' \<in> set schema \<Longrightarrow> tab_name t = tab_name t' \<Longrightarrow> t = t'"
proof -
  have "distinct (map tab_name schema)" by code_simp
  then show "t \<in> set schema \<Longrightarrow> t' \<in> set schema \<Longrightarrow> tab_name t = tab_name t' \<Longrightarrow> t = t'"
    by (auto simp: distinct_map dest: inj_onD)
qed

lemma map_of_cols:
  assumes "distinct (map col_name cs)" and "c \<in> set cs"
  shows "map_of (map (\<lambda>c. (col_name c, f c)) cs) (col_name c) = Some (f c)"
  using assms by (intro map_of_is_SomeI) (auto simp: comp_def)

lemma cell_cols:
  assumes "distinct (map col_name cs)" and "c \<in> set cs"
  shows "cell (map (\<lambda>c. (col_name c, f c)) cs) (col_name c) = f c"
  using map_of_cols[OF assms, of f] by (simp add: cell_def assoc_get_def)

lemma cell_absent: "x \<notin> fst ` set r \<Longrightarrow> cell r x = PNone"
  using map_of_eq_None_iff[of r x] by (simp add: cell_def assoc_get_def)

lemma full_row_cols: "map fst (full_row t r) = map col_name (tab_cols t)"
  by (simp add: full_row_def)

lemma set_cols_cols: "map fst (set_cols t vals r) = map col_name (tab_cols t)"
  by (simp add: set_cols_def)

lemma cell_set_cols_other:
  assumes "table_ok t" and "row_wf t r" and "x \<notin> fst ` set vals"
  shows "cell (set_cols t vals r) x = cell r x"
proof (cases "x \<in> set (map col_name (tab_cols t))")
  case True
  then obtain c where c: "c \<in> set (tab_cols t)" "x = col_name c" by auto
  have "map_of vals x = None" using assms(3) by (simp add: map_of_eq_None_iff)
  then show ?thesis using assms(1) c cell_cols[of "tab_cols t" c] by (simp add: table_ok_def set_cols_def)
next
  case False
  have "fst ` set r = set (map col_name (tab_cols t))"
    using assms(2) by (metis row_wf_def list.set_map)
  moreover have "fst ` set (set_cols t vals r) = set (map col_name (tab_cols t))"
    by (metis set_cols_cols list.set_map)
  ultimately show ?thesis using False cell_absent by metis
qed

lemma row_id_set_cols:
  "table_ok t \<Longrightarrow> row_wf t r \<Longrightarrow> L ''id'' \<notin> fst ` set vals \<Longrightarrow> row_id (set_cols t vals r) = row_id r"
  unfolding row_id_def by (rule cell_set_cols_other)

lemma bind_values_cols: "bind_values n r = Inr r' \<Longrightarrow> map fst r' = map fst r"
  by (induction n r arbitrary: r' rule: bind_values.induct) auto

lemma sql_insert_row:
  assumes "sql_insert t params db = Inr db'"
  obtains rows vals where "db (tab_name t) = Some rows" "bind_values 1 params = Inr vals"
    "db' = db(tab_name t \<mapsto> rows @ [full_row t vals])" "null_column t (full_row t vals) = None"
    "row_id (full_row t vals) = PNone \<or> (\<forall>q \<in> set rows. row_id q \<noteq> row_id (full_row t vals))"
    "list_all (fk_ok db (full_row t vals)) (tab_fks t)"
  using assms by (auto simp: sql_insert_def Let_def list_ex_iff split: option.splits if_splits)

lemma sql_insert_wf:
  assumes "db_wf db" and "t \<in> set schema" and "sql_insert t params db = Inr db'"
  shows "db_wf db'"
  using assms(3)
proof (rule sql_insert_row)
  fix rows vals
  assume rows: "db (tab_name t) = Some rows" and db': "db' = db(tab_name t \<mapsto> rows @ [full_row t vals])"
    and nn: "null_column t (full_row t vals) = None"
    and fresh: "row_id (full_row t vals) = PNone \<or> (\<forall>q \<in> set rows. row_id q \<noteq> row_id (full_row t vals))"
    and fk: "list_all (fk_ok db (full_row t vals)) (tab_fks t)"
  have mono: "\<forall>p. table_ids db p \<subseteq> table_ids db' p" by (auto simp: table_ids_def db' rows split: option.splits)
  have old: "distinct (filter (\<lambda>v. v \<noteq> PNone) (map row_id rows'))"
      "\<forall>r \<in> set rows'. row_wf t' r \<and> list_all (fk_ok db r) (tab_fks t')"
    if "t' \<in> set schema" "db (tab_name t') = Some rows'" for t' rows'
    using assms(1) that unfolding db_wf_def by blast+
  show "db_wf db'" unfolding db_wf_def
  proof (intro ballI allI impI)
    fix t' rows' assume t': "t' \<in> set schema" and r': "db' (tab_name t') = Some rows'"
    show "distinct (filter (\<lambda>v. v \<noteq> PNone) (map row_id rows')) \<and>
        (\<forall>r \<in> set rows'. row_wf t' r \<and> list_all (fk_ok db' r) (tab_fks t'))"
    proof (cases "tab_name t' = tab_name t")
      case True
      then have eq: "t' = t" using schema_names t' assms(2) by blast
      with r' db' have rr: "rows' = rows @ [full_row t vals]" by simp
      show ?thesis using old[OF assms(2) rows] fresh fk nn mono
        by (auto simp: rr eq row_wf_def full_row_cols list_all_iff dest!: fk_ok_mono[OF _ mono])
    next
      case False
      with r' db' have "db (tab_name t') = Some rows'" by simp
      from old[OF t' this] show ?thesis using mono
        by (auto simp: list_all_iff dest!: fk_ok_mono[OF _ mono])
    qed
  qed
qed

text \<open>An update may set any columns but the id and the references.\<close>

lemma sql_update_row:
  assumes "sql_update t params key db = Inr db'"
  obtains rows vals k where "db (tab_name t) = Some rows" "bind_values 1 params = Inr vals"
    "bind_value (Suc (length params)) key = Inr k"
    "db' = db(tab_name t \<mapsto> map (\<lambda>r. if row_id r = coerce TextAff k \<and> k \<noteq> PNone then set_cols t vals r else r) rows)"
    "\<forall>r \<in> set rows. null_column t (if row_id r = coerce TextAff k \<and> k \<noteq> PNone then set_cols t vals r else r) = None"
  using assms by (auto simp: sql_update_def Let_def find_None_iff simp del: if_image_distrib split: option.splits)

lemma sql_update_wf:
  assumes "db_wf db" and "t \<in> set schema" and "sql_update t params key db = Inr db'"
    and "fst ` set params \<inter> insert (L ''id'') (fst ` set (tab_fks t)) = {}"
  shows "db_wf db'"
  using assms(3)
proof (rule sql_update_row)
  fix rows vals k
  let ?u = "\<lambda>r. if row_id r = coerce TextAff k \<and> k \<noteq> PNone then set_cols t vals r else r"
  assume rows: "db (tab_name t) = Some rows" and vals: "bind_values 1 params = Inr vals"
    and db': "db' = db(tab_name t \<mapsto> map ?u rows)" and nn: "\<forall>r \<in> set rows. null_column t (?u r) = None"
  note ok = schema_table_ok[OF assms(2)]
  have keys: "fst ` set vals = fst ` set params" using bind_values_cols[OF vals] by (metis list.set_map)
  have old: "distinct (filter (\<lambda>v. v \<noteq> PNone) (map row_id rows'))"
      "\<forall>r \<in> set rows'. row_wf t' r \<and> list_all (fk_ok db r) (tab_fks t')"
    if "t' \<in> set schema" "db (tab_name t') = Some rows'" for t' rows'
    using assms(1) that unfolding db_wf_def by blast+
  have id: "row_id (?u r) = row_id r" if "r \<in> set rows" for r
  proof -
    have "row_wf t r" "L ''id'' \<notin> fst ` set vals" using old(2)[OF assms(2) rows] that assms(4) keys by auto
    then show ?thesis using row_id_set_cols[OF ok] by simp
  qed
  have ref: "fk_ok d (?u r) x \<longleftrightarrow> fk_ok d r x" if "r \<in> set rows" "x \<in> set (tab_fks t)" for d r x
  proof -
    have "fst x \<notin> fst ` set vals" using that(2) assms(4) keys by auto
    moreover have "row_wf t r" using old(2)[OF assms(2) rows] that(1) by blast
    ultimately have "cell (?u r) (fst x) = cell r (fst x)" using cell_set_cols_other[OF ok] by simp
    then show ?thesis by (cases x) (simp add: fk_ok_ids)
  qed
  have mids: "map (row_id \<circ> ?u) rows = map row_id rows" using id by simp
  have same: "table_ids db' p = table_ids db p" for p
  proof (cases "p = tab_name t")
    case True
    have "table_ids db' p = set (map (row_id \<circ> ?u) rows)"
      using True by (simp add: table_ids_def db' image_comp del: if_image_distrib)
    then show ?thesis unfolding mids using True rows by (simp add: table_ids_def)
  qed (simp add: table_ids_def db')
  have fk_same: "fk_ok db' r x \<longleftrightarrow> fk_ok db r x" for r x by (cases x) (simp add: fk_ok_ids same)
  show "db_wf db'" unfolding db_wf_def
  proof (intro ballI allI impI)
    fix t' rows' assume t': "t' \<in> set schema" and r': "db' (tab_name t') = Some rows'"
    show "distinct (filter (\<lambda>v. v \<noteq> PNone) (map row_id rows')) \<and>
        (\<forall>r \<in> set rows'. row_wf t' r \<and> list_all (fk_ok db' r) (tab_fks t'))"
    proof (cases "tab_name t' = tab_name t")
      case True
      then have eq: "t' = t" using schema_names t' assms(2) by blast
      with r' db' have rr: "rows' = map ?u rows" by simp
      have "row_wf t (?u r)" if "r \<in> set rows" for r
        using old(2)[OF assms(2) rows] nn that by (auto simp: row_wf_def set_cols_cols)
      then show ?thesis using old[OF assms(2) rows] ref
        by (simp add: rr eq list_all_iff fk_same mids del: if_image_distrib)
    next
      case False
      with r' db' have "db (tab_name t') = Some rows'" by simp
      from old[OF t' this] show ?thesis by (simp add: list_all_iff fk_same)
    qed
  qed
qed

lemma create_tables_keeps: "db t = Some rows \<Longrightarrow> create_tables db t = Some rows"
  by (simp add: create_tables_def)

lemma create_tables_wf: "db_wf db \<Longrightarrow> db_wf (create_tables db)"
  unfolding db_wf_def
proof (intro ballI allI impI)
  fix t rows assume wf: "\<forall>t \<in> set schema. \<forall>rows. db (tab_name t) = Some rows \<longrightarrow>
     distinct (filter (\<lambda>v. v \<noteq> PNone) (map row_id rows)) \<and> (\<forall>r \<in> set rows. row_wf t r \<and> list_all (fk_ok db r) (tab_fks t))"
    and t: "t \<in> set schema" and r: "create_tables db (tab_name t) = Some rows"
  have mono: "\<forall>p. table_ids db p \<subseteq> table_ids (create_tables db) p"
    by (auto simp: table_ids_def create_tables_def split: option.splits)
  from r consider "db (tab_name t) = Some rows" | "rows = []"
    by (auto simp: create_tables_def split: option.splits if_splits)
  then show "distinct (filter (\<lambda>v. v \<noteq> PNone) (map row_id rows)) \<and>
      (\<forall>r \<in> set rows. row_wf t r \<and> list_all (fk_ok (create_tables db) r) (tab_fks t))"
  proof cases
    case 1
    with wf t have "distinct (filter (\<lambda>v. v \<noteq> PNone) (map row_id rows))"
      "\<forall>r \<in> set rows. row_wf t r \<and> list_all (fk_ok db r) (tab_fks t)" by blast+
    then show ?thesis by (auto simp: list_all_iff dest!: fk_ok_mono[OF _ mono])
  qed simp
qed

lemma create_tables_idem: "create_tables (create_tables db) = create_tables db"
  by (auto simp: create_tables_def fun_eq_iff split: option.splits)

section \<open>Reading after writing\<close>

lemma cell_set_cols:
  "table_ok t \<Longrightarrow> c \<in> set (tab_cols t) \<Longrightarrow> cell (set_cols t vals r) (col_name c) =
     (case map_of vals (col_name c) of None \<Rightarrow> cell r (col_name c) | Some v \<Rightarrow> coerce (col_aff c) v)"
  unfolding set_cols_def table_ok_def by (subst cell_cols) auto

lemma cell_full_row:
  "table_ok t \<Longrightarrow> c \<in> set (tab_cols t) \<Longrightarrow>
     cell (full_row t vals) (col_name c) = coerce (col_aff c) (assoc_get vals (col_name c) (col_default c))"
  unfolding full_row_def table_ok_def by (subst cell_cols) auto

lemma row_id_set_cols_any:
  assumes "table_ok t" and "L ''id'' \<notin> fst ` set vals"
  shows "row_id (set_cols t vals r) = row_id r"
proof -
  from assms(1) obtain c where "c \<in> set (tab_cols t)" "col_name c = L ''id''" by (auto simp: table_ok_def)
  moreover have "map_of vals (L ''id'') = None" using assms(2) by (simp add: map_of_eq_None_iff)
  ultimately show ?thesis using cell_set_cols[OF assms(1), of c vals r] by (simp add: row_id_def)
qed

lemma find_map_same: "(\<And>x. P (f x) = P x) \<Longrightarrow> find P (map f xs) = map_option f (find P xs)"
  by (induction xs) auto

lemma find_map_id: "(\<And>x. P (f x) = P x) \<Longrightarrow> (\<And>x. P x \<Longrightarrow> f x = x) \<Longrightarrow> find P (map f xs) = find P xs"
  by (induction xs) auto

lemma row_of_update:
  assumes "sql_update t params (PStr k) db = Inr db'" and "table_ok t" and "L ''id'' \<notin> fst ` set params"
    and "bind_values 1 params = Inr vals"
  shows "row_of db' t x = (if x = PStr k then map_option (set_cols t vals) (row_of db t x) else row_of db t x)"
proof -
  let ?u = "\<lambda>r. if row_id r = PStr k then set_cols t vals r else r"
  obtain rows where rows: "db (tab_name t) = Some rows" and db': "db' = db(tab_name t \<mapsto> map ?u rows)"
    using assms(1)
  proof (rule sql_update_row)
    fix rows' vals' k'
    assume "db (tab_name t) = Some rows'" "bind_values 1 params = Inr vals'" "bind_value (Suc (length params)) (PStr k) = Inr k'"
      "db' = db(tab_name t \<mapsto> map (\<lambda>r. if row_id r = coerce TextAff k' \<and> k' \<noteq> PNone then set_cols t vals' r else r) rows')"
    then show ?thesis using that[of rows'] assms(4) by (auto split: if_splits)
  qed
  have "L ''id'' \<notin> fst ` set vals" using bind_values_cols[OF assms(4)] assms(3) by (metis list.set_map)
  then have id: "row_id (?u r) = row_id r" for r using row_id_set_cols_any[OF assms(2)] by simp
  then have p: "(row_id (?u r) = x) = (row_id r = x)" for r x by simp
  have "find (\<lambda>r. row_id r = PStr k) (map ?u rows) = map_option ?u (find (\<lambda>r. row_id r = PStr k) rows)"
    by (rule find_map_same) (rule p)
  moreover have "map_option ?u (find (\<lambda>r. row_id r = PStr k) rows) = map_option (set_cols t vals) (find (\<lambda>r. row_id r = PStr k) rows)"
    by (auto intro!: option.map_cong simp: find_Some_iff)
  moreover have "find (\<lambda>r. row_id r = x) (map ?u rows) = find (\<lambda>r. row_id r = x) rows" if "x \<noteq> PStr k"
    by (rule find_map_id) (use p that in auto)
  ultimately show ?thesis by (auto simp: row_of_def db' rows)
qed

lemma row_of_update_other:
  "sql_update t params k db = Inr db' \<Longrightarrow> tab_name t' \<noteq> tab_name t \<Longrightarrow> row_of db' t' x = row_of db t' x"
  by (elim sql_update_row) (simp add: row_of_def)

lemma row_of_insert_other:
  "sql_insert t params db = Inr db' \<Longrightarrow> tab_name t' \<noteq> tab_name t \<Longrightarrow> row_of db' t' x = row_of db t' x"
  by (elim sql_insert_row) (simp add: row_of_def)

lemma find_append: "find P (xs @ ys) = (case find P xs of None \<Rightarrow> find P ys | Some x \<Rightarrow> Some x)"
  by (induction xs) auto

lemma row_of_insert:
  assumes "sql_insert t params db = Inr db'" and "bind_values 1 params = Inr vals" and "row_id (full_row t vals) = PStr k"
  shows "row_of db t (PStr k) = None"
    and "row_of db' t x = (if x = PStr k then Some (full_row t vals) else row_of db t x)"
proof -
  have "row_of db t (PStr k) = None \<and> row_of db' t x = (if x = PStr k then Some (full_row t vals) else row_of db t x)" for x
    using assms(1)
  proof (rule sql_insert_row)
    fix rows vals'
    assume a: "db (tab_name t) = Some rows" "bind_values 1 params = Inr vals'"
      "db' = db(tab_name t \<mapsto> rows @ [full_row t vals'])"
      "row_id (full_row t vals') = PNone \<or> (\<forall>q \<in> set rows. row_id q \<noteq> row_id (full_row t vals'))"
    then have "find (\<lambda>r. row_id r = PStr k) rows = None" using assms(2,3) by (auto simp: find_None_iff)
    then show ?thesis using a assms(2,3) by (auto simp: row_of_def find_append split: option.splits)
  qed
  then show "row_of db t (PStr k) = None"
    and "row_of db' t x = (if x = PStr k then Some (full_row t vals) else row_of db t x)" by blast+
qed

text \<open>Binding keeps texts and nulls.\<close>

lemma bind_values_str: "bind_values n r = Inr r' \<Longrightarrow> map_of r c = Some (PStr s) \<Longrightarrow> map_of r' c = Some (PStr s)"
proof (induction r arbitrary: n r')
  case (Cons a r)
  obtain d v where a: "a = (d, v)" by (cases a)
  from Cons.prems(1) a obtain v' q where q: "bind_value n v = Inr v'" "bind_values (Suc n) r = Inr q" "r' = (d, v') # q" by auto
  show ?case using Cons.IH[OF q(2)] Cons.prems(2) q a by (cases "d = c") (auto split: if_splits)
qed simp

lemma bind_values_none: "bind_values n r = Inr r' \<Longrightarrow> map_of r c = None \<Longrightarrow> map_of r' c = None"
  by (metis bind_values_cols map_of_eq_None_iff list.set_map)

lemma sql_insert_bound: "sql_insert t params db = Inr db' \<Longrightarrow> \<exists>vals. bind_values 1 params = Inr vals"
  by (elim sql_insert_row) auto

lemma sql_update_bound: "sql_update t params k db = Inr db' \<Longrightarrow> \<exists>vals. bind_values 1 params = Inr vals"
  by (elim sql_update_row) auto

text \<open>The text stored in a column by an insertion or an update.\<close>

lemma cell_full_row_str:
  assumes "table_ok t" "c \<in> set (tab_cols t)" "bind_values n params = Inr vals" "map_of params (col_name c) = Some (PStr s)" "col_aff c = TextAff"
  shows "cell (full_row t vals) (col_name c) = PStr s"
  using cell_full_row[OF assms(1,2), of vals] bind_values_str[OF assms(3,4)] assms(5) by (simp add: assoc_get_def)

lemma cell_set_cols_str:
  assumes "table_ok t" "c \<in> set (tab_cols t)" "bind_values n params = Inr vals" "map_of params (col_name c) = Some (PStr s)" "col_aff c = TextAff"
  shows "cell (set_cols t vals r) (col_name c) = PStr s"
  using cell_set_cols[OF assms(1,2), of vals r] bind_values_str[OF assms(3,4)] assms(5) by simp

lemma cell_set_cols_keep:
  assumes "table_ok t" "c \<in> set (tab_cols t)" "bind_values n params = Inr vals" "map_of params (col_name c) = None"
  shows "cell (set_cols t vals r) (col_name c) = cell r (col_name c)"
  using cell_set_cols[OF assms(1,2), of vals r] bind_values_none[OF assms(3,4)] by simp

lemma text_col_simps [simp]:
  "col_name (text_col c) = L c" "col_name (need_col c) = L c" "col_name (int_col c) = L c"
  "col_aff (text_col c) = TextAff" "col_aff (need_col c) = TextAff" "col_aff (int_col c) = IntAff"
  "col_default (text_col c) = PNone" "col_default (need_col c) = PNone" "col_default (int_col c) = PNone"
  by (simp_all add: text_col_def need_col_def int_col_def)

section \<open>Errors of statements\<close>

lemma tame_bind_value [tame_intros]: "tame_res (bind_value n v)"
  by (cases v) (simp_all add: tame_intros, auto simp: tame_res_def)

lemma tame_bind_values [tame_intros]: "tame_res (bind_values n r)"
proof (induction r arbitrary: n)
  case (Cons a r)
  then show ?case by (cases a) (auto intro!: tame_intros)
qed (simp add: tame_intros)

lemma tame_sql_insert [tame_intros]: "tame_res (sql_insert t r db)"
  unfolding sql_insert_def no_table_def constraint_error_def Let_def
  by (intro tame_intros) simp_all

lemma tame_sql_update [tame_intros]: "tame_res (sql_update t r k db)"
  unfolding sql_update_def no_table_def constraint_error_def Let_def
  by (intro tame_intros) simp_all

end
