(* ===== verification/Json.thy ===== *)
theory Json
  imports PyValue
begin

text \<open>
  The standard \<^verbatim>\<open>json\<close> module as the sources use it: \<^verbatim>\<open>dumps\<close> with \<^verbatim>\<open>ensure_ascii\<close> and
  \<^verbatim>\<open>indent\<close>, and \<^verbatim>\<open>loads\<close> with its error messages and positions.  The result of loading the text
  of a value is that value (\<open>json_roundtrip\<close>).

  Not represented among the values: the non-standard literals \<^verbatim>\<open>NaN\<close> and \<^verbatim>\<open>Infinity\<close>, numbers
  beyond the range of a double, and negative zero.
\<close>

section \<open>Printing\<close>

definition hex4 :: "int \<Rightarrow> pystr" where
  "hex4 c = [92, 117] @ [hex_digit (c div 4096 mod 16), hex_digit (c div 256 mod 16), hex_digit (c div 16 mod 16), hex_digit (c mod 16)]"

definition json_char :: "bool \<Rightarrow> int \<Rightarrow> pystr" where
  "json_char ascii c =
     (if c = 34 then [92, 34] else if c = 92 then [92, 92]
      else if c = 10 then [92, 110] else if c = 13 then [92, 114] else if c = 9 then [92, 116]
      else if c = 12 then [92, 102] else if c = 8 then [92, 98]
      else if c < 32 then hex4 c
      else if ascii \<and> c > 65535 then hex4 (0xd800 + (c - 65536) div 1024 mod 1024) @ hex4 (0xdc00 + (c - 65536) mod 1024)
      else if ascii \<and> c > 126 then hex4 c
      else [c])"

definition json_str :: "bool \<Rightarrow> pystr \<Rightarrow> pystr" where
  "json_str ascii s = [34] @ concat (map (json_char ascii) s) @ [34]"

text \<open>The line break before an item at a nesting level, and the separator of items.\<close>

definition json_nl :: "nat option \<Rightarrow> nat \<Rightarrow> pystr" where
  "json_nl ind lvl = (case ind of None \<Rightarrow> [] | Some n \<Rightarrow> 10 # replicate (n * lvl) 32)"

definition json_sep :: "nat option \<Rightarrow> nat \<Rightarrow> pystr" where
  "json_sep ind lvl = (case ind of None \<Rightarrow> L '', '' | Some n \<Rightarrow> 44 # json_nl ind lvl)"

fun json_enc :: "bool \<Rightarrow> nat option \<Rightarrow> nat \<Rightarrow> pyval \<Rightarrow> pystr" where
  "json_enc a ind lvl PNone = L ''null''"
| "json_enc a ind lvl (PBool b) = (if b then L ''true'' else L ''false'')"
| "json_enc a ind lvl (PInt i) = int_str i"
| "json_enc a ind lvl (PFloat m e) = float_repr m e"
| "json_enc a ind lvl (PStr s) = json_str a s"
| "json_enc a ind lvl (PList xs) =
     (if xs = [] then L ''[]''
      else [91] @ json_nl ind (Suc lvl) @ py_join (json_sep ind (Suc lvl)) (map (json_enc a ind (Suc lvl)) xs)
           @ json_nl ind lvl @ [93])"
| "json_enc a ind lvl (PDict kvs) =
     (if kvs = [] then L ''{}''
      else [123] @ json_nl ind (Suc lvl)
           @ py_join (json_sep ind (Suc lvl)) (map (\<lambda>(k, v). json_str a k @ L '': '' @ json_enc a ind (Suc lvl) v) kvs)
           @ json_nl ind lvl @ [125])"

text \<open>\<^verbatim>\<open>json.dumps(v)\<close>, \<^verbatim>\<open>json.dumps(v, ensure_ascii=False)\<close> and the latter with \<^verbatim>\<open>indent=2\<close>.\<close>

definition json_dumps :: "pyval \<Rightarrow> pystr" where
  "json_dumps v = json_enc True None 0 v"

definition json_dumps_raw :: "pyval \<Rightarrow> pystr" where
  "json_dumps_raw v = json_enc False None 0 v"

definition json_dumps_pretty :: "pyval \<Rightarrow> pystr" where
  "json_dumps_pretty v = json_enc False (Some 2) 0 v"

section \<open>Floating-point text\<close>

text \<open>
  The double nearest to \<open>m * 10 ^ e\<close> (\<open>m \<ge> 0\<close>, ties to even), as mantissa and binary exponent, and
  the shortest decimal that denotes this double, which is what Python prints.
\<close>

function bitlen :: "int \<Rightarrow> int" where
  "bitlen n = (if n \<le> 0 then 0 else 1 + bitlen (n div 2))"
  by pat_completeness auto
termination
  by (relation "measure nat") auto

declare bitlen.simps [simp del]

definition round_half_even :: "int \<Rightarrow> int \<Rightarrow> int" where
  "round_half_even a b = (let q = a div b; r = 2 * (a mod b) in if r > b \<or> (r = b \<and> odd q) then q + 1 else q)"

definition to_double :: "int \<Rightarrow> int \<Rightarrow> int \<times> int" where
  "to_double m e =
     (if m \<le> 0 then (0, 0)
      else let num = m * 10 ^ nat e; den = 10 ^ nat (- e);
               k = bitlen num - bitlen den;
               x = max (-1074) (if num * 2 ^ nat (- k) \<ge> den * 2 ^ nat k then k - 52 else k - 53);
               q = round_half_even (num * 2 ^ nat (- x)) (den * 2 ^ nat x)
           in if q = 2 ^ 53 then (2 ^ 52, x + 1) else (q, x))"

fun leading_zeros :: "nat \<Rightarrow> int \<Rightarrow> int \<Rightarrow> int" where
  "leading_zeros 0 num den = 0"
| "leading_zeros (Suc n) num den = (if 10 * num \<ge> den then 0 else 1 + leading_zeros n (10 * num) den)"

fun shortest_from :: "nat \<Rightarrow> int \<Rightarrow> int \<Rightarrow> int \<Rightarrow> int \<times> int \<Rightarrow> int \<Rightarrow> int \<times> int" where
  "shortest_from 0 num den d b n = (num div den, 0)"
| "shortest_from (Suc k) num den d b n =
     (let t = d - n;
          nu = num * 10 ^ nat (- t); de = den * 10 ^ nat t;
          lo = nu div de; hi = lo + 1;
          low_ok = (to_double lo t = b); hi_ok = (to_double hi t = b);
          near = round_half_even nu de
      in if low_ok \<and> hi_ok then (near, t)
         else if low_ok then (lo, t)
         else if hi_ok then (hi, t)
         else shortest_from k num den d b (n + 1))"

definition shortest_decimal :: "int \<Rightarrow> int \<Rightarrow> int \<times> int" where
  "shortest_decimal m e =
     (case to_double m e of
        (q, x) \<Rightarrow>
          if q = 0 then (0, 0)
          else let num = q * 2 ^ nat x; den = 2 ^ nat (- x);
                   d = (if num \<ge> den then int (length (dec_str (num div den))) else - leading_zeros 400 num den)
               in case shortest_from 17 num den d (q, x) 1 of (c, t) \<Rightarrow> strip_zeros c t)"

section \<open>Parsing\<close>

text \<open>A failed parse: the message, and the text from the position of the error on.\<close>

type_synonym 'a jparse = "(pystr \<times> pystr) + ('a \<times> pystr)"

definition json_ws :: "pystr \<Rightarrow> pystr" where
  "json_ws s = dropWhile (\<lambda>c. c = 32 \<or> c = 9 \<or> c = 10 \<or> c = 13) s"

definition ascii_digit :: "int \<Rightarrow> bool" where
  "ascii_digit c = (48 \<le> c \<and> c < 58)"

definition hex_val :: "int \<Rightarrow> int option" where
  "hex_val c = (if 48 \<le> c \<and> c < 58 then Some (c - 48)
                else if 97 \<le> c \<and> c < 103 then Some (c - 87)
                else if 65 \<le> c \<and> c < 71 then Some (c - 55) else None)"

fun hex4_val :: "pystr \<Rightarrow> int option" where
  "hex4_val (a # b # c # d # r) =
     (case (hex_val a, hex_val b, hex_val c, hex_val d) of
        (Some w, Some x, Some y, Some z) \<Rightarrow> Some (4096 * w + 256 * x + 16 * y + z)
      | _ \<Rightarrow> None)"
| "hex4_val r = None"

definition simple_escape :: "int \<Rightarrow> int option" where
  "simple_escape c = map_of [(34, 34), (92, 92), (47, 47), (98, 8), (102, 12), (110, 10), (114, 13), (116, 9)] c"

text \<open>
  The body of a string: \<open>start\<close> is the text from the opening quote on.  An escape \<^verbatim>\<open>\u\<close> needs its
  four digits and one more character; two escapes that form a surrogate pair give one code point.
\<close>

function json_string :: "pystr \<Rightarrow> pystr \<Rightarrow> pystr jparse" where
  "json_string start s =
     (case s of
        [] \<Rightarrow> Inl (L ''Unterminated string starting at'', start)
      | c # t \<Rightarrow>
          if c = 34 then Inr ([], t)
          else if c \<noteq> 92 then
            (if c < 32 then Inl (L ''Invalid control character at'', s)
             else case json_string start t of Inl e \<Rightarrow> Inl e | Inr (x, r) \<Rightarrow> Inr (c # x, r))
          else
            (case t of
               [] \<Rightarrow> Inl (L ''Unterminated string starting at'', start)
             | d # u \<Rightarrow>
                 if d \<noteq> 117 then
                   (case simple_escape d of
                      None \<Rightarrow> Inl (L ''Invalid '' @ [92] @ L ''escape'', s)
                    | Some v \<Rightarrow> (case json_string start u of Inl e \<Rightarrow> Inl e | Inr (x, r) \<Rightarrow> Inr (v # x, r)))
                 else if length u \<le> 4 then Inl (L ''Invalid '' @ [92] @ L ''uXXXX escape'', t)
                 else
                   (case hex4_val u of
                      None \<Rightarrow> Inl (L ''Invalid '' @ [92] @ L ''uXXXX escape'', t)
                    | Some v \<Rightarrow>
                        let w = drop 4 u in
                        if 0xd800 \<le> v \<and> v < 0xdc00 \<and> length w > 6 \<and> take 2 w = [92, 117] then
                          (case hex4_val (drop 2 w) of
                             None \<Rightarrow> Inl (L ''Invalid '' @ [92] @ L ''uXXXX escape'', drop 1 w)
                           | Some v2 \<Rightarrow>
                               if 0xdc00 \<le> v2 \<and> v2 < 0xe000
                               then (case json_string start (drop 6 w) of Inl e \<Rightarrow> Inl e
                                     | Inr (x, r) \<Rightarrow> Inr ((65536 + (v - 0xd800) * 1024 + (v2 - 0xdc00)) # x, r))
                               else (case json_string start w of Inl e \<Rightarrow> Inl e | Inr (x, r) \<Rightarrow> Inr (v # x, r)))
                        else (case json_string start w of Inl e \<Rightarrow> Inl e | Inr (x, r) \<Rightarrow> Inr (v # x, r)))))"
  by pat_completeness auto
termination
  by (relation "measure (length \<circ> snd)") auto

declare json_string.simps [simp del]

definition digits_int :: "pystr \<Rightarrow> int" where
  "digits_int ds = foldl (\<lambda>n c. 10 * n + (c - 48)) 0 ds"

text \<open>The longest number at the front of the text: the digits of the fraction, the sign and the
  digits of the exponent, where they are present.\<close>

definition json_frac :: "pystr \<Rightarrow> pystr" where
  "json_frac s = (if s \<noteq> [] \<and> hd s = 46 then takeWhile ascii_digit (tl s) else [])"

definition json_exp :: "pystr \<Rightarrow> pystr \<times> pystr" where
  "json_exp s =
     (if s \<noteq> [] \<and> (hd s = 101 \<or> hd s = 69) then
        let t = tl s; sgn = (if t \<noteq> [] \<and> (hd t = 43 \<or> hd t = 45) then [hd t] else [])
        in (sgn, takeWhile ascii_digit (drop (length sgn) t))
      else ([], []))"

definition json_unsigned :: "bool \<Rightarrow> pystr \<Rightarrow> pystr \<Rightarrow> pyval jparse" where
  "json_unsigned neg ip s2 =
     (let frac = json_frac s2;
          s3 = (if frac = [] then s2 else drop (Suc (length frac)) s2);
          (sgn, ex) = json_exp s3;
          s4 = (if ex = [] then s3 else drop (Suc (length sgn) + length ex) s3)
      in if frac = [] \<and> ex = [] then Inr (PInt (if neg then - digits_int ip else digits_int ip), s2)
         else let e10 = (if ex = [] then 0 else if sgn = [45] then - digits_int ex else digits_int ex) - int (length frac)
              in case shortest_decimal (digits_int (ip @ frac)) e10 of
                   (m, e) \<Rightarrow> Inr (PFloat (if neg then - m else m) e, s4))"

definition json_number :: "pystr \<Rightarrow> pyval jparse" where
  "json_number s =
     (let neg = (s \<noteq> [] \<and> hd s = 45);
          s1 = (if neg then tl s else s);
          ds = takeWhile ascii_digit s1;
          ip = (if ds \<noteq> [] \<and> hd ds = 48 then [48] else ds)
      in if ip = [] then Inl (L ''Expecting value'', s)
         else json_unsigned neg ip (drop (length ip) s1))"

text \<open>
  Values, the items of a list and the members of an object.  The first argument bounds the number
  of nested calls; every call consumes a character, so the length of the text is enough.
\<close>

fun json_value :: "nat \<Rightarrow> pystr \<Rightarrow> pyval jparse"
  and json_items :: "nat \<Rightarrow> pyval list \<Rightarrow> pystr \<Rightarrow> pyval jparse"
  and json_members :: "nat \<Rightarrow> (pystr \<times> pyval) list \<Rightarrow> pystr \<Rightarrow> pyval jparse" where
  "json_value 0 s = Inl (L ''Expecting value'', s)"
| "json_value (Suc n) s =
     (case s of
        [] \<Rightarrow> Inl (L ''Expecting value'', s)
      | c # t \<Rightarrow>
          if c = 34 then (case json_string s t of Inl e \<Rightarrow> Inl e | Inr (x, r) \<Rightarrow> Inr (PStr x, r))
          else if c = 123 then
            (let t' = json_ws t in if t' \<noteq> [] \<and> hd t' = 125 then Inr (PDict [], tl t') else json_members n [] t')
          else if c = 91 then
            (let t' = json_ws t in if t' \<noteq> [] \<and> hd t' = 93 then Inr (PList [], tl t') else json_items n [] t')
          else if py_startswith s (L ''null'') then Inr (PNone, drop 4 s)
          else if py_startswith s (L ''true'') then Inr (PBool True, drop 4 s)
          else if py_startswith s (L ''false'') then Inr (PBool False, drop 5 s)
          else json_number s)"
| "json_items 0 acc s = Inl (L ''Expecting value'', s)"
| "json_items (Suc n) acc s =
     (case json_value n s of
        Inl e \<Rightarrow> Inl e
      | Inr (v, r) \<Rightarrow>
          (let r' = json_ws r in
           if r' \<noteq> [] \<and> hd r' = 93 then Inr (PList (acc @ [v]), tl r')
           else if r' \<noteq> [] \<and> hd r' = 44 then json_items n (acc @ [v]) (json_ws (tl r'))
           else Inl (L ''Expecting ',' delimiter'', r')))"
| "json_members 0 acc s = Inl (L ''Expecting value'', s)"
| "json_members (Suc n) acc s =
     (if s = [] \<or> hd s \<noteq> 34 then Inl (L ''Expecting property name enclosed in double quotes'', s)
      else case json_string s (tl s) of
        Inl e \<Rightarrow> Inl e
      | Inr (k, r) \<Rightarrow>
          (let r1 = json_ws r in
           if r1 = [] \<or> hd r1 \<noteq> 58 then Inl (L ''Expecting ':' delimiter'', r1)
           else case json_value n (json_ws (tl r1)) of
             Inl e \<Rightarrow> Inl e
           | Inr (v, r2) \<Rightarrow>
               (let r3 = json_ws r2 in
                if r3 \<noteq> [] \<and> hd r3 = 125 then Inr (PDict (dict_set k v acc), tl r3)
                else if r3 \<noteq> [] \<and> hd r3 = 44 then json_members n (dict_set k v acc) (json_ws (tl r3))
                else Inl (L ''Expecting ',' delimiter'', r3))))"

text \<open>\<^verbatim>\<open>JSONDecodeError\<close>: line and column of the position.\<close>

definition json_error :: "pystr \<Rightarrow> pystr \<Rightarrow> pystr \<Rightarrow> pyexc" where
  "json_error msg doc rest =
     (let pos = length doc - length rest; head = take pos doc;
          line = 1 + length (filter (\<lambda>c. c = 10) head);
          col = 1 + length (takeWhile (\<lambda>c. c \<noteq> 10) (rev head))
      in Exc JSONDecodeError (msg @ L '': line '' @ int_str (int line) @ L '' column '' @ int_str (int col)
           @ L '' (char '' @ int_str (int pos) @ L '')''))"

definition json_loads :: "pystr \<Rightarrow> pyval result" where
  "json_loads s =
     (if s \<noteq> [] \<and> hd s = 0xfeff then Inl (json_error (L ''Unexpected UTF-8 BOM (decode using utf-8-sig)'') s s)
      else case json_value (Suc (length s)) (json_ws s) of
        Inl (msg, rest) \<Rightarrow> Inl (json_error msg s rest)
      | Inr (v, r) \<Rightarrow> if json_ws r = [] then Inr v else Inl (json_error (L ''Extra data'') s (json_ws r)))"


section \<open>Loading what was printed\<close>

text \<open>The values for which the text can be read back: code points in range (and no lone surrogates
  when they are escaped), distinct keys, no floats.\<close>

definition code_ok :: "bool \<Rightarrow> int \<Rightarrow> bool" where
  "code_ok a c \<longleftrightarrow> 0 \<le> c \<and> c < 0x110000 \<and> (a \<longrightarrow> \<not> (0xd800 \<le> c \<and> c < 0xe000))"

fun json_ok :: "bool \<Rightarrow> pyval \<Rightarrow> bool" where
  "json_ok a (PStr s) = list_all (code_ok a) s"
| "json_ok a (PList xs) = list_all (json_ok a) xs"
| "json_ok a (PDict kvs) = (distinct (map fst kvs) \<and> list_all (\<lambda>(k, v). list_all (code_ok a) k \<and> json_ok a v) kvs)"
| "json_ok a (PFloat m e) = False"
| "json_ok a v = True"

lemma hex_val_digit: "0 \<le> d \<Longrightarrow> d < 16 \<Longrightarrow> hex_val (hex_digit d) = Some d"
  by (auto simp: hex_val_def hex_digit_def)

lemma hex4_val_digits:
  "0 \<le> a \<Longrightarrow> a < 16 \<Longrightarrow> 0 \<le> b \<Longrightarrow> b < 16 \<Longrightarrow> 0 \<le> d \<Longrightarrow> d < 16 \<Longrightarrow> 0 \<le> e \<Longrightarrow> e < 16 \<Longrightarrow>
    hex4_val ([hex_digit a, hex_digit b, hex_digit d, hex_digit e] @ r) = Some (4096 * a + 256 * b + 16 * d + e)"
  by (simp add: hex_val_digit)

lemma hex4_value:
  assumes "0 \<le> c" "c < 65536"
  shows "hex4_val ([hex_digit (c div 4096 mod 16), hex_digit (c div 256 mod 16), hex_digit (c div 16 mod 16), hex_digit (c mod 16)] @ r) = Some c"
proof -
  have "4096 * (c div 4096 mod 16) + 256 * (c div 256 mod 16) + 16 * (c div 16 mod 16) + c mod 16 = c"
  proof -
    define q1 q2 q3 where "q1 = c div 16" and "q2 = q1 div 16" and "q3 = q2 div 16"
    define d0 d1 d2 where "d0 = c mod 16" and "d1 = q1 mod 16" and "d2 = q2 mod 16"
    have q: "c div 256 = q2" "c div 4096 = q3"
      by (simp_all add: q1_def q2_def q3_def zdiv_zmult2_eq[symmetric])
    have c: "c = 16 * q1 + d0" by (simp add: q1_def d0_def)
    have q1: "q1 = 16 * q2 + d1" by (simp add: q2_def d1_def)
    have q2: "q2 = 16 * q3 + d2" by (simp add: q3_def d2_def)
    have "0 \<le> q3" "q3 < 16" using assms unfolding q(2)[symmetric] by auto
    then have q3: "q3 mod 16 = q3" by simp
    have "4096 * q3 + 256 * d2 + 16 * d1 + d0 = c" using c q1 q2 by linarith
    then show ?thesis unfolding q q1_def[symmetric] q3 d0_def[symmetric] d1_def[symmetric] d2_def[symmetric] .
  qed
  moreover have "hex4_val ([hex_digit (c div 4096 mod 16), hex_digit (c div 256 mod 16), hex_digit (c div 16 mod 16), hex_digit (c mod 16)] @ r)
    = Some (4096 * (c div 4096 mod 16) + 256 * (c div 256 mod 16) + 16 * (c div 16 mod 16) + c mod 16)"
    by (rule hex4_val_digits) simp_all
  ultimately show ?thesis by (simp only:)
qed

text \<open>The four digits after the two characters that open an escape.\<close>

definition hex4_digits :: "int \<Rightarrow> pystr" where
  "hex4_digits c = [hex_digit (c div 4096 mod 16), hex_digit (c div 256 mod 16), hex_digit (c div 16 mod 16), hex_digit (c mod 16)]"

lemma hex4_split: "hex4 c = 92 # 117 # hex4_digits c"
  by (simp add: hex4_def hex4_digits_def)

lemma length_hex4_digits: "length (hex4_digits c) = 4"
  by (simp add: hex4_digits_def)

lemma json_string_escape:
  assumes "hex4_val (ds @ r) = Some c" "length ds = 4" "\<not> (0xd800 \<le> c \<and> c < 0xe000)" "r \<noteq> []"
  shows "json_string start (92 # 117 # ds @ r) = (case json_string start r of Inl e \<Rightarrow> Inl e | Inr (x, t) \<Rightarrow> Inr (c # x, t))"
proof -
  have "\<not> (0xd800 \<le> c \<and> c < 0xdc00)" using assms(3) by linarith
  with assms show ?thesis by (subst json_string.simps) (auto simp: Let_def)
qed

lemma json_string_escapes:
  assumes "hex4_val (ds @ 92 # 117 # ds' @ r) = Some h" "length ds = 4" "0xd800 \<le> h \<and> h < 0xdc00" "r \<noteq> []"
    and "hex4_val (ds' @ r) = Some l" "length ds' = 4" "0xdc00 \<le> l \<and> l < 0xe000"
  shows "json_string start (92 # 117 # ds @ 92 # 117 # ds' @ r) =
    (case json_string start r of Inl e \<Rightarrow> Inl e | Inr (x, t) \<Rightarrow> Inr ((65536 + (h - 0xd800) * 1024 + (l - 0xdc00)) # x, t))"
  using assms by (subst json_string.simps) (simp add: Let_def)

lemma json_string_hex4:
  assumes "0 \<le> c" "c < 65536" "\<not> (0xd800 \<le> c \<and> c < 0xe000)" "r \<noteq> []"
  shows "json_string start (hex4 c @ r) = (case json_string start r of Inl e \<Rightarrow> Inl e | Inr (x, t) \<Rightarrow> Inr (c # x, t))"
  unfolding hex4_split append.simps
  by (rule json_string_escape[OF hex4_value[OF assms(1,2), folded hex4_digits_def] length_hex4_digits assms(3,4)])

lemma json_string_pair:
  assumes "65536 \<le> c" "c < 0x110000" "r \<noteq> []"
  shows "json_string start (hex4 (0xd800 + (c - 65536) div 1024 mod 1024) @ hex4 (0xdc00 + (c - 65536) mod 1024) @ r) =
    (case json_string start r of Inl e \<Rightarrow> Inl e | Inr (x, t) \<Rightarrow> Inr (c # x, t))"
proof -
  define h where "h = 0xd800 + (c - 65536) div 1024 mod 1024"
  define l where "l = 0xdc00 + (c - 65536) mod 1024"
  have h: "0xd800 \<le> h \<and> h < 0xdc00" and l: "0xdc00 \<le> l \<and> l < 0xe000" by (simp_all add: h_def l_def)
  have c: "65536 + (h - 0xd800) * 1024 + (l - 0xdc00) = c"
  proof -
    define q m where "q = (c - 65536) div 1024" and "m = (c - 65536) mod 1024"
    have "q < 1024" "0 \<le> q" using assms(1,2) by (auto simp: q_def)
    then have q: "q mod 1024 = q" by simp
    have "c - 65536 = 1024 * q + m" by (simp add: q_def m_def)
    then show ?thesis unfolding h_def l_def q_def[symmetric] m_def[symmetric] q by simp
  qed
  have "hex4_val (hex4_digits h @ w) = Some h" "hex4_val (hex4_digits l @ w) = Some l" for w
    unfolding hex4_digits_def using h l by (intro hex4_value; linarith)+
  from json_string_escapes[OF this(1) length_hex4_digits h assms(3) this(2) length_hex4_digits l, of start]
  show ?thesis unfolding h_def[symmetric] l_def[symmetric] hex4_split append.simps c .
qed

lemma json_string_char:
  assumes "code_ok a c" and "r \<noteq> []"
  shows "json_string start (json_char a c @ r) = (case json_string start r of Inl e \<Rightarrow> Inl e | Inr (x, t) \<Rightarrow> Inr (c # x, t))"
proof -
  consider (esc) "c \<in> {34, 92, 10, 13, 9, 12, 8}" | (ctrl) "c \<notin> {34, 92, 10, 13, 9, 12, 8}" "c < 32"
    | (pair) "c \<ge> 32" "a" "c > 65535" | (uni) "c \<ge> 32" "a" "c > 126" "c \<le> 65535" | (plain) "c \<ge> 32" "c \<noteq> 34" "c \<noteq> 92" "a \<longrightarrow> c \<le> 126"
    by force
  then show ?thesis
  proof cases
    case esc
    then show ?thesis by (subst json_string.simps) (auto simp: json_char_def simple_escape_def)
  next
    case ctrl
    then show ?thesis using assms json_string_hex4[of c r start] by (simp add: json_char_def code_ok_def)
  next
    case pair
    then show ?thesis using assms json_string_pair[of c r start] by (simp add: json_char_def code_ok_def)
  next
    case uni
    then show ?thesis using assms json_string_hex4[of c r start] by (auto simp: json_char_def code_ok_def)
  next
    case plain
    then show ?thesis by (subst json_string.simps) (auto simp: json_char_def)
  qed
qed

lemma json_string_body:
  "list_all (code_ok a) s \<Longrightarrow> json_string start (concat (map (json_char a) s) @ 34 # r) = Inr (s, r)"
proof (induction s)
  case Nil
  then show ?case by (subst json_string.simps) simp
next
  case (Cons c s)
  then show ?case using json_string_char[of a c "concat (map (json_char a) s) @ 34 # r" start] by simp
qed

text \<open>A text that does not continue a number.\<close>

definition num_stop :: "pystr \<Rightarrow> bool" where
  "num_stop r \<longleftrightarrow> r = [] \<or> \<not> ascii_digit (hd r) \<and> hd r \<noteq> 46 \<and> hd r \<noteq> 101 \<and> hd r \<noteq> 69"

lemma foldl_digits_dec_str: "0 \<le> n \<Longrightarrow> digits_int (dec_str n) = n"
proof (induction n rule: dec_str.induct)
  case (1 n)
  show ?case
  proof (cases "n < 10")
    case True
    then show ?thesis using "1.prems" by (subst dec_str.simps) (simp add: digits_int_def)
  next
    case False
    then have "digits_int (dec_str (n div 10)) = n div 10" using "1.IH" "1.prems" by simp
    then show ?thesis using False by (subst dec_str.simps) (simp add: digits_int_def)
  qed
qed

lemma hd_dec_str: "0 < n \<Longrightarrow> hd (dec_str n) \<noteq> 48"
proof (induction n rule: dec_str.induct)
  case (1 n)
  show ?case
  proof (cases "n < 10")
    case True
    then show ?thesis using "1.prems" by (subst dec_str.simps) simp
  next
    case False
    then show ?thesis using 1 by (subst dec_str.simps) simp
  qed
qed

lemma takeWhile_digits:
  assumes "0 \<le> n" and "num_stop r"
  shows "takeWhile ascii_digit (dec_str n @ r) = dec_str n"
proof -
  have "\<forall>c \<in> set (dec_str n). ascii_digit c" using dec_str_digits[OF assms(1)] by (auto simp: ascii_digit_def)
  then have "takeWhile ascii_digit (dec_str n @ r) = dec_str n @ takeWhile ascii_digit r"
    by (simp add: takeWhile_append)
  moreover have "takeWhile ascii_digit r = []" using assms(2) by (cases r) (auto simp: num_stop_def)
  ultimately show ?thesis by simp
qed

lemma int_part_dec_str:
  assumes "0 \<le> n"
  shows "(if dec_str n \<noteq> [] \<and> hd (dec_str n) = 48 then [48] else dec_str n) = dec_str n"
proof (cases "n = 0")
  case True
  then show ?thesis by (simp add: dec_str.simps)
next
  case False
  then show ?thesis using assms hd_dec_str[of n] by simp
qed

lemma hd_dec_str_digit: "0 \<le> n \<Longrightarrow> ascii_digit (hd (dec_str n))"
  using dec_str_digits[of n "hd (dec_str n)"] by (auto simp: ascii_digit_def)

lemma json_unsigned_int:
  assumes "num_stop r"
  shows "json_unsigned neg ip r = Inr (PInt (if neg then - digits_int ip else digits_int ip), r)"
proof -
  have "json_frac r = []" "json_exp r = ([], [])" using assms by (auto simp: num_stop_def json_frac_def json_exp_def)
  then show ?thesis by (simp add: json_unsigned_def)
qed

lemma json_number_dec:
  assumes "0 \<le> n" and "num_stop r"
  shows "json_number (45 # dec_str n @ r) = Inr (PInt (- n), r)" "json_number (dec_str n @ r) = Inr (PInt n, r)"
proof -
  note facts = int_part_dec_str[OF assms(1)] takeWhile_digits[OF assms] foldl_digits_dec_str[OF assms(1)]
    json_unsigned_int[OF assms(2)]
  have z: "dec_str n = [48]" if "hd (dec_str n) = 48" using facts(1) that by simp
  show "json_number (45 # dec_str n @ r) = Inr (PInt (- n), r)"
    unfolding json_number_def Let_def using facts z by auto
  have "hd (dec_str n) \<noteq> 45" using hd_dec_str_digit[OF assms(1)] by (auto simp: ascii_digit_def)
  then show "json_number (dec_str n @ r) = Inr (PInt n, r)"
    unfolding json_number_def Let_def using facts z by auto
qed

lemma json_number_int: "num_stop r \<Longrightarrow> json_number (int_str i @ r) = Inr (PInt i, r)"
  using json_number_dec[of "- i" r] json_number_dec[of i r] by (simp add: int_str_def)

section \<open>The round trip\<close>

text \<open>The first character of the text of a value.\<close>

definition value_start :: "int \<Rightarrow> bool" where
  "value_start c \<longleftrightarrow> c \<in> {34, 45, 91, 123, 110, 116, 102} \<or> ascii_digit c"

lemma json_ws_start: "value_start c \<Longrightarrow> json_ws (c # s) = c # s"
  by (auto simp: json_ws_def value_start_def ascii_digit_def)

lemma json_enc_start: "json_ok a v \<Longrightarrow> \<exists>c t. json_enc a ind lvl v = c # t \<and> value_start c"
proof (cases v)
  case (PInt i)
  have "\<exists>c t. int_str i = c # t \<and> value_start c"
  proof (cases "i < 0")
    case False
    then show ?thesis using hd_dec_str_digit[of i] by (cases "dec_str i") (auto simp: int_str_def value_start_def)
  qed (simp add: int_str_def value_start_def)
  with PInt show ?thesis by simp
qed (auto simp: value_start_def json_str_def L_def)

lemma json_ws_enc: "json_ok a v \<Longrightarrow> json_ws (json_enc a ind lvl v @ r) = json_enc a ind lvl v @ r"
  using json_enc_start[of a v ind lvl] json_ws_start by fastforce

lemma json_ws_nl: "json_ws (json_nl ind lvl @ s) = json_ws s"
proof -
  have "dropWhile P (replicate k x @ s) = dropWhile P s" if "P x" for P k and x :: int
    using that by (induction k) auto
  then show ?thesis by (auto simp: json_nl_def json_ws_def split: option.splits)
qed

lemma json_sep_eq: "json_sep ind lvl = 44 # (case ind of None \<Rightarrow> [32] | Some n \<Rightarrow> json_nl ind lvl)"
  by (auto simp: json_sep_def L_def split: option.splits)

lemma json_ws_sep: "json_ws (json_sep ind lvl @ s) = 44 # (case ind of None \<Rightarrow> 32 # s | Some n \<Rightarrow> json_nl ind lvl @ s)"
  by (auto simp: json_sep_eq json_ws_def split: option.splits)

lemma json_ws_sep_tl: "json_ws (tl (json_ws (json_sep ind lvl @ s))) = json_ws s"
  unfolding json_ws_sep by (cases ind) (auto simp: json_ws_nl, simp add: json_ws_def)

lemma num_stop_close: "c = 93 \<or> c = 125 \<Longrightarrow> num_stop (json_nl ind lvl @ c # r)"
  by (auto simp: num_stop_def json_nl_def ascii_digit_def split: option.splits)

lemma num_stop_sep: "num_stop (json_sep ind lvl @ r)"
  by (auto simp: num_stop_def json_sep_eq ascii_digit_def)

lemma json_ws_close: "c = 93 \<or> c = 125 \<Longrightarrow> json_ws (json_nl ind lvl @ c # r) = c # r"
  unfolding json_ws_nl by (auto simp: json_ws_def)

text \<open>What the parser of values must do for the parsers of items and members to work.\<close>

definition reads_back :: "bool \<Rightarrow> nat option \<Rightarrow> nat \<Rightarrow> pyval \<Rightarrow> bool" where
  "reads_back a ind lvl v \<longleftrightarrow> (\<forall>n r. length (json_enc a ind lvl v) \<le> n \<longrightarrow> num_stop r \<longrightarrow>
     json_value n (json_enc a ind lvl v @ r) = Inr (v, r))"

lemma json_items_enc:
  assumes "xs \<noteq> []" and "\<forall>x \<in> set xs. json_ok a x \<and> reads_back a ind lvl x"
    and "length (py_join (json_sep ind lvl) (map (json_enc a ind lvl) xs)) < n"
  shows "json_items n acc (py_join (json_sep ind lvl) (map (json_enc a ind lvl) xs) @ json_nl ind l2 @ 93 # r)
    = Inr (PList (acc @ xs), r)"
  using assms
proof (induction xs arbitrary: n acc)
  case (Cons x xs)
  obtain m where n: "n = Suc m" using Cons.prems(3) by (cases n) auto
  have x: "json_ok a x" "reads_back a ind lvl x" using Cons.prems(2) by auto
  show ?case
  proof (cases "xs = []")
    case True
    then have "json_value m (json_enc a ind lvl x @ json_nl ind l2 @ 93 # r) = Inr (x, json_nl ind l2 @ 93 # r)"
      using x(2) Cons.prems(3) n num_stop_close[of 93] by (simp add: reads_back_def)
    then show ?thesis using True n by (simp add: json_ws_close)
  next
    case False
    let ?rest = "py_join (json_sep ind lvl) (map (json_enc a ind lvl) xs) @ json_nl ind l2 @ 93 # r"
    have split: "py_join (json_sep ind lvl) (map (json_enc a ind lvl) (x # xs)) @ json_nl ind l2 @ 93 # r
        = json_enc a ind lvl x @ json_sep ind lvl @ ?rest"
      using False by (simp add: py_join_Cons)
    have len: "length (json_enc a ind lvl x) \<le> m" "length (py_join (json_sep ind lvl) (map (json_enc a ind lvl) xs)) < m"
      using Cons.prems(3) n False by (auto simp: py_join_Cons json_sep_eq)
    have "json_value m (json_enc a ind lvl x @ json_sep ind lvl @ ?rest) = Inr (x, json_sep ind lvl @ ?rest)"
      using x(2) len(1) num_stop_sep by (simp add: reads_back_def)
    moreover obtain y ys where xs: "xs = y # ys" using False by (cases xs) auto
    have "json_ws ?rest = ?rest" using Cons.prems(2) xs json_ws_enc[of a y ind lvl]
      by (cases "ys = []") (auto simp: py_join_Cons)
    moreover have "json_ws (tl (json_ws (json_sep ind lvl @ ?rest))) = json_ws ?rest"
      by (rule json_ws_sep_tl)
    ultimately show ?thesis unfolding split n
      using Cons.IH[OF False _ len(2), of "acc @ [x]"] Cons.prems(2) by (simp add: json_ws_sep)
  qed
qed simp

lemma json_members_enc:
  assumes "kvs \<noteq> []" and "\<forall>(k, v) \<in> set kvs. list_all (code_ok a) k \<and> json_ok a v \<and> reads_back a ind lvl v"
    and "distinct (map fst (acc @ kvs))"
    and "length (py_join (json_sep ind lvl) (map (\<lambda>(k, v). json_str a k @ L '': '' @ json_enc a ind lvl v) kvs)) < n"
  shows "json_members n acc (py_join (json_sep ind lvl) (map (\<lambda>(k, v). json_str a k @ L '': '' @ json_enc a ind lvl v) kvs)
      @ json_nl ind l2 @ 125 # r) = Inr (PDict (acc @ kvs), r)"
  using assms
proof (induction kvs arbitrary: n acc)
  case (Cons kv kvs)
  obtain k v where kv: "kv = (k, v)" by (cases kv)
  obtain m where n: "n = Suc m" using Cons.prems(4) by (cases n) auto
  have x: "list_all (code_ok a) k" "json_ok a v" "reads_back a ind lvl v" using Cons.prems(2) kv by auto
  have key: "dict_set k v acc = acc @ [(k, v)]"
    using Cons.prems(3) kv by (intro dict_set_fresh) auto
  let ?tail = "\<lambda>t. L '': '' @ json_enc a ind lvl v @ t"
  have str: "json_string start (tl (json_str a k) @ ?tail t) = Inr (k, ?tail t)" for start t
    using json_string_body[OF x(1)] by (simp add: json_str_def)
  have colon: "json_ws (?tail t) = ?tail t" "json_ws (tl (?tail t)) = json_enc a ind lvl v @ t" for t
    using json_ws_enc[OF x(2), of ind lvl t] by (simp_all add: L_def json_ws_def)
  have hd_tail: "?tail t \<noteq> []" "hd (?tail t) = 58" for t by (simp_all add: L_def)
  have hd_str: "json_str a k \<noteq> []" "hd (json_str a k) = 34" by (simp_all add: json_str_def)
  have step: "json_members n acc (json_str a k @ ?tail t) =
     (case json_value m (json_enc a ind lvl v @ t) of Inl e \<Rightarrow> Inl e
      | Inr (w, r2) \<Rightarrow>
          (let r3 = json_ws r2 in
           if r3 \<noteq> [] \<and> hd r3 = 125 then Inr (PDict (dict_set k w acc), tl r3)
           else if r3 \<noteq> [] \<and> hd r3 = 44 then json_members m (dict_set k w acc) (json_ws (tl r3))
           else Inl (L ''Expecting ',' delimiter'', r3)))" for t
    unfolding n json_members.simps using hd_str str colon hd_tail
    by (simp add: Let_def)
  show ?case
  proof (cases "kvs = []")
    case True
    then have "json_value m (json_enc a ind lvl v @ json_nl ind l2 @ 125 # r) = Inr (v, json_nl ind l2 @ 125 # r)"
      using x(3) Cons.prems(4) n kv num_stop_close[of 125] by (simp add: reads_back_def)
    then show ?thesis using True step[of "json_nl ind l2 @ 125 # r"] kv key by (simp add: json_ws_close)
  next
    case False
    let ?enc = "\<lambda>(k, v). json_str a k @ L '': '' @ json_enc a ind lvl v"
    let ?rest = "py_join (json_sep ind lvl) (map ?enc kvs) @ json_nl ind l2 @ 125 # r"
    have split: "py_join (json_sep ind lvl) (map ?enc (kv # kvs)) @ json_nl ind l2 @ 125 # r
        = json_str a k @ ?tail (json_sep ind lvl @ ?rest)"
      using False kv by (simp add: py_join_Cons)
    have len: "length (json_enc a ind lvl v) \<le> m" "length (py_join (json_sep ind lvl) (map ?enc kvs)) < m"
      using Cons.prems(4) n False kv by (auto simp: py_join_Cons json_sep_eq)
    have "json_value m (json_enc a ind lvl v @ json_sep ind lvl @ ?rest) = Inr (v, json_sep ind lvl @ ?rest)"
      using x(3) len(1) num_stop_sep by (simp add: reads_back_def)
    moreover obtain y ys where xs: "kvs = y # ys" using False by (cases kvs) auto
    have "json_ws ?rest = ?rest" using xs
      by (cases y; cases "ys = []") (auto simp: py_join_Cons json_str_def json_ws_def)
    moreover have "json_ws (tl (json_ws (json_sep ind lvl @ ?rest))) = json_ws ?rest" by (rule json_ws_sep_tl)
    moreover have "json_members m (acc @ [(k, v)]) ?rest = Inr (PDict ((acc @ [(k, v)]) @ kvs), r)"
      using Cons.IH[OF False _ _ len(2), of "acc @ [(k, v)]"] Cons.prems(2,3) kv by simp
    ultimately show ?thesis unfolding split step using kv key by (simp add: json_ws_sep)
  qed
qed simp

lemma json_value_keyword:
  "json_value (Suc n) (L ''null'' @ r) = Inr (PNone, r)"
  "json_value (Suc n) (L ''true'' @ r) = Inr (PBool True, r)"
  "json_value (Suc n) (L ''false'' @ r) = Inr (PBool False, r)"
  by (simp_all add: L_def py_startswith_def)

lemma json_value_int:
  assumes "num_stop r"
  shows "json_value (Suc n) (int_str i @ r) = Inr (PInt i, r)"
proof -
  obtain c t where c: "int_str i = c # t" "c = 45 \<or> ascii_digit c"
    using hd_dec_str_digit[of i] by (cases "i < 0"; cases "dec_str i") (auto simp: int_str_def)
  then have "json_value (Suc n) (int_str i @ r) = json_number (int_str i @ r)"
    by (auto simp: py_startswith_def L_def ascii_digit_def)
  with json_number_int[OF assms] show ?thesis by simp
qed

lemma json_value_str: "list_all (code_ok a) s \<Longrightarrow> json_value (Suc n) (json_str a s @ r) = Inr (PStr s, r)"
  by (simp add: json_str_def json_string_body)

lemma json_reads_back: "json_ok a v \<Longrightarrow> reads_back a ind lvl v"
proof (induction v arbitrary: lvl)
  case (PList xs)
  show ?case unfolding reads_back_def
  proof (intro allI impI)
    fix n r assume n: "length (json_enc a ind lvl (PList xs)) \<le> n" and r: "num_stop r"
    show "json_value n (json_enc a ind lvl (PList xs) @ r) = Inr (PList xs, r)"
    proof (cases "xs = []")
      case True
      then show ?thesis using n by (cases n) (auto simp: L_def json_ws_def)
    next
      case False
      then obtain m where m: "n = Suc m" using n by (cases n) auto
      let ?t = "py_join (json_sep ind (Suc lvl)) (map (json_enc a ind (Suc lvl)) xs) @ json_nl ind lvl @ 93 # r"
      have ok: "\<forall>x \<in> set xs. json_ok a x \<and> reads_back a ind (Suc lvl) x"
        using PList by (auto simp: list_all_iff)
      obtain y ys where y: "xs = y # ys" using False by (cases xs) auto
      obtain c t where c: "json_enc a ind (Suc lvl) y = c # t" "value_start c"
        using json_enc_start[of a y ind "Suc lvl"] ok y by auto
      then have "\<exists>u. ?t = c # u" using y by (cases "ys = []") (auto simp: py_join_Cons)
      then have w: "json_ws ?t = ?t" "?t \<noteq> []" "hd ?t \<noteq> 93"
        using json_ws_start[OF c(2)] c(2) by (auto simp: value_start_def ascii_digit_def)
      have "json_items m [] ?t = Inr (PList ([] @ xs), r)"
        using json_items_enc[OF False ok] n m False by simp
      then show ?thesis using False m w by (simp add: json_ws_nl Let_def)
    qed
  qed
next
  case (PDict kvs)
  show ?case unfolding reads_back_def
  proof (intro allI impI)
    fix n r assume n: "length (json_enc a ind lvl (PDict kvs)) \<le> n" and r: "num_stop r"
    show "json_value n (json_enc a ind lvl (PDict kvs) @ r) = Inr (PDict kvs, r)"
    proof (cases "kvs = []")
      case True
      then show ?thesis using n by (cases n) (auto simp: L_def json_ws_def)
    next
      case False
      then obtain m where m: "n = Suc m" using n by (cases n) auto
      let ?t = "py_join (json_sep ind (Suc lvl)) (map (\<lambda>(k, v). json_str a k @ L '': '' @ json_enc a ind (Suc lvl) v) kvs) @ json_nl ind lvl @ 125 # r"
      have ok: "\<forall>(k, v) \<in> set kvs. list_all (code_ok a) k \<and> json_ok a v \<and> reads_back a ind (Suc lvl) v"
        using PDict by (fastforce simp: list_all_iff)
      obtain y ys where y: "kvs = y # ys" using False by (cases kvs) auto
      have "\<exists>u. ?t = 34 # u" using y by (cases y; cases "ys = []") (auto simp: py_join_Cons json_str_def)
      then have w: "json_ws ?t = ?t" "?t \<noteq> []" "hd ?t \<noteq> 125" by (auto simp: json_ws_def)
      have "json_members m [] ?t = Inr (PDict ([] @ kvs), r)"
        using json_members_enc[OF False ok, of "[]"] PDict.prems n m False by simp
      then show ?thesis using False m w by (simp add: json_ws_nl Let_def)
    qed
  qed
next
  case (PStr s)
  have "json_str a s \<noteq> []" by (simp add: json_str_def)
  with json_value_str[of a s] PStr show ?case unfolding reads_back_def json_enc.simps json_ok.simps
    by (metis Suc_le_D le_zero_eq length_0_conv not0_implies_Suc)
next
  case (PInt i)
  have "int_str i \<noteq> []" by (simp add: int_str_def)
  then show ?case unfolding reads_back_def json_enc.simps
    by (metis json_value_int Suc_le_D le_zero_eq length_0_conv not0_implies_Suc)
qed (auto simp: reads_back_def json_value_keyword simp del: json_value.simps dest!: Suc_le_D)

lemma json_roundtrip_enc:
  assumes "json_ok a v"
  shows "json_loads (json_enc a ind 0 v) = Inr v"
proof -
  let ?s = "json_enc a ind 0 v"
  obtain c t where c: "?s = c # t" "value_start c" using json_enc_start[OF assms] by blast
  then have "hd ?s \<noteq> 0xfeff" by (auto simp: value_start_def ascii_digit_def)
  moreover have "json_value (Suc (length ?s)) (?s @ []) = Inr (v, [])"
    using json_reads_back[OF assms, of ind 0] by (simp add: reads_back_def num_stop_def del: json_value.simps)
  ultimately show ?thesis using json_ws_enc[OF assms, of ind 0 "[]"]
    by (simp add: json_loads_def json_ws_def del: json_value.simps)
qed

text \<open>Round trip of JSON text: what \<^verbatim>\<open>json.dumps\<close> prints, with or without ASCII escapes and
  with any indentation, \<^verbatim>\<open>json.loads\<close> reads back as the same value; for every value without
  floats whose dictionaries have distinct keys and whose text holds Unicode code points (no lone
  surrogates when they are escaped).\<close>

theorem json_loads_dumps:
  assumes "json_ok ascii v"
  shows "json_loads (json_enc ascii indent 0 v) = Inr v"
  by (rule json_roundtrip_enc[OF assms])

theorem json_loads_dumps_witness:
  "json_loads (json_enc True (Some 2) 0 (PDict [(L ''a'', PList [PInt (- 3), PStr [0x1f600, 10], PNone])])) =
     Inr (PDict [(L ''a'', PList [PInt (- 3), PStr [0x1f600, 10], PNone])])"
  by (rule json_loads_dumps) code_simp

lemma json_error_type: "is_Exception (json_error m d r)"
  by (simp add: json_error_def Let_def is_Exception_def)

lemma tame_json_loads [tame_intros]: "tame_res (json_loads s)"
  unfolding json_loads_def
  by (cases "json_value (Suc (length s)) (json_ws s)")
    (auto simp: tame_res_def json_error_type simp del: json_value.simps split: if_splits)

end
