(* ===== verification/PyTime.thy ===== *)
theory PyTime
  imports PyValue
begin

text \<open>
  The wall clock the sources use (\<^verbatim>\<open>util/time.py\<close>): datetimes in the fixed-offset zone Asia/Tokyo,
  where arithmetic is arithmetic on the wall clock.  A datetime is the number of microseconds
  since 0001-01-01T00:00:00; the calendar fields are computed as CPython's \<^verbatim>\<open>datetime\<close> does
  (\<^verbatim>\<open>_ord2ymd\<close>), and results outside the years 1 to 9999 raise \<^verbatim>\<open>OverflowError\<close>.
\<close>

type_synonym datetime = int

definition second_us :: int where "second_us = 1000000"
definition minute_us :: int where "minute_us = 60000000"
definition hour_us :: int where "hour_us = 3600000000"
definition day_us :: int where "day_us = 86400000000"

definition max_dt :: int where "max_dt = 3652059 * 86400000000"

lemmas us_defs = second_us_def minute_us_def hour_us_def day_us_def

section \<open>Calendar\<close>

definition is_leap :: "int \<Rightarrow> bool" where
  "is_leap y = (y mod 4 = 0 \<and> (y mod 100 \<noteq> 0 \<or> y mod 400 = 0))"

definition days_before_year :: "int \<Rightarrow> int" where
  "days_before_year year = (let y = year - 1 in y * 365 + y div 4 - y div 100 + y div 400)"

definition days_in_month :: "int \<Rightarrow> bool \<Rightarrow> int" where
  "days_in_month m leap =
     (if m = 2 then (if leap then 29 else 28) else if m \<in> {4, 6, 9, 11} then 30 else 31)"

definition days_before_month :: "int \<Rightarrow> bool \<Rightarrow> int" where
  "days_before_month m leap =
     ([0, 0, 31, 59, 90, 120, 151, 181, 212, 243, 273, 304, 334] ! nat m) + (if m > 2 \<and> leap then 1 else 0)"

definition ymd2ord :: "int \<Rightarrow> int \<Rightarrow> int \<Rightarrow> int" where
  "ymd2ord y m d = days_before_year y + days_before_month m (is_leap y) + d"

definition ord2ymd :: "int \<Rightarrow> int \<times> int \<times> int" where
  "ord2ymd ord =
     (let n = ord - 1;
          n400 = n div 146097; n = n mod 146097;
          n100 = n div 36524; n = n mod 36524;
          n4 = n div 1461; n = n mod 1461;
          n1 = n div 365; n = n mod 365;
          year = n400 * 400 + 1 + n100 * 100 + n4 * 4 + n1
      in if n1 = 4 \<or> n100 = 4 then (year - 1, 12, 31)
         else
           let leap = (n1 = 3 \<and> (n4 \<noteq> 24 \<or> n100 = 3));
               m = (n + 50) div 32;
               m' = (if days_before_month m leap > n then m - 1 else m)
           in (year, m', n - days_before_month m' leap + 1))"

section \<open>Fields and arithmetic\<close>

definition dt_ordinal :: "datetime \<Rightarrow> int" where "dt_ordinal t = t div day_us + 1"

definition dt_year :: "datetime \<Rightarrow> int" where "dt_year t = fst (ord2ymd (dt_ordinal t))"
definition dt_month :: "datetime \<Rightarrow> int" where "dt_month t = fst (snd (ord2ymd (dt_ordinal t)))"
definition dt_day :: "datetime \<Rightarrow> int" where "dt_day t = snd (snd (ord2ymd (dt_ordinal t)))"
definition dt_hour :: "datetime \<Rightarrow> int" where "dt_hour t = (t mod day_us) div hour_us"
definition dt_minute :: "datetime \<Rightarrow> int" where "dt_minute t = (t mod hour_us) div minute_us"
definition dt_second :: "datetime \<Rightarrow> int" where "dt_second t = (t mod minute_us) div second_us"

definition dt_isoweekday :: "datetime \<Rightarrow> int" where
  "dt_isoweekday t = (let w = dt_ordinal t mod 7 in if w = 0 then 7 else w)"

definition mk_dt :: "int \<Rightarrow> int \<Rightarrow> int \<Rightarrow> int \<Rightarrow> int \<Rightarrow> int \<Rightarrow> datetime" where
  "mk_dt y mo d h mi s = (ymd2ord y mo d - 1) * day_us + h * hour_us + mi * minute_us + s * second_us"

text \<open>\<^verbatim>\<open>dt.replace(second=0, microsecond=0)\<close>\<close>

definition floor_minute :: "datetime \<Rightarrow> datetime" where
  "floor_minute t = t - t mod minute_us"

text \<open>\<^verbatim>\<open>dt + timedelta\<close>\<close>

definition dt_add :: "datetime \<Rightarrow> int \<Rightarrow> datetime result" where
  "dt_add t d = (if 0 \<le> t + d \<and> t + d < max_dt then Inr (t + d)
                 else Inl (Exc OverflowError (L ''date value out of range'')))"

lemma dt_add_Inr [simp]: "dt_add t d = Inr u \<longleftrightarrow> u = t + d \<and> 0 \<le> u \<and> u < max_dt"
  by (auto simp: dt_add_def)

lemma floor_minute_dvd: "minute_us dvd floor_minute t"
  by (simp add: floor_minute_def minute_us_def dvd_minus_mod)

lemma floor_minute_bounds: "floor_minute t \<le> t" "t < floor_minute t + minute_us"
  using pos_mod_bound[of minute_us t] pos_mod_sign[of minute_us t]
  by (auto simp: floor_minute_def minute_us_def)

lemma floor_minute_least:
  assumes "minute_us dvd u" and "t < u"
  shows "floor_minute (t + minute_us) \<le> u"
proof -
  from assms(1) obtain k where u: "u = minute_us * k" by (elim dvdE)
  have f: "floor_minute (t + minute_us) = minute_us * (t div minute_us + 1)"
    by (simp add: floor_minute_def minute_us_def minus_mod_eq_mult_div)
  have "t div minute_us < k"
    using assms(2) u by (simp add: minute_us_def div_less_iff_less_mult mult.commute)
  then show ?thesis unfolding f u by (simp add: minute_us_def)
qed

lemma dt_isoweekday_mod: "dt_isoweekday t mod 7 = dt_ordinal t mod 7"
  by (auto simp: dt_isoweekday_def Let_def)

lemma dt_minute_bounds: "0 \<le> dt_minute t \<and> dt_minute t \<le> 59"
proof -
  have "0 \<le> t mod hour_us" "t mod hour_us < hour_us" by (simp_all add: us_defs)
  then show ?thesis unfolding dt_minute_def us_defs by auto
qed

section \<open>Text\<close>

definition date_iso :: "datetime \<Rightarrow> pystr" where
  "date_iso t = pad_str 4 (dt_year t) @ [45] @ pad_str 2 (dt_month t) @ [45] @ pad_str 2 (dt_day t)"

text \<open>\<^verbatim>\<open>now_jst().isoformat(timespec="seconds")\<close> and the time stamp of identifiers.\<close>

definition iso_seconds :: "datetime \<Rightarrow> pystr" where
  "iso_seconds t = date_iso t @ L ''T'' @ pad_str 2 (dt_hour t) @ L '':'' @ pad_str 2 (dt_minute t)
     @ L '':'' @ pad_str 2 (dt_second t) @ L ''+09:00''"

definition compact_stamp :: "datetime \<Rightarrow> pystr" where
  "compact_stamp t = dec_str (dt_year t) @ pad_str 2 (dt_month t) @ pad_str 2 (dt_day t)
     @ pad_str 2 (dt_hour t) @ pad_str 2 (dt_minute t) @ pad_str 2 (dt_second t)"

end
