(* ===== verification/World.thy ===== *)
theory World
  imports Database Json PyTime
begin

text \<open>
  The outside world of the effectful code.  \<open>world\<close> is the state that the process can observe or
  change: its environment variables, files, the database, what it has printed, the requests it has
  sent and the programs it has run.  \<open>outside\<close> is what the process cannot know in advance and the
  model takes as a parameter: the readings of the clocks, the random identifiers, whether the
  database can be opened, and how servers and programs answer, depending on everything that
  happened before.
\<close>

section \<open>State\<close>

record http_request =
  req_method :: pystr
  req_url :: pystr
  req_headers :: "(pystr \<times> pystr) list"
  req_body :: "pystr option"

text \<open>
  The outcome of \<^verbatim>\<open>urlopen\<close>: a response, with its body or the error of decoding it as UTF-8; an
  \<^verbatim>\<open>HTTPError\<close> with code, text and body; a \<^verbatim>\<open>URLError\<close> with its reason; another exception.
\<close>

datatype http_outcome =
    HttpOk int "pystr result"
  | HttpFail int pystr pystr
  | UrlFail pystr
  | HttpRaise pyexc

record proc_call =
  proc_argv :: "pystr list"
  proc_cwd :: "pystr option"
  proc_env :: "(pystr \<times> pystr) list option"
  proc_timeout :: "int option"

record proc_result =
  proc_code :: int
  proc_out :: pystr
  proc_err :: pystr

type_synonym files = "pystr \<rightharpoonup> pystr"

record world =
  environ :: "(pystr \<times> pystr) list"
  files :: files
  dbs :: database
  ticks :: nat
  draws :: nat
  conns :: nat
  http_log :: "http_request list"
  proc_log :: "proc_call list"
  out_log :: "pystr list"
  err_log :: "pystr list"

record outside =
  o_now :: "nat \<Rightarrow> datetime"
  o_mono :: "nat \<Rightarrow> int"
  o_token :: "nat \<Rightarrow> pystr"
  o_conn :: "nat \<Rightarrow> pyexc option"
  o_http :: "world \<Rightarrow> http_request \<Rightarrow> http_outcome \<times> files"
  o_proc :: "world \<Rightarrow> proc_call \<Rightarrow> proc_result result \<times> files"
  o_sleep :: "world \<Rightarrow> int \<Rightarrow> files"
  o_tmp :: "nat \<Rightarrow> pystr"

section \<open>Elementary effects\<close>

definition now_jst :: "outside \<Rightarrow> (world, datetime) eff" where
  "now_jst out w = (Inr (o_now out (ticks w)), w\<lparr>ticks := Suc (ticks w)\<rparr>)"

definition iso_now :: "outside \<Rightarrow> (world, pystr) eff" where
  "iso_now out = sbind (now_jst out) (\<lambda>t. ret (iso_seconds t))"

definition mono_now :: "outside \<Rightarrow> (world, int) eff" where
  "mono_now out w = (Inr (o_mono out (ticks w)), w\<lparr>ticks := Suc (ticks w)\<rparr>)"

definition token_hex :: "outside \<Rightarrow> (world, pystr) eff" where
  "token_hex out w = (Inr (o_token out (draws w)), w\<lparr>draws := Suc (draws w)\<rparr>)"

text \<open>\<^verbatim>\<open>new_id\<close>: prefix, time stamp and a random suffix.\<close>

definition new_id :: "outside \<Rightarrow> string \<Rightarrow> (world, pystr) eff" where
  "new_id out pre = sbind (now_jst out) (\<lambda>t. sbind (token_hex out) (\<lambda>x. ret (L pre @ [95] @ compact_stamp t @ [95] @ x)))"

text \<open>\<^verbatim>\<open>os.environ.get(k)\<close>.\<close>

definition getenv :: "world \<Rightarrow> string \<Rightarrow> pystr option" where
  "getenv w k = map_of (environ w) (L k)"

text \<open>The value of a variable that is set and not empty (the test \<^verbatim>\<open>if not os.environ.get(k)\<close>).\<close>

definition getenv_set :: "world \<Rightarrow> string \<Rightarrow> pystr option" where
  "getenv_set w k = (case getenv w k of None \<Rightarrow> None | Some v \<Rightarrow> if v = [] then None else Some v)"

text \<open>Reading the environment as a step of a computation.\<close>

definition env_val :: "string \<Rightarrow> (world, pystr option) eff" where
  "env_val k w = (Inr (getenv w k), w)"

definition env_set_val :: "string \<Rightarrow> (world, pystr option) eff" where
  "env_set_val k w = (Inr (getenv_set w k), w)"

definition print_out :: "pystr \<Rightarrow> (world, unit) eff" where
  "print_out l w = (Inr (), w\<lparr>out_log := out_log w @ [l]\<rparr>)"

definition print_stderr :: "pystr \<Rightarrow> (world, unit) eff" where
  "print_stderr l w = (Inr (), w\<lparr>err_log := err_log w @ [l]\<rparr>)"

definition urlopen :: "outside \<Rightarrow> http_request \<Rightarrow> (world, http_outcome) eff" where
  "urlopen out r w = (case o_http out w r of (x, fs) \<Rightarrow> (Inr x, w\<lparr>http_log := http_log w @ [r], files := fs\<rparr>))"

text \<open>A call that does not look into the errors of \<^verbatim>\<open>urlopen\<close>: they are raised as they are.\<close>

fun outcome_body :: "http_outcome \<Rightarrow> (int \<times> pystr result) result" where
  "outcome_body (HttpOk c b) = Inr (c, b)"
| "outcome_body (HttpFail c m b) = Inl (Exc HTTPError (L ''HTTP Error '' @ int_str c @ L '': '' @ m))"
| "outcome_body (UrlFail r) = Inl (Exc URLError (L ''<urlopen error '' @ r @ L ''>''))"
| "outcome_body (HttpRaise e) = Inl e"

definition fetch_text :: "outside \<Rightarrow> http_request \<Rightarrow> (world, pystr) eff" where
  "fetch_text out r = sbind (urlopen out r) (\<lambda>x. sbind (lift_res (outcome_body x)) (\<lambda>(c, b). lift_res b))"

text \<open>\<^verbatim>\<open>subprocess.run(..., capture_output=True, text=True)\<close>.\<close>

definition run_proc :: "outside \<Rightarrow> proc_call \<Rightarrow> (world, proc_result) eff" where
  "run_proc out c w = (case o_proc out w c of (r, fs) \<Rightarrow> (r, w\<lparr>proc_log := proc_log w @ [c], files := fs\<rparr>))"

definition sleep :: "outside \<Rightarrow> int \<Rightarrow> (world, unit) eff" where
  "sleep out d w = (Inr (), w\<lparr>files := o_sleep out w d, ticks := Suc (ticks w)\<rparr>)"

text \<open>
  Files by their path; \<^verbatim>\<open>a / b\<close> of \<^verbatim>\<open>pathlib\<close>, which drops empty and dot components and
  keeps two leading slashes, but not three or more.
\<close>

definition path_norm :: "pystr \<Rightarrow> pystr" where
  "path_norm p =
     (let body = py_join [47] (filter (\<lambda>s. s \<noteq> [] \<and> s \<noteq> [46]) (py_split_char 47 p));
          root = (if py_startswith p [47, 47] \<and> \<not> py_startswith p [47, 47, 47] then [47, 47] else if py_startswith p [47] then [47] else [])
      in if root @ body = [] then [46] else root @ body)"

definition path_join :: "pystr \<Rightarrow> pystr \<Rightarrow> pystr" where
  "path_join a b = path_norm (if py_startswith b [47] then b else a @ [47] @ b)"

text \<open>\<^verbatim>\<open>with tempfile.TemporaryDirectory() as d: m(d)\<close>: the tree is removed at the end, also after an error.\<close>

definition temp_dir :: "outside \<Rightarrow> (pystr \<Rightarrow> (world, 'a) eff) \<Rightarrow> (world, 'a) eff" where
  "temp_dir out m = (\<lambda>w.
     (let d = o_tmp out (draws w); (r, w') = m d (w\<lparr>draws := Suc (draws w)\<rparr>)
      in (r, w'\<lparr>files := (\<lambda>p. if p = d \<or> py_startswith p (d @ [47]) then None else files w' p)\<rparr>)))"

text \<open>\<^verbatim>\<open>os.environ.get(k, d)\<close>.\<close>

definition env_default :: "string \<Rightarrow> pystr \<Rightarrow> (world, pystr) eff" where
  "env_default k d = sbind (env_val k) (\<lambda>v. ret (case v of None \<Rightarrow> d | Some x \<Rightarrow> x))"

definition path_exists :: "pystr \<Rightarrow> (world, bool) eff" where
  "path_exists p w = (Inr (files w p \<noteq> None), w)"

text \<open>Text that cannot be encoded raises after the file has been opened and truncated.\<close>

definition write_text :: "pystr \<Rightarrow> pystr \<Rightarrow> (world, unit) eff" where
  "write_text p t w = (case utf8_len t of
     Inl e \<Rightarrow> (Inl e, w\<lparr>files := (files w)(p \<mapsto> [])\<rparr>)
   | Inr _ \<Rightarrow> (Inr (), w\<lparr>files := (files w)(p \<mapsto> t)\<rparr>))"

definition read_text :: "pystr \<Rightarrow> (world, pystr) eff" where
  "read_text p w = (case files w p of
     None \<Rightarrow> (Inl (Exc FileNotFoundError (L ''[Errno 2] No such file or directory: '' @ str_repr p)), w)
   | Some t \<Rightarrow> (Inr t, w))"

section \<open>Statements on the database\<close>

definition connect :: "outside \<Rightarrow> (world, unit) eff" where
  "connect out w = (case o_conn out (conns w) of
     None \<Rightarrow> (Inr (), w\<lparr>conns := Suc (conns w)\<rparr>)
   | Some e \<Rightarrow> (Inl e, w\<lparr>conns := Suc (conns w)\<rparr>))"

definition exec_sql :: "(database \<Rightarrow> database result) \<Rightarrow> (world, unit) eff" where
  "exec_sql f w = (case f (dbs w) of Inl e \<Rightarrow> (Inl e, w) | Inr db \<Rightarrow> (Inr (), w\<lparr>dbs := db\<rparr>))"

definition migrate :: "outside \<Rightarrow> (world, unit) eff" where
  "migrate out = sbind (connect out) (\<lambda>_. exec_sql (\<lambda>db. Inr (create_tables db)))"

section \<open>A small outside world\<close>

text \<open>Used to run the operations on concrete data: the clock stands still, identifiers are numbered, the
  database opens, and every server and program is unreachable.\<close>

definition demo_out :: outside where
  "demo_out = \<lparr>o_now = (\<lambda>_. 63918493200000000), o_mono = (\<lambda>n. 1000000 * int n), o_token = (\<lambda>n. [48 + int n]), o_conn = (\<lambda>_. None),
     o_http = (\<lambda>w r. (UrlFail [], files w)),
     o_proc = (\<lambda>w c. (Inl (Exc FileNotFoundError []), files w)), o_sleep = (\<lambda>w d. files w),
     o_tmp = (\<lambda>n. [47, 48 + int n])\<rparr>"

definition demo_start_world :: world where
  "demo_start_world = \<lparr>environ = [], files = Map.empty, dbs = create_tables Map.empty, ticks = 0, draws = 0, conns = 0,
     http_log = [], proc_log = [], out_log = [], err_log = []\<rparr>"

section \<open>What an effect leaves alone\<close>

text \<open>An effect keeps a property of the world whatever its outcome.\<close>

definition keeps :: "(world \<Rightarrow> bool) \<Rightarrow> (world, 'a) eff \<Rightarrow> bool" where
  "keeps I m \<longleftrightarrow> (\<forall>w. I w \<longrightarrow> I (snd (m w)))"

lemma keepsI: "(\<And>w r w'. I w \<Longrightarrow> m w = (r, w') \<Longrightarrow> I w') \<Longrightarrow> keeps I m"
  unfolding keeps_def by (metis prod.collapse)

lemma keepsD: "keeps I m \<Longrightarrow> I w \<Longrightarrow> m w = (r, w') \<Longrightarrow> I w'"
  unfolding keeps_def by (metis snd_conv)

named_theorems keeps_intros \<open>effects that keep an invariant\<close>

lemma keeps_ret [keeps_intros]: "keeps I (ret x)"
  by (simp add: keeps_def)

lemma keeps_lift_res [keeps_intros]: "keeps I (lift_res r)"
  by (simp add: keeps_def)

lemma keeps_raise [keeps_intros]: "keeps I (raise_exc t m)"
  by (simp add: keeps_def)

lemma keeps_env [keeps_intros]: "keeps I (env_val k)" "keeps I (env_set_val k)"
  by (simp_all add: keeps_def env_val_def env_set_val_def)

lemma keeps_sbind [keeps_intros]: "keeps I m \<Longrightarrow> (\<And>x. keeps I (f x)) \<Longrightarrow> keeps I (sbind m f)"
  unfolding keeps_def sbind_def by (auto split: prod.splits sum.splits)

lemma keeps_catch [keeps_intros]: "keeps I m \<Longrightarrow> (\<And>e. keeps I (h e)) \<Longrightarrow> keeps I (catch m p h)"
  unfolding keeps_def catch_def by (auto split: prod.splits sum.splits)

lemma keeps_if [keeps_intros]: "keeps I a \<Longrightarrow> keeps I b \<Longrightarrow> keeps I (if c then a else b)"
  by simp

lemma keeps_option [keeps_intros]: "keeps I a \<Longrightarrow> (\<And>x. keeps I (b x)) \<Longrightarrow> keeps I (case c of None \<Rightarrow> a | Some x \<Rightarrow> b x)"
  by (cases c) simp_all

lemma keeps_prod [keeps_intros]: "(\<And>x y. keeps I (a x y)) \<Longrightarrow> keeps I (case c of (x, y) \<Rightarrow> a x y)"
  by (cases c) simp

lemma keeps_let [keeps_intros]: "keeps I (f x) \<Longrightarrow> keeps I (let y = x in f y)"
  by simp

lemma keeps_outcome [keeps_intros]:
  "(\<And>c b. keeps I (f1 c b)) \<Longrightarrow> (\<And>c m b. keeps I (f2 c m b)) \<Longrightarrow> (\<And>r. keeps I (f3 r)) \<Longrightarrow> (\<And>e. keeps I (f4 e)) \<Longrightarrow>
    keeps I (case x of HttpOk c b \<Rightarrow> f1 c b | HttpFail c m b \<Rightarrow> f2 c m b | UrlFail r \<Rightarrow> f3 r | HttpRaise e \<Rightarrow> f4 e)"
  by (cases x) simp_all

lemma keeps_for_each [keeps_intros]: "(\<And>x. keeps I (f x)) \<Longrightarrow> keeps I (for_each f xs)"
  by (induction xs) (auto intro: keeps_intros)

text \<open>The database is well formed.\<close>

definition world_wf :: "world \<Rightarrow> bool" where
  "world_wf w \<longleftrightarrow> db_wf (dbs w)"

lemma demo_start_wf: "world_wf demo_start_world"
proof -
  have "db_wf (create_tables Map.empty)" by (rule create_tables_wf) (simp add: db_wf_def)
  then show ?thesis by (simp add: world_wf_def demo_start_world_def)
qed

text \<open>A property of the database alone is kept by all effects that issue no statement.\<close>

definition db_only :: "(world \<Rightarrow> bool) \<Rightarrow> bool" where
  "db_only I \<longleftrightarrow> (\<forall>w w'. dbs w = dbs w' \<longrightarrow> I w = I w')"

lemma db_only_wf [keeps_intros]: "db_only world_wf"
  by (simp add: db_only_def world_wf_def)

lemma keeps_db_prims [keeps_intros]:
  assumes "db_only I"
  shows "keeps I (now_jst out)" "keeps I (mono_now out)" "keeps I (token_hex out)"
    "keeps I (print_out l)" "keeps I (print_stderr l)" "keeps I (urlopen out r)"
    "keeps I (run_proc out c)" "keeps I (sleep out d)" "keeps I (write_text p t)"
    "keeps I (read_text p)" "keeps I (connect out)"
proof -
  have k: "keeps I m" if "\<And>w. dbs (snd (m w)) = dbs w" for m :: "(world, 'b) eff"
    using assms that unfolding keeps_def db_only_def by metis
  show "keeps I (now_jst out)" "keeps I (mono_now out)" "keeps I (token_hex out)"
    "keeps I (print_out l)" "keeps I (print_stderr l)" "keeps I (urlopen out r)"
    "keeps I (run_proc out c)" "keeps I (sleep out d)" "keeps I (write_text p t)"
    "keeps I (read_text p)" "keeps I (connect out)"
    by (rule k, simp add: now_jst_def mono_now_def token_hex_def print_out_def print_stderr_def urlopen_def
        run_proc_def sleep_def write_text_def read_text_def connect_def split: option.splits prod.splits sum.splits)+
qed

lemma keeps_path_exists [keeps_intros]: "keeps I (path_exists p)"
  by (simp add: keeps_def path_exists_def)

lemma keeps_env_default [keeps_intros]: "keeps I (env_default k d)"
  unfolding env_default_def by (intro keeps_intros)

lemma keeps_temp_dir [keeps_intros]:
  assumes "db_only I" and "\<And>d. keeps I (m d)"
  shows "keeps I (temp_dir out m)"
proof (rule keepsI)
  fix w r w' assume I: "I w" and e: "temp_dir out m w = (r, w')"
  have db: "I u = I v" if "dbs u = dbs v" for u v using assms(1) that unfolding db_only_def by blast
  obtain w1 where w1: "m (o_tmp out (draws w)) (w\<lparr>draws := Suc (draws w)\<rparr>) = (r, w1)" and w': "dbs w' = dbs w1"
    using e by (auto simp: temp_dir_def Let_def split: prod.splits)
  have "I (w\<lparr>draws := Suc (draws w)\<rparr>)" using I db[of w "w\<lparr>draws := Suc (draws w)\<rparr>"] by simp
  from keepsD[OF assms(2) this w1] db[OF w'] show "I w'" by simp
qed

lemma keeps_iso_now [keeps_intros]: "db_only I \<Longrightarrow> keeps I (iso_now out)"
  unfolding iso_now_def by (intro keeps_intros)

lemma keeps_new_id [keeps_intros]: "db_only I \<Longrightarrow> keeps I (new_id out p)"
  unfolding new_id_def by (intro keeps_intros)

lemma keeps_fetch_text [keeps_intros]: "db_only I \<Longrightarrow> keeps I (fetch_text out r)"
  unfolding fetch_text_def by (intro keeps_intros)

lemma keeps_wf_exec_sql: "(\<And>db db'. db_wf db \<Longrightarrow> f db = Inr db' \<Longrightarrow> db_wf db') \<Longrightarrow> keeps world_wf (exec_sql f)"
  by (auto simp: keeps_def world_wf_def exec_sql_def split: sum.splits)

lemma keeps_wf_insert [keeps_intros]: "t \<in> set schema \<Longrightarrow> keeps world_wf (exec_sql (sql_insert t r))"
  by (rule keeps_wf_exec_sql) (rule sql_insert_wf)

lemma keeps_wf_update [keeps_intros]:
  "t \<in> set schema \<Longrightarrow> fst ` set r \<inter> insert (L ''id'') (fst ` set (tab_fks t)) = {} \<Longrightarrow>
    keeps world_wf (exec_sql (sql_update t r k))"
  by (rule keeps_wf_exec_sql) (rule sql_update_wf)

lemma keeps_wf_migrate [keeps_intros]: "keeps world_wf (migrate out)"
  unfolding migrate_def by (intro keeps_intros keeps_wf_exec_sql) (auto simp: create_tables_wf)

text \<open>The files are kept by statements and stamps, the list of programs by everything but running one.\<close>

lemma keeps_files_db:
  "keeps (\<lambda>w. files w = F) (now_jst out)" "keeps (\<lambda>w. files w = F) (token_hex out)"
  "keeps (\<lambda>w. files w = F) (connect out)" "keeps (\<lambda>w. files w = F) (exec_sql f)"
proof -
  have k: "keeps (\<lambda>w. files w = F) m" if "\<And>w. files (snd (m w)) = files w" for m :: "(world, 'b) eff"
    unfolding keeps_def by (metis that)
  show "keeps (\<lambda>w. files w = F) (now_jst out)" by (rule k) (simp add: now_jst_def)
  show "keeps (\<lambda>w. files w = F) (token_hex out)" by (rule k) (simp add: token_hex_def)
  show "keeps (\<lambda>w. files w = F) (connect out)" by (rule k) (simp add: connect_def split: option.splits)
  show "keeps (\<lambda>w. files w = F) (exec_sql f)" by (rule k) (simp add: exec_sql_def split: sum.splits)
qed

lemma keeps_proc_prims:
  "keeps (\<lambda>w. proc_log w = P) (now_jst out)" "keeps (\<lambda>w. proc_log w = P) (token_hex out)"
  "keeps (\<lambda>w. proc_log w = P) (connect out)" "keeps (\<lambda>w. proc_log w = P) (exec_sql f)"
  "keeps (\<lambda>w. proc_log w = P) (urlopen out r)" "keeps (\<lambda>w. proc_log w = P) (write_text p t)"
proof -
  have k: "keeps (\<lambda>w. proc_log w = P) m" if "\<And>w. proc_log (snd (m w)) = proc_log w" for m :: "(world, 'b) eff"
    unfolding keeps_def by (metis that)
  show "keeps (\<lambda>w. proc_log w = P) (now_jst out)" by (rule k) (simp add: now_jst_def)
  show "keeps (\<lambda>w. proc_log w = P) (token_hex out)" by (rule k) (simp add: token_hex_def)
  show "keeps (\<lambda>w. proc_log w = P) (connect out)" by (rule k) (simp add: connect_def split: option.splits)
  show "keeps (\<lambda>w. proc_log w = P) (exec_sql f)" by (rule k) (simp add: exec_sql_def split: sum.splits)
  show "keeps (\<lambda>w. proc_log w = P) (urlopen out r)" by (rule k) (simp add: urlopen_def split: prod.splits)
  show "keeps (\<lambda>w. proc_log w = P) (write_text p t)" by (rule k) (simp add: write_text_def split: sum.splits)
qed

section \<open>The requests an effect sends\<close>

text \<open>\<open>sends rs m\<close>: whatever its outcome, the effect sends exactly the requests \<open>rs\<close>.\<close>

definition sends :: "http_request list \<Rightarrow> (world, 'a) eff \<Rightarrow> bool" where
  "sends rs m \<longleftrightarrow> (\<forall>w. http_log (snd (m w)) = http_log w @ rs)"

lemma sendsD: "sends rs m \<Longrightarrow> m w = (r, w') \<Longrightarrow> http_log w' = http_log w @ rs"
  unfolding sends_def by (metis snd_conv)

named_theorems sends_intros \<open>the requests of an effect\<close>

lemma sends_pure [sends_intros]: "sends [] (ret x)" "sends [] (lift_res r)" "sends [] (raise_exc t m)"
  by (simp_all add: sends_def)

lemma sends_prims [sends_intros]:
  "sends [] (now_jst out)" "sends [] (mono_now out)" "sends [] (token_hex out)" "sends [] (print_out l)"
  "sends [] (print_stderr l)" "sends [] (run_proc out c)" "sends [] (sleep out d)" "sends [] (write_text p t)"
  "sends [] (read_text p)" "sends [] (connect out)" "sends [] (exec_sql f)"
  by (simp_all add: sends_def now_jst_def mono_now_def token_hex_def print_out_def print_stderr_def run_proc_def
      sleep_def write_text_def read_text_def connect_def exec_sql_def split: option.splits prod.splits sum.splits)

lemma sends_env [sends_intros]: "sends [] (env_val k)" "sends [] (env_set_val k)"
  by (simp_all add: sends_def env_val_def env_set_val_def)

lemma sends_sbind [sends_intros]: "sends [] m \<Longrightarrow> (\<And>x. sends [] (f x)) \<Longrightarrow> sends [] (sbind m f)"
  unfolding sends_def sbind_def by (auto split: prod.splits sum.splits) (metis snd_conv)+

lemma sends_sbind_first: "sends rs m \<Longrightarrow> (\<And>x. sends [] (f x)) \<Longrightarrow> sends rs (sbind m f)"
  unfolding sends_def sbind_def by (auto split: prod.splits sum.splits) (metis snd_conv)+

lemma sends_catch [sends_intros]: "sends rs m \<Longrightarrow> (\<And>e. sends [] (h e)) \<Longrightarrow> sends rs (catch m p h)"
  unfolding sends_def catch_def by (auto split: prod.splits sum.splits) (metis snd_conv)+

lemma sends_option [sends_intros]: "sends rs a \<Longrightarrow> (\<And>x. sends rs (b x)) \<Longrightarrow> sends rs (case c of None \<Rightarrow> a | Some x \<Rightarrow> b x)"
  by (cases c) simp_all

lemma sends_if [sends_intros]: "sends rs a \<Longrightarrow> sends rs b \<Longrightarrow> sends rs (if c then a else b)"
  by simp

lemma sends_urlopen: "sends [r] (urlopen out r)"
  by (simp add: sends_def urlopen_def split: prod.splits)

lemma sends_fetch_text: "sends [r] (fetch_text out r)"
  unfolding fetch_text_def by (rule sends_sbind_first[OF sends_urlopen]) (auto intro!: sends_intros split: prod.splits)

lemma sends_stamps [sends_intros]: "sends [] (iso_now out)" "sends [] (new_id out p)"
  unfolding iso_now_def new_id_def by (intro sends_intros)+

section \<open>An outside world that raises ordinary exceptions only\<close>

definition tame_outside :: "outside \<Rightarrow> bool" where
  "tame_outside out \<longleftrightarrow>
     (\<forall>n e. o_conn out n = Some e \<longrightarrow> is_Exception e) \<and>
     (\<forall>w r e fs. o_http out w r = (HttpRaise e, fs) \<longrightarrow> is_Exception e) \<and>
     (\<forall>w r c e fs. o_http out w r = (HttpOk c (Inl e), fs) \<longrightarrow> is_Exception e) \<and>
     (\<forall>w c e fs. o_proc out w c = (Inl e, fs) \<longrightarrow> is_Exception e)"

lemma tame_demo_out: "tame_outside demo_out"
  by (simp add: tame_outside_def demo_out_def is_Exception_def)

definition tame_outcome :: "http_outcome \<Rightarrow> bool" where
  "tame_outcome x = (case x of HttpRaise e \<Rightarrow> is_Exception e | HttpOk c b \<Rightarrow> tame_res b | _ \<Rightarrow> True)"

lemma roe_prims [tame_intros]:
  "raises_only_Exception (now_jst out)" "raises_only_Exception (mono_now out)" "raises_only_Exception (token_hex out)"
  "raises_only_Exception (print_out l)" "raises_only_Exception (print_stderr l)" "raises_only_Exception (sleep out d)"
  "raises_only_Exception (read_text p)" "raises_only_Exception (urlopen out r)"
  by (auto simp: raises_only_Exception_def now_jst_def mono_now_def token_hex_def print_out_def print_stderr_def
      sleep_def read_text_def urlopen_def is_Exception_def split: option.splits prod.splits)

lemma roe_write_text [tame_intros]: "raises_only_Exception (write_text p t)"
  using tame_utf8_len[of t] by (auto simp: raises_only_Exception_def write_text_def tame_res_def split: sum.splits)

lemma roe_env [tame_intros]: "raises_only_Exception (env_val k)" "raises_only_Exception (env_set_val k)"
  by (simp_all add: raises_only_Exception_def env_val_def env_set_val_def)

lemma roe_path_exists [tame_intros]: "raises_only_Exception (path_exists p)"
  by (simp add: raises_only_Exception_def path_exists_def)

lemma roe_env_default [tame_intros]: "raises_only_Exception (env_default k d)"
  unfolding env_default_def by (intro tame_intros)

lemma roe_temp_dir [tame_intros]: "(\<And>d. raises_only_Exception (m d)) \<Longrightarrow> raises_only_Exception (temp_dir out m)"
  by (fastforce simp: raises_only_Exception_def temp_dir_def Let_def split: prod.splits)

lemma roe_connect [tame_intros]: "tame_outside out \<Longrightarrow> raises_only_Exception (connect out)"
  by (auto simp: raises_only_Exception_def tame_outside_def connect_def split: option.splits)

lemma roe_run_proc [tame_intros]: "tame_outside out \<Longrightarrow> raises_only_Exception (run_proc out c)"
  by (auto simp: raises_only_Exception_def tame_outside_def run_proc_def split: prod.splits) blast

lemma roe_iso_now [tame_intros]: "raises_only_Exception (iso_now out)"
  unfolding iso_now_def by (intro tame_intros)

lemma roe_new_id [tame_intros]: "raises_only_Exception (new_id out p)"
  unfolding new_id_def by (intro tame_intros)

lemma roe_exec_sql [tame_intros]: "(\<And>db. tame_res (f db)) \<Longrightarrow> raises_only_Exception (exec_sql f)"
  by (auto simp: raises_only_Exception_def exec_sql_def tame_res_def split: sum.splits)

lemma roe_migrate [tame_intros]: "tame_outside out \<Longrightarrow> raises_only_Exception (migrate out)"
  unfolding migrate_def by (intro tame_intros)

lemma urlopen_tame: "tame_outside out \<Longrightarrow> urlopen out r w = (Inr x, w') \<Longrightarrow> tame_outcome x"
  by (auto simp: tame_outside_def urlopen_def tame_outcome_def tame_res_def split: prod.splits http_outcome.splits) blast+

text \<open>What follows a request need only be tame for tame outcomes.\<close>

lemma roe_request:
  assumes "tame_outside out" and "\<And>x. tame_outcome x \<Longrightarrow> raises_only_Exception (f x)"
  shows "raises_only_Exception (sbind (urlopen out r) f)"
  unfolding raises_only_Exception_def
proof (intro allI impI)
  fix s e s' assume "sbind (urlopen out r) f s = (Inl e, s')"
  then show "is_Exception e"
  proof (cases rule: sbind_cases)
    case (err e')
    then show ?thesis by (auto simp: urlopen_def split: prod.splits)
  next
    case (ok x s1)
    with assms(2)[OF urlopen_tame[OF assms(1) ok(1)]] show ?thesis by (auto simp: raises_only_Exception_def)
  qed
qed

lemma tame_outcome_body: "tame_outcome x \<Longrightarrow> tame_res (outcome_body x) \<and> (\<forall>c b. outcome_body x = Inr (c, b) \<longrightarrow> tame_res b)"
  by (cases x) (auto simp: tame_outcome_def tame_res_def is_Exception_def)

lemma roe_fetch_text [tame_intros]:
  assumes "tame_outside out"
  shows "raises_only_Exception (fetch_text out r)"
  unfolding fetch_text_def
proof (rule roe_request[OF assms])
  fix x assume "tame_outcome x"
  note t = tame_outcome_body[OF this]
  show "raises_only_Exception (sbind (lift_res (outcome_body x)) (\<lambda>(c, b). lift_res b))"
    using t by (cases "outcome_body x") (auto simp: raises_only_Exception_def sbind_def tame_res_def)
qed

end
