(* ===== verification/Repository.thy ===== *)
theory Repository
  imports World
begin

text \<open>
  \<^verbatim>\<open>db/repository.py\<close>: sessions, tasks, tool events, the research queue and documents.  Each
  operation opens a connection, issues one statement and commits; an exception inside leaves the
  database unchanged.
\<close>

section \<open>Operations\<close>

definition opt_str :: "pystr option \<Rightarrow> pyval" where
  "opt_str x = (case x of None \<Rightarrow> PNone | Some s \<Rightarrow> PStr s)"

definition create_session :: "outside \<Rightarrow> pystr \<Rightarrow> pyval \<Rightarrow> pystr \<Rightarrow> pyval \<Rightarrow> (world, pystr) eff" where
  "create_session out source role workspace_path metadata =
     sbind (new_id out ''sess'') (\<lambda>session_id.
     sbind (iso_now out) (\<lambda>now.
     sbind (connect out) (\<lambda>_.
     sbind (exec_sql (sql_insert sessions_def
       [(L ''id'', PStr session_id), (L ''source'', PStr source), (L ''role'', role), (L ''status'', PStr (L ''created'')),
        (L ''workspace_path'', PStr workspace_path), (L ''created_at'', PStr now), (L ''updated_at'', PStr now),
        (L ''last_active_at'', PStr now), (L ''metadata_json'', PStr (json_dumps_raw (py_or metadata empty_dict)))])) (\<lambda>_.
     ret session_id))))"

definition update_session_status :: "outside \<Rightarrow> pystr \<Rightarrow> pystr \<Rightarrow> (world, unit) eff" where
  "update_session_status out session_id status =
     sbind (connect out) (\<lambda>_.
     sbind (iso_now out) (\<lambda>t1.
     sbind (iso_now out) (\<lambda>t2.
     exec_sql (sql_update sessions_def
       [(L ''status'', PStr status), (L ''updated_at'', PStr t1), (L ''last_active_at'', PStr t2)] (PStr session_id)))))"

definition create_task :: "outside \<Rightarrow> pystr \<Rightarrow> pyval \<Rightarrow> pyval \<Rightarrow> (world, pystr) eff" where
  "create_task out session_id role input_data =
     sbind (new_id out ''task'') (\<lambda>task_id.
     sbind (iso_now out) (\<lambda>now.
     sbind (connect out) (\<lambda>_.
     sbind (exec_sql (sql_insert tasks_def
       [(L ''id'', PStr task_id), (L ''session_id'', PStr session_id), (L ''role'', role), (L ''status'', PStr (L ''queued'')),
        (L ''input_json'', PStr (json_dumps_raw input_data)), (L ''created_at'', PStr now)])) (\<lambda>_.
     ret task_id))))"

definition json_or_null :: "pyval \<Rightarrow> pyval" where
  "json_or_null v = (if v = PNone then PNone else PStr (json_dumps_raw v))"

definition finish_task :: "outside \<Rightarrow> pystr \<Rightarrow> pystr \<Rightarrow> pyval \<Rightarrow> pyval \<Rightarrow> (world, unit) eff" where
  "finish_task out task_id status output error =
     sbind (connect out) (\<lambda>_.
     sbind (iso_now out) (\<lambda>t.
     exec_sql (sql_update tasks_def
       [(L ''status'', PStr status), (L ''output_json'', json_or_null output), (L ''error_json'', json_or_null error),
        (L ''finished_at'', PStr t)] (PStr task_id))))"

definition event_get :: "row \<Rightarrow> string \<Rightarrow> pyval" where
  "event_get ev k = assoc_get ev (L k) PNone"

definition event_index :: "row \<Rightarrow> string \<Rightarrow> pyval result" where
  "event_index ev k = (case map_of ev (L k) of None \<Rightarrow> Inl (Exc KeyError (str_repr (L k))) | Some v \<Rightarrow> Inr v)"

definition record_tool_event :: "outside \<Rightarrow> row \<Rightarrow> (world, pyval) eff" where
  "record_tool_event out ev =
     sbind (if truthy (event_get ev ''id'') then ret (event_get ev ''id'')
            else sbind (new_id out ''tool'') (\<lambda>i. ret (PStr i))) (\<lambda>event_id.
     sbind (connect out) (\<lambda>_.
     sbind (lift_res (event_index ev ''session_id'')) (\<lambda>session_id.
     sbind (lift_res (event_index ev ''role'')) (\<lambda>role.
     sbind (lift_res (event_index ev ''tool_name'')) (\<lambda>tool_name.
     sbind (lift_res (event_index ev ''decision'')) (\<lambda>decision.
     sbind (iso_now out) (\<lambda>now.
     sbind (exec_sql (sql_insert tool_events_def
       [(L ''id'', event_id), (L ''session_id'', session_id), (L ''task_id'', event_get ev ''task_id''), (L ''role'', role),
        (L ''tool_name'', tool_name), (L ''decision'', decision), (L ''success'', event_get ev ''success''),
        (L ''duration_ms'', event_get ev ''duration_ms''), (L ''input_hash'', event_get ev ''input_hash''),
        (L ''input_redacted_json'', json_or_null (event_get ev ''input_redacted'')),
        (L ''output_hash'', event_get ev ''output_hash''), (L ''output_size'', event_get ev ''output_size''),
        (L ''error_json'', json_or_null (event_get ev ''error'')),
        (L ''policy_version'', assoc_get ev (L ''policy_version'') (PStr (L ''1''))),
        (L ''created_at'', assoc_get ev (L ''created_at'') (PStr now))])) (\<lambda>_.
     ret event_id))))))))"

record queue_item =
  qi_source :: pystr
  qi_topic :: pyval
  qi_reason :: pyval
  qi_refs :: pyval
  qi_score :: int
  qi_status :: pystr
  qi_role :: "pystr option"
  qi_ticker :: pyval
  qi_company :: pyval
  qi_metadata :: pyval

definition record_research_queue_item :: "outside \<Rightarrow> queue_item \<Rightarrow> (world, pystr) eff" where
  "record_research_queue_item out q =
     sbind (new_id out ''rq'') (\<lambda>item_id.
     sbind (iso_now out) (\<lambda>now.
     sbind (connect out) (\<lambda>_.
     sbind (exec_sql (sql_insert research_queue_def
       [(L ''id'', PStr item_id), (L ''source'', PStr (qi_source q)), (L ''topic'', qi_topic q), (L ''ticker'', qi_ticker q),
        (L ''company_name'', qi_company q), (L ''reason'', qi_reason q),
        (L ''source_refs_json'', PStr (json_dumps_raw (qi_refs q))), (L ''score'', PInt (qi_score q)),
        (L ''status'', PStr (qi_status q)), (L ''assigned_role'', opt_str (qi_role q)), (L ''created_at'', PStr now),
        (L ''updated_at'', PStr now), (L ''metadata_json'', PStr (json_dumps_raw (py_or (qi_metadata q) empty_dict)))])) (\<lambda>_.
     ret item_id))))"

text \<open>\<^verbatim>\<open>ORDER BY created_at ASC\<close>: text by code points; rows of the same second stay in insertion order.\<close>

fun text_less :: "pystr \<Rightarrow> pystr \<Rightarrow> bool" where
  "text_less s [] = False"
| "text_less [] (b # t) = True"
| "text_less (a # s) (b # t) = (a < b \<or> a = b \<and> text_less s t)"

definition cell_text :: "row \<Rightarrow> string \<Rightarrow> pystr" where
  "cell_text r c = (case cell r (L c) of PStr s \<Rightarrow> s | _ \<Rightarrow> [])"

fun insert_row :: "row \<Rightarrow> row list \<Rightarrow> row list" where
  "insert_row r [] = [r]"
| "insert_row r (q # qs) = (if text_less (cell_text q ''created_at'') (cell_text r ''created_at'')
                            then q # insert_row r qs else r # q # qs)"

definition order_rows :: "row list \<Rightarrow> row list" where
  "order_rows rows = foldr insert_row rows []"

text \<open>\<^verbatim>\<open>dict(row)\<close> with the two JSON columns decoded: the keys move to the end.\<close>

definition load_column :: "string \<Rightarrow> string \<Rightarrow> string \<Rightarrow> row \<Rightarrow> row result" where
  "load_column c k d r =
     (let v = cell r (L c); rest = filter (\<lambda>(x, _). x \<noteq> L c) r in
      case py_or v (PStr (L d)) of
        PStr s \<Rightarrow> ebind (json_loads s) (\<lambda>j. Inr (dict_set (L k) j rest))
      | x \<Rightarrow> Inl (Exc TypeError (L ''the JSON object must be str, bytes or bytearray, not '' @ type_name x)))"

definition queue_entry :: "row \<Rightarrow> pyval result" where
  "queue_entry r = ebind (load_column ''source_refs_json'' ''source_refs'' ''[]'' r) (\<lambda>r1.
     ebind (load_column ''metadata_json'' ''metadata'' ''{}'' r1) (\<lambda>r2. Inr (PDict r2)))"

definition list_research_queue :: "outside \<Rightarrow> pystr option \<Rightarrow> (world, pyval list) eff" where
  "list_research_queue out status =
     sbind (connect out) (\<lambda>_ w.
     case dbs w (L ''research_queue'') of
       None \<Rightarrow> (Inl (no_table (L ''research_queue'')), w)
     | Some rows \<Rightarrow>
         (emap queue_entry (order_rows (filter (\<lambda>r. case status of None \<Rightarrow> True | Some s \<Rightarrow> cell r (L ''status'') = PStr s) rows)), w))"

definition record_document ::
    "outside \<Rightarrow> pystr option \<Rightarrow> pystr \<Rightarrow> pystr \<Rightarrow> pystr \<Rightarrow> pystr \<Rightarrow> pyval \<Rightarrow> pystr option \<Rightarrow> pyval \<Rightarrow> (world, pystr) eff" where
  "record_document out repo path title doc_type status source_refs commit_sha metadata =
     sbind (new_id out ''doc'') (\<lambda>doc_id.
     sbind (iso_now out) (\<lambda>now.
     sbind (connect out) (\<lambda>_.
     sbind (exec_sql (sql_insert documents_def
       [(L ''id'', PStr doc_id), (L ''repo'', opt_str repo), (L ''path'', PStr path), (L ''title'', PStr title),
        (L ''doc_type'', PStr doc_type), (L ''status'', PStr status), (L ''source_refs_json'', PStr (json_dumps_raw source_refs)),
        (L ''commit_sha'', opt_str commit_sha), (L ''created_at'', PStr now), (L ''updated_at'', PStr now),
        (L ''metadata_json'', PStr (json_dumps_raw (py_or metadata empty_dict)))])) (\<lambda>_.
     ret doc_id))))"

lemma record_document_files: "record_document out r p t d st refs c m w = (x, w') \<Longrightarrow> files w' = files w"
proof -
  have "keeps (\<lambda>v. files v = files w) (record_document out r p t d st refs c m)"
    unfolding record_document_def new_id_def iso_now_def
    by (intro keeps_sbind keeps_ret keeps_files_db)
  then show "record_document out r p t d st refs c m w = (x, w') \<Longrightarrow> files w' = files w" using keepsD by fast
qed

section \<open>Every operation keeps the database well formed\<close>

lemma schema_members [simp]:
  "sessions_def \<in> set schema" "tasks_def \<in> set schema" "tool_events_def \<in> set schema"
  "research_queue_def \<in> set schema" "documents_def \<in> set schema"
  by (simp_all add: schema_def)

lemmas schema_ok = schema_members[THEN schema_table_ok]

lemma tab_fks_simps [simp]:
  "tab_fks sessions_def = []" "tab_fks tasks_def = [(L ''session_id'', L ''sessions'')]"
  by (simp_all add: sessions_def_def tasks_def_def)

lemma create_session_wf [keeps_intros]: "keeps world_wf (create_session out s r p m)"
  unfolding create_session_def by (intro keeps_intros) simp

lemma update_session_status_wf [keeps_intros]: "keeps world_wf (update_session_status out s st)"
  unfolding update_session_status_def by (intro keeps_intros) simp_all

lemma create_task_wf [keeps_intros]: "keeps world_wf (create_task out s r i)"
  unfolding create_task_def by (intro keeps_intros) simp

lemma finish_task_wf [keeps_intros]: "keeps world_wf (finish_task out t st ou e)"
  unfolding finish_task_def by (intro keeps_intros) simp_all

lemma record_tool_event_wf [keeps_intros]: "keeps world_wf (record_tool_event out ev)"
  unfolding record_tool_event_def by (intro keeps_intros) simp

lemma record_research_queue_item_wf [keeps_intros]: "keeps world_wf (record_research_queue_item out q)"
  unfolding record_research_queue_item_def by (intro keeps_intros) simp

lemma list_research_queue_wf [keeps_intros]: "keeps world_wf (list_research_queue out st)"
  unfolding list_research_queue_def
  by (intro keeps_intros) (auto simp: keeps_def split: option.splits)

lemma record_document_wf [keeps_intros]: "keeps world_wf (record_document out r p t d st refs c m)"
  unfolding record_document_def by (intro keeps_intros) simp


section \<open>The abstract store of sessions and tasks\<close>

text \<open>What the rest of the program relies on: the status of each session and of each task.\<close>

definition session_status :: "world \<Rightarrow> pystr \<Rightarrow> pyval option" where
  "session_status w s = map_option (\<lambda>r. cell r (L ''status'')) (row_of (dbs w) sessions_def (PStr s))"

definition task_status :: "world \<Rightarrow> pystr \<Rightarrow> pyval option" where
  "task_status w t = map_option (\<lambda>r. cell r (L ''status'')) (row_of (dbs w) tasks_def (PStr t))"

text \<open>Effects that leave the database as it is.\<close>

lemma world_prims_db [simp]:
  "now_jst out w = (r1, w1) \<Longrightarrow> dbs w1 = dbs w"
  "iso_now out w = (r2, w1) \<Longrightarrow> dbs w1 = dbs w"
  "new_id out p w = (r3, w1) \<Longrightarrow> dbs w1 = dbs w"
  "connect out w = (r4, w1) \<Longrightarrow> dbs w1 = dbs w"
  by (auto simp: now_jst_def iso_now_def new_id_def token_hex_def connect_def sbind_def split: option.splits)

lemma exec_sql_Inr: "exec_sql f w = (Inr u, w') \<longleftrightarrow> (\<exists>db. f (dbs w) = Inr db \<and> w' = w\<lparr>dbs := db\<rparr>)"
  by (auto simp: exec_sql_def split: sum.splits)

lemma tab_name_simps [simp]:
  "tab_name sessions_def = L ''sessions''" "tab_name tasks_def = L ''tasks''" "tab_name tool_events_def = L ''tool_events''"
  "tab_name research_queue_def = L ''research_queue''" "tab_name documents_def = L ''documents''"
  by (simp_all add: sessions_def_def tasks_def_def tool_events_def_def research_queue_def_def documents_def_def)

lemma status_col: "need_col ''status'' \<in> set (tab_cols sessions_def)" "need_col ''status'' \<in> set (tab_cols tasks_def)"
  "text_col ''id'' \<in> set (tab_cols sessions_def)" "text_col ''id'' \<in> set (tab_cols tasks_def)"
  by (simp_all add: sessions_def_def tasks_def_def)

lemma update_session_status_abs:
  assumes "update_session_status out s st w = (Inr u, w')"
  shows "session_status w' = (\<lambda>x. if x = s then map_option (\<lambda>_. PStr st) (session_status w x) else session_status w x)"
    and "task_status w' = task_status w"
proof -
  from assms obtain t1 t2 db where up: "sql_update sessions_def
      [(L ''status'', PStr st), (L ''updated_at'', PStr t1), (L ''last_active_at'', PStr t2)] (PStr s) (dbs w) = Inr db"
    and w': "dbs w' = db"
    unfolding update_session_status_def by (auto elim!: sbind_InrE simp: exec_sql_Inr)
  obtain vals where vals: "bind_values 1 [(L ''status'', PStr st), (L ''updated_at'', PStr t1), (L ''last_active_at'', PStr t2)] = Inr vals"
    using sql_update_bound[OF up] by blast
  have "cell (set_cols sessions_def vals r) (L ''status'') = PStr st" for r
    using cell_set_cols_str[OF schema_ok(1) status_col(1) vals] by simp
  then show "session_status w' = (\<lambda>x. if x = s then map_option (\<lambda>_. PStr st) (session_status w x) else session_status w x)"
    using row_of_update[OF up schema_ok(1) _ vals] by (auto simp: session_status_def w' option.map_comp comp_def fun_eq_iff)
  show "task_status w' = task_status w"
    using row_of_update_other[OF up, of tasks_def] by (simp add: task_status_def w' fun_eq_iff)
qed

lemma finish_task_abs:
  assumes "finish_task out t st ou e w = (Inr u, w')"
  shows "task_status w' = (\<lambda>x. if x = t then map_option (\<lambda>_. PStr st) (task_status w x) else task_status w x)"
    and "session_status w' = session_status w"
proof -
  from assms obtain t1 db where up: "sql_update tasks_def
      [(L ''status'', PStr st), (L ''output_json'', json_or_null ou), (L ''error_json'', json_or_null e), (L ''finished_at'', PStr t1)]
      (PStr t) (dbs w) = Inr db"
    and w': "dbs w' = db"
    unfolding finish_task_def by (auto elim!: sbind_InrE simp: exec_sql_Inr)
  obtain vals where vals: "bind_values 1 [(L ''status'', PStr st), (L ''output_json'', json_or_null ou),
      (L ''error_json'', json_or_null e), (L ''finished_at'', PStr t1)] = Inr vals"
    using sql_update_bound[OF up] by blast
  have "cell (set_cols tasks_def vals r) (L ''status'') = PStr st" for r
    using cell_set_cols_str[OF schema_ok(2) status_col(2) vals] by simp
  then show "task_status w' = (\<lambda>x. if x = t then map_option (\<lambda>_. PStr st) (task_status w x) else task_status w x)"
    using row_of_update[OF up schema_ok(2) _ vals] by (auto simp: task_status_def w' option.map_comp comp_def fun_eq_iff)
  show "session_status w' = session_status w"
    using row_of_update_other[OF up, of sessions_def] by (simp add: session_status_def w' fun_eq_iff)
qed

lemma create_session_abs:
  assumes "create_session out src role p m w = (Inr s, w')"
  shows "session_status w s = None" and "session_status w' = (session_status w)(s \<mapsto> PStr (L ''created''))"
    and "task_status w' = task_status w"
proof -
  let ?ps = "\<lambda>now. [(L ''id'', PStr s), (L ''source'', PStr src), (L ''role'', role), (L ''status'', PStr (L ''created'')),
        (L ''workspace_path'', PStr p), (L ''created_at'', PStr now), (L ''updated_at'', PStr now),
        (L ''last_active_at'', PStr now), (L ''metadata_json'', PStr (json_dumps_raw (py_or m empty_dict)))]"
  from assms obtain now db where ins: "sql_insert sessions_def (?ps now) (dbs w) = Inr db" and w': "dbs w' = db"
    unfolding create_session_def by (auto elim!: sbind_InrE simp: exec_sql_Inr)
  obtain vals where vals: "bind_values 1 (?ps now) = Inr vals" using sql_insert_bound[OF ins] by blast
  have id: "row_id (full_row sessions_def vals) = PStr s"
    using cell_full_row_str[OF schema_ok(1) status_col(3) vals] by (simp add: row_id_def)
  have st: "cell (full_row sessions_def vals) (L ''status'') = PStr (L ''created'')"
    using cell_full_row_str[OF schema_ok(1) status_col(1) vals] by simp
  note r = row_of_insert[OF ins vals id]
  show "session_status w s = None" using r(1) by (simp add: session_status_def)
  show "session_status w' = (session_status w)(s \<mapsto> PStr (L ''created''))"
    using r(2) st by (auto simp: session_status_def w' fun_eq_iff)
  show "task_status w' = task_status w"
    using row_of_insert_other[OF ins, of tasks_def] by (simp add: task_status_def w' fun_eq_iff)
qed

lemma create_task_abs:
  assumes "create_task out s role i w = (Inr t, w')"
  shows "task_status w t = None" and "task_status w' = (task_status w)(t \<mapsto> PStr (L ''queued''))"
    and "session_status w' = session_status w" and "session_status w s \<noteq> None"
proof -
  let ?ps = "\<lambda>now. [(L ''id'', PStr t), (L ''session_id'', PStr s), (L ''role'', role), (L ''status'', PStr (L ''queued'')),
        (L ''input_json'', PStr (json_dumps_raw i)), (L ''created_at'', PStr now)]"
  from assms obtain now db where ins: "sql_insert tasks_def (?ps now) (dbs w) = Inr db" and w': "dbs w' = db"
    unfolding create_task_def by (auto elim!: sbind_InrE simp: exec_sql_Inr)
  obtain vals where vals: "bind_values 1 (?ps now) = Inr vals" using sql_insert_bound[OF ins] by blast
  have id: "row_id (full_row tasks_def vals) = PStr t"
    using cell_full_row_str[OF schema_ok(2) status_col(4) vals] by (simp add: row_id_def)
  have st: "cell (full_row tasks_def vals) (L ''status'') = PStr (L ''queued'')"
    using cell_full_row_str[OF schema_ok(2) status_col(2) vals] by simp
  have "need_col ''session_id'' \<in> set (tab_cols tasks_def)" by (simp add: tasks_def_def)
  from cell_full_row_str[OF schema_ok(2) this vals] have sid: "cell (full_row tasks_def vals) (L ''session_id'') = PStr s" by simp
  note r = row_of_insert[OF ins vals id]
  show "task_status w t = None" using r(1) by (simp add: task_status_def)
  show "task_status w' = (task_status w)(t \<mapsto> PStr (L ''queued''))"
    using r(2) st by (auto simp: task_status_def w' fun_eq_iff)
  show "session_status w' = session_status w"
    using row_of_insert_other[OF ins, of sessions_def] by (simp add: session_status_def w' fun_eq_iff)
  have "fk_ok (dbs w) (full_row tasks_def vals) (L ''session_id'', L ''sessions'')"
    using ins
  proof (rule sql_insert_row)
    fix vals' assume "bind_values 1 (?ps now) = Inr vals'" "list_all (fk_ok (dbs w) (full_row tasks_def vals')) (tab_fks tasks_def)"
    then have "vals' = vals" "list_all (fk_ok (dbs w) (full_row tasks_def vals')) [(L ''session_id'', L ''sessions'')]"
      unfolding vals by simp_all
    then show ?thesis by simp
  qed
  then have "PStr s \<in> table_ids (dbs w) (L ''sessions'')" using sid by (simp add: fk_ok_ids)
  then show "session_status w s \<noteq> None"
    by (cases "dbs w (L ''sessions'')") (auto simp: session_status_def row_of_def table_ids_def find_None_iff image_iff simp del: not_None_eq)
qed

text \<open>The statuses are kept by every statement on the other tables.\<close>

definition status_is :: "(pystr \<rightharpoonup> pyval) \<Rightarrow> (pystr \<rightharpoonup> pyval) \<Rightarrow> world \<Rightarrow> bool" where
  "status_is S T w \<longleftrightarrow> session_status w = S \<and> task_status w = T"

lemma db_only_status [keeps_intros]: "db_only (status_is S T)"
proof -
  have "session_status w = session_status w'" "task_status w = task_status w'" if "dbs w = dbs w'" for w w'
    by (intro ext, simp add: session_status_def task_status_def that)+
  then show ?thesis unfolding db_only_def status_is_def by metis
qed

lemma keeps_status_insert:
  assumes "tab_name t \<noteq> L ''sessions''" "tab_name t \<noteq> L ''tasks''"
  shows "keeps (status_is S T) (exec_sql (sql_insert t r))"
proof (rule keepsI)
  fix w x w' assume I: "status_is S T w" and e: "exec_sql (sql_insert t r) w = (x, w')"
  show "status_is S T w'"
  proof (cases "sql_insert t r (dbs w)")
    case (Inl a)
    then show ?thesis using I e by (simp add: exec_sql_def)
  next
    case (Inr db)
    then have "row_of db sessions_def k = row_of (dbs w) sessions_def k" "row_of db tasks_def k = row_of (dbs w) tasks_def k" for k
      using row_of_insert_other[OF Inr] assms by auto
    then show ?thesis using I e Inr by (auto simp: exec_sql_def status_is_def session_status_def task_status_def fun_eq_iff)
  qed
qed

lemma keeps_status_record_tool_event [keeps_intros]: "keeps (status_is S T) (record_tool_event out ev)"
  unfolding record_tool_event_def by (intro keeps_intros keeps_status_insert) simp_all

lemma keeps_status_record_queue [keeps_intros]: "keeps (status_is S T) (record_research_queue_item out q)"
  unfolding record_research_queue_item_def by (intro keeps_intros keeps_status_insert) simp_all

lemma keeps_status_record_document [keeps_intros]: "keeps (status_is S T) (record_document out r p t d st refs c m)"
  unfolding record_document_def by (intro keeps_intros keeps_status_insert) simp_all

lemma keeps_status_list_queue [keeps_intros]: "keeps (status_is S T) (list_research_queue out st)"
  unfolding list_research_queue_def by (intro keeps_intros) (auto simp: keeps_def split: option.splits)

section \<open>The interface the runners use\<close>

text \<open>
  What a client of the store of sessions and tasks relies on: creating returns a fresh id with the
  initial status and changes nothing else; updating one status changes nothing else.  The client
  lemmas are proved from these laws alone.
\<close>

locale task_store =
  fixes sess :: "'w \<Rightarrow> 'i \<Rightarrow> 's option"
    and tsk :: "'w \<Rightarrow> 'i \<Rightarrow> 's option"
    and new_session :: "'a \<Rightarrow> ('w, 'i) eff"
    and new_task :: "'i \<Rightarrow> 'b \<Rightarrow> ('w, 'i) eff"
    and set_session :: "'i \<Rightarrow> 'v \<Rightarrow> ('w, unit) eff"
    and set_task :: "'i \<Rightarrow> 'v \<Rightarrow> 'c \<Rightarrow> ('w, unit) eff"
    and stored :: "'v \<Rightarrow> 's" and created :: 's and queued :: 's
  assumes new_session_law: "new_session a w = (Inr s, w') \<Longrightarrow>
      sess w s = None \<and> sess w' = (sess w)(s \<mapsto> created) \<and> tsk w' = tsk w"
    and new_task_law: "new_task s b w = (Inr t, w') \<Longrightarrow>
      tsk w t = None \<and> tsk w' = (tsk w)(t \<mapsto> queued) \<and> sess w' = sess w \<and> sess w s \<noteq> None"
    and set_session_law: "set_session s x w = (Inr u, w') \<Longrightarrow>
      sess w' = (\<lambda>y. if y = s then map_option (\<lambda>_. stored x) (sess w y) else sess w y) \<and> tsk w' = tsk w"
    and set_task_law: "set_task t x c w = (Inr u, w') \<Longrightarrow>
      tsk w' = (\<lambda>y. if y = t then map_option (\<lambda>_. stored x) (tsk w y) else tsk w y) \<and> sess w' = sess w"
begin

text \<open>Opening a run: a new session, set to a status, and a task in it.\<close>

definition open_run :: "'a \<Rightarrow> 'v \<Rightarrow> 'b \<Rightarrow> ('w, 'i \<times> 'i) eff" where
  "open_run a x b = sbind (new_session a) (\<lambda>s. sbind (set_session s x) (\<lambda>_. sbind (new_task s b) (\<lambda>t. ret (s, t))))"

text \<open>Closing it: the outcome of the task, then the status of the session.\<close>

definition close_run :: "'i \<Rightarrow> 'i \<Rightarrow> 'v \<Rightarrow> 'c \<Rightarrow> 'v \<Rightarrow> ('w, unit) eff" where
  "close_run s t x c y = sbind (set_task t x c) (\<lambda>_. set_session s y)"

lemma open_run_fresh:
  assumes "open_run a x b w = (Inr (s, t), w')"
  shows "sess w s = None" "tsk w t = None" "sess w' = (sess w)(s \<mapsto> stored x)" "tsk w' = (tsk w)(t \<mapsto> queued)"
proof -
  from assms obtain w1 w2 w3 u where 1: "new_session a w = (Inr s, w1)" and 2: "set_session s x w1 = (Inr u, w2)"
    and 3: "new_task s b w2 = (Inr t, w3)" and w': "w' = w3"
    unfolding open_run_def by (auto elim!: sbind_InrE)
  note l = new_session_law[OF 1] set_session_law[OF 2] new_task_law[OF 3]
  show "sess w s = None" using l by simp
  show "tsk w t = None" using l by simp
  show "sess w' = (sess w)(s \<mapsto> stored x)" using l w' by (auto simp: fun_eq_iff)
  show "tsk w' = (tsk w)(t \<mapsto> queued)" using l w' by simp
qed

lemma close_run_final:
  assumes "close_run s t x c y w = (Inr u, w')" and "sess w s \<noteq> None" and "tsk w t \<noteq> None"
  shows "sess w' = (sess w)(s \<mapsto> stored y)" "tsk w' = (tsk w)(t \<mapsto> stored x)"
proof -
  from assms(1) obtain w1 v where 1: "set_task t x c w = (Inr v, w1)" and 2: "set_session s y w1 = (Inr u, w')"
    unfolding close_run_def by (auto elim!: sbind_InrE)
  note l = set_task_law[OF 1] set_session_law[OF 2]
  show "sess w' = (sess w)(s \<mapsto> stored y)" using l assms(2) by (auto simp: fun_eq_iff)
  show "tsk w' = (tsk w)(t \<mapsto> stored x)" using l assms(3) by (auto simp: fun_eq_iff)
qed

end

text \<open>The repository is such a store, whatever the outside world does.\<close>

interpretation repo: task_store session_status task_status
  "\<lambda>(src, role). create_session out src role [] PNone" "\<lambda>s (role, i). create_task out s role i"
  "update_session_status out" "\<lambda>t st (ou, e). finish_task out t st ou e"
  PStr "PStr (L ''created'')" "PStr (L ''queued'')" for out
  by unfold_locales
    (auto simp: create_session_abs create_task_abs update_session_status_abs finish_task_abs
      dest: create_task_abs(4) split: prod.splits)

text \<open>C25. Refinement: seen through the status of each session and task, the repository's operations are
  the updates of two maps.  Creating returns an id that was not in use and adds it with its initial
  status (a task only within an existing session); an update of a status changes that entry, if
  there is one, and nothing else.\<close>

theorem repository_refines_maps:
  "(create_session out src role path meta w = (Inr s, w') \<longrightarrow>
      session_status w s = None \<and> session_status w' = (session_status w)(s \<mapsto> PStr (L ''created'')) \<and> task_status w' = task_status w) \<and>
   (create_task out sid role inp w = (Inr t, w') \<longrightarrow>
      session_status w sid \<noteq> None \<and> task_status w t = None \<and> task_status w' = (task_status w)(t \<mapsto> PStr (L ''queued'')) \<and>
      session_status w' = session_status w) \<and>
   (update_session_status out sid st w = (Inr u, w') \<longrightarrow>
      session_status w' = (\<lambda>x. if x = sid then map_option (\<lambda>_. PStr st) (session_status w x) else session_status w x) \<and>
      task_status w' = task_status w) \<and>
   (finish_task out tid st ou err w = (Inr u, w') \<longrightarrow>
      task_status w' = (\<lambda>x. if x = tid then map_option (\<lambda>_. PStr st) (task_status w x) else task_status w x) \<and>
      session_status w' = session_status w)"
  using create_session_abs[of out src role path meta w s w'] create_task_abs[of out sid role inp w t w']
    update_session_status_abs[of out sid st w u w'] finish_task_abs[of out tid st ou err w u w']
  by blast

text \<open>A run of the operations in a small world.\<close>

definition demo_session :: "pystr result \<times> world" where
  "demo_session = create_session demo_out (L ''cli'') (PStr (L ''r'')) [] PNone demo_start_world"

theorem repository_refines_maps_witness:
  "session_status demo_start_world (projr (fst demo_session)) = None \<and>
   session_status (snd demo_session) = (session_status demo_start_world)(projr (fst demo_session) \<mapsto> PStr (L ''created''))"
proof -
  have "\<not> isl (fst demo_session)" by code_simp
  then have "create_session demo_out (L ''cli'') (PStr (L ''r'')) [] PNone demo_start_world = (Inr (projr (fst demo_session)), snd demo_session)"
    unfolding demo_session_def[symmetric] by (rule result_pair)
  with repository_refines_maps[of demo_out "L ''cli''" "PStr (L ''r'')" "[]" PNone demo_start_world "projr (fst demo_session)" "snd demo_session"]
  show ?thesis by blast
qed

section \<open>The research queue\<close>

lemma set_insert_row: "set (insert_row r rs) = insert r (set rs)"
  by (induction rs) auto

lemma set_order_rows: "set (order_rows rs) = set rs"
  unfolding order_rows_def by (induction rs) (auto simp: set_insert_row)

lemma length_order_rows: "length (order_rows rs) = length rs"
proof -
  have "length (insert_row r rs) = Suc (length rs)" for r rs by (induction rs) auto
  then show ?thesis unfolding order_rows_def by (induction rs) auto
qed

lemma emap_total: "(\<exists>ys. emap f xs = Inr ys) \<longleftrightarrow> (\<forall>x \<in> set xs. \<exists>y. f x = Inr y)"
  by (induction xs) auto

lemma emap_member: "emap f xs = Inr ys \<Longrightarrow> x \<in> set xs \<Longrightarrow> f x = Inr y \<Longrightarrow> y \<in> set ys"
  by (induction xs arbitrary: ys) auto

lemma cell_dict_set: "cell (dict_set k v r) c = (if c = k then v else cell r c)"
  by (induction r) (auto simp: cell_def assoc_get_def split: if_splits)

lemma cell_filter: "cell (filter (\<lambda>(x, _). x \<noteq> k) r) c = (if c = k then PNone else cell r c)"
  by (induction r) (auto simp: cell_def assoc_get_def)

lemma load_column_json:
  assumes "cell r (L c) = PStr (json_dumps_raw v)" and "json_ok False v"
  shows "\<exists>r'. load_column c k d r = Inr r' \<and> cell r' (L k) = v \<and> (\<forall>x. x \<noteq> L k \<longrightarrow> x \<noteq> L c \<longrightarrow> cell r' x = cell r x)"
proof -
  have "json_loads (json_dumps_raw v) = Inr v" unfolding json_dumps_raw_def by (rule json_roundtrip_enc[OF assms(2)])
  moreover have "json_dumps_raw v \<noteq> []" unfolding json_dumps_raw_def using json_enc_start[OF assms(2), of None 0] by auto
  ultimately show ?thesis using assms(1) by (simp add: load_column_def py_or_def cell_dict_set cell_filter)
qed

lemma queue_entry_json:
  assumes "cell r (L ''source_refs_json'') = PStr (json_dumps_raw refs)" "json_ok False refs"
    and "cell r (L ''metadata_json'') = PStr (json_dumps_raw meta)" "json_ok False meta"
  shows "\<exists>q. queue_entry r = Inr (PDict q) \<and> cell q (L ''source_refs'') = refs \<and> cell q (L ''metadata'') = meta \<and>
    cell q (L ''id'') = cell r (L ''id'') \<and> cell q (L ''status'') = cell r (L ''status'') \<and> cell q (L ''score'') = cell r (L ''score'')"
proof -
  from load_column_json[OF assms(1,2), of "''source_refs''" "''[]''"] obtain r1 where
    r1: "load_column ''source_refs_json'' ''source_refs'' ''[]'' r = Inr r1" "cell r1 (L ''source_refs'') = refs"
      "\<forall>x. x \<noteq> L ''source_refs'' \<longrightarrow> x \<noteq> L ''source_refs_json'' \<longrightarrow> cell r1 x = cell r x" by blast
  then have "cell r1 (L ''metadata_json'') = PStr (json_dumps_raw meta)" using assms(3) by simp
  from load_column_json[OF this assms(4), of "''metadata''" "''{}''"] obtain r2 where
    "load_column ''metadata_json'' ''metadata'' ''{}'' r1 = Inr r2" "cell r2 (L ''metadata'') = meta"
      "\<forall>x. x \<noteq> L ''metadata'' \<longrightarrow> x \<noteq> L ''metadata_json'' \<longrightarrow> cell r2 x = cell r1 x" by blast
  with r1 show ?thesis by (simp add: queue_entry_def)
qed

lemma list_research_queue_Inr:
  "list_research_queue out st w = (Inr items, w') \<Longrightarrow>
    \<exists>rows. dbs w (L ''research_queue'') = Some rows \<and>
      emap queue_entry (order_rows (filter (\<lambda>r. case st of None \<Rightarrow> True | Some s \<Rightarrow> cell r (L ''status'') = PStr s) rows)) = Inr items"
  unfolding list_research_queue_def by (erule sbind_InrE) (auto split: option.splits)

lemma list_research_queue_db: "list_research_queue out st w = (r, w') \<Longrightarrow> dbs w' = dbs w"
  unfolding list_research_queue_def by (erule sbind_cases) (auto split: option.splits)

lemma record_queue_row:
  assumes "record_research_queue_item out q w = (Inr i, w')"
  obtains rows r where "dbs w (L ''research_queue'') = Some rows" "dbs w' (L ''research_queue'') = Some (rows @ [r])"
    "cell r (L ''id'') = PStr i" "cell r (L ''status'') = PStr (qi_status q)"
    "cell r (L ''source_refs_json'') = PStr (json_dumps_raw (qi_refs q))"
    "cell r (L ''metadata_json'') = PStr (json_dumps_raw (py_or (qi_metadata q) empty_dict))"
    "cell r (L ''score'') = PInt (qi_score q)"
proof -
  let ?ps = "\<lambda>now. [(L ''id'', PStr i), (L ''source'', PStr (qi_source q)), (L ''topic'', qi_topic q), (L ''ticker'', qi_ticker q),
        (L ''company_name'', qi_company q), (L ''reason'', qi_reason q),
        (L ''source_refs_json'', PStr (json_dumps_raw (qi_refs q))), (L ''score'', PInt (qi_score q)),
        (L ''status'', PStr (qi_status q)), (L ''assigned_role'', opt_str (qi_role q)), (L ''created_at'', PStr now),
        (L ''updated_at'', PStr now), (L ''metadata_json'', PStr (json_dumps_raw (py_or (qi_metadata q) empty_dict)))]"
  from assms obtain now db where ins: "sql_insert research_queue_def (?ps now) (dbs w) = Inr db" and w': "dbs w' = db"
    unfolding record_research_queue_item_def by (auto elim!: sbind_InrE simp: exec_sql_Inr)
  from ins show ?thesis
  proof (rule sql_insert_row)
    fix rows vals
    assume rows: "dbs w (tab_name research_queue_def) = Some rows" and vals: "bind_values 1 (?ps now) = Inr vals"
      and db: "db = (dbs w)(tab_name research_queue_def \<mapsto> rows @ [full_row research_queue_def vals])"
    let ?m = "(need_col ''metadata_json'')\<lparr>col_default := PStr (L ''{}'')\<rparr>"
    let ?s = "(int_col ''score'')\<lparr>col_notnull := True, col_default := PInt 0\<rparr>"
    have cols: "text_col ''id'' \<in> set (tab_cols research_queue_def)" "need_col ''status'' \<in> set (tab_cols research_queue_def)"
      "need_col ''source_refs_json'' \<in> set (tab_cols research_queue_def)" "?m \<in> set (tab_cols research_queue_def)"
      "?s \<in> set (tab_cols research_queue_def)"
      by (simp_all add: research_queue_def_def)
    note str = cell_full_row_str[OF schema_ok(4) _ vals]
    have "map_of vals (L ''score'') = Some (PInt (qi_score q))"
      using vals by (auto split: if_splits)
    then have "cell (full_row research_queue_def vals) (L ''score'') = PInt (qi_score q)"
      using cell_full_row[OF schema_ok(4) cols(5), of vals] by (simp add: assoc_get_def)
    then show ?thesis using rows db w' str[OF cols(1)] str[OF cols(2)] str[OF cols(3)] str[OF cols(4)]
      by (intro that[of rows "full_row research_queue_def vals"]) simp_all
  qed
qed

text \<open>C26. Round trip through the queue: after an item has been recorded into a readable queue, listing the
  queue succeeds, shows one item more than before, and the new item has the id that was returned, its
  status and score, and its source references and metadata exactly as they were passed.\<close>

theorem research_queue_roundtrip:
  assumes "list_research_queue out None w0 = (Inr items0, w)"
    and "record_research_queue_item out q w = (Inr i, w1)" and "o_conn out (conns w1) = None"
    and "json_ok False (qi_refs q)" and "json_ok False (py_or (qi_metadata q) empty_dict)"
  shows "\<exists>items w2 r. list_research_queue out None w1 = (Inr items, w2) \<and> length items = Suc (length items0) \<and>
    PDict r \<in> set items \<and> cell r (L ''id'') = PStr i \<and> cell r (L ''status'') = PStr (qi_status q) \<and>
    cell r (L ''score'') = PInt (qi_score q) \<and> cell r (L ''source_refs'') = qi_refs q \<and>
    cell r (L ''metadata'') = py_or (qi_metadata q) empty_dict"
  using assms(2)
proof (rule record_queue_row)
  fix rows r
  assume rows: "dbs w (L ''research_queue'') = Some rows" and new: "dbs w1 (L ''research_queue'') = Some (rows @ [r])"
    and r: "cell r (L ''id'') = PStr i" "cell r (L ''status'') = PStr (qi_status q)"
    "cell r (L ''source_refs_json'') = PStr (json_dumps_raw (qi_refs q))"
    "cell r (L ''metadata_json'') = PStr (json_dumps_raw (py_or (qi_metadata q) empty_dict))"
    "cell r (L ''score'') = PInt (qi_score q)"
  have old: "emap queue_entry (order_rows rows) = Inr items0"
    using list_research_queue_Inr[OF assms(1)] rows list_research_queue_db[OF assms(1)] by simp
  from queue_entry_json[OF r(3) assms(4) r(4) assms(5)] r obtain e where
    e: "queue_entry r = Inr (PDict e)" "cell e (L ''source_refs'') = qi_refs q"
      "cell e (L ''metadata'') = py_or (qi_metadata q) empty_dict" "cell e (L ''id'') = PStr i"
      "cell e (L ''status'') = PStr (qi_status q)" "cell e (L ''score'') = PInt (qi_score q)" by auto
  have "\<forall>x \<in> set rows. \<exists>y. queue_entry x = Inr y"
    using emap_total[of queue_entry "order_rows rows"] old by (auto simp: set_order_rows)
  then obtain items where items: "emap queue_entry (order_rows (rows @ [r])) = Inr items"
    using emap_total[of queue_entry "order_rows (rows @ [r])"] e(1) by (auto simp: set_order_rows)
  have "length items = Suc (length items0)"
    using length_emap[OF items] length_emap[OF old] by (simp add: length_order_rows)
  moreover have "PDict e \<in> set items" using emap_member[OF items _ e(1)] by (simp add: set_order_rows)
  moreover have "\<exists>w2. list_research_queue out None w1 = (Inr items, w2)"
    using new items assms(3) by (simp add: list_research_queue_def connect_def)
  ultimately show ?thesis using e(2-) by blast
qed


definition demo_item :: queue_item where
  "demo_item = \<lparr>qi_source = L ''x'', qi_topic = PStr (L ''q''), qi_reason = PStr (L ''r''),
     qi_refs = PList [PDict [(L ''id'', PStr [0x3042, 34])]], qi_score = 7, qi_status = L ''new'', qi_role = None,
     qi_ticker = PNone, qi_company = PNone, qi_metadata = PNone\<rparr>"

definition demo_list :: "pyval list result \<times> world" where
  "demo_list = list_research_queue demo_out None demo_start_world"

definition demo_record :: "pystr result \<times> world" where
  "demo_record = record_research_queue_item demo_out demo_item (snd demo_list)"

theorem research_queue_roundtrip_witness:
  "\<exists>items w2 r. list_research_queue demo_out None (snd demo_record) = (Inr items, w2) \<and>
    length items = Suc (length (projr (fst demo_list))) \<and>
    PDict r \<in> set items \<and> cell r (L ''id'') = PStr (projr (fst demo_record)) \<and> cell r (L ''status'') = PStr (qi_status demo_item) \<and>
    cell r (L ''score'') = PInt (qi_score demo_item) \<and> cell r (L ''source_refs'') = qi_refs demo_item \<and>
    cell r (L ''metadata'') = py_or (qi_metadata demo_item) empty_dict"
proof (rule research_queue_roundtrip)
  have "\<not> isl (fst demo_list)" by code_simp
  then show "list_research_queue demo_out None demo_start_world = (Inr (projr (fst demo_list)), snd demo_list)"
    unfolding demo_list_def[symmetric] by (rule result_pair)
  have "\<not> isl (fst demo_record)" by code_simp
  then show "record_research_queue_item demo_out demo_item (snd demo_list) = (Inr (projr (fst demo_record)), snd demo_record)"
    unfolding demo_record_def[symmetric] by (rule result_pair)
  show "o_conn demo_out (conns (snd demo_record)) = None" by (simp add: demo_out_def)
  show "json_ok False (qi_refs demo_item)" "json_ok False (py_or (qi_metadata demo_item) empty_dict)" by code_simp+
qed

lemma record_document_row:
  assumes "record_document out repo path title dt st refs sha meta w = (Inr i, w')"
  obtains rows r where "dbs w (L ''documents'') = Some rows" "dbs w' (L ''documents'') = Some (rows @ [r])"
    "cell r (L ''id'') = PStr i" "cell r (L ''path'') = PStr path" "cell r (L ''status'') = PStr st"
proof -
  let ?ps = "\<lambda>now. [(L ''id'', PStr i), (L ''repo'', opt_str repo), (L ''path'', PStr path), (L ''title'', PStr title),
        (L ''doc_type'', PStr dt), (L ''status'', PStr st), (L ''source_refs_json'', PStr (json_dumps_raw refs)),
        (L ''commit_sha'', opt_str sha), (L ''created_at'', PStr now), (L ''updated_at'', PStr now),
        (L ''metadata_json'', PStr (json_dumps_raw (py_or meta empty_dict)))]"
  from assms obtain now db where ins: "sql_insert documents_def (?ps now) (dbs w) = Inr db" and w': "dbs w' = db"
    unfolding record_document_def by (auto elim!: sbind_InrE simp: exec_sql_Inr)
  from ins show ?thesis
  proof (rule sql_insert_row)
    fix rows vals
    assume rows: "dbs w (tab_name documents_def) = Some rows" and vals: "bind_values 1 (?ps now) = Inr vals"
      and db: "db = (dbs w)(tab_name documents_def \<mapsto> rows @ [full_row documents_def vals])"
    have cols: "text_col ''id'' \<in> set (tab_cols documents_def)" "need_col ''path'' \<in> set (tab_cols documents_def)"
      "need_col ''status'' \<in> set (tab_cols documents_def)"
      by (simp_all add: documents_def_def)
    note str = cell_full_row_str[OF schema_ok(5) _ vals]
    show ?thesis using rows db w' str[OF cols(1)] str[OF cols(2)] str[OF cols(3)]
      by (intro that[of rows "full_row documents_def vals"]) simp_all
  qed
qed

section \<open>No operation talks to a server\<close>

lemma sends_repository [sends_intros]:
  "sends [] (create_session out s r p m)" "sends [] (update_session_status out s st)" "sends [] (create_task out s' r' i)"
  "sends [] (finish_task out t st' ou e)" "sends [] (record_tool_event out ev)" "sends [] (record_research_queue_item out q)"
  "sends [] (record_document out r'' p' ti d st'' refs c m')"
  unfolding create_session_def update_session_status_def create_task_def finish_task_def record_tool_event_def
    record_research_queue_item_def record_document_def
  by (intro sends_intros)+

section \<open>Errors of the operations\<close>

lemma roe_create_session [tame_intros]: "tame_outside out \<Longrightarrow> raises_only_Exception (create_session out s r p m)"
  unfolding create_session_def by (intro tame_intros)

lemma roe_update_session_status [tame_intros]: "tame_outside out \<Longrightarrow> raises_only_Exception (update_session_status out s st)"
  unfolding update_session_status_def by (intro tame_intros)

lemma roe_create_task [tame_intros]: "tame_outside out \<Longrightarrow> raises_only_Exception (create_task out s r i)"
  unfolding create_task_def by (intro tame_intros)

lemma roe_finish_task [tame_intros]: "tame_outside out \<Longrightarrow> raises_only_Exception (finish_task out t st ou e)"
  unfolding finish_task_def by (intro tame_intros)

lemma tame_event_index [tame_intros]: "tame_res (event_index ev k)"
  unfolding event_index_def by (intro tame_intros) simp_all

lemma roe_record_tool_event [tame_intros]: "tame_outside out \<Longrightarrow> raises_only_Exception (record_tool_event out ev)"
  unfolding record_tool_event_def by (intro tame_intros)

lemma roe_record_research_queue_item [tame_intros]:
  "tame_outside out \<Longrightarrow> raises_only_Exception (record_research_queue_item out q)"
  unfolding record_research_queue_item_def by (intro tame_intros)

lemma roe_record_document [tame_intros]:
  "tame_outside out \<Longrightarrow> raises_only_Exception (record_document out r p t d st refs c m)"
  unfolding record_document_def by (intro tame_intros)

end
