(* ===== verification/Fnmatch.thy ===== *)
theory Fnmatch
  imports PyValue
begin

text \<open>
  Shell patterns as \<^verbatim>\<open>fnmatch.fnmatch\<close> of the Python standard library reads them on POSIX:
  \<^verbatim>\<open>*\<close> matches any text (slashes included), \<^verbatim>\<open>?\<close> one character, \<^verbatim>\<open>[seq]\<close> and \<^verbatim>\<open>[!seq]\<close> one
  character of a class.  A pattern is parsed into tokens and matched against the whole text.
\<close>

datatype glob = GStar | GAny | GLit int | GClass bool "(int \<times> int) list"

section \<open>Character classes\<close>

text \<open>The text between the brackets and what follows them; \<open>None\<close> when no bracket closes it.\<close>

definition class_split :: "pystr \<Rightarrow> (pystr \<times> pystr) option" where
  "class_split p =
     (let (a, p1) = (if p \<noteq> [] \<and> hd p = 33 then ([33], tl p) else ([], p));
          (b, p2) = (if p1 \<noteq> [] \<and> hd p1 = 93 then ([93], tl p1) else ([], p1));
          body = takeWhile (\<lambda>c. c \<noteq> 93) p2; rest = dropWhile (\<lambda>c. c \<noteq> 93) p2
      in if rest = [] then None else Some (a @ b @ body, tl rest))"

text \<open>The text is cut at the hyphens that make ranges; \<open>n\<close> characters are skipped first.\<close>

function chunks :: "nat \<Rightarrow> pystr \<Rightarrow> pystr list" where
  "chunks n s =
     (if List.member (drop n s) 45
      then (let k = n + length (takeWhile (\<lambda>c. c \<noteq> 45) (drop n s))
            in take k s # chunks 2 (drop (Suc k) s))
      else [s])"
  by pat_completeness auto
termination
proof (relation "measure (\<lambda>(n, s). length s)")
  fix n :: nat and s :: pystr and k
  assume "List.member (drop n s) 45"
  then have "s \<noteq> []" by auto
  then show "((2, drop (Suc k) s), n, s) \<in> measure (\<lambda>(n, s). length s)" by simp
qed simp

declare chunks.simps [simp del]

text \<open>A trailing hyphen is literal; a range with its ends in the wrong order is removed.\<close>

definition close_chunks :: "pystr list \<Rightarrow> pystr list" where
  "close_chunks cs = (if 2 \<le> length cs \<and> last cs = []
     then butlast (butlast cs) @ [last (butlast cs) @ [45]] else cs)"

fun merge_chunks :: "pystr list \<Rightarrow> pystr list" where
  "merge_chunks [] = []"
| "merge_chunks (c # cs) =
     (case merge_chunks cs of
        [] \<Rightarrow> [c]
      | d # ds \<Rightarrow> if last c > hd d then (butlast c @ tl d) # ds else c # d # ds)"

fun chunk_ranges :: "pystr list \<Rightarrow> (int \<times> int) list" where
  "chunk_ranges [] = []"
| "chunk_ranges [c] = map (\<lambda>x. (x, x)) c"
| "chunk_ranges (c # d # cs) = map (\<lambda>x. (x, x)) c @ (last c, hd d) # chunk_ranges (d # cs)"

definition class_token :: "pystr \<Rightarrow> glob" where
  "class_token stuff =
     (let cs = (if List.member stuff 45
                then merge_chunks (close_chunks (chunks (if hd stuff = 33 then 2 else 1) stuff))
                else [stuff])
      in case cs of
           (c # s) # ds \<Rightarrow> if c = 33 then GClass True (chunk_ranges (s # ds)) else GClass False (chunk_ranges cs)
         | _ \<Rightarrow> GClass False [])"

section \<open>Parsing and matching\<close>

lemma length_dropWhile_less: "length q \<le> n \<Longrightarrow> length (dropWhile P q) - Suc 0 < Suc n"
  using length_dropWhile_le[of P q] by linarith

lemma class_split_shorter: "class_split p = Some (s, r) \<Longrightarrow> length r < length p"
  unfolding class_split_def Let_def
  by (cases p) (auto split: if_splits intro!: length_dropWhile_less)

function glob_parse :: "pystr \<Rightarrow> glob list" where
  "glob_parse [] = []"
| "glob_parse (c # p) =
     (if c = 42 then GStar # glob_parse p
      else if c = 63 then GAny # glob_parse p
      else if c = 91 then
        (case class_split p of
           None \<Rightarrow> GLit 91 # glob_parse p
         | Some (stuff, rest) \<Rightarrow> class_token stuff # glob_parse rest)
      else GLit c # glob_parse p)"
  by pat_completeness auto
termination
  by (relation "measure length") (auto dest: class_split_shorter)

fun glob_char :: "glob \<Rightarrow> int \<Rightarrow> bool" where
  "glob_char GStar c = False"
| "glob_char GAny c = True"
| "glob_char (GLit x) c = (c = x)"
| "glob_char (GClass neg rs) c = (neg \<noteq> list_ex (\<lambda>(a, b). a \<le> c \<and> c \<le> b) rs)"

fun glob_match :: "glob list \<Rightarrow> pystr \<Rightarrow> bool" where
  "glob_match [] s = (s = [])"
| "glob_match (GStar # g) [] = glob_match g []"
| "glob_match (GStar # g) (c # s) = (glob_match g (c # s) \<or> glob_match (GStar # g) s)"
| "glob_match (t # g) [] = False"
| "glob_match (t # g) (c # s) = (glob_char t c \<and> glob_match g s)"

definition fnmatch :: "pystr \<Rightarrow> pystr \<Rightarrow> bool" where
  "fnmatch name pat = glob_match (glob_parse pat) name"

text \<open>A pattern that is not a string is a \<^verbatim>\<open>TypeError\<close>.\<close>

fun fnmatch_val :: "pystr \<Rightarrow> pyval \<Rightarrow> bool result" where
  "fnmatch_val name (PStr pat) = Inr (fnmatch name pat)"
| "fnmatch_val name v = Inl (Exc TypeError
     (L ''expected str, bytes or os.PathLike object, not '' @ type_name v))"

section \<open>What patterns match\<close>

text \<open>A pattern without the special characters matches exactly itself.\<close>

definition plain :: "pystr \<Rightarrow> bool" where
  "plain p = (\<forall>c \<in> set p. c \<noteq> 42 \<and> c \<noteq> 63 \<and> c \<noteq> 91)"

lemma glob_parse_plain_append: "plain p \<Longrightarrow> glob_parse (p @ q) = map GLit p @ glob_parse q"
  by (induction p) (auto simp: plain_def)

lemma glob_parse_plain: "plain p \<Longrightarrow> glob_parse p = map GLit p"
  using glob_parse_plain_append[of p "[]"] by simp

lemma glob_match_star_iff:
  "glob_match (GStar # g) s \<longleftrightarrow> (\<exists>t u. s = t @ u \<and> glob_match g u)"
proof (induction s)
  case Nil
  then show ?case by simp
next
  case (Cons c s)
  have "(\<exists>t u. c # s = t @ u \<and> glob_match g u) \<longleftrightarrow>
        glob_match g (c # s) \<or> (\<exists>t u. s = t @ u \<and> glob_match g u)"
    by (metis append_Cons append_Nil list.exhaust list.inject)
  with Cons show ?case by simp
qed

lemma glob_match_GLit_iff:
  "glob_match (GLit x # g) s \<longleftrightarrow> (\<exists>u. s = x # u \<and> glob_match g u)"
  by (cases s) auto

lemma glob_match_lits_append:
  "glob_match (map GLit p @ g) s \<longleftrightarrow> (\<exists>u. s = p @ u \<and> glob_match g u)"
  by (induction p arbitrary: s) (auto simp: glob_match_GLit_iff)

lemma glob_match_stars: "g \<noteq> [] \<Longrightarrow> set g \<subseteq> {GStar} \<Longrightarrow> glob_match g s"
proof (induction g arbitrary: s)
  case (Cons t g)
  then show ?case
    by (cases "g = []") (auto simp: glob_match_star_iff)
qed simp

lemma fnmatch_plain: "plain p \<Longrightarrow> fnmatch s p \<longleftrightarrow> s = p"
  using glob_match_lits_append[of p "[]" s] by (auto simp: fnmatch_def glob_parse_plain)

text \<open>A plain prefix followed by stars matches every text with that prefix.\<close>

lemma fnmatch_prefix_stars:
  assumes "plain p" and "n \<noteq> 0"
  shows "fnmatch s (p @ replicate n 42) \<longleftrightarrow> prefix p s"
proof -
  have "glob_parse (replicate n 42) = replicate n GStar" by (induction n) auto
  then show ?thesis using assms
    by (auto simp: fnmatch_def glob_parse_plain_append glob_match_lits_append prefix_def
        intro!: glob_match_stars)
qed

lemma tame_fnmatch_val [tame_intros]: "tame_res (fnmatch_val s p)"
  by (cases p) (simp_all add: tame_intros)

end
