(* ===== verification/PathPolicy.thy ===== *)
theory PathPolicy
  imports Fnmatch
begin

text \<open>
  \<^verbatim>\<open>security/path_policy.py\<close>: the decision whether a document path may be written, on top of
  \<^verbatim>\<open>posixpath.normpath\<close> and \<^verbatim>\<open>fnmatch\<close>.
\<close>

section \<open>posixpath.normpath\<close>

abbreviation slash :: int where "slash \<equiv> 47"
abbreviation dot :: pystr where "dot \<equiv> [46]"
abbreviation dotdot :: pystr where "dotdot \<equiv> [46, 46]"

text \<open>The component loop; the components kept so far are in reverse order.\<close>

fun norm_comps :: "bool \<Rightarrow> pystr list \<Rightarrow> pystr list \<Rightarrow> pystr list" where
  "norm_comps rooted acc [] = rev acc"
| "norm_comps rooted acc (c # cs) =
     (if c = [] \<or> c = dot then norm_comps rooted acc cs
      else if c \<noteq> dotdot \<or> (\<not> rooted \<and> acc = []) \<or> (acc \<noteq> [] \<and> hd acc = dotdot)
      then norm_comps rooted (c # acc) cs
      else norm_comps rooted (tl acc) cs)"

definition initial_slashes :: "pystr \<Rightarrow> nat" where
  "initial_slashes p =
     (if \<not> py_startswith p [slash] then 0
      else if py_startswith p [slash, slash] \<and> \<not> py_startswith p [slash, slash, slash] then 2 else 1)"

definition normpath :: "pystr \<Rightarrow> pystr" where
  "normpath p =
     (if p = [] then dot
      else let n = initial_slashes p;
               q = replicate n slash @ py_join [slash] (norm_comps (n \<noteq> 0) [] (py_split_char slash p))
           in if q = [] then dot else q)"

section \<open>The policy\<close>

record path_decision =
  allowed :: bool
  reason :: pystr

definition norm_path :: "pystr \<Rightarrow> pystr" where
  "norm_path p = py_lstrip_chars [slash] (normpath p)"

text \<open>\<^verbatim>\<open>fnmatch(normalized, pattern) or normalized == pattern.rstrip("/**")\<close>\<close>

definition pattern_covers :: "pystr \<Rightarrow> pystr \<Rightarrow> bool" where
  "pattern_covers normalized pat = (fnmatch normalized pat \<or> normalized = py_rstrip_chars [slash, 42, 42] pat)"

fun covers_val :: "pystr \<Rightarrow> pyval \<Rightarrow> bool result" where
  "covers_val normalized (PStr pat) = Inr (pattern_covers normalized pat)"
| "covers_val normalized v = fnmatch_val normalized v"

text \<open>The loops over the patterns: the first pattern that covers the path.\<close>

fun first_cover :: "pystr \<Rightarrow> pyval list \<Rightarrow> pyval option result" where
  "first_cover normalized [] = Inr None"
| "first_cover normalized (p # ps) =
     ebind (covers_val normalized p) (\<lambda>b. if b then Inr (Some p) else first_cover normalized ps)"

definition escapes_root :: "pystr \<Rightarrow> bool" where
  "escapes_root normalized \<longleftrightarrow> normalized = dotdot \<or> py_startswith normalized (dotdot @ [slash])
     \<or> py_contains ([slash] @ dotdot @ [slash]) ([slash] @ normalized @ [slash])"

definition is_path_allowed :: "pystr \<Rightarrow> pyval \<Rightarrow> pyval \<Rightarrow> path_decision result" where
  "is_path_allowed path allowed_v denied_v =
     (if py_startswith path [slash] \<or> py_startswith path [92]
      then Inr \<lparr>allowed = False, reason = L ''path escapes repository root''\<rparr>
      else let normalized = norm_path path in
      if escapes_root normalized
      then Inr \<lparr>allowed = False, reason = L ''path escapes repository root''\<rparr>
      else
      ebind (py_iter denied_v) (\<lambda>denied.
      ebind (first_cover normalized denied) (\<lambda>d.
      case d of
        Some p \<Rightarrow> Inr \<lparr>allowed = False, reason = L ''path denied by pattern '' @ py_str p\<rparr>
      | None \<Rightarrow>
          if \<not> truthy allowed_v then Inr \<lparr>allowed = False, reason = L ''no allowed paths configured''\<rparr>
          else
          ebind (py_iter allowed_v) (\<lambda>allowed.
          ebind (first_cover normalized allowed) (\<lambda>a.
          case a of
            Some p \<Rightarrow> Inr \<lparr>allowed = True, reason = L ''allowed''\<rparr>
          | None \<Rightarrow> Inr \<lparr>allowed = False, reason = L ''path not covered by allowed paths''\<rparr>)))))"

abbreviation str_list :: "pystr list \<Rightarrow> pyval" where
  "str_list ps \<equiv> PList (map PStr ps)"

section \<open>Lexical resolution\<close>

text \<open>
  Where a relative path leads from a directory: both are lists of names, the directory with its
  last name first.  Empty names and dots stay, a double dot goes to the parent.
\<close>

fun lex_resolve :: "pystr list \<Rightarrow> pystr list \<Rightarrow> pystr list" where
  "lex_resolve dir [] = dir"
| "lex_resolve dir (c # cs) =
     (if c = [] \<or> c = dot then lex_resolve dir cs
      else if c = dotdot then lex_resolve (tl dir) cs
      else lex_resolve (c # dir) cs)"

lemma norm_comps_keeps_dotdot: "dotdot \<in> set acc \<Longrightarrow> dotdot \<in> set (norm_comps False acc cs)"
proof (induction cs arbitrary: acc)
  case (Cons c cs)
  have "dotdot \<in> set (tl acc)" if "hd acc \<noteq> dotdot"
    using Cons.prems that by (cases acc) auto
  with Cons show ?case by auto
qed simp

lemma norm_comps_lex_resolve:
  assumes "dotdot \<notin> set (norm_comps False acc cs)"
  shows "lex_resolve (acc @ dir) cs = rev (norm_comps False acc cs) @ dir"
  using assms
proof (induction cs arbitrary: acc)
  case Nil
  then show ?case by simp
next
  case (Cons c cs)
  have no: "dotdot \<notin> set (norm_comps False (dotdot # acc) cs)" if "c = dotdot" "acc = [] \<or> hd acc = dotdot"
    using Cons.prems that by auto
  then have acc: "acc \<noteq> []" "hd acc \<noteq> dotdot" if "c = dotdot"
    using that norm_comps_keeps_dotdot[of "dotdot # acc" cs] by auto
  then have "tl (acc @ dir) = tl acc @ dir" if "c = dotdot" using that by simp
  then show ?case using Cons.prems Cons.IH[of acc] Cons.IH[of "c # acc"] Cons.IH[of "tl acc"] acc
    by (cases "c = dotdot") auto
qed

lemma norm_comps_names: "c \<in> set (norm_comps r acc cs) \<Longrightarrow> c \<in> set acc \<or> c \<in> set cs \<and> c \<noteq> []"
proof (induction cs arbitrary: acc)
  case (Cons x cs)
  have "set (tl acc) \<subseteq> set acc" by (cases acc) auto
  with Cons.prems Cons.IH[of acc] Cons.IH[of "x # acc"] Cons.IH[of "tl acc"] show ?case
    by (auto split: if_splits)
qed simp

lemma py_contains_iff: "py_contains p s \<longleftrightarrow> (\<exists>u v. s = u @ p @ v)"
proof (induction s)
  case Nil
  then show ?case by auto
next
  case (Cons x s)
  have "(\<exists>u v. x # s = u @ p @ v) \<longleftrightarrow> prefix p (x # s) \<or> (\<exists>u v. s = u @ p @ v)"
    by (metis append_Cons append_Nil list.exhaust list.inject prefix_def)
  with Cons show ?case by (simp add: py_startswith_iff)
qed

lemma join_delimited:
  "cs \<noteq> [] \<Longrightarrow> py_join [x] cs @ [x] = concat (map (\<lambda>c. c @ [x]) cs)"
proof (induction cs)
  case (Cons c cs)
  then show ?case by (cases "cs = []") (auto simp: py_join_Cons)
qed simp

lemma join_contains_name:
  assumes "c \<in> set cs"
  shows "py_contains ([x] @ c @ [x]) ([x] @ py_join [x] cs @ [x])"
proof -
  from assms obtain as bs where cs: "cs = as @ c # bs" by (meson split_list)
  have "[x] @ py_join [x] cs @ [x] = [x] @ concat (map (\<lambda>c. c @ [x]) cs)"
    using assms join_delimited[of cs x] by (cases cs) auto
  also have "\<dots> = ([x] @ concat (map (\<lambda>c. c @ [x]) as)) @ (c @ [x]) @ concat (map (\<lambda>c. c @ [x]) bs)"
    by (simp add: cs)
  also have "\<exists>u. [x] @ concat (map (\<lambda>c. c @ [x]) as) = u @ [x]"
    by (cases as rule: rev_cases) auto
  ultimately show ?thesis by (auto simp: py_contains_iff) (metis append_Cons append_Nil append_assoc)
qed

section \<open>Properties of the decision\<close>

definition rel_comps :: "pystr \<Rightarrow> pystr list" where
  "rel_comps p = norm_comps False [] (py_split_char slash p)"

lemma rel_comps_name: "c \<in> set (rel_comps p) \<Longrightarrow> c \<noteq> [] \<and> slash \<notin> set c"
  using norm_comps_names[of c False "[]" "py_split_char slash p"] py_split_char_no_sep[of c slash p]
  by (auto simp: rel_comps_def)

lemma py_join_hd: "cs \<noteq> [] \<Longrightarrow> hd cs \<noteq> [] \<Longrightarrow> py_join sep cs \<noteq> [] \<and> hd (py_join sep cs) = hd (hd cs)"
  by (cases cs; cases "tl cs") auto

text \<open>For a path that is not absolute, the normalised text is the join of its kept names.\<close>

lemma norm_path_relative:
  assumes "\<not> py_startswith p [slash]"
  shows "norm_path p = (if rel_comps p = [] then dot else py_join [slash] (rel_comps p))"
proof -
  have "initial_slashes p = 0" using assms by (simp add: initial_slashes_def)
  then have n: "normpath p = (if rel_comps p = [] then dot else py_join [slash] (rel_comps p))"
    using py_join_hd[of "rel_comps p" "[slash]"] rel_comps_name[of "hd (rel_comps p)" p]
    by (auto simp: normpath_def Let_def rel_comps_def)
  have "hd (py_join [slash] (rel_comps p)) \<noteq> slash" if "rel_comps p \<noteq> []"
    using py_join_hd[OF that, of "[slash]"] rel_comps_name[of "hd (rel_comps p)" p] that
    by (metis hd_in_set)
  then show ?thesis unfolding norm_path_def py_lstrip_chars_def n
    by (intro py_lstrip_id) auto
qed

lemma rel_comps_no_dotdot:
  assumes "\<not> py_startswith p [slash]" and "\<not> escapes_root (norm_path p)"
  shows "dotdot \<notin> set (rel_comps p)"
proof
  assume d: "dotdot \<in> set (rel_comps p)"
  then have "norm_path p = py_join [slash] (rel_comps p)"
    using norm_path_relative[OF assms(1)] by auto
  with join_contains_name[OF d, of slash] assms(2) show False
    by (simp add: escapes_root_def)
qed

lemma first_cover_strs:
  "first_cover n (map PStr ps) = Inr (map_option PStr (find (pattern_covers n) ps))"
  by (induction ps) auto

lemma is_path_allowed_strs:
  "\<exists>d. is_path_allowed p (str_list as) (str_list ds) = Inr d \<and>
     (allowed d \<longleftrightarrow> \<not> py_startswith p [slash] \<and> \<not> py_startswith p [92] \<and> \<not> escapes_root (norm_path p)
        \<and> (\<forall>q \<in> set ds. \<not> pattern_covers (norm_path p) q) \<and> (\<exists>q \<in> set as. pattern_covers (norm_path p) q))"
  by (auto simp: is_path_allowed_def Let_def first_cover_strs find_None_iff find_Some_iff
      split: option.splits)

lemma allowed_imp_not_escaping:
  assumes "is_path_allowed p av dv = Inr d" and "allowed d"
  shows "\<not> py_startswith p [slash]" "\<not> escapes_root (norm_path p)"
  using assms by (auto simp: is_path_allowed_def Let_def split: if_splits)

lemma pattern_covers_dir:
  assumes "plain d" and "d = [] \<or> last d \<notin> {slash, 42}"
  shows "pattern_covers s (d @ L ''/**'') \<longleftrightarrow> s = d \<or> prefix (d @ [slash]) s"
proof -
  have l: "L ''/**'' = [slash] @ replicate 2 42" by (simp add: L_def numeral_2_eq_2)
  have "plain (d @ [slash])" using assms(1) by (auto simp: plain_def)
  from fnmatch_prefix_stars[OF this, of 2 s]
  have "fnmatch s (d @ L ''/**'') \<longleftrightarrow> prefix (d @ [slash]) s" by (simp add: l)
  moreover have "py_rstrip_chars [slash, 42, 42] (d @ L ''/**'') = d"
  proof -
    have "dropWhile (\<lambda>c. c = slash \<or> c = 42) (rev d) = rev d"
      using assms(2) by (cases d rule: rev_cases) auto
    then show ?thesis by (simp add: py_rstrip_chars_def py_rstrip_def L_def)
  qed
  ultimately show ?thesis by (auto simp: pattern_covers_def)
qed


lemma allowed_confined:
  assumes "is_path_allowed p av dv = Inr d" and "allowed d"
  shows "\<exists>cs. dotdot \<notin> set cs \<and> lex_resolve root (py_split_char slash p) = rev cs @ root"
proof -
  note a = allowed_imp_not_escaping[OF assms]
  from rel_comps_no_dotdot[OF a] have n: "dotdot \<notin> set (rel_comps p)" .
  with norm_comps_lex_resolve[of "[]" "py_split_char slash p" root] show ?thesis
    unfolding rel_comps_def by auto
qed

text \<open>C21. The decision on a path, for lists of string patterns, is total and exact: a path is allowed
  iff it does not start at the root (or with a backslash), its normal form does not climb out of the
  repository, no deny pattern covers it and some allow pattern does.  Deny wins, and an empty allow
  list allows nothing.\<close>

theorem is_path_allowed_exact:
  "\<exists>d. is_path_allowed p (str_list as) (str_list ds) = Inr d \<and>
     (allowed d \<longleftrightarrow> \<not> py_startswith p [slash] \<and> \<not> py_startswith p [92] \<and> \<not> escapes_root (norm_path p)
        \<and> (\<forall>q \<in> set ds. \<not> pattern_covers (norm_path p) q) \<and> (\<exists>q \<in> set as. pattern_covers (norm_path p) q))"
  by (rule is_path_allowed_strs)

theorem is_path_allowed_exact_witness:
  "\<not> pattern_covers (L ''docs/a.md'') (L ''docs/private/**'') \<and>
   (\<exists>d. is_path_allowed (L ''docs/x/../a.md'') (str_list [L ''docs/**'']) (str_list [L ''docs/private/**'']) = Inr d \<and> allowed d)"
proof
  show "\<not> pattern_covers (L ''docs/a.md'') (L ''docs/private/**'')" by code_simp
  have "\<not> py_startswith (L ''docs/x/../a.md'') [slash]" "\<not> py_startswith (L ''docs/x/../a.md'') [92]"
    "\<not> escapes_root (norm_path (L ''docs/x/../a.md''))"
    "\<not> pattern_covers (norm_path (L ''docs/x/../a.md'')) (L ''docs/private/**'')"
    "pattern_covers (norm_path (L ''docs/x/../a.md'')) (L ''docs/**'')"
    by code_simp+
  then show "\<exists>d. is_path_allowed (L ''docs/x/../a.md'') (str_list [L ''docs/**'']) (str_list [L ''docs/private/**'']) = Inr d \<and> allowed d"
    using is_path_allowed_exact[of "L ''docs/x/../a.md''" "[L ''docs/**'']" "[L ''docs/private/**'']"] by auto
qed

text \<open>C2. Confinement: an allowed path, walked name by name from any directory (\<open>..\<close> going up one
  level), ends at or below that directory; whatever the pattern lists are, strings or not.\<close>

theorem allowed_path_confined:
  assumes "is_path_allowed p av dv = Inr d" and "allowed d"
  shows "\<exists>cs. dotdot \<notin> set cs \<and> lex_resolve root (py_split_char slash p) = rev cs @ root"
  by (rule allowed_confined[OF assms])

theorem allowed_path_confined_witness:
  "\<exists>cs. dotdot \<notin> set cs \<and>
     lex_resolve [L ''repo''] (py_split_char slash (L ''docs/x/../a.md'')) = rev cs @ [L ''repo'']"
proof (rule allowed_path_confined)
  show "is_path_allowed (L ''docs/x/../a.md'') (str_list [L ''docs/**'']) (str_list []) =
      Inr \<lparr>allowed = True, reason = L ''allowed''\<rparr>" by code_simp
qed simp

text \<open>Directory patterns: with a deny pattern \<open>d/**\<close> (\<open>d\<close> without wildcards) neither \<open>d\<close>
  itself nor any path whose normal form lies below \<open>d\<close> is allowed, however it is spelled.\<close>

theorem denied_directory:
  assumes "is_path_allowed p av (str_list ds) = Inr r" and "d @ L ''/**'' \<in> set ds"
    and "plain d" and "d = [] \<or> last d \<notin> {slash, 42}"
    and "norm_path p = d \<or> prefix (d @ [slash]) (norm_path p)"
  shows "\<not> allowed r"
proof -
  have c: "pattern_covers (norm_path p) (d @ L ''/**'')" using pattern_covers_dir[OF assms(3,4)] assms(5) by blast
  have "find (pattern_covers (norm_path p)) ds \<noteq> None"
    using c assms(2) by (auto simp: find_None_iff)
  with assms(1) show ?thesis
    by (auto simp: is_path_allowed_def Let_def first_cover_strs split: if_splits)
qed

theorem denied_directory_witness:
  "\<not> allowed (projr (is_path_allowed (L ''./docs//private/../private/k.md'') (str_list [L ''docs/**'']) (str_list [L ''docs/private/**''])))"
proof (rule denied_directory[where d = "L ''docs/private''"])
  show "is_path_allowed (L ''./docs//private/../private/k.md'') (str_list [L ''docs/**'']) (str_list [L ''docs/private/**'']) =
    Inr (projr (is_path_allowed (L ''./docs//private/../private/k.md'') (str_list [L ''docs/**'']) (str_list [L ''docs/private/**''])))"
    by code_simp
  show "plain (L ''docs/private'')" "L ''docs/private'' = [] \<or> last (L ''docs/private'') \<notin> {slash, 42}"
    "L ''docs/private'' @ L ''/**'' \<in> set [L ''docs/private/**'']" by code_simp+
  have "take (length (L ''docs/private'' @ [slash])) (norm_path (L ''./docs//private/../private/k.md'')) = L ''docs/private'' @ [slash]"
    by code_simp
  then show "norm_path (L ''./docs//private/../private/k.md'') = L ''docs/private'' \<or>
    prefix (L ''docs/private'' @ [slash]) (norm_path (L ''./docs//private/../private/k.md''))"
    by (metis take_is_prefix)
qed

section \<open>Errors\<close>

lemma tame_covers_val [tame_intros]: "tame_res (covers_val n p)"
  by (cases p) (simp_all add: tame_intros)

lemma tame_first_cover [tame_intros]: "tame_res (first_cover n ps)"
  by (induction ps) (auto intro!: tame_intros)

lemma tame_is_path_allowed [tame_intros]: "tame_res (is_path_allowed p av dv)"
  unfolding is_path_allowed_def Let_def by (intro tame_intros)

end
