(* ===== verification/PolicyEngine.thy ===== *)
theory PolicyEngine
  imports PathPolicy
begin

text \<open>
  \<^verbatim>\<open>security/policy_engine.py\<close>: which tool a role may call.  The policy is the dictionary of
  \<^verbatim>\<open>config/policy.yaml\<close>, inspected dynamically: a value of the wrong shape raises, as in the code.
\<close>

section \<open>Decisions and the engine\<close>

record policy_decision =
  decision :: pyval
  dec_reason :: pyval
  policy_version :: pystr

definition PolicyDecision :: "pystr \<Rightarrow> pystr \<Rightarrow> policy_decision" where
  "PolicyDecision d r = \<lparr>decision = PStr d, dec_reason = PStr r, policy_version = L ''1''\<rparr>"

definition dec_allowed :: "policy_decision \<Rightarrow> bool" where
  "dec_allowed d = py_eq (decision d) (PStr (L ''allow''))"

record policy_engine =
  role_tool_policy :: pyval
  document_repositories :: pyval

definition policy_engine_init :: "pyval \<Rightarrow> policy_engine result" where
  "policy_engine_init policy =
     ebind (py_get policy (L ''role_tool_policy'')) (\<lambda>r.
     ebind (py_get policy (L ''document_repositories'')) (\<lambda>d.
     Inr \<lparr>role_tool_policy = py_or r empty_dict, document_repositories = py_or d empty_dict\<rparr>))"

text \<open>\<^verbatim>\<open>for policy in ...values(): if policy.get("repo") == repo: return policy\<close>\<close>

fun find_repo :: "pyval \<Rightarrow> pyval list \<Rightarrow> pyval option result" where
  "find_repo repo [] = Inr None"
| "find_repo repo (p # ps) =
     ebind (py_get p (L ''repo'')) (\<lambda>r. if py_eq r repo then Inr (Some p) else find_repo repo ps)"

definition find_repo_policy :: "pyval \<Rightarrow> pyval \<Rightarrow> pyval option result" where
  "find_repo_policy repos repo = ebind (py_values repos) (find_repo repo)"

text \<open>The first pattern of a list that matches the tool name.\<close>

fun first_tool_match :: "pystr \<Rightarrow> pyval list \<Rightarrow> pyval option result" where
  "first_tool_match tool [] = Inr None"
| "first_tool_match tool (p # ps) =
     ebind (fnmatch_val tool p) (\<lambda>b. if b then Inr (Some p) else first_tool_match tool ps)"

definition document_tools :: "pystr list" where
  "document_tools = [L ''document.write_markdown'', L ''document.commit_and_push_markdown_repo'']"

text \<open>\<^verbatim>\<open>path.startswith\<close> exists on strings only.\<close>

fun path_allowed_val :: "pyval \<Rightarrow> pyval \<Rightarrow> pyval \<Rightarrow> path_decision result" where
  "path_allowed_val (PStr p) av dv = is_path_allowed p av dv"
| "path_allowed_val v av dv = Inl (attribute_error v ''startswith'')"

definition check_document_path :: "pyval \<Rightarrow> (pystr \<times> pyval) list \<Rightarrow> policy_decision result" where
  "check_document_path repos args =
     (let repo = assoc_get args (L ''repo'') PNone; path = assoc_get args (L ''path'') PNone in
      if truthy repo \<and> truthy path then
        ebind (find_repo_policy repos repo) (\<lambda>rp.
        case rp of
          None \<Rightarrow> Inr (PolicyDecision (L ''block'') (L ''unknown document repository: '' @ py_str repo))
        | Some p \<Rightarrow>
            ebind (py_get p (L ''allowed_paths'')) (\<lambda>av.
            ebind (py_get p (L ''denied_paths'')) (\<lambda>dv.
            ebind (path_allowed_val path (py_or av empty_list) (py_or dv empty_list)) (\<lambda>pd.
            if \<not> allowed pd then Inr (PolicyDecision (L ''block'') (reason pd))
            else Inr (PolicyDecision (L ''allow'') (L ''allowed''))))))
      else Inr (PolicyDecision (L ''allow'') (L ''allowed'')))"

definition decide_tool_call ::
    "policy_engine \<Rightarrow> pystr \<Rightarrow> pystr \<Rightarrow> (pystr \<times> pyval) list option \<Rightarrow> policy_decision result" where
  "decide_tool_call eng role tool arguments =
     (let args = (case arguments of None \<Rightarrow> [] | Some a \<Rightarrow> a) in
      ebind (py_get (role_tool_policy eng) role) (\<lambda>role_policy.
      if role_policy = PNone then
        Inr (PolicyDecision (L ''block'') (L ''unknown role or missing role_tool_policy: '' @ role))
      else
      ebind (py_get role_policy (L ''deny'')) (\<lambda>dv.
      ebind (py_iter (py_or dv empty_list)) (\<lambda>deny.
      ebind (first_tool_match tool deny) (\<lambda>d.
      case d of
        Some p \<Rightarrow> Inr (PolicyDecision (L ''block'') (L ''tool denied for role '' @ role @ L '': '' @ py_str p))
      | None \<Rightarrow>
          ebind (py_get role_policy (L ''allow'')) (\<lambda>av.
          ebind (py_iter (py_or av empty_list)) (\<lambda>allow.
          ebind (first_tool_match tool allow) (\<lambda>a.
          if a = None then
            Inr (PolicyDecision (L ''block'') (L ''tool not allowed for role '' @ role @ L '': '' @ tool))
          else if List.member document_tools tool then
            check_document_path (document_repositories eng) args
          else Inr (PolicyDecision (L ''allow'') (L ''allowed'')))))))))) "

section \<open>The abstract policy\<close>

text \<open>
  What the policy file means: for each role the deny and the allow patterns; a role that is not
  listed may call nothing, and a deny pattern wins over every allow pattern.
\<close>

type_synonym tool_spec = "pystr \<rightharpoonup> pystr list \<times> pystr list"

definition spec_allows :: "tool_spec \<Rightarrow> pystr \<Rightarrow> pystr \<Rightarrow> bool" where
  "spec_allows spec role tool \<longleftrightarrow>
     (case spec role of None \<Rightarrow> False
      | Some (deny, allow) \<Rightarrow> \<not> list_ex (fnmatch tool) deny \<and> list_ex (fnmatch tool) allow)"

text \<open>The role entry \<open>v\<close> lists the string patterns \<open>ps\<close> under the key \<open>k\<close>.\<close>

definition lists_patterns :: "pyval \<Rightarrow> string \<Rightarrow> pystr list \<Rightarrow> bool" where
  "lists_patterns v k ps = (ebind (py_get v (L k)) (\<lambda>x. py_iter (py_or x empty_list)) = Inr (map PStr ps))"

definition engine_encodes :: "policy_engine \<Rightarrow> tool_spec \<Rightarrow> bool" where
  "engine_encodes eng spec \<longleftrightarrow>
     (\<forall>role. case spec role of
        None \<Rightarrow> py_get (role_tool_policy eng) role = Inr PNone
      | Some (deny, allow) \<Rightarrow>
          (\<exists>v. py_get (role_tool_policy eng) role = Inr v \<and> v \<noteq> PNone \<and>
               lists_patterns v ''deny'' deny \<and> lists_patterns v ''allow'' allow))"

lemma first_tool_match_strs:
  "first_tool_match tool (map PStr ps) = Inr (map_option PStr (find (fnmatch tool) ps))"
  by (induction ps) auto

lemma find_eq_None_list_ex: "find P xs = None \<longleftrightarrow> \<not> list_ex P xs"
  by (auto simp: find_None_iff list_ex_iff)

lemma find_eq_Some_list_ex: "find P xs = Some x \<Longrightarrow> list_ex P xs"
  by (metis find_eq_None_list_ex option.distinct(1))

lemma dec_allowed_simps [simp]:
  "dec_allowed (PolicyDecision (L ''allow'') r)" "\<not> dec_allowed (PolicyDecision (L ''block'') r)"
  by (simp_all add: dec_allowed_def PolicyDecision_def)

lemma decision_simps [simp]: "decision (PolicyDecision d r) = PStr d" "dec_reason (PolicyDecision d r) = PStr r"
  by (simp_all add: PolicyDecision_def)

text \<open>The decision under a policy of string patterns, branch by branch.\<close>

lemma decide_tool_call_encoded:
  assumes "engine_encodes eng spec"
  shows "decide_tool_call eng role tool arguments =
    (case spec role of
       None \<Rightarrow> Inr (PolicyDecision (L ''block'') (L ''unknown role or missing role_tool_policy: '' @ role))
     | Some (deny, allow) \<Rightarrow>
         (case find (fnmatch tool) deny of
            Some p \<Rightarrow> Inr (PolicyDecision (L ''block'') (L ''tool denied for role '' @ role @ L '': '' @ p))
          | None \<Rightarrow>
              if find (fnmatch tool) allow = None then
                Inr (PolicyDecision (L ''block'') (L ''tool not allowed for role '' @ role @ L '': '' @ tool))
              else if List.member document_tools tool then
                check_document_path (document_repositories eng) (case arguments of None \<Rightarrow> [] | Some a \<Rightarrow> a)
              else Inr (PolicyDecision (L ''allow'') (L ''allowed''))))"
proof (cases "spec role")
  case None
  with assms have "py_get (role_tool_policy eng) role = Inr PNone"
    unfolding engine_encodes_def by (auto dest!: spec[of _ role])
  with None show ?thesis by (simp add: decide_tool_call_def Let_def)
next
  case (Some da)
  obtain deny allow where da: "da = (deny, allow)" by (cases da)
  with assms Some obtain v x y where v: "py_get (role_tool_policy eng) role = Inr v" "v \<noteq> PNone"
      and d: "py_get v (L ''deny'') = Inr x" "py_iter (py_or x empty_list) = Inr (map PStr deny)"
      and a: "py_get v (L ''allow'') = Inr y" "py_iter (py_or y empty_list) = Inr (map PStr allow)"
    unfolding engine_encodes_def lists_patterns_def by (auto dest!: spec[of _ role])
  show ?thesis
    by (cases "find (fnmatch tool) deny"; cases "find (fnmatch tool) allow")
      (simp_all add: decide_tool_call_def Let_def v d a Some da first_tool_match_strs)
qed

lemma check_document_path_allowed:
  assumes "check_document_path repos args = Inr d" and "dec_allowed d"
    and "assoc_get args (L ''repo'') PNone = repo" "truthy repo"
    and "assoc_get args (L ''path'') PNone = PStr path" "path \<noteq> []"
  obtains p av dv pd where "find_repo_policy repos repo = Inr (Some p)"
    "py_get p (L ''allowed_paths'') = Inr av" "py_get p (L ''denied_paths'') = Inr dv"
    "is_path_allowed path (py_or av empty_list) (py_or dv empty_list) = Inr pd" "allowed pd"
  using assms
  by (auto simp: check_document_path_def Let_def split: option.splits if_splits)

lemma find_repo_Some: "find_repo repo ps = Inr (Some p) \<Longrightarrow> p \<in> set ps \<and> (\<exists>r. py_get p (L ''repo'') = Inr r \<and> py_eq r repo)"
  by (induction ps) (auto split: if_splits)


section \<open>Properties of the decision\<close>

text \<open>A small policy: one role with a wildcard allow pattern and a deny pattern, one repository.\<close>

definition demo_policy :: pyval where
  "demo_policy = PDict
     [(L ''role_tool_policy'', PDict [(L ''curator'', PDict
        [(L ''deny'', PList [PStr (L ''slack.post'')]), (L ''allow'', PList [PStr (L ''document.*''), PStr (L ''slack.*'')])])]),
      (L ''document_repositories'', PDict [(L ''docs'', PDict
        [(L ''repo'', PStr (L ''md'')), (L ''allowed_paths'', PList [PStr (L ''notes/**'')])])])]"

definition demo_policy_engine :: policy_engine where
  "demo_policy_engine = projr (policy_engine_init demo_policy)"

definition demo_spec :: tool_spec where
  "demo_spec = [L ''curator'' \<mapsto> ([L ''slack.post''], [L ''document.*'', L ''slack.*''])]"

lemma demo_role_tool_policy:
  "role_tool_policy demo_policy_engine = PDict [(L ''curator'', PDict
     [(L ''deny'', PList [PStr (L ''slack.post'')]), (L ''allow'', PList [PStr (L ''document.*''), PStr (L ''slack.*'')])])]"
  by code_simp

lemma demo_encodes: "engine_encodes demo_policy_engine demo_spec"
  by (auto simp: engine_encodes_def demo_role_tool_policy demo_spec_def lists_patterns_def assoc_get_def py_or_def
      split: option.splits)

text \<open>C1. Refinement: when the policy file lists string patterns, the engine implements the abstract
  policy for every tool that writes no document: the call is decided without an exception, and it is
  allowed iff the role is known, no deny pattern matches the tool and some allow pattern does.\<close>

theorem decide_tool_call_refines:
  assumes "engine_encodes eng spec" and "tool \<notin> set document_tools"
  shows "\<exists>d. decide_tool_call eng role tool args = Inr d \<and> (dec_allowed d \<longleftrightarrow> spec_allows spec role tool)"
  using assms(2) unfolding decide_tool_call_encoded[OF assms(1)]
  by (auto simp: spec_allows_def find_eq_None_list_ex dest: find_eq_Some_list_ex
      split: option.splits)

theorem decide_tool_call_refines_witness:
  "\<exists>d. decide_tool_call demo_policy_engine (L ''curator'') (L ''slack.read'') None = Inr d \<and>
     (dec_allowed d \<longleftrightarrow> spec_allows demo_spec (L ''curator'') (L ''slack.read''))"
  by (rule decide_tool_call_refines[OF demo_encodes]) (simp add: document_tools_def)

text \<open>C3. Soundness for document writes: when a call of a document tool that names a repository and a
  path is allowed, the abstract policy allows the tool, the repository is one of the configured ones,
  and the path passed the path policy of that repository; so it stays inside the repository.\<close>

theorem document_write_allowed_sound:
  assumes "engine_encodes eng spec" and "tool \<in> set document_tools"
    and "decide_tool_call eng role tool (Some args) = Inr d" and "dec_allowed d"
    and "assoc_get args (L ''repo'') PNone = PStr repo" "repo \<noteq> []"
    and "assoc_get args (L ''path'') PNone = PStr path" "path \<noteq> []"
  shows "spec_allows spec role tool \<and>
    (\<exists>pols p av dv pd. py_values (document_repositories eng) = Inr pols \<and> p \<in> set pols \<and>
       py_get p (L ''repo'') = Inr (PStr repo) \<and>
       py_get p (L ''allowed_paths'') = Inr av \<and> py_get p (L ''denied_paths'') = Inr dv \<and>
       is_path_allowed path (py_or av empty_list) (py_or dv empty_list) = Inr pd \<and> allowed pd) \<and>
    (\<exists>cs. dotdot \<notin> set cs \<and> lex_resolve root (py_split_char slash path) = rev cs @ root)"
proof -
  from assms(3)[unfolded decide_tool_call_encoded[OF assms(1)]] assms(2,4)
  have s: "spec_allows spec role tool" and c: "check_document_path (document_repositories eng) args = Inr d"
    by (auto simp: spec_allows_def find_eq_None_list_ex dest: find_eq_Some_list_ex
        split: option.splits if_splits)
  have "truthy (PStr repo)" using assms(6) by simp
  from check_document_path_allowed[OF c assms(4,5) this assms(7,8)] obtain p av dv pd where
    p: "find_repo_policy (document_repositories eng) (PStr repo) = Inr (Some p)"
    and q: "py_get p (L ''allowed_paths'') = Inr av" "py_get p (L ''denied_paths'') = Inr dv"
    "is_path_allowed path (py_or av empty_list) (py_or dv empty_list) = Inr pd" "allowed pd" .
  from p obtain pols where v: "py_values (document_repositories eng) = Inr pols" "find_repo (PStr repo) pols = Inr (Some p)"
    by (auto simp: find_repo_policy_def)
  from find_repo_Some[OF v(2)] have "p \<in> set pols" "py_get p (L ''repo'') = Inr (PStr repo)" by auto
  moreover have "\<exists>cs. dotdot \<notin> set cs \<and> lex_resolve root (py_split_char slash path) = rev cs @ root"
    by (rule allowed_confined[OF q(3,4)])
  ultimately show ?thesis using s v(1) q by blast
qed

theorem document_write_allowed_sound_witness:
  "spec_allows demo_spec (L ''curator'') (L ''document.write_markdown'')"
proof -
  let ?args = "[(L ''repo'', PStr (L ''md'')), (L ''path'', PStr (L ''notes/a.md''))]"
  have "decide_tool_call demo_policy_engine (L ''curator'') (L ''document.write_markdown'') (Some ?args) =
    Inr (PolicyDecision (L ''allow'') (L ''allowed''))" by code_simp
  from document_write_allowed_sound[OF demo_encodes _ this, of "L ''md''" "L ''notes/a.md''" "[]"]
  show ?thesis by (simp add: assoc_get_def document_tools_def)
qed

section \<open>Errors\<close>

lemma tame_path_allowed_val [tame_intros]: "tame_res (path_allowed_val p av dv)"
  by (cases p) (simp_all add: tame_intros)

lemma tame_find_repo [tame_intros]: "tame_res (find_repo repo ps)"
  by (induction ps) (auto intro!: tame_intros)

lemma tame_find_repo_policy [tame_intros]: "tame_res (find_repo_policy repos repo)"
  unfolding find_repo_policy_def by (intro tame_intros)

lemma tame_first_tool_match [tame_intros]: "tame_res (first_tool_match t ps)"
  by (induction ps) (auto intro!: tame_intros)

lemma tame_check_document_path [tame_intros]: "tame_res (check_document_path repos args)"
  unfolding check_document_path_def Let_def by (intro tame_intros)

lemma tame_decide_tool_call [tame_intros]: "tame_res (decide_tool_call eng role tool args)"
  unfolding decide_tool_call_def Let_def by (intro tame_intros)

lemma tame_policy_engine_init [tame_intros]: "tame_res (policy_engine_init p)"
  unfolding policy_engine_init_def by (intro tame_intros)

end
