(* ===== verification/Proxies.thy ===== *)
theory Proxies
  imports Repository PolicyEngine
begin

text \<open>
  The clients of the services at the trust boundary and the two hooks around a tool call:
  \<^verbatim>\<open>proxies/auth_proxy_client.py\<close>, \<^verbatim>\<open>proxies/claude_proxy_client.py\<close>,
  \<^verbatim>\<open>proxies/slack_notify_client.py\<close>, \<^verbatim>\<open>mcp/client.py\<close>, \<^verbatim>\<open>runner/mcp_session.py\<close>,
  \<^verbatim>\<open>hooks/pre_tool_use.py\<close> and \<^verbatim>\<open>hooks/post_tool_use.py\<close>.  The services themselves are part of
  the outside world.
\<close>

section \<open>Authorisation of tool calls\<close>

record auth_client =
  auth_base_url :: pystr
  fallback_engine :: "policy_engine option"

definition remote_enabled :: "auth_client \<Rightarrow> bool" where
  "remote_enabled c = (auth_base_url c \<noteq> [])"

record tool_call =
  tc_session :: pystr
  tc_task :: pystr
  tc_role :: pystr
  tc_tool :: pystr
  tc_args :: "(pystr \<times> pyval) list"

definition json_content :: "pystr \<times> pystr" where
  "json_content = (L ''Content-Type'', L ''application/json'')"

definition bearer :: "pystr \<Rightarrow> pystr \<times> pystr" where
  "bearer t = (L ''Authorization'', L ''Bearer '' @ t)"

definition post_json :: "pystr \<Rightarrow> string \<Rightarrow> (pystr \<times> pystr) list \<Rightarrow> pyval \<Rightarrow> http_request" where
  "post_json base path hs payload =
     \<lparr>req_method = L ''POST'', req_url = py_rstrip_chars [47] base @ L path, req_headers = hs, req_body = Some (json_dumps payload)\<rparr>"

definition authorize_request :: "auth_client \<Rightarrow> tool_call \<Rightarrow> http_request" where
  "authorize_request c t = post_json (auth_base_url c) ''/v1/tool/authorize'' [json_content]
     (PDict [(L ''session_id'', PStr (tc_session t)), (L ''task_id'', PStr (tc_task t)), (L ''role'', PStr (tc_role t)),
             (L ''tool_name'', PStr (tc_tool t)), (L ''arguments'', PDict (tc_args t))])"

definition authorize_remote :: "outside \<Rightarrow> auth_client \<Rightarrow> tool_call \<Rightarrow> (world, policy_decision) eff" where
  "authorize_remote out c t =
     sbind (fetch_text out (authorize_request c t)) (\<lambda>text.
     sbind (lift_res (json_loads text)) (\<lambda>body.
     sbind (lift_res (py_get_def body (L ''decision'') (PStr (L ''block'')))) (\<lambda>d.
     sbind (lift_res (py_get_def body (L ''reason'') (PStr (L ''missing reason in auth-proxy response'')))) (\<lambda>r.
     sbind (lift_res (py_get_def body (L ''policy_version'') (PStr (L ''unknown'')))) (\<lambda>v.
     ret \<lparr>decision = d, dec_reason = r, policy_version = py_str v\<rparr>)))))"

definition authorize :: "outside \<Rightarrow> auth_client \<Rightarrow> tool_call \<Rightarrow> (world, policy_decision) eff" where
  "authorize out c t =
     (if remote_enabled c then
        catch (authorize_remote out c t) is_Exception
          (\<lambda>e. ret (PolicyDecision (L ''block'') (L ''auth-proxy request failed: '' @ exc_msg e)))
      else (case fallback_engine c of
              Some eng \<Rightarrow> lift_res (decide_tool_call eng (tc_role t) (tc_tool t) (Some (tc_args t)))
            | None \<Rightarrow> ret (PolicyDecision (L ''block'') (L ''no auth-proxy configured and no local policy engine available''))))"

definition run_pre_tool_use :: "outside \<Rightarrow> auth_client \<Rightarrow> tool_call \<Rightarrow> (world, policy_decision) eff" where
  "run_pre_tool_use out c t =
     catch (authorize out c t) is_Exception
       (\<lambda>e. ret (PolicyDecision (L ''block'') (L ''auth authorization failed: '' @ exc_msg e)))"

definition run_post_tool_use :: "outside \<Rightarrow> row \<Rightarrow> (world, unit) eff" where
  "run_post_tool_use out ev =
     catch (sbind (record_tool_event out ev) (\<lambda>_. ret ())) is_Exception (\<lambda>_. ret ())"

section \<open>Slack\<close>

record slack_client =
  slack_base_url :: pystr
  slack_token :: pystr

definition slack_request :: "slack_client \<Rightarrow> pystr \<Rightarrow> pystr option \<Rightarrow> http_request" where
  "slack_request c text target = post_json (slack_base_url c) ''/v1/slack/notify'' [json_content, bearer (slack_token c)]
     (PDict ((L ''text'', PStr text) # (case target of None \<Rightarrow> [] | Some t \<Rightarrow> [(L ''target'', PStr t)])))"

definition slack_notify :: "outside \<Rightarrow> slack_client \<Rightarrow> pystr \<Rightarrow> pystr option \<Rightarrow> (world, int) eff" where
  "slack_notify out c text target =
     sbind (catch (sbind (fetch_text out (slack_request c text target)) (\<lambda>t. lift_res (json_loads t))) is_Exception
              (\<lambda>e. raise_exc SlackNotifyError (L ''slack notify request failed: '' @ exc_msg e))) (\<lambda>body.
     sbind (lift_res (py_get_def body (L ''chunks'') (PInt 0))) (\<lambda>n.
     lift_res (py_int_of n)))"

section \<open>The Claude proxy\<close>

record claude_client =
  claude_base_url :: pystr
  claude_token :: pystr
  claude_session :: pystr
  claude_role :: pystr

definition healthz :: "outside \<Rightarrow> claude_client \<Rightarrow> (world, bool) eff" where
  "healthz out c =
     catch (sbind (urlopen out \<lparr>req_method = L ''GET'', req_url = py_rstrip_chars [47] (claude_base_url c) @ L ''/healthz'',
                               req_headers = [], req_body = None\<rparr>) (\<lambda>x.
            sbind (lift_res (outcome_body x)) (\<lambda>(code, _). ret (code = 200))))
       is_OSError (\<lambda>_. ret False)"

definition create_message :: "outside \<Rightarrow> claude_client \<Rightarrow> pyval \<Rightarrow> (world, pyval) eff" where
  "create_message out c payload =
     sbind (fetch_text out (post_json (claude_base_url c) ''/v1/messages''
       [json_content, bearer (claude_token c), (L ''X-7mimi-Session-Id'', claude_session c), (L ''X-7mimi-Role'', claude_role c)] payload))
       (\<lambda>t. lift_res (json_loads t))"

section \<open>The MCP client\<close>

record mcp_client =
  mcp_base_url :: pystr
  mcp_token :: "pystr option"

text \<open>\<^verbatim>\<open>__post_init__\<close>: the token defaults to the environment variable.\<close>

definition mcp_init :: "pystr \<Rightarrow> pystr option \<Rightarrow> (world, mcp_client) eff" where
  "mcp_init url token =
     (case token of
        None \<Rightarrow> sbind (env_val ''X_MCP_SESSION_TOKEN'') (\<lambda>t. ret \<lparr>mcp_base_url = url, mcp_token = t\<rparr>)
      | Some t \<Rightarrow> ret \<lparr>mcp_base_url = url, mcp_token = Some t\<rparr>)"

definition mcp_request :: "mcp_client \<Rightarrow> pyval \<Rightarrow> http_request" where
  "mcp_request c msg = post_json (mcp_base_url c) ''/mcp''
     (json_content # (case mcp_token c of None \<Rightarrow> [] | Some t \<Rightarrow> if t = [] then [] else [bearer t])) msg"

text \<open>\<^verbatim>\<open>_post\<close>: \<open>None\<close> for an empty body.\<close>

definition mcp_post :: "outside \<Rightarrow> mcp_client \<Rightarrow> pyval \<Rightarrow> (world, pyval option) eff" where
  "mcp_post out c msg =
     sbind (urlopen out (mcp_request c msg)) (\<lambda>x.
     case x of
       HttpFail code m b \<Rightarrow> raise_exc McpClientError (L ''MCP request failed: HTTP '' @ int_str code)
     | UrlFail r \<Rightarrow> raise_exc McpClientError (L ''MCP request failed: '' @ r)
     | HttpRaise e \<Rightarrow> lift_res (Inl e)
     | HttpOk code b \<Rightarrow>
         if b = Inr [] then ret None
         else sbind (lift_res b) (\<lambda>t. sbind (lift_res (json_loads t)) (\<lambda>v. ret (Some v))))"

text \<open>The numbered requests; \<^verbatim>\<open>response is None or "error" in response\<close>.\<close>

definition opt_repr :: "pyval option \<Rightarrow> pystr" where
  "opt_repr r = py_str (case r of None \<Rightarrow> PNone | Some v \<Rightarrow> v)"

definition mcp_call :: "outside \<Rightarrow> mcp_client \<Rightarrow> string \<Rightarrow> pyval \<Rightarrow> (world, pyval) eff" where
  "mcp_call out c what msg =
     sbind (mcp_post out c msg) (\<lambda>r.
     case r of
       None \<Rightarrow> raise_exc McpClientError (L what @ L '' failed: '' @ opt_repr r)
     | Some v \<Rightarrow>
         sbind (lift_res (py_in ''error'' v)) (\<lambda>bad.
         if bad then raise_exc McpClientError (L what @ L '' failed: '' @ opt_repr r) else ret v))"

definition rpc :: "int \<Rightarrow> string \<Rightarrow> (pystr \<times> pyval) list \<Rightarrow> pyval" where
  "rpc n m params = PDict ([(L ''jsonrpc'', PStr (L ''2.0'')), (L ''id'', PInt n), (L ''method'', PStr (L m))] @ params)"

definition mcp_initialize :: "outside \<Rightarrow> mcp_client \<Rightarrow> int \<Rightarrow> (world, pyval) eff" where
  "mcp_initialize out c n =
     sbind (mcp_call out c ''initialize'' (rpc n ''initialize''
       [(L ''params'', PDict [(L ''protocolVersion'', PStr (L ''2025-03-26'')), (L ''capabilities'', PDict []),
          (L ''clientInfo'', PDict [(L ''name'', PStr (L ''shichimimi-agent-x-smoke'')), (L ''version'', PStr (L ''0.1.0''))])])])) (\<lambda>v.
     sbind (mcp_post out c (PDict [(L ''jsonrpc'', PStr (L ''2.0'')), (L ''method'', PStr (L ''notifications/initialized''))])) (\<lambda>_.
     lift_res (py_index v ''result'')))"

definition list_tools :: "outside \<Rightarrow> mcp_client \<Rightarrow> int \<Rightarrow> (world, pyval) eff" where
  "list_tools out c n =
     sbind (mcp_call out c ''tools/list'' (rpc n ''tools/list'' [])) (\<lambda>v.
     lift_res (ebind (py_index v ''result'') (\<lambda>r. py_index r ''tools'')))"

definition call_tool :: "outside \<Rightarrow> mcp_client \<Rightarrow> int \<Rightarrow> pystr \<Rightarrow> (pystr \<times> pyval) list \<Rightarrow> (world, pyval) eff" where
  "call_tool out c n name args =
     sbind (mcp_call out c ''tools/call'' (rpc n ''tools/call''
       [(L ''params'', PDict [(L ''name'', PStr name), (L ''arguments'', PDict args)])])) (\<lambda>v.
     lift_res (py_index v ''result''))"

section \<open>Session tokens\<close>

record issued_session =
  is_token :: pyval
  is_ttl :: int

definition issue_request :: "pystr \<Rightarrow> pystr \<Rightarrow> pyval \<Rightarrow> http_request" where
  "issue_request url token role = post_json url ''/session/issue'' [json_content, bearer token] (PDict [(L ''role'', role)])"

fun int_payload :: "pyval \<Rightarrow> int option" where
  "int_payload (PInt i) = Some i"
| "int_payload (PBool b) = Some (if b then 1 else 0)"
| "int_payload v = None"

definition issue_session :: "outside \<Rightarrow> pystr \<Rightarrow> pystr \<Rightarrow> pyval \<Rightarrow> (world, issued_session) eff" where
  "issue_session out url token role =
     sbind (urlopen out (issue_request url token role)) (\<lambda>x.
     case x of
       HttpFail code m b \<Rightarrow> raise_exc McpSessionError (L ''session/issue failed: HTTP '' @ int_str code)
     | UrlFail r \<Rightarrow> raise_exc McpSessionError (L ''session/issue failed: '' @ r)
     | HttpRaise e \<Rightarrow> lift_res (Inl e)
     | HttpOk code b \<Rightarrow>
         sbind (lift_res b) (\<lambda>t.
         sbind (catch (lift_res (json_loads t)) (\<lambda>e. exc_type e = JSONDecodeError)
                  (\<lambda>e. raise_exc McpSessionError (L ''session/issue returned invalid JSON: '' @ exc_msg e))) (\<lambda>payload.
         sbind (lift_res (py_get payload (L ''token''))) (\<lambda>tok.
         sbind (lift_res (py_get payload (L ''ttl_seconds''))) (\<lambda>ttl.
         case int_payload ttl of
           None \<Rightarrow> raise_exc McpSessionError (L ''session/issue returned unexpected payload: '' @ py_str payload)
         | Some n \<Rightarrow> if \<not> truthy tok then raise_exc McpSessionError (L ''session/issue returned unexpected payload: '' @ py_str payload)
                      else ret \<lparr>is_token = tok, is_ttl = n\<rparr>)))))"

section \<open>What the clients leave alone\<close>

text \<open>Nothing but the hook after a tool call writes to the database.\<close>

lemma keeps_authorize [keeps_intros]: "db_only I \<Longrightarrow> keeps I (authorize out c t)"
  unfolding authorize_def authorize_remote_def by (intro keeps_intros)

lemma keeps_run_pre_tool_use [keeps_intros]: "db_only I \<Longrightarrow> keeps I (run_pre_tool_use out c t)"
  unfolding run_pre_tool_use_def by (intro keeps_intros)

lemma keeps_run_post_tool_use [keeps_intros]: "keeps I (record_tool_event out ev) \<Longrightarrow> keeps I (run_post_tool_use out ev)"
  unfolding run_post_tool_use_def by (intro keeps_intros)

lemma keeps_slack_notify [keeps_intros]: "db_only I \<Longrightarrow> keeps I (slack_notify out c x tg)"
  unfolding slack_notify_def by (intro keeps_intros)

lemma keeps_mcp_call: "db_only I \<Longrightarrow> keeps I (mcp_post out c m)" "db_only I \<Longrightarrow> keeps I (mcp_call out c what m)"
  unfolding mcp_call_def mcp_post_def by (intro keeps_intros; assumption)+

lemma keeps_mcp [keeps_intros]:
  assumes "db_only I"
  shows "keeps I (mcp_initialize out c n)" "keeps I (list_tools out c n)" "keeps I (call_tool out c n nm args)"
  unfolding mcp_initialize_def list_tools_def call_tool_def by (intro keeps_intros keeps_mcp_call assms)+

lemma keeps_mcp_init [keeps_intros]: "keeps I (mcp_init u t)"
  unfolding mcp_init_def by (intro keeps_intros)

lemma roe_mcp_init [tame_intros]: "raises_only_Exception (mcp_init u t)"
  unfolding mcp_init_def by (intro tame_intros)

lemma keeps_issue_session [keeps_intros]: "db_only I \<Longrightarrow> keeps I (issue_session out u t r)"
  unfolding issue_session_def by (intro keeps_intros)

text \<open>The calls raise ordinary exceptions only, when the outside world does.\<close>

lemma roe_mcp_post:
  assumes "tame_outside out"
  shows "raises_only_Exception (mcp_post out c m)"
  unfolding mcp_post_def
proof (rule roe_request[OF assms])
  fix x assume "tame_outcome x"
  then show "raises_only_Exception (case x of
       HttpFail code m b \<Rightarrow> raise_exc McpClientError (L ''MCP request failed: HTTP '' @ int_str code)
     | UrlFail r \<Rightarrow> raise_exc McpClientError (L ''MCP request failed: '' @ r)
     | HttpRaise e \<Rightarrow> lift_res (Inl e)
     | HttpOk code b \<Rightarrow>
         if b = Inr [] then ret None
         else sbind (lift_res b) (\<lambda>t. sbind (lift_res (json_loads t)) (\<lambda>v. ret (Some v))))"
    by (cases x) (auto simp: tame_outcome_def tame_res_def intro!: tame_intros)
qed

lemma roe_mcp_call: "tame_outside out \<Longrightarrow> raises_only_Exception (mcp_call out c what m)"
  unfolding mcp_call_def by (intro tame_intros roe_mcp_post) simp_all

lemma roe_mcp [tame_intros]:
  assumes "tame_outside out"
  shows "raises_only_Exception (mcp_initialize out c n)" "raises_only_Exception (list_tools out c n)"
    "raises_only_Exception (call_tool out c n nm args)"
  unfolding mcp_initialize_def list_tools_def call_tool_def by (intro tame_intros roe_mcp_call roe_mcp_post assms)+

text \<open>The authorisation request, if any, is the only request of the gate.\<close>

definition gate_requests :: "auth_client \<Rightarrow> tool_call \<Rightarrow> http_request list" where
  "gate_requests c t = (if remote_enabled c then [authorize_request c t] else [])"

lemma sends_run_pre_tool_use: "sends (gate_requests c t) (run_pre_tool_use out c t)"
proof -
  have "sends [authorize_request c t] (authorize_remote out c t)"
    unfolding authorize_remote_def by (rule sends_sbind_first[OF sends_fetch_text]) (intro sends_intros)
  then have "sends (gate_requests c t) (authorize out c t)"
    unfolding authorize_def gate_requests_def by (auto intro!: sends_intros)
  then show ?thesis unfolding run_pre_tool_use_def by (intro sends_intros)
qed

lemma sends_run_post_tool_use [sends_intros]: "sends [] (run_post_tool_use out ev)"
  unfolding run_post_tool_use_def by (intro sends_intros)

section \<open>Fail closed, fail open\<close>

lemma roe_authorize_remote [tame_intros]: "tame_outside out \<Longrightarrow> raises_only_Exception (authorize_remote out c t)"
  unfolding authorize_remote_def by (intro tame_intros)

lemma roe_authorize [tame_intros]: "tame_outside out \<Longrightarrow> raises_only_Exception (authorize out c t)"
  unfolding authorize_def by (intro tame_intros)

lemma never_run_pre_tool_use: "tame_outside out \<Longrightarrow> never_raises (run_pre_tool_use out c t)"
  unfolding run_pre_tool_use_def by (intro never_catch never_ret tame_intros)

lemma never_run_post_tool_use: "tame_outside out \<Longrightarrow> never_raises (run_post_tool_use out ev)"
  unfolding run_post_tool_use_def by (intro never_catch never_ret tame_intros)

lemma authorize_remote_allowed:
  assumes "authorize_remote out c t w = (Inr d, w')" and "dec_allowed d"
  shows "\<exists>code tx kvs fs. o_http out w (authorize_request c t) = (HttpOk code (Inr tx), fs) \<and>
    json_loads tx = Inr (PDict kvs) \<and> map_of kvs (L ''decision'') = Some (PStr (L ''allow''))"
proof -
  from assms(1) obtain w1 tx body where f: "fetch_text out (authorize_request c t) w = (Inr tx, w1)"
    and j: "json_loads tx = Inr body" and d: "py_get_def body (L ''decision'') (PStr (L ''block'')) = Inr (decision d)"
    unfolding authorize_remote_def by (auto elim!: sbind_InrE)
  from d obtain kvs where kvs: "body = PDict kvs" "decision d = assoc_get kvs (L ''decision'') (PStr (L ''block''))" by auto
  with assms(2) have "map_of kvs (L ''decision'') = Some (PStr (L ''allow''))"
    by (auto simp: dec_allowed_def assoc_get_def split: option.splits)
  moreover from f have "\<exists>code fs. o_http out w (authorize_request c t) = (HttpOk code (Inr tx), fs)"
    unfolding fetch_text_def urlopen_def
    by (cases "o_http out w (authorize_request c t)"; cases "fst (o_http out w (authorize_request c t))") (auto simp: sbind_def split: sum.splits)
  ultimately show ?thesis using j kvs by blast
qed

text \<open>C22. The gate before a tool call fails closed: the call is never answered with an exception, and
  it is allowed only when, with an auth-proxy configured, the proxy answered this request with a
  JSON object whose decision is \<open>allow\<close>, and otherwise only when the local policy engine allows it.
  Errors of the transport, of decoding or of the policy, and missing or other decisions, block.\<close>

theorem pre_tool_use_fails_closed:
  assumes "tame_outside out"
  shows "\<exists>d w'. run_pre_tool_use out c t w = (Inr d, w') \<and>
    (dec_allowed d \<longrightarrow>
      (if auth_base_url c \<noteq> [] then
         \<exists>code text kvs fs. o_http out w (authorize_request c t) = (HttpOk code (Inr text), fs) \<and>
           json_loads text = Inr (PDict kvs) \<and> map_of kvs (L ''decision'') = Some (PStr (L ''allow''))
       else \<exists>eng. fallback_engine c = Some eng \<and>
           decide_tool_call eng (tc_role t) (tc_tool t) (Some (tc_args t)) = Inr d))"
proof -
  obtain d w' where r: "run_pre_tool_use out c t w = (Inr d, w')"
    using never_raisesE[OF never_run_pre_tool_use[OF assms]] by blast
  have "(if auth_base_url c \<noteq> [] then
         \<exists>code text kvs fs. o_http out w (authorize_request c t) = (HttpOk code (Inr text), fs) \<and>
           json_loads text = Inr (PDict kvs) \<and> map_of kvs (L ''decision'') = Some (PStr (L ''allow''))
       else \<exists>eng. fallback_engine c = Some eng \<and>
           decide_tool_call eng (tc_role t) (tc_tool t) (Some (tc_args t)) = Inr d)" if "dec_allowed d"
  proof -
    from r that have a: "authorize out c t w = (Inr d, w')"
      unfolding run_pre_tool_use_def catch_def by (auto split: prod.splits sum.splits if_splits)
    show ?thesis
    proof (cases "auth_base_url c = []")
      case True
      with a that show ?thesis by (auto simp: authorize_def remote_enabled_def split: option.splits)
    next
      case False
      with a that have "authorize_remote out c t w = (Inr d, w')"
        unfolding authorize_def remote_enabled_def catch_def by (auto split: prod.splits sum.splits if_splits)
      with authorize_remote_allowed[OF _ that] False show ?thesis by simp
    qed
  qed
  with r show ?thesis by blast
qed

text \<open>An auth-proxy that allows the call.\<close>

definition allow_out :: outside where
  "allow_out = demo_out\<lparr>o_http := (\<lambda>w r. (HttpOk 200 (Inr [123, 34, 100, 101, 99, 105, 115, 105, 111, 110, 34, 58, 34, 97, 108, 108, 111, 119, 34, 125]), files w))\<rparr>"

definition demo_call :: tool_call where
  "demo_call = \<lparr>tc_session = L ''s'', tc_task = L ''t'', tc_role = L ''r'', tc_tool = L ''x.search'', tc_args = []\<rparr>"

definition demo_auth :: auth_client where
  "demo_auth = \<lparr>auth_base_url = L ''http://a'', fallback_engine = None\<rparr>"

lemma tame_allow_out: "tame_outside allow_out"
  by (simp add: tame_outside_def allow_out_def demo_out_def is_Exception_def)

theorem pre_tool_use_fails_closed_witness:
  "dec_allowed (projr (fst (run_pre_tool_use allow_out demo_auth demo_call demo_start_world))) \<and>
   (\<exists>code tx kvs fs. o_http allow_out demo_start_world (authorize_request demo_auth demo_call) = (HttpOk code (Inr tx), fs) \<and>
      json_loads tx = Inr (PDict kvs) \<and> map_of kvs (L ''decision'') = Some (PStr (L ''allow'')))"
proof -
  have a: "dec_allowed (projr (fst (run_pre_tool_use allow_out demo_auth demo_call demo_start_world)))" by code_simp
  moreover have "auth_base_url demo_auth \<noteq> []" by (simp add: demo_auth_def)
  ultimately show ?thesis
    using pre_tool_use_fails_closed[OF tame_allow_out, of demo_auth demo_call demo_start_world] by auto
qed

text \<open>The hook after a tool call fails open: recording the event never raises, so it cannot disturb the
  run, and the database stays well formed also when the record is rejected.\<close>

theorem post_tool_use_fails_open:
  assumes "tame_outside out" and "world_wf w"
  shows "\<exists>w'. run_post_tool_use out ev w = (Inr (), w') \<and> world_wf w'"
proof -
  obtain w' where r: "run_post_tool_use out ev w = (Inr (), w')"
    using never_raisesE[OF never_run_post_tool_use[OF assms(1)]] by (metis old.unit.exhaust)
  have "keeps world_wf (run_post_tool_use out ev)"
    unfolding run_post_tool_use_def by (intro keeps_intros)
  from keepsD[OF this assms(2) r] r show ?thesis by blast
qed

theorem post_tool_use_fails_open_witness:
  "\<exists>w'. run_post_tool_use demo_out [] demo_start_world = (Inr (), w') \<and> world_wf w'"
  by (rule post_tool_use_fails_open[OF tame_demo_out demo_start_wf])

end
