(* ===== verification/Invocation.thy ===== *)
theory Invocation
  imports Prompts Proxies
begin

text \<open>
  How Claude Code is invoked in a container: \<^verbatim>\<open>runner/git_relay_env.py\<close> and the parts of
  \<^verbatim>\<open>runner/claude_digest.py\<close> that are independent of a run (the prompt is in theory \<open>Prompts\<close>).
\<close>

section \<open>The git relay\<close>

definition build_git_relay_env :: "pystr \<Rightarrow> pystr \<Rightarrow> (pystr \<times> pystr) list" where
  "build_git_relay_env proxy_url session_token =
     [(L ''GIT_CONFIG_COUNT'', L ''2''),
      (L ''GIT_CONFIG_KEY_0'', L ''http.'' @ py_rstrip_chars [47] proxy_url @ L ''/.extraheader''),
      (L ''GIT_CONFIG_VALUE_0'', L ''Authorization: Bearer '' @ session_token),
      (L ''GIT_CONFIG_KEY_1'', L ''credential.helper''),
      (L ''GIT_CONFIG_VALUE_1'', []),
      (L ''GIT_TERMINAL_PROMPT'', L ''0'')]"

section \<open>Constants and options\<close>

definition ai_it_role :: pystr where "ai_it_role = L ''ai_it_topic_runner''"
definition DEFAULT_NOTES_REPO :: pystr where "DEFAULT_NOTES_REPO = L ''7milch/ai-it-research-notes''"
definition DEFAULT_ALLOWED_TOOLS :: pystr where "DEFAULT_ALLOWED_TOOLS = L ''Read,Write,WebFetch,Bash(git:*)''"

definition DIRECT_MCP_TOOL_NAMES :: "pystr list" where
  "DIRECT_MCP_TOOL_NAMES = [L ''mcp__x7mimi__x_search_posts_recent'', L ''mcp__x7mimi__x_get_posts'',
     L ''mcp__x7mimi__x_get_users'', L ''mcp__x7mimi__x_get_users_by_username'']"

definition DIRECT_MCP_ALLOWED_TOOLS :: pystr where
  "DIRECT_MCP_ALLOWED_TOOLS = py_join [44] (DEFAULT_ALLOWED_TOOLS # DIRECT_MCP_TOOL_NAMES)"

definition GIT_AUTHOR_NAME :: pystr where "GIT_AUTHOR_NAME = L ''7mimi-agent runner''"
definition GIT_AUTHOR_EMAIL :: pystr where "GIT_AUTHOR_EMAIL = L ''agent@7mimi.local''"

text \<open>The options of both digests; \<^verbatim>\<open>InvestDigestOptions\<close> has all but the notes repository.\<close>

record digest_options =
  opt_model :: pystr
  opt_timeout :: int
  opt_notes_repo :: pystr
  opt_max_turns :: int
  opt_image :: pystr
  opt_docker_bin :: pystr
  opt_network :: pystr
  opt_memory :: pystr
  opt_cpus :: pystr
  opt_pids_limit :: int

definition ClaudeDigestOptions :: digest_options where
  "ClaudeDigestOptions = \<lparr>opt_model = L ''claude-sonnet-5'', opt_timeout = 1200, opt_notes_repo = DEFAULT_NOTES_REPO,
     opt_max_turns = 40, opt_image = L ''7mimi-agent-runner:latest'', opt_docker_bin = L ''docker'', opt_network = L ''bridge'',
     opt_memory = L ''2g'', opt_cpus = L ''2'', opt_pids_limit = 512\<rparr>"

section \<open>Error excerpts\<close>

definition MAX_ERROR_METADATA_CHARS :: nat where "MAX_ERROR_METADATA_CHARS = 4000"

definition error_excerpt :: "pystr option \<Rightarrow> pystr option" where
  "error_excerpt stderr =
     (case stderr of
        None \<Rightarrow> None
      | Some s \<Rightarrow>
          if s = [] then None
          else let trimmed = py_strip s in
            if trimmed = [] then None
            else if length trimmed > MAX_ERROR_METADATA_CHARS
            then Some (take MAX_ERROR_METADATA_CHARS trimmed @ L ''... (truncated)'')
            else Some trimmed)"

section \<open>The invocation\<close>

record claude_invocation =
  inv_prompt :: pystr
  inv_allowed_tools :: pystr
  inv_extra_args :: "pystr list"
  inv_env :: "(pystr \<times> pystr) list"

text \<open>\<^verbatim>\<open>a = os.environ.get(..); b = os.environ.get(..); if not a or not b: raise ValueError(..)\<close>.\<close>

definition env_pair :: "string \<Rightarrow> string \<Rightarrow> string \<Rightarrow> (world, pystr \<times> pystr) eff" where
  "env_pair a b m =
     sbind (env_set_val a) (\<lambda>x. sbind (env_set_val b) (\<lambda>y.
     case (x, y) of
       (Some u, Some v) \<Rightarrow> ret (u, v)
     | _ \<Rightarrow> raise_exc ValueError (L a @ L '' and '' @ L b @ L '' are required for '' @ L m)))"

definition runner_env :: "pystr \<Rightarrow> pystr \<Rightarrow> pystr \<Rightarrow> pystr \<Rightarrow> pystr \<Rightarrow> (pystr \<times> pystr) list" where
  "runner_env session_id role url token model =
     [(L ''SESSION_ID'', session_id), (L ''ROLE'', role), (L ''ANTHROPIC_BASE_URL'', url), (L ''ANTHROPIC_AUTH_TOKEN'', token),
      (L ''ANTHROPIC_CUSTOM_HEADERS'', L ''X-7mimi-Session-Id: '' @ session_id @ [10] @ L ''X-7mimi-Role: '' @ role),
      (L ''ANTHROPIC_MODEL'', model), (L ''CLAUDE_CONFIG_DIR'', L ''/workspace/.claude-config''), (L ''HOME'', L ''/workspace''),
      (L ''DISABLE_TELEMETRY'', L ''1''), (L ''DISABLE_ERROR_REPORTING'', L ''1'')]"

definition git_identity_env :: "(pystr \<times> pystr) list" where
  "git_identity_env = [(L ''GIT_AUTHOR_NAME'', GIT_AUTHOR_NAME), (L ''GIT_AUTHOR_EMAIL'', GIT_AUTHOR_EMAIL),
     (L ''GIT_COMMITTER_NAME'', GIT_AUTHOR_NAME), (L ''GIT_COMMITTER_EMAIL'', GIT_AUTHOR_EMAIL)]"

definition build_claude_invocation ::
    "pystr \<Rightarrow> pystr \<Rightarrow> pystr \<Rightarrow> pystr \<Rightarrow> digest_options \<Rightarrow> pystr \<Rightarrow> bool \<Rightarrow> pyval option \<Rightarrow> (world, claude_invocation) eff" where
  "build_claude_invocation workspace session_id role prompt options allowed_tools include_git_relay mcp_config =
     sbind (env_pair ''CLAUDE_PROXY_URL'' ''CLAUDE_PROXY_SESSION_TOKEN'' ''claude-digest'') (\<lambda>(url, token).
     let env = runner_env session_id role url token (opt_model options) in
     sbind (if include_git_relay then
              sbind (env_pair ''GIT_PROXY_URL'' ''GIT_PROXY_SESSION_TOKEN'' ''claude-digest'') (\<lambda>(git_url, git_token).
              ret (dict_update (dict_update env git_identity_env) (build_git_relay_env git_url git_token)))
            else ret env) (\<lambda>env.
     sbind (case mcp_config of
              None \<Rightarrow> ret []
            | Some c \<Rightarrow> sbind (write_text (path_join workspace (L ''.mcp.json'')) (json_dumps_pretty c)) (\<lambda>_.
                        ret [L ''--mcp-config'', L ''/workspace/.mcp.json'', L ''--strict-mcp-config''])) (\<lambda>mcp_args.
     ret \<lparr>inv_prompt = prompt, inv_allowed_tools = allowed_tools,
          inv_extra_args = mcp_args @ [L ''--max-turns'', int_str (opt_max_turns options), L ''--output-format'', L ''json''],
          inv_env = env\<rparr>)))"

section \<open>The docker command\<close>

definition NO_PROXY_HOSTS :: pystr where
  "NO_PROXY_HOSTS = L ''claude-proxy,auth-proxy,egress-proxy,localhost,127.0.0.1''"

definition with_egress_proxy :: "pystr \<Rightarrow> (pystr \<times> pystr) list \<Rightarrow> (pystr \<times> pystr) list" where
  "with_egress_proxy url env = dict_update env [(L ''HTTPS_PROXY'', url), (L ''HTTP_PROXY'', url), (L ''NO_PROXY'', NO_PROXY_HOSTS)]"

text \<open>\<^verbatim>\<open>for key, value in env.items(): env_args.extend(["-e", f"{key}={value}"])\<close>.\<close>

definition env_args :: "(pystr \<times> pystr) list \<Rightarrow> pystr list" where
  "env_args env = concat (map (\<lambda>(k, v). [L ''-e'', k @ [61] @ v]) env)"

text \<open>The limits of the container: the explicit argument, else the environment, else the options.\<close>

definition pids_limit_of :: "int option \<Rightarrow> int \<Rightarrow> (world, int) eff" where
  "pids_limit_of arg d =
     (case arg of
        Some n \<Rightarrow> ret n
      | None \<Rightarrow> sbind (env_set_val ''RUNNER_PIDS_LIMIT'') (\<lambda>v. case v of None \<Rightarrow> ret d | Some s \<Rightarrow> lift_res (py_int_of (PStr s))))"

definition text_limit_of :: "pystr option \<Rightarrow> string \<Rightarrow> pystr \<Rightarrow> (world, pystr) eff" where
  "text_limit_of arg k d = (case arg of Some s \<Rightarrow> ret s | None \<Rightarrow> env_default k d)"

text \<open>The network of the container and, on the internal network, the way out.\<close>

definition docker_network :: "pystr \<Rightarrow> (pystr \<times> pystr) list \<Rightarrow> (world, pystr list \<times> (pystr \<times> pystr) list) eff" where
  "docker_network network env =
     sbind (env_set_val ''RUNNER_NETWORK'') (\<lambda>runner_network.
     case runner_network of
       Some n \<Rightarrow>
         sbind (env_set_val ''RUNNER_EGRESS_PROXY'') (\<lambda>egress.
         ret ([L ''--network'', n], (case egress of None \<Rightarrow> env | Some u \<Rightarrow> with_egress_proxy u env)))
     | None \<Rightarrow> ret ([L ''--network'', network, L ''--add-host'', L ''host.docker.internal:host-gateway''], env))"

definition build_docker_command ::
    "(pystr \<Rightarrow> pystr) \<Rightarrow> pystr \<Rightarrow> pystr \<Rightarrow> pystr \<Rightarrow> pystr \<Rightarrow> digest_options \<Rightarrow> pystr \<Rightarrow> bool \<Rightarrow> pyval option \<Rightarrow>
      pystr option \<Rightarrow> pystr option \<Rightarrow> int option \<Rightarrow> (world, pystr list) eff" where
  "build_docker_command resolve workspace session_id role prompt options allowed_tools include_git_relay mcp_config memory0 cpus0 pids0 =
     sbind (text_limit_of memory0 ''RUNNER_MEMORY'' (opt_memory options)) (\<lambda>memory.
     sbind (text_limit_of cpus0 ''RUNNER_CPUS'' (opt_cpus options)) (\<lambda>cpus.
     sbind (pids_limit_of pids0 (opt_pids_limit options)) (\<lambda>pids.
     sbind (build_claude_invocation workspace session_id role prompt options allowed_tools include_git_relay mcp_config) (\<lambda>ci.
     sbind (docker_network (opt_network options) (inv_env ci)) (\<lambda>(network_args, env).
     ret ([opt_docker_bin options, L ''run'', L ''--rm'', L ''--name'', L ''7mimi-claude-digest-'' @ session_id] @ network_args @
          [L ''--memory'', memory, L ''--cpus'', cpus, L ''--pids-limit'', int_str pids,
           L ''-v'', resolve workspace @ L '':/workspace'', L ''-w'', L ''/workspace''] @ env_args env @
          [opt_image options, L ''claude'', L ''-p'', inv_prompt ci, L ''--allowedTools'', inv_allowed_tools ci] @ inv_extra_args ci))))))"

section \<open>Direct MCP\<close>

definition direct_mcp_server_url :: "(world, pystr) eff" where
  "direct_mcp_server_url =
     sbind (env_set_val ''RUNNER_MCP_URL'') (\<lambda>override.
     case override of
       Some u \<Rightarrow> ret u
     | None \<Rightarrow> sbind (env_set_val ''RUNNER_NETWORK'') (\<lambda>n.
         ret (if n \<noteq> None then L ''http://auth-proxy:18081/mcp'' else L ''http://host.docker.internal:18081/mcp'')))"

definition build_direct_mcp_config :: "pyval \<Rightarrow> (world, pyval) eff" where
  "build_direct_mcp_config session_token =
     sbind direct_mcp_server_url (\<lambda>url.
     ret (PDict [(L ''mcpServers'', PDict [(L ''x7mimi'', PDict
       [(L ''type'', PStr (L ''http'')), (L ''url'', PStr url),
        (L ''headers'', PDict [(L ''Authorization'', PStr (L ''Bearer '' @ py_str session_token))])])])]))"

section \<open>Bounds of the excerpt\<close>

text \<open>Bounds: an excerpt of an error text is never empty and has at most 4015 characters; it is the
  stripped text itself up to 4000 characters, and otherwise its first 4000 characters and a mark.
  There is no excerpt exactly when there is nothing but white space.\<close>

theorem error_excerpt_bounds:
  "(case error_excerpt (Some s) of
      None \<Rightarrow> py_strip s = []
    | Some x \<Rightarrow> x \<noteq> [] \<and> length x \<le> 4015 \<and> take 4000 x = take 4000 (py_strip s) \<and>
        (length (py_strip s) \<le> 4000 \<longrightarrow> x = py_strip s))"
  by (auto simp: error_excerpt_def MAX_ERROR_METADATA_CHARS_def Let_def L_def py_strip_def py_rstrip_def py_lstrip_def)

theorem error_excerpt_bounds_witness:
  "case error_excerpt (Some (L '' e '')) of
      None \<Rightarrow> py_strip (L '' e '') = []
    | Some x \<Rightarrow> x \<noteq> [] \<and> length x \<le> 4015 \<and> take 4000 x = take 4000 (py_strip (L '' e '')) \<and>
        (length (py_strip (L '' e '')) \<le> 4000 \<longrightarrow> x = py_strip (L '' e ''))"
  by (rule error_excerpt_bounds)

section \<open>What of the environment reaches a container\<close>

text \<open>\<open>reads ks m\<close>: the outcome of \<open>m\<close> depends on the world only through the variables \<open>ks\<close>, and no variable is
  changed.\<close>

definition agree :: "string list \<Rightarrow> world \<Rightarrow> world \<Rightarrow> bool" where
  "agree ks w w' \<longleftrightarrow> (\<forall>k \<in> set ks. getenv w k = getenv w' k)"

definition reads :: "string list \<Rightarrow> (world, 'a) eff \<Rightarrow> bool" where
  "reads ks m \<longleftrightarrow> (\<forall>w w'. agree ks w w' \<longrightarrow> fst (m w) = fst (m w') \<and> agree ks (snd (m w)) (snd (m w')))"

named_theorems reads_intros \<open>effects that read certain variables only\<close>

lemma reads_ret [reads_intros]: "reads ks (ret x)" "reads ks (lift_res r)" "reads ks (raise_exc t m)"
  by (simp_all add: reads_def)

lemma reads_env [reads_intros]: "k \<in> set ks \<Longrightarrow> reads ks (env_val k)" "k \<in> set ks \<Longrightarrow> reads ks (env_set_val k)"
  by (simp_all add: reads_def agree_def env_val_def env_set_val_def getenv_set_def)

lemma reads_write_text [reads_intros]: "reads ks (write_text p t)"
  by (simp add: reads_def agree_def write_text_def getenv_def split: sum.splits)

lemma reads_sbind [reads_intros]:
  assumes "reads ks m" and "\<And>x. reads ks (f x)"
  shows "reads ks (sbind m f)"
  unfolding reads_def
proof (intro allI impI)
  fix w w' assume a: "agree ks w w'"
  obtain r1 w1 r2 w2 where m: "m w = (r1, w1)" "m w' = (r2, w2)" by fastforce
  from assms(1) a m have "r1 = r2" and a1: "agree ks w1 w2" unfolding reads_def by (metis fst_conv, metis snd_conv)
  then show "fst (sbind m f w) = fst (sbind m f w') \<and> agree ks (snd (sbind m f w)) (snd (sbind m f w'))"
    using assms(2) m by (cases r1) (auto simp: reads_def)
qed

lemma reads_if [reads_intros]: "reads ks a \<Longrightarrow> reads ks b \<Longrightarrow> reads ks (if c then a else b)"
  by simp

lemma reads_option [reads_intros]: "reads ks a \<Longrightarrow> (\<And>x. reads ks (b x)) \<Longrightarrow> reads ks (case c of None \<Rightarrow> a | Some x \<Rightarrow> b x)"
  by (cases c) simp_all

lemma reads_prod [reads_intros]: "(\<And>x y. reads ks (a x y)) \<Longrightarrow> reads ks (case c of (x, y) \<Rightarrow> a x y)"
  by (cases c) simp

lemma reads_let [reads_intros]: "reads ks (f x) \<Longrightarrow> reads ks (let y = x in f y)"
  by simp

lemma reads_env_default [reads_intros]: "k \<in> set ks \<Longrightarrow> reads ks (env_default k d)"
  unfolding env_default_def by (intro reads_intros)

lemma reads_env_pair [reads_intros]: "a \<in> set ks \<Longrightarrow> b \<in> set ks \<Longrightarrow> reads ks (env_pair a b m)"
  unfolding env_pair_def by (intro reads_intros) (auto intro: reads_intros split: option.splits)

definition container_variables :: "string list" where
  "container_variables = [''CLAUDE_PROXY_URL'', ''CLAUDE_PROXY_SESSION_TOKEN'', ''GIT_PROXY_URL'', ''GIT_PROXY_SESSION_TOKEN'',
     ''RUNNER_MEMORY'', ''RUNNER_CPUS'', ''RUNNER_PIDS_LIMIT'', ''RUNNER_NETWORK'', ''RUNNER_EGRESS_PROXY'']"

lemma reads_build_claude_invocation [reads_intros]:
  "reads container_variables (build_claude_invocation ws sid role prompt opts tools relay mcp)"
  unfolding build_claude_invocation_def by (intro reads_intros) (simp_all add: container_variables_def)

text \<open>C33. Confinement of credentials: the command that starts the container, with all its variables, is
  determined by the arguments and the nine listed environment variables (the session tokens of the
  Claude proxy and the git relay, and the limits and networks).  Two worlds that agree on them give
  the same command or the same error; no other variable, such as a provider key or the admin token of
  the auth-proxy, no file and no database content can reach the container through it.\<close>

theorem docker_command_confined:
  assumes "\<forall>k \<in> set container_variables. getenv w k = getenv w' k"
  shows "fst (build_docker_command resolve ws sid role prompt opts tools relay mcp mem cpus pids w) =
    fst (build_docker_command resolve ws sid role prompt opts tools relay mcp mem cpus pids w')"
proof -
  have "reads container_variables (build_docker_command resolve ws sid role prompt opts tools relay mcp mem cpus pids)"
    unfolding build_docker_command_def text_limit_of_def pids_limit_of_def docker_network_def
    by (intro reads_intros) (simp_all add: container_variables_def)
  with assms show ?thesis by (auto simp: reads_def agree_def)
qed

definition key_world :: world where
  "key_world = demo_start_world\<lparr>environ := [(L ''ANTHROPIC_API_KEY'', L ''k'')]\<rparr>"

theorem docker_command_confined_witness:
  "fst (build_docker_command id [] [] [] [] ClaudeDigestOptions [] False None None None None key_world) =
   fst (build_docker_command id [] [] [] [] ClaudeDigestOptions [] False None None None None demo_start_world)"
  by (rule docker_command_confined)
    (simp add: container_variables_def getenv_def key_world_def demo_start_world_def L_def)

end
