(* ===== verification/Kubernetes.thy ===== *)
theory Kubernetes
  imports Invocation
begin

text \<open>
  The client of the Kubernetes API (\<^verbatim>\<open>runner/k8s_api_client.py\<close>) and the launcher that runs Claude
  Code as a Job (\<^verbatim>\<open>runner/k8s_claude_launcher.py\<close>).  The API server and the Job are part of the outside
  world; time spans are whole seconds, which the code holds as floats.  The polling loop has fuel:
  \<open>Diverged\<close> is its value when it has not returned in so many polls.
\<close>

section \<open>Options\<close>

definition SA_DIR :: pystr where "SA_DIR = L ''/var/run/secrets/kubernetes.io/serviceaccount''"
definition DEFAULT_API_SERVER :: pystr where "DEFAULT_API_SERVER = L ''https://kubernetes.default.svc''"

record k8s_options =
  k_image :: pystr
  k_namespace :: "pystr option"
  k_pvc_name :: pystr
  k_node_hostname :: pystr
  k_image_pull_secret :: pystr
  k_run_as_user :: int
  k_run_as_group :: int
  k_memory_limit :: pystr
  k_api_server :: pystr
  k_ca_cert_path :: pystr
  k_token_path :: pystr
  k_namespace_path :: pystr
  k_poll_interval :: int
  k_timeout :: int
  k_ttl :: int
  k_runner_label :: pystr
  k_job_name_prefix :: pystr

record launcher_options = k8s_options +
  l_poll_timeout_buffer :: int

definition env_int :: "string \<Rightarrow> string \<Rightarrow> (world, int) eff" where
  "env_int k d = sbind (env_default k (L d)) (\<lambda>s. lift_res (py_int_of (PStr s)))"

text \<open>The defaults of \<^verbatim>\<open>KubernetesClaudeLauncherOptions\<close>, in the order of its fields.\<close>

definition KubernetesClaudeLauncherOptions :: "(world, launcher_options) eff" where
  "KubernetesClaudeLauncherOptions =
     sbind (env_default ''RUNNER_IMAGE'' (L ''ghcr.io/7milch/7mimi-agent-agent-runner:latest'')) (\<lambda>image.
     sbind (env_default ''RUNNER_PVC_NAME'' (L ''7mimi-agent-data'')) (\<lambda>pvc.
     sbind (env_default ''RUNNER_NODE_HOSTNAME'' (L ''john-cooper-works'')) (\<lambda>node.
     sbind (env_default ''RUNNER_IMAGE_PULL_SECRET'' (L ''ghcr-pull-secret'')) (\<lambda>secret.
     sbind (env_int ''RUNNER_UID'' ''10001'') (\<lambda>uid.
     sbind (env_int ''RUNNER_GID'' ''10001'') (\<lambda>gid.
     ret \<lparr>k_image = image, k_namespace = None, k_pvc_name = pvc, k_node_hostname = node, k_image_pull_secret = secret,
          k_run_as_user = uid, k_run_as_group = gid, k_memory_limit = L ''2Gi'', k_api_server = DEFAULT_API_SERVER,
          k_ca_cert_path = path_join SA_DIR (L ''ca.crt''), k_token_path = path_join SA_DIR (L ''token''),
          k_namespace_path = path_join SA_DIR (L ''namespace''), k_poll_interval = 5, k_timeout = 1200, k_ttl = 600,
          k_runner_label = L ''7mimi-agent-runner'', k_job_name_prefix = L ''7mimi-claude-digest'', l_poll_timeout_buffer = 60\<rparr>))))))"

section \<open>The API client\<close>

definition read_token :: "('z) k8s_options_scheme \<Rightarrow> (world, pystr) eff" where
  "read_token opts = sbind (read_text (k_token_path opts)) (\<lambda>t. ret (py_strip t))"

text \<open>\<^verbatim>\<open>_namespace\<close> with the cache of the object: the namespace and the new cache.\<close>

definition namespace_of :: "'z k8s_options_scheme \<Rightarrow> pystr option \<Rightarrow> (world, pystr \<times> pystr option) eff" where
  "namespace_of opts cache =
     (case k_namespace opts of
        Some n \<Rightarrow> if n \<noteq> [] then ret (n, cache)
          else (case cache of Some c \<Rightarrow> ret (c, cache)
                | None \<Rightarrow> sbind (read_text (k_namespace_path opts)) (\<lambda>t. ret (py_strip t, Some (py_strip t))))
      | None \<Rightarrow>
          (case cache of Some c \<Rightarrow> ret (c, cache)
           | None \<Rightarrow> sbind (read_text (k_namespace_path opts)) (\<lambda>t. ret (py_strip t, Some (py_strip t)))))"

text \<open>\<^verbatim>\<open>ssl.create_default_context(cafile=...)\<close> needs the file.\<close>

definition ssl_context :: "'z k8s_options_scheme \<Rightarrow> (world, unit) eff" where
  "ssl_context opts = sbind (path_exists (k_ca_cert_path opts)) (\<lambda>b.
     if b then ret () else raise_exc FileNotFoundError (L ''[Errno 2] No such file or directory''))"

definition k8s_http_request :: "'z k8s_options_scheme \<Rightarrow> string \<Rightarrow> pystr \<Rightarrow> pyval option \<Rightarrow> pystr \<Rightarrow> http_request" where
  "k8s_http_request opts meth path body token =
     \<lparr>req_method = L meth, req_url = k_api_server opts @ path,
      req_headers = [bearer token, (L ''Accept'', L ''application/json'')] @ (if body \<noteq> None then [json_content] else []),
      req_body = map_option json_dumps body\<rparr>"

definition k8s_answer :: "string \<Rightarrow> pystr \<Rightarrow> http_outcome \<Rightarrow> (world, pyval) eff" where
  "k8s_answer meth path x =
     (case x of
       HttpFail code m detail \<Rightarrow> raise_exc RuntimeError
         (L ''kubernetes API '' @ L meth @ [32] @ path @ L '' failed: '' @ int_str code @ [32] @ detail)
     | UrlFail r \<Rightarrow> raise_exc RuntimeError (L ''kubernetes API '' @ L meth @ [32] @ path @ L '' unreachable: '' @ r)
     | HttpRaise e \<Rightarrow> lift_res (Inl e)
     | HttpOk code b \<Rightarrow> if b = Inr [] then ret empty_dict else sbind (lift_res b) (\<lambda>t. lift_res (json_loads t)))"

definition api_request :: "outside \<Rightarrow> 'z k8s_options_scheme \<Rightarrow> string \<Rightarrow> pystr \<Rightarrow> pyval option \<Rightarrow> (world, pyval) eff" where
  "api_request out opts meth path body =
     sbind (read_token opts) (\<lambda>token.
     sbind (ssl_context opts) (\<lambda>_.
     sbind (urlopen out (k8s_http_request opts meth path body token)) (k8s_answer meth path)))"

section \<open>Waiting for a Job\<close>

datatype job_state = JobDone | JobFailed pystr | JobActive

definition failed_condition_detail :: "pyval \<Rightarrow> pystr result" where
  "failed_condition_detail condition =
     (if \<not> truthy condition then Inr (L ''Job reported failed status'')
      else ebind (py_get condition (L ''reason'')) (\<lambda>reason.
           ebind (py_get condition (L ''message'')) (\<lambda>message.
           Inr (if truthy reason \<and> truthy message then py_str reason @ L '': '' @ py_str message
                else py_str (py_or (py_or message reason) (PStr (L ''Job reported failed status'')))))))"

text \<open>\<^verbatim>\<open>next((c for c in conditions if c.get("type") == "Failed"), None)\<close>.\<close>

fun find_failed :: "pyval list \<Rightarrow> pyval result" where
  "find_failed [] = Inr PNone"
| "find_failed (c # cs) = ebind (py_get c (L ''type'')) (\<lambda>t. if py_eq t (PStr (L ''Failed'')) then Inr c else find_failed cs)"

text \<open>What one poll says about the Job.\<close>

definition job_state_of :: "pyval \<Rightarrow> job_state result" where
  "job_state_of job =
     ebind (py_get job (L ''status'')) (\<lambda>s.
     let status = py_or s empty_dict in
     ebind (py_get status (L ''succeeded'')) (\<lambda>a. ebind (py_int_of (py_or a (PInt 0))) (\<lambda>succeeded.
     if succeeded \<ge> 1 then Inr JobDone
     else
       ebind (py_get status (L ''failed'')) (\<lambda>b. ebind (py_int_of (py_or b (PInt 0))) (\<lambda>failed.
       if failed \<ge> 1 then
         ebind (py_get status (L ''conditions'')) (\<lambda>cs.
         ebind (py_iter (py_or cs empty_list)) (\<lambda>conditions.
         ebind (find_failed conditions) (\<lambda>c.
         ebind (failed_condition_detail c) (\<lambda>detail. Inr (JobFailed detail)))))
       else Inr JobActive)))))"

definition job_path :: "pystr \<Rightarrow> pystr \<Rightarrow> pystr" where
  "job_path ns job_name = L ''/apis/batch/v1/namespaces/'' @ ns @ L ''/jobs/'' @ job_name"

text \<open>\<^verbatim>\<open>str\<close> of a whole number of seconds held as a float.\<close>

definition seconds_text :: "int \<Rightarrow> pystr" where
  "seconds_text n = int_str n @ L ''.0''"

fun wait_loop :: "nat \<Rightarrow> outside \<Rightarrow> 'z k8s_options_scheme \<Rightarrow> pystr \<Rightarrow> pystr \<Rightarrow> int \<Rightarrow> int \<Rightarrow> (world, unit) eff" where
  "wait_loop 0 out opts ns job_name timeout deadline = raise_exc Diverged []"
| "wait_loop (Suc n) out opts ns job_name timeout deadline =
     sbind (api_request out opts ''GET'' (job_path ns job_name) None) (\<lambda>job.
     sbind (lift_res (job_state_of job)) (\<lambda>state.
     case state of
       JobDone \<Rightarrow> ret ()
     | JobFailed detail \<Rightarrow> raise_exc RuntimeError (L ''Job '' @ ns @ [47] @ job_name @ L '' failed: '' @ detail)
     | JobActive \<Rightarrow>
         sbind (mono_now out) (\<lambda>t.
         if t > deadline then
           raise_exc RuntimeError (L ''Job '' @ ns @ [47] @ job_name @ L '' did not complete within '' @ seconds_text timeout @ L ''s'')
         else sbind (sleep out (1000000 * k_poll_interval opts)) (\<lambda>_. wait_loop n out opts ns job_name timeout deadline))))"

definition wait_for_completion :: "nat \<Rightarrow> outside \<Rightarrow> 'z k8s_options_scheme \<Rightarrow> pystr \<Rightarrow> pystr \<Rightarrow> int option \<Rightarrow> (world, unit) eff" where
  "wait_for_completion fuel out opts ns job_name timeout_seconds =
     (let timeout = (case timeout_seconds of None \<Rightarrow> k_timeout opts | Some t \<Rightarrow> t) in
      sbind (mono_now out) (\<lambda>t. wait_loop fuel out opts ns job_name timeout (t + 1000000 * timeout)))"

section \<open>The launcher\<close>

definition STDOUT_FILENAME :: pystr where "STDOUT_FILENAME = L ''.claude-stdout.json''"
definition STDERR_FILENAME :: pystr where "STDERR_FILENAME = L ''.claude-stderr.log''"

text \<open>
  \<^verbatim>\<open>session_id.replace("_", "-").lower()\<close>; session ids are ASCII, other code points are left as they
  are.
\<close>

definition ascii_lower :: "int \<Rightarrow> int" where
  "ascii_lower c = (if 65 \<le> c \<and> c \<le> 90 then c + 32 else c)"

definition k8s_job_name :: "'z k8s_options_scheme \<Rightarrow> pystr \<Rightarrow> pystr" where
  "k8s_job_name opts session_id =
     py_rstrip_chars [45] (take 63 (k_job_name_prefix opts @ [45] @ map (\<lambda>c. ascii_lower (if c = 95 then 45 else c)) session_id))"

text \<open>\<^verbatim>\<open>shlex.quote\<close>.\<close>

definition shell_safe :: "int \<Rightarrow> bool" where
  "shell_safe c = (48 \<le> c \<and> c \<le> 57 \<or> 65 \<le> c \<and> c \<le> 90 \<or> 97 \<le> c \<and> c \<le> 122 \<or> c \<in> set [95, 64, 37, 43, 61, 58, 44, 46, 47, 45])"

definition shlex_quote :: "pystr \<Rightarrow> pystr" where
  "shlex_quote s =
     (if s = [] then [39, 39]
      else if list_all shell_safe s then s
      else [39] @ concat (map (\<lambda>c. if c = 39 then [39, 34, 39, 34, 39] else [c]) s) @ [39])"

definition build_command :: "claude_invocation \<Rightarrow> pystr list" where
  "build_command ci =
     (let static_args = py_join [32] (map shlex_quote (inv_extra_args ci)) in
      [L ''sh'', L ''-c'',
       L ''claude -p '' @ [34] @ L ''$CLAUDE_PROMPT'' @ [34] @ L '' --allowedTools '' @ [34] @ L ''$CLAUDE_ALLOWED_TOOLS'' @ [34, 32] @
       static_args @ L '' > /workspace/'' @ STDOUT_FILENAME @ L '' 2> /workspace/'' @ STDERR_FILENAME])"

text \<open>The variables of the container.\<close>

definition launcher_env :: "claude_invocation \<Rightarrow> (world, (pystr \<times> pystr) list) eff" where
  "launcher_env ci =
     (let env = dict_set (L ''CLAUDE_ALLOWED_TOOLS'') (inv_allowed_tools ci) (dict_set (L ''CLAUDE_PROMPT'') (inv_prompt ci) (inv_env ci)) in
      sbind (env_set_val ''RUNNER_EGRESS_PROXY'') (\<lambda>egress.
      ret (case egress of None \<Rightarrow> env | Some u \<Rightarrow> with_egress_proxy u env)))"

definition env_json :: "(pystr \<times> pystr) list \<Rightarrow> pyval" where
  "env_json env = PList (map (\<lambda>(k, v). PDict [(L ''name'', PStr k), (L ''value'', PStr v)]) env)"

definition str_dict :: "(string \<times> pystr) list \<Rightarrow> pyval" where
  "str_dict kvs = PDict (map (\<lambda>(k, v). (L k, PStr v)) kvs)"

definition launcher_manifest :: "launcher_options \<Rightarrow> pystr \<Rightarrow> pystr \<Rightarrow> pystr \<Rightarrow> claude_invocation \<Rightarrow> (pystr \<times> pystr) list \<Rightarrow> int \<Rightarrow> pyval" where
  "launcher_manifest opts ns session_id role ci env timeout_seconds =
     (let job_labels = [(''app.kubernetes.io/name'', k_runner_label opts), (''app.kubernetes.io/part-of'', L ''7mimi-agent'')] in
      PDict
       [(L ''apiVersion'', PStr (L ''batch/v1'')), (L ''kind'', PStr (L ''Job'')),
        (L ''metadata'', PDict
          [(L ''name'', PStr (k8s_job_name opts session_id)), (L ''namespace'', PStr ns),
           (L ''labels'', str_dict (job_labels @ [(''shichimimi.io/session-id'', session_id), (''shichimimi.io/role'', role)]))]),
        (L ''spec'', PDict
          [(L ''backoffLimit'', PInt 0), (L ''activeDeadlineSeconds'', PInt timeout_seconds), (L ''ttlSecondsAfterFinished'', PInt (k_ttl opts)),
           (L ''template'', PDict
             [(L ''metadata'', PDict [(L ''labels'', str_dict job_labels)]),
              (L ''spec'', PDict
                [(L ''restartPolicy'', PStr (L ''Never'')),
                 (L ''nodeSelector'', str_dict [(''kubernetes.io/hostname'', k_node_hostname opts)]),
                 (L ''imagePullSecrets'', PList [str_dict [(''name'', k_image_pull_secret opts)]]),
                 (L ''automountServiceAccountToken'', PBool False),
                 (L ''securityContext'', PDict
                   [(L ''runAsNonRoot'', PBool True), (L ''runAsUser'', PInt (k_run_as_user opts)), (L ''runAsGroup'', PInt (k_run_as_group opts)),
                    (L ''fsGroup'', PInt (k_run_as_group opts)), (L ''seccompProfile'', str_dict [(''type'', L ''RuntimeDefault'')])]),
                 (L ''containers'', PList [PDict
                   [(L ''name'', PStr (L ''claude-digest'')), (L ''image'', PStr (k_image opts)),
                    (L ''command'', PList (map PStr (build_command ci))), (L ''workingDir'', PStr (L ''/workspace'')),
                    (L ''env'', env_json env),
                    (L ''securityContext'', PDict [(L ''allowPrivilegeEscalation'', PBool False),
                       (L ''capabilities'', PDict [(L ''drop'', PList [PStr (L ''ALL'')])])]),
                    (L ''resources'', PDict [(L ''limits'', str_dict [(''memory'', k_memory_limit opts)]), (L ''requests'', str_dict [(''memory'', k_memory_limit opts)])]),
                    (L ''volumeMounts'', PList [str_dict [(''name'', L ''workspace''), (''mountPath'', L ''/workspace''),
                       (''subPath'', L ''sessions/'' @ session_id @ L ''/workspace'')]])]]),
                 (L ''volumes'', PList [PDict [(L ''name'', PStr (L ''workspace'')),
                    (L ''persistentVolumeClaim'', str_dict [(''claimName'', k_pvc_name opts)])]])])])])])"

definition read_optional :: "pystr \<Rightarrow> (world, pystr option) eff" where
  "read_optional p = catch (sbind (read_text p) (\<lambda>t. ret (Some t))) is_OSError (\<lambda>_. ret None)"

definition jobs_path :: "pystr \<Rightarrow> pystr" where
  "jobs_path ns = L ''/apis/batch/v1/namespaces/'' @ ns @ L ''/jobs''"

definition text_or_empty :: "pystr option \<Rightarrow> pystr" where
  "text_or_empty x = (case x of None \<Rightarrow> [] | Some s \<Rightarrow> s)"

text \<open>\<^verbatim>\<open>run\<close>: exit code, standard output and error; the manifest is evaluated field by field, so the
  namespace is read before the environment.\<close>

definition launcher_run ::
    "nat \<Rightarrow> outside \<Rightarrow> launcher_options \<Rightarrow> pystr option \<Rightarrow> pystr \<Rightarrow> pystr \<Rightarrow> pystr \<Rightarrow> claude_invocation \<Rightarrow> int \<Rightarrow> (world, int \<times> pystr \<times> pystr) eff" where
  "launcher_run fuel out opts cache workspace session_id role ci timeout_seconds =
     sbind (namespace_of opts cache) (\<lambda>(ns, _).
     sbind (launcher_env ci) (\<lambda>env.
     sbind (catch (sbind (api_request out opts ''POST'' (jobs_path ns) (Some (launcher_manifest opts ns session_id role ci env timeout_seconds))) (\<lambda>_.
                   sbind (wait_for_completion fuel out opts ns (k8s_job_name opts session_id) (Some (timeout_seconds + l_poll_timeout_buffer opts))) (\<lambda>_.
                   ret None)))
              is_RuntimeError (\<lambda>e. ret (Some e))) (\<lambda>failure.
     case failure of
       Some e \<Rightarrow>
         sbind (read_optional (path_join workspace STDERR_FILENAME)) (\<lambda>stderr.
         ret (1, [], exc_msg e @ (if text_or_empty stderr \<noteq> [] then L ''; stderr: '' @ text_or_empty stderr else [])))
     | None \<Rightarrow>
         sbind (read_optional (path_join workspace STDOUT_FILENAME)) (\<lambda>stdout.
         sbind (read_optional (path_join workspace STDERR_FILENAME)) (\<lambda>stderr.
         ret (0, text_or_empty stdout, text_or_empty stderr))))))"

section \<open>The polling loop ends\<close>

text \<open>Only readings of the clock and sleeping move the clock.\<close>

lemma keeps_ticks [keeps_intros]:
  "keeps (\<lambda>w. ticks w = k) (urlopen out r)" "keeps (\<lambda>w. ticks w = k) (read_text p)" "keeps (\<lambda>w. ticks w = k) (path_exists p)"
  by (auto simp: keeps_def urlopen_def read_text_def path_exists_def split: prod.splits option.splits)

lemma api_request_ticks: "api_request out opts meth path body w = (r, w') \<Longrightarrow> ticks w' = ticks w"
proof -
  have "keeps (\<lambda>v. ticks v = ticks w) (api_request out opts meth path body)"
    unfolding api_request_def read_token_def ssl_context_def k8s_answer_def by (intro keeps_intros)
  then show "api_request out opts meth path body w = (r, w') \<Longrightarrow> ticks w' = ticks w" using keepsD by fast
qed

lemma roe_api_request [tame_intros]:
  assumes "tame_outside out"
  shows "raises_only_Exception (api_request out opts meth path body)"
proof -
  have "raises_only_Exception (k8s_answer meth path x)" if "tame_outcome x" for x
    using that unfolding k8s_answer_def by (cases x) (auto simp: tame_outcome_def tame_res_def intro!: tame_intros)
  then have u: "raises_only_Exception (sbind (urlopen out rq) (k8s_answer meth path))" for rq
    by (rule roe_request[OF assms])
  have rs: "raises_only_Exception (read_token opts)" "raises_only_Exception (ssl_context opts)"
    unfolding read_token_def ssl_context_def by (intro tame_intros; simp)+
  show ?thesis unfolding api_request_def by (rule roe_sbind[OF rs(1)], rule roe_sbind[OF rs(2)], rule u)
qed

lemma tame_find_failed [tame_intros]: "tame_res (find_failed cs)"
  by (induction cs) (auto intro!: tame_intros)

lemma tame_job_state_of [tame_intros]: "tame_res (job_state_of job)"
  unfolding job_state_of_def failed_condition_detail_def Let_def by (intro tame_intros)

text \<open>One round of the loop.\<close>

lemma wait_loop_cases:
  assumes "wait_loop (Suc n) out opts ns jn timeout deadline w = (r, w')" and "tame_outside out"
  obtains (over) "tame_res r"
    | (more) job w1 fs where "api_request out opts ''GET'' (job_path ns jn) None w = (Inr job, w1)" "ticks w1 = ticks w"
        "o_mono out (ticks w) \<le> deadline"
        "wait_loop n out opts ns jn timeout deadline (w1\<lparr>files := fs, ticks := Suc (Suc (ticks w))\<rparr>) = (r, w')"
proof -
  obtain a w1 where q: "api_request out opts ''GET'' (job_path ns jn) None w = (a, w1)" by fastforce
  note tk = api_request_ticks[OF q]
  show thesis
  proof (cases a)
    case (Inl e)
    have "is_Exception e" using roe_api_request[OF assms(2)] q Inl unfolding raises_only_Exception_def by blast
    then show thesis using assms(1) q Inl over by (auto simp: tame_res_def)
  next
    case (Inr job)
    show thesis
    proof (cases "job_state_of job")
      case e: (Inl e)
      then show thesis using assms(1) q Inr over tame_job_state_of[of job] by (auto simp: tame_res_def)
    next
      case st: (Inr st)
      show thesis
      proof (cases st)
        case JobActive
        show thesis
        proof (cases "o_mono out (ticks w) > deadline")
          case True
          then show thesis using assms(1) q Inr st JobActive tk over
            by (auto simp: mono_now_def tame_res_def is_Exception_def)
        next
          case False
          then show thesis using assms(1) q Inr st JobActive tk more
            by (auto simp: mono_now_def sleep_def)
        qed
      next
        case (JobFailed d)
        then show thesis using assms(1) q Inr st over by (auto simp: tame_res_def is_Exception_def)
      next
        case JobDone
        then show thesis using assms(1) q Inr st over by (auto simp: tame_res_def)
      qed
    qed
  qed
qed

text \<open>
  The laws of the clock that the loop relies on: it does not run backwards, and sleeping for a poll
  interval moves it by at least that.  Between two readings of a round there are one reading and one
  sleep, so two ticks.
\<close>

definition clock_runs :: "outside \<Rightarrow> int \<Rightarrow> bool" where
  "clock_runs out d \<longleftrightarrow> (\<forall>n. o_mono out n \<le> o_mono out (Suc n)) \<and> (\<forall>n. o_mono out n + d \<le> o_mono out (Suc (Suc n)))"

lemma wait_loop_ends:
  assumes "wait_loop n out opts ns jn timeout deadline w = (r, w')" and "tame_outside out"
    and "clock_runs out (1000000 * k_poll_interval opts)" and "0 < k_poll_interval opts"
    and "n \<noteq> 0" and "deadline < o_mono out (ticks w) + 1000000 * k_poll_interval opts * (int n - 1)"
  shows "tame_res r"
  using assms(1,5,6)
proof (induction n arbitrary: w)
  case (Suc n)
  define d where "d = 1000000 * k_poll_interval opts"
  from Suc.prems(1) assms(2) show ?case
  proof (cases rule: wait_loop_cases)
    case (more job w1 fs)
    let ?w = "w1\<lparr>files := fs, ticks := Suc (Suc (ticks w))\<rparr>"
    have step: "o_mono out (ticks w) + d \<le> o_mono out (ticks ?w)" using assms(3) by (simp add: clock_runs_def d_def)
    have lim: "deadline < o_mono out (ticks w) + d * int n" using Suc.prems(3) by (simp add: d_def)
    have nz: "n \<noteq> 0" using more(3) lim by (cases n) auto
    have "d * int n = d + d * (int n - 1)" by (simp add: algebra_simps)
    then have "deadline < o_mono out (ticks ?w) + d * (int n - 1)" using lim step by linarith
    then show ?thesis by (rule Suc.IH[OF more(4) nz, folded d_def])
  qed
next
  case 0
  then show ?case by blast
qed

lemma wait_for_completion_tame:
  assumes "tame_outside out" and "clock_runs out (1000000 * k_poll_interval opts)" and "0 < k_poll_interval opts"
    and "0 \<le> timeout" and "nat (timeout div k_poll_interval opts) + 2 \<le> fuel"
  shows "tame_res (fst (wait_for_completion fuel out opts ns job_name (Some timeout) w))"
proof -
  obtain r w' where e: "wait_loop fuel out opts ns job_name timeout (o_mono out (ticks w) + 1000000 * timeout) (w\<lparr>ticks := Suc (ticks w)\<rparr>) = (r, w')"
    by fastforce
  define p where "p = k_poll_interval opts"
  have p: "0 < p" using assms(3) by (simp add: p_def)
  have q: "0 \<le> timeout div p" using assms(4) p by (simp add: pos_imp_zdiv_nonneg_iff)
  have "timeout = p * (timeout div p) + timeout mod p" by simp
  then have "timeout < p * (timeout div p) + p" using pos_mod_bound[OF p, of timeout] by linarith
  then have "timeout < p * (timeout div p + 1)" by (simp add: distrib_left)
  moreover have "p * (timeout div p + 1) \<le> p * (int fuel - 1)"
  proof (rule mult_left_mono)
    have "nat (timeout div p) + 2 \<le> fuel" using assms(5) by (simp add: p_def)
    then show "timeout div p + 1 \<le> int fuel - 1" using q by linarith
  qed (use p in simp)
  ultimately have lt: "timeout < p * (int fuel - 1)" by linarith
  have mono: "o_mono out (ticks w) \<le> o_mono out (Suc (ticks w))" using assms(2) by (simp add: clock_runs_def)
  have "o_mono out (ticks w) + 1000000 * timeout < o_mono out (Suc (ticks w)) + 1000000 * p * (int fuel - 1)"
    using lt mono by (simp add: mult.assoc)
  moreover have "fuel \<noteq> 0" using assms(5) by simp
  ultimately have "tame_res r"
    using wait_loop_ends[OF e assms(1-3)] by (simp add: p_def)
  then show ?thesis using e by (simp add: wait_for_completion_def Let_def mono_now_def)
qed

text \<open>C31. Termination of the wait for a Job: if the clock runs and sleeping takes its time, the loop, whatever
  the API server answers, returns or raises an ordinary exception after at most timeout / interval + 2
  polls; it never goes on for ever.\<close>

theorem wait_for_completion_terminates:
  assumes "tame_outside out" and "clock_runs out (1000000 * k_poll_interval opts)" and "0 < k_poll_interval opts"
    and "0 \<le> timeout" and "nat (timeout div k_poll_interval opts) + 2 \<le> fuel"
  shows "tame_res (fst (wait_for_completion fuel out opts ns job_name (Some timeout) w))"
  using assms by (rule wait_for_completion_tame)

definition demo_launcher :: launcher_options where
  "demo_launcher = \<lparr>k_image = [], k_namespace = Some (L ''n''), k_pvc_name = [], k_node_hostname = [], k_image_pull_secret = [],
     k_run_as_user = 1, k_run_as_group = 1, k_memory_limit = [], k_api_server = [], k_ca_cert_path = [], k_token_path = [],
     k_namespace_path = [], k_poll_interval = 1, k_timeout = 2, k_ttl = 1, k_runner_label = [], k_job_name_prefix = [], l_poll_timeout_buffer = 1\<rparr>"

theorem wait_for_completion_terminates_witness:
  "tame_res (fst (wait_for_completion 9 demo_out demo_launcher (L ''n'') (L ''j'') (Some 7) demo_start_world))"
proof (rule wait_for_completion_terminates[OF tame_demo_out])
  show "clock_runs demo_out (1000000 * k_poll_interval demo_launcher)"
    by (simp add: clock_runs_def demo_out_def demo_launcher_def)
  show "0 < k_poll_interval demo_launcher" "nat (7 div k_poll_interval demo_launcher) + 2 \<le> 9"
    by (simp_all add: demo_launcher_def)
qed simp

section \<open>Exit codes\<close>

lemma wait_loop_done:
  assumes "wait_loop n out opts ns jn timeout deadline w = (Inr u, w')"
  shows "\<exists>w1 job. api_request out opts ''GET'' (job_path ns jn) None w1 = (Inr job, w') \<and> job_state_of job = Inr JobDone"
  using assms
proof (induction n arbitrary: w)
  case (Suc n)
  from Suc.prems[unfolded wait_loop.simps] show ?case
  proof (elim sbind_InrE, goal_cases)
    case (1 job w1 st w2)
    then show ?case using Suc.IH by (cases st) (auto elim!: sbind_InrE split: if_splits)
  qed
qed simp

lemma read_optional_pure: "read_optional p w = (Inr (files w p), w)"
  by (cases "files w p") (simp_all add: read_optional_def read_text_def catch_def is_OSError_def sbind_def)

text \<open>The exit code of the launcher is honest: it is 0 or 1; it is 0 only if the API server accepted the
  Job and its last answer counted a success, and then the texts are those of the two output files; and
  a \<open>RuntimeError\<close> of the API (refused, unreachable, failed or overdue Job) is not raised but gives
  exit code 1 with the message at the beginning of the error text.\<close>

theorem launcher_exit_code:
  assumes "launcher_run fuel out opts cache ws sid role ci timeout w = (Inr (code, stdout, stderr), w')"
  shows "(code = 0 \<and> (\<exists>ns w1 job. api_request out opts ''GET'' (job_path ns (k8s_job_name opts sid)) None w1 = (Inr job, w') \<and>
            job_state_of job = Inr JobDone) \<and>
          stdout = text_or_empty (files w' (path_join ws STDOUT_FILENAME)) \<and> stderr = text_or_empty (files w' (path_join ws STDERR_FILENAME))) \<or>
         (code = 1 \<and> stdout = [] \<and> (\<exists>e rest. is_RuntimeError e \<and> stderr = exc_msg e @ rest))"
proof -
  from assms obtain ns w0 env w1 f w2 where
    c: "catch (sbind (api_request out opts ''POST'' (jobs_path ns) (Some (launcher_manifest opts ns sid role ci env timeout))) (\<lambda>_.
          sbind (wait_for_completion fuel out opts ns (k8s_job_name opts sid) (Some (timeout + l_poll_timeout_buffer opts))) (\<lambda>_. ret None)))
          is_RuntimeError (\<lambda>e. ret (Some e)) w1 = (Inr f, w2)"
    and rest: "(case f of
       Some e \<Rightarrow>
         sbind (read_optional (path_join ws STDERR_FILENAME)) (\<lambda>stderr.
         ret (1, [], exc_msg e @ (if text_or_empty stderr \<noteq> [] then L ''; stderr: '' @ text_or_empty stderr else [])))
     | None \<Rightarrow>
         sbind (read_optional (path_join ws STDOUT_FILENAME)) (\<lambda>stdout.
         sbind (read_optional (path_join ws STDERR_FILENAME)) (\<lambda>stderr.
         ret (0, text_or_empty stdout, text_or_empty stderr)))) w2 = (Inr (code, stdout, stderr), w')"
    unfolding launcher_run_def by (auto elim!: sbind_InrE)
  show ?thesis
  proof (cases f)
    case None
    with c obtain wa wb where "wait_for_completion fuel out opts ns (k8s_job_name opts sid) (Some (timeout + l_poll_timeout_buffer opts)) wa = (Inr (), w2)"
      by (auto simp: catch_def elim!: sbind_InrE split: prod.splits sum.splits if_splits)
    then have "\<exists>w1 job. api_request out opts ''GET'' (job_path ns (k8s_job_name opts sid)) None w1 = (Inr job, w2) \<and> job_state_of job = Inr JobDone"
      unfolding wait_for_completion_def Let_def by (auto elim!: sbind_InrE dest!: wait_loop_done)
    then show ?thesis using rest None by (auto simp: read_optional_pure)
  next
    case (Some e)
    with c have "is_RuntimeError e"
      by (auto simp: catch_def elim!: sbind_InrE split: prod.splits sum.splits if_splits)
    then show ?thesis using rest Some by (auto simp: read_optional_pure)
  qed
qed

text \<open>An API server that cannot be reached.\<close>

definition pod_world :: world where
  "pod_world = demo_start_world\<lparr>files := [[] \<mapsto> L ''x'']\<rparr>"

definition demo_invocation :: claude_invocation where
  "demo_invocation = \<lparr>inv_prompt = L ''p'', inv_allowed_tools = [], inv_extra_args = [], inv_env = []\<rparr>"

definition demo_launch :: "(int \<times> pystr \<times> pystr) result \<times> world" where
  "demo_launch = launcher_run 3 demo_out demo_launcher None (L ''/w'') (L ''s'') (L ''r'') demo_invocation 2 pod_world"

theorem launcher_exit_code_witness:
  "\<exists>code stdout stderr. fst demo_launch = Inr (code, stdout, stderr) \<and> code = 1 \<and> stdout = [] \<and>
     (\<exists>e rest. is_RuntimeError e \<and> stderr = exc_msg e @ rest)"
proof -
  have e: "\<exists>stderr. fst demo_launch = Inr (1, [], stderr)"
    by (simp add: demo_launch_def launcher_run_def namespace_of_def launcher_env_def env_set_val_def getenv_set_def getenv_def
        api_request_def read_token_def read_text_def ssl_context_def path_exists_def urlopen_def k8s_answer_def
        read_optional_pure pod_world_def demo_launcher_def demo_out_def demo_start_world_def sbind_def catch_def Let_def
        is_RuntimeError_def L_def)
  then obtain stderr where s: "fst demo_launch = Inr (1, [], stderr)" by blast
  then have "launcher_run 3 demo_out demo_launcher None (L ''/w'') (L ''s'') (L ''r'') demo_invocation 2 pod_world =
    (Inr (1, [], stderr), snd demo_launch)" unfolding demo_launch_def by (metis prod.collapse)
  from launcher_exit_code[OF this] s show ?thesis by auto
qed

section \<open>Quoting\<close>

text \<open>
  How a POSIX shell splits text into words, for text of safe characters, blanks, single quotes and
  double quotes around characters without a meaning of their own there.
\<close>

datatype sh_mode = Plain | Single | Double

definition sh_add :: "pystr option \<Rightarrow> pystr \<Rightarrow> pystr option" where
  "sh_add cur s = Some ((case cur of None \<Rightarrow> [] | Some c \<Rightarrow> c) @ s)"

fun sh_scan :: "sh_mode \<Rightarrow> pystr option \<Rightarrow> pystr \<Rightarrow> pystr list option" where
  "sh_scan Plain cur [] = Some (case cur of None \<Rightarrow> [] | Some c \<Rightarrow> [c])"
| "sh_scan Single cur [] = None"
| "sh_scan Double cur [] = None"
| "sh_scan Plain cur (c # s) =
     (if c = 32 then map_option (append (case cur of None \<Rightarrow> [] | Some d \<Rightarrow> [d])) (sh_scan Plain None s)
      else if c = 39 then sh_scan Single (sh_add cur []) s
      else if c = 34 then sh_scan Double (sh_add cur []) s
      else if shell_safe c then sh_scan Plain (sh_add cur [c]) s
      else None)"
| "sh_scan Single cur (c # s) = (if c = 39 then sh_scan Plain cur s else sh_scan Single (sh_add cur [c]) s)"
| "sh_scan Double cur (c # s) =
     (if c = 34 then sh_scan Plain cur s
      else if c = 36 \<or> c = 96 \<or> c = 92 then None else sh_scan Double (sh_add cur [c]) s)"

lemma sh_add_add [simp]: "sh_add (sh_add cur s) t = sh_add cur (s @ t)"
  by (simp add: sh_add_def)

lemma sh_scan_safe: "list_all shell_safe s \<Longrightarrow> s \<noteq> [] \<Longrightarrow> sh_scan Plain cur (s @ t) = sh_scan Plain (sh_add cur s) t"
proof (induction s arbitrary: cur)
  case (Cons c s)
  have "c \<noteq> 32" "c \<noteq> 39" "c \<noteq> 34" using Cons.prems(1) by (auto simp: shell_safe_def)
  then show ?case using Cons by (cases "s = []") auto
qed simp

lemma sh_scan_quoted:
  "sh_scan Single cur (concat (map (\<lambda>c. if c = 39 then [39, 34, 39, 34, 39] else [c]) s) @ 39 # t) =
    sh_scan Plain (if s = [] then cur else sh_add cur s) t"
  by (induction s arbitrary: cur) auto

lemma sh_scan_quote: "sh_scan Plain cur (shlex_quote s @ t) = sh_scan Plain (sh_add cur s) t"
  using sh_scan_safe[of s cur t] sh_scan_quoted[of "sh_add cur []" s t]
  by (auto simp: shlex_quote_def)

lemma shlex_quote_words: "sh_scan Plain None (py_join [32] (map shlex_quote xs)) = Some xs"
proof (induction xs)
  case (Cons x xs)
  then show ?case
  proof (cases "xs = []")
    case True
    then show ?thesis using sh_scan_quote[of None x "[]"] by (simp add: sh_add_def)
  next
    case False
    then have "py_join [32] (map shlex_quote (x # xs)) = shlex_quote x @ 32 # py_join [32] (map shlex_quote xs)"
      by (simp add: py_join_Cons)
    then show ?thesis using Cons by (simp only:) (simp add: sh_scan_quote sh_add_def)
  qed
qed simp

text \<open>C32. Round trip of the command line: the script of the Job consists of a fixed beginning, the quoted extra
  arguments and a fixed end; when a shell splits the middle part into words it gets back exactly the
  extra arguments, whatever characters they contain.  The prompt and the tool list are no part of the
  script.\<close>

theorem build_command_words:
  "\<exists>before_args after_args. \<forall>ci. \<exists>args.
     build_command ci = [L ''sh'', L ''-c'', before_args @ args @ after_args] \<and> sh_scan Plain None args = Some (inv_extra_args ci)"
proof (intro exI allI conjI)
  fix ci
  let ?b = "L ''claude -p '' @ [34] @ L ''$CLAUDE_PROMPT'' @ [34] @ L '' --allowedTools '' @ [34] @ L ''$CLAUDE_ALLOWED_TOOLS'' @ [34, 32]"
  let ?a = "L '' > /workspace/'' @ STDOUT_FILENAME @ L '' 2> /workspace/'' @ STDERR_FILENAME"
  show "build_command ci = [L ''sh'', L ''-c'', ?b @ py_join [32] (map shlex_quote (inv_extra_args ci)) @ ?a]"
    by (simp add: build_command_def Let_def)
  show "sh_scan Plain None (py_join [32] (map shlex_quote (inv_extra_args ci))) = Some (inv_extra_args ci)"
    by (rule shlex_quote_words)
qed

end
