(* ===== verification/Config.thy ===== *)
theory Config
  imports World PolicyEngine
begin

text \<open>
  \<^verbatim>\<open>config/loader.py\<close>, \<^verbatim>\<open>config/model_selection.py\<close> and \<^verbatim>\<open>config/validator.py\<close>: finding and
  loading the three YAML files, choosing a model, and the checks that a configuration must pass
  before a run.  The YAML parser, the working directory and the resolution of symbolic links are
  parameters (\<open>sys_env\<close>).  Python iterates over a literal set of texts in an arbitrary order; the
  model uses the order of the source text, which only affects the order of the error messages.
\<close>

section \<open>Paths and loading\<close>

record sys_env =
  sys_cwd :: pystr
  sys_resolve :: "world \<Rightarrow> pystr \<Rightarrow> pystr"
  sys_yaml :: "pystr \<Rightarrow> pyval result"

record app_config =
  cfg_root :: pystr
  cfg_roles :: pyval
  cfg_policy :: pyval
  cfg_schedules :: pyval

text \<open>\<^verbatim>\<open>set((self.roles.get("roles") or {}).keys())\<close>: the keys.\<close>

fun py_keys :: "pyval \<Rightarrow> pystr list result" where
  "py_keys (PDict kvs) = Inr (map fst kvs)"
| "py_keys v = Inl (attribute_error v ''keys'')"

definition role_names :: "app_config \<Rightarrow> pystr list result" where
  "role_names c = ebind (py_get (cfg_roles c) (L ''roles'')) (\<lambda>r. py_keys (py_or r empty_dict))"

definition mcp_server_names :: "app_config \<Rightarrow> pystr list result" where
  "mcp_server_names c = ebind (py_get (cfg_policy c) (L ''mcp_servers'')) (\<lambda>r. py_keys (py_or r empty_dict))"

text \<open>The directory itself and its parents, innermost first.\<close>

definition path_chain :: "pystr \<Rightarrow> pystr list" where
  "path_chain p = (let parts = filter (\<lambda>s. s \<noteq> []) (py_split_char 47 p) in
     map (\<lambda>n. 47 # py_join [47] (take n parts)) (rev [0..<Suc (length parts)]))"

definition find_project_root :: "sys_env \<Rightarrow> pystr option \<Rightarrow> (world, pystr) eff" where
  "find_project_root sys start = (\<lambda>w.
     (let current = sys_resolve sys w (case start of None \<Rightarrow> sys_cwd sys | Some s \<Rightarrow> s) in
      case find (\<lambda>c. files w (path_join (path_join c (L ''config'')) (L ''roles.yaml'')) \<noteq> None) (path_chain current) of
        Some c \<Rightarrow> (Inr c, w)
      | None \<Rightarrow> (Inl (Exc FileNotFoundError (L ''Could not find project root containing config/roles.yaml'')), w)))"

definition load_yaml :: "sys_env \<Rightarrow> pystr \<Rightarrow> (world, pyval) eff" where
  "load_yaml sys path =
     sbind (read_text path) (\<lambda>t.
     sbind (lift_res (sys_yaml sys t)) (\<lambda>data.
     if \<not> is_dict data then raise_exc ValueError (L ''YAML root must be mapping: '' @ path) else ret data))"

definition config_file :: "pystr \<Rightarrow> string \<Rightarrow> pystr" where
  "config_file root name = path_join (path_join root (L ''config'')) (L name)"

definition load_config :: "sys_env \<Rightarrow> pystr option \<Rightarrow> (world, app_config) eff" where
  "load_config sys start =
     sbind (find_project_root sys start) (\<lambda>root.
     sbind (load_yaml sys (config_file root ''roles.yaml'')) (\<lambda>roles.
     sbind (load_yaml sys (config_file root ''policy.yaml'')) (\<lambda>policy.
     sbind (load_yaml sys (config_file root ''schedules.yaml'')) (\<lambda>schedules.
     ret \<lparr>cfg_root = root, cfg_roles = roles, cfg_policy = policy, cfg_schedules = schedules\<rparr>))))"

section \<open>Model selection\<close>

definition FALLBACK_MODEL :: pystr where "FALLBACK_MODEL = L ''claude-sonnet-5''"

text \<open>\<^verbatim>\<open>isinstance(v, str) and v\<close>.\<close>

fun nonempty_str :: "pyval \<Rightarrow> bool" where
  "nonempty_str (PStr s) = (s \<noteq> [])"
| "nonempty_str v = False"

text \<open>\<^verbatim>\<open>v.get(k)\<close> where anything but a dictionary counts as the empty one.\<close>

fun soft_get :: "pyval \<Rightarrow> string \<Rightarrow> pyval" where
  "soft_get (PDict kvs) k = assoc_get kvs (L k) PNone"
| "soft_get v k = PNone"

definition resolve_model :: "pyval \<Rightarrow> pyval \<Rightarrow> pyval" where
  "resolve_model role_config policy =
     (let role_model = soft_get role_config ''model'';
          default_model = soft_get (soft_get policy ''model_policy'') ''default_model'' in
      if nonempty_str role_model then role_model
      else if nonempty_str default_model then default_model
      else PStr FALLBACK_MODEL)"

section \<open>Validation\<close>

record validation_result =
  vr_errors :: "pystr list"
  vr_warnings :: "pystr list"

definition vr_ok :: "validation_result \<Rightarrow> bool" where
  "vr_ok r = (vr_errors r = [])"

definition require :: "bool \<Rightarrow> pystr \<Rightarrow> validation_result \<Rightarrow> validation_result" where
  "require c m r = (if \<not> c then r\<lparr>vr_errors := vr_errors r @ [m]\<rparr> else r)"

definition warn_if :: "bool \<Rightarrow> pystr \<Rightarrow> validation_result \<Rightarrow> validation_result" where
  "warn_if c m r = (if c then r\<lparr>vr_warnings := vr_warnings r @ [m]\<rparr> else r)"

fun as_list :: "pyval \<Rightarrow> pyval list" where
  "as_list (PList xs) = xs"
| "as_list v = []"

text \<open>\<^verbatim>\<open>x in v\<close> for a dynamic \<open>x\<close>.\<close>

fun py_in_val :: "pyval \<Rightarrow> pyval \<Rightarrow> bool result" where
  "py_in_val x (PDict kvs) = in_dict x kvs"
| "py_in_val x (PList xs) = Inr (list_ex (py_eq x) xs)"
| "py_in_val x (PStr s) = (case x of PStr k \<Rightarrow> Inr (py_contains k s)
     | _ \<Rightarrow> Inl (Exc TypeError ([39] @ L ''in <string>'' @ [39] @ L '' requires string as left operand, not '' @ type_name x)))"
| "py_in_val x v = Inl (Exc TypeError (L ''argument of type '' @ [39] @ type_name v @ [39] @ L '' is not iterable''))"

text \<open>The MCP servers of a role.\<close>

definition check_role :: "pyval \<Rightarrow> pyval \<Rightarrow> validation_result \<Rightarrow> pystr \<times> pyval \<Rightarrow> validation_result result" where
  "check_role mcp_servers tool_policy r = (\<lambda>(role_name, role).
     ebind (py_get role (L ''mcp_servers'')) (\<lambda>servers.
     ebind (efold (\<lambda>r server. ebind (py_in_val server mcp_servers) (\<lambda>known.
              Inr (require known (L ''role '' @ role_name @ L '' references unknown mcp server: '' @ py_str server) r)))
            r (as_list servers)) (\<lambda>r.
     ebind (py_in_val (PStr role_name) tool_policy) (\<lambda>known.
     Inr (warn_if (\<not> known \<and> role_name \<noteq> L ''orchestrator'') (L ''role '' @ role_name @ L '' has no role_tool_policy'') r)))))"

text \<open>The role and the query set of a job.\<close>

definition check_job :: "pyval \<Rightarrow> pyval \<Rightarrow> validation_result \<Rightarrow> pyval \<Rightarrow> validation_result result" where
  "check_job roles schedules r job =
     ebind (py_get_def job (L ''name'') (PStr (L ''<unnamed>''))) (\<lambda>name.
     ebind (py_get job (L ''role'')) (\<lambda>role_name.
     ebind (py_in_val role_name roles) (\<lambda>known.
     let r = require known (L ''schedule job '' @ py_str name @ L '' references unknown role: '' @ py_str role_name) r in
     ebind (py_get job (L ''inputs'')) (\<lambda>inputs.
     ebind (py_get (py_or inputs empty_dict) (L ''query_set'')) (\<lambda>query_set.
     if truthy query_set then
       ebind (py_get schedules (L ''query_sets'')) (\<lambda>sets.
       ebind (py_in_val query_set (py_or sets empty_dict)) (\<lambda>known.
       Inr (require known (L ''schedule job '' @ py_str name @ L '' references unknown query_set: '' @ py_str query_set) r)))
     else Inr r)))))"

text \<open>Each of the given texts must be an element of the list.\<close>

definition require_all :: "string list \<Rightarrow> pyval list \<Rightarrow> pystr \<Rightarrow> validation_result \<Rightarrow> validation_result" where
  "require_all names xs m r = fold (\<lambda>n. require (list_ex (py_eq (PStr (L n))) xs) (m @ L n)) names r"

definition check_principles :: "pyval \<Rightarrow> validation_result \<Rightarrow> validation_result result" where
  "check_principles policy r =
     ebind (py_get policy (L ''principles'')) (\<lambda>v.
     let p = py_or v empty_dict in
     ebind (py_get p (L ''pre_tool_use_failure'')) (\<lambda>a.
     ebind (py_get p (L ''post_tool_use_failure'')) (\<lambda>b.
     ebind (py_get p (L ''agent_runner_has_claude_credentials'')) (\<lambda>c.
     Inr (require (c = PBool False) (L ''agent-runner must not have Claude credentials'')
         (require (py_eq b (PStr (L ''continue''))) (L ''PostToolUse must fail open'')
         (require (py_eq a (PStr (L ''block''))) (L ''PreToolUse must fail closed'') r)))))))"

definition check_claude_proxy :: "pyval \<Rightarrow> validation_result \<Rightarrow> validation_result result" where
  "check_claude_proxy policy r =
     ebind (py_get policy (L ''claude_proxy'')) (\<lambda>v.
     let p = py_or v empty_dict in
     ebind (py_get p (L ''runner_receives_provider_token'')) (\<lambda>t.
     let r = require (t = PBool False) (L ''runner must not receive provider token'') r in
     ebind (py_get p (L ''allowed_runner_env'')) (\<lambda>a.
     ebind (py_set (as_list a)) (\<lambda>allowed_env.
     let r = require_all [''CLAUDE_PROXY_URL'', ''CLAUDE_PROXY_SESSION_TOKEN'', ''SESSION_ID'', ''ROLE''] allowed_env
               (L ''claude_proxy.allowed_runner_env missing '') r in
     ebind (py_get p (L ''denied_runner_env'')) (\<lambda>d.
     ebind (py_set (as_list d)) (\<lambda>denied_env.
     Inr (require_all [''ANTHROPIC_API_KEY'', ''CLAUDE_CODE_OAUTH_TOKEN'', ''CLAUDE_SUBSCRIPTION_TOKEN'', ''CLAUDE_CONFIG_DIR''] denied_env
               (L ''claude_proxy.denied_runner_env missing '') r)))))))"

definition check_x_policy :: "pyval \<Rightarrow> validation_result \<Rightarrow> validation_result result" where
  "check_x_policy mcp_servers r =
     ebind (py_get mcp_servers (L ''x_mcp_readonly'')) (\<lambda>v.
     ebind (py_get (py_or v empty_dict) (L ''deny_tools'')) (\<lambda>d.
     ebind (py_set (as_list d)) (\<lambda>x_denied.
     Inr (require_all [''x.create_post'', ''x.like_post'', ''x.repost'', ''x.follow_user'', ''x.send_dm''] x_denied
            (L ''x_mcp_readonly must deny '') r))))"

definition protected_patterns :: "string list" where
  "protected_patterns = [''.github/**'', ''.env'', ''secrets/**'']"

definition check_repo :: "validation_result \<Rightarrow> pystr \<times> pyval \<Rightarrow> validation_result result" where
  "check_repo r = (\<lambda>(repo_name, repo).
     ebind (py_get repo (L ''allowed_paths'')) (\<lambda>a.
     ebind (py_get repo (L ''denied_paths'')) (\<lambda>d.
     Inr (require_all protected_patterns (as_list d) (L ''document repo '' @ repo_name @ L '' denied_paths missing '')
         (require (as_list a \<noteq> []) (L ''document repo '' @ repo_name @ L '' must define allowed_paths'') r)))))"

text \<open>The models; unknown models only give warnings.\<close>

definition check_default_model :: "pyval \<Rightarrow> pyval list \<Rightarrow> validation_result \<Rightarrow> validation_result" where
  "check_default_model m known r =
     (let r = require (nonempty_str m) (L ''model_policy.default_model must be a non-empty string'') r in
      if nonempty_str m then
        warn_if (\<not> list_ex (py_eq m) known)
          (L ''model_policy.default_model '' @ py_repr m @ L '' not in model_policy.known_models'') r
      else r)"

definition check_role_model :: "pyval list \<Rightarrow> validation_result \<Rightarrow> pystr \<times> pyval \<Rightarrow> validation_result result" where
  "check_role_model known r = (\<lambda>(role_name, role).
     ebind (py_in ''model'' role) (\<lambda>has.
     if \<not> has then Inr r
     else
       ebind (py_get role (L ''model'')) (\<lambda>m.
       let r = require (nonempty_str m) (L ''role '' @ role_name @ L '' model must be a non-empty string'') r in
       Inr (if nonempty_str m then
              warn_if (\<not> list_ex (py_eq m) known)
                (L ''role '' @ role_name @ L '' model '' @ py_repr m @ L '' not in model_policy.known_models'') r
            else r))))"

definition check_models :: "pyval \<Rightarrow> (pystr \<times> pyval) list \<Rightarrow> validation_result \<Rightarrow> validation_result result" where
  "check_models policy roles r =
     ebind (py_get policy (L ''model_policy'')) (\<lambda>v.
     let p = py_or v empty_dict in
     ebind (py_get p (L ''default_model'')) (\<lambda>m.
     ebind (py_get p (L ''known_models'')) (\<lambda>k.
     ebind (py_set (as_list k)) (\<lambda>known.
     efold (check_role_model known) (check_default_model m known r) roles))))"

definition validate_config :: "app_config \<Rightarrow> validation_result result" where
  "validate_config c =
     ebind (py_get (cfg_roles c) (L ''roles'')) (\<lambda>rv.
     ebind (py_get (cfg_policy c) (L ''mcp_servers'')) (\<lambda>mv.
     ebind (py_get (cfg_policy c) (L ''role_tool_policy'')) (\<lambda>tv.
     let roles = py_or rv empty_dict; mcp_servers = py_or mv empty_dict; tool_policy = py_or tv empty_dict;
         r = require (is_dict mcp_servers \<and> truthy mcp_servers) (L ''policy.yaml must define mcp_servers'')
            (require (is_dict roles \<and> truthy roles) (L ''roles.yaml must define roles'') \<lparr>vr_errors = [], vr_warnings = []\<rparr>) in
     ebind (py_items roles) (\<lambda>role_items.
     ebind (efold (check_role mcp_servers tool_policy) r role_items) (\<lambda>r.
     ebind (py_get (cfg_schedules c) (L ''jobs'')) (\<lambda>jobs.
     ebind (efold (check_job roles (cfg_schedules c)) r (as_list jobs)) (\<lambda>r.
     ebind (check_principles (cfg_policy c) r) (\<lambda>r.
     ebind (check_claude_proxy (cfg_policy c) r) (\<lambda>r.
     ebind (check_x_policy mcp_servers r) (\<lambda>r.
     ebind (py_get (cfg_policy c) (L ''document_repositories'')) (\<lambda>dv.
     ebind (py_items (py_or dv empty_dict)) (\<lambda>repos.
     ebind (efold check_repo r repos) (\<lambda>r.
     check_models (cfg_policy c) role_items r)))))))))))))"

section \<open>What a validated configuration guarantees\<close>

text \<open>The checks only add errors.\<close>

lemma require_ok [simp]: "vr_errors (require c m r) = [] \<longleftrightarrow> c \<and> vr_errors r = []"
  by (simp add: require_def)

lemma warn_if_errors [simp]: "vr_errors (warn_if c m r) = vr_errors r"
  by (simp add: warn_if_def)

lemma require_all_ok [simp]:
  "vr_errors (require_all names xs m r) = [] \<longleftrightarrow> vr_errors r = [] \<and> (\<forall>n \<in> set names. PStr (L n) \<in> set xs)"
  unfolding require_all_def
  by (induction names arbitrary: r) (auto simp: list_ex_iff)

definition adds_errors :: "(validation_result \<Rightarrow> 'a \<Rightarrow> validation_result result) \<Rightarrow> bool" where
  "adds_errors f \<longleftrightarrow> (\<forall>r x r'. f r x = Inr r' \<longrightarrow> vr_errors r' = [] \<longrightarrow> vr_errors r = [])"

lemma efold_ok:
  assumes "efold f r xs = Inr r'" and "vr_errors r' = []" and "adds_errors f"
  shows "vr_errors r = [] \<and> (\<forall>x \<in> set xs. \<exists>r1 r2. f r1 x = Inr r2 \<and> vr_errors r2 = [])"
  using assms
proof (induction xs arbitrary: r)
  case (Cons x xs)
  then obtain r1 where r1: "f r x = Inr r1" "efold f r1 xs = Inr r'" by auto
  from Cons.IH[OF this(2) Cons.prems(2,3)] have ih: "vr_errors r1 = []" "\<forall>x \<in> set xs. \<exists>r1 r2. f r1 x = Inr r2 \<and> vr_errors r2 = []" by auto
  then have "vr_errors r = []" using Cons.prems(3) r1(1) unfolding adds_errors_def by blast
  then show ?case using ih r1(1) by auto
qed simp

lemma adds_errors_checks:
  "adds_errors (check_role ms tp)" "adds_errors (check_job roles sch)" "adds_errors check_repo" "adds_errors (check_role_model known)"
proof -
  have inner: "adds_errors (\<lambda>r server. ebind (py_in_val server ms) (\<lambda>known. Inr (require known (m server) r)))" for m
    by (auto simp: adds_errors_def)
  show "adds_errors (check_role ms tp)"
    unfolding adds_errors_def check_role_def by (auto dest!: efold_ok[OF _ _ inner])
  show "adds_errors (check_job roles sch)" "adds_errors check_repo" "adds_errors (check_role_model known)"
    by (auto simp: adds_errors_def check_job_def check_repo_def check_role_model_def Let_def split: if_splits prod.splits)
qed

lemma soft_get_or_dict [simp]: "soft_get (py_or v empty_dict) k = soft_get v k"
  by (cases v) (auto simp: py_or_def assoc_get_def)

lemma py_set_Inr: "py_set xs = Inr ys \<Longrightarrow> ys = xs"
  by (auto simp: py_set_def split: option.splits)

definition lists_all :: "string list \<Rightarrow> pyval \<Rightarrow> bool" where
  "lists_all names v \<longleftrightarrow> (\<forall>n \<in> set names. PStr (L n) \<in> set (as_list v))"

fun dict_entries :: "pyval \<Rightarrow> (pystr \<times> pyval) list" where
  "dict_entries (PDict kvs) = kvs"
| "dict_entries v = []"

text \<open>The security requirements on \<^verbatim>\<open>policy.yaml\<close>.\<close>

definition secure_policy :: "pyval \<Rightarrow> bool" where
  "secure_policy policy \<longleftrightarrow>
     (let principles = soft_get policy ''principles''; proxy = soft_get policy ''claude_proxy'' in
      soft_get principles ''pre_tool_use_failure'' = PStr (L ''block'') \<and>
      soft_get principles ''post_tool_use_failure'' = PStr (L ''continue'') \<and>
      soft_get principles ''agent_runner_has_claude_credentials'' = PBool False \<and>
      soft_get proxy ''runner_receives_provider_token'' = PBool False \<and>
      lists_all [''ANTHROPIC_API_KEY'', ''CLAUDE_CODE_OAUTH_TOKEN'', ''CLAUDE_SUBSCRIPTION_TOKEN'', ''CLAUDE_CONFIG_DIR'']
        (soft_get proxy ''denied_runner_env'') \<and>
      lists_all [''x.create_post'', ''x.like_post'', ''x.repost'', ''x.follow_user'', ''x.send_dm'']
        (soft_get (soft_get (soft_get policy ''mcp_servers'') ''x_mcp_readonly'') ''deny_tools'') \<and>
      (\<forall>(n, repo) \<in> set (dict_entries (soft_get policy ''document_repositories'')).
         as_list (soft_get repo ''allowed_paths'') \<noteq> [] \<and> lists_all protected_patterns (soft_get repo ''denied_paths'')))"

text \<open>The references between the files: MCP servers of roles, roles and query sets of jobs.\<close>

definition resolved_references :: "app_config \<Rightarrow> bool" where
  "resolved_references c \<longleftrightarrow>
     (let roles = dict_entries (soft_get (cfg_roles c) ''roles'') in
      roles \<noteq> [] \<and>
      (\<forall>(n, role) \<in> set roles. \<forall>server \<in> set (as_list (soft_get role ''mcp_servers'')).
         py_in_val server (soft_get (cfg_policy c) ''mcp_servers'') = Inr True) \<and>
      (\<forall>job \<in> set (as_list (soft_get (cfg_schedules c) ''jobs'')).
         (\<exists>n. soft_get job ''role'' = PStr n \<and> n \<in> fst ` set roles) \<and>
         (let q = soft_get (soft_get job ''inputs'') ''query_set'' in
          truthy q \<longrightarrow> py_in_val q (soft_get (cfg_schedules c) ''query_sets'') = Inr True)))"

lemma py_get_soft: "py_get v (L k) = Inr x \<Longrightarrow> x = soft_get v k"
  by (auto simp: py_get_Inr)

lemma py_in_val_or: "py_in_val x (py_or v empty_dict) = Inr True \<Longrightarrow> py_in_val x v = Inr True"
  by (auto simp: py_or_def in_dict_def split: if_splits pyval.splits)

lemma check_role_model_ok:
  assumes "check_role_model known r (n, role) = Inr r'" and "vr_errors r' = []" and "is_dict role"
  shows "soft_get role ''model'' = PNone \<or> nonempty_str (soft_get role ''model'')"
  using assms by (cases role) (auto simp: check_role_model_def Let_def List.member_iff assoc_get_def image_iff
      split: if_splits option.splits dest!: map_of_SomeD)

text \<open>The default model is a text, and so is the model of each role that has one.\<close>

definition models_given :: "app_config \<Rightarrow> bool" where
  "models_given c \<longleftrightarrow> nonempty_str (soft_get (soft_get (cfg_policy c) ''model_policy'') ''default_model'') \<and>
     (\<forall>(n, role) \<in> set (dict_entries (soft_get (cfg_roles c) ''roles'')).
        soft_get role ''model'' = PNone \<or> nonempty_str (soft_get role ''model''))"

lemma check_models_ok:
  assumes "check_models policy roles r = Inr r'" and "vr_errors r' = []"
  shows "vr_errors r = []" and "nonempty_str (soft_get (soft_get policy ''model_policy'') ''default_model'')"
    and "\<forall>(n, role) \<in> set roles. is_dict role \<longrightarrow> soft_get role ''model'' = PNone \<or> nonempty_str (soft_get role ''model'')"
proof -
  from assms(1) obtain known where f: "efold (check_role_model known)
      (check_default_model (soft_get (soft_get policy ''model_policy'') ''default_model'') known r) roles = Inr r'"
    by (auto simp: check_models_def Let_def dest!: py_get_soft)
  note k = efold_ok[OF f assms(2) adds_errors_checks(4)]
  from k show "vr_errors r = []" "nonempty_str (soft_get (soft_get policy ''model_policy'') ''default_model'')"
    by (auto simp: check_default_model_def Let_def split: if_splits)
  from k show "\<forall>(n, role) \<in> set roles. is_dict role \<longrightarrow> soft_get role ''model'' = PNone \<or> nonempty_str (soft_get role ''model'')"
    using check_role_model_ok by fast
qed

lemma check_role_dict: "check_role mv tp r (n, role) = Inr r' \<Longrightarrow> is_dict role"
  by (auto simp: check_role_def py_get_Inr)

lemma check_principles_ok:
  assumes "check_principles policy r = Inr r'" and "vr_errors r' = []"
  shows "vr_errors r = []" and "soft_get (soft_get policy ''principles'') ''pre_tool_use_failure'' = PStr (L ''block'')"
    and "soft_get (soft_get policy ''principles'') ''post_tool_use_failure'' = PStr (L ''continue'')"
    and "soft_get (soft_get policy ''principles'') ''agent_runner_has_claude_credentials'' = PBool False"
  using assms by (auto simp: check_principles_def Let_def dest!: py_get_soft)

lemma check_claude_proxy_ok:
  assumes "check_claude_proxy policy r = Inr r'" and "vr_errors r' = []"
  shows "vr_errors r = []" and "soft_get (soft_get policy ''claude_proxy'') ''runner_receives_provider_token'' = PBool False"
    and "lists_all [''ANTHROPIC_API_KEY'', ''CLAUDE_CODE_OAUTH_TOKEN'', ''CLAUDE_SUBSCRIPTION_TOKEN'', ''CLAUDE_CONFIG_DIR'']
      (soft_get (soft_get policy ''claude_proxy'') ''denied_runner_env'')"
  using assms by (auto simp: check_claude_proxy_def Let_def lists_all_def dest!: py_get_soft py_set_Inr)

lemma check_x_policy_ok:
  assumes "check_x_policy (py_or mv empty_dict) r = Inr r'" and "vr_errors r' = []"
  shows "vr_errors r = []" and "lists_all [''x.create_post'', ''x.like_post'', ''x.repost'', ''x.follow_user'', ''x.send_dm'']
        (soft_get (soft_get mv ''x_mcp_readonly'') ''deny_tools'')"
  using assms by (auto simp: check_x_policy_def lists_all_def dest!: py_set_Inr py_get_soft)

lemma check_repo_ok:
  assumes "check_repo r (n, repo) = Inr r'" and "vr_errors r' = []"
  shows "as_list (soft_get repo ''allowed_paths'') \<noteq> [] \<and> lists_all protected_patterns (soft_get repo ''denied_paths'')"
  using assms by (auto simp: check_repo_def lists_all_def dest!: py_get_soft)

lemma check_role_ok:
  assumes "check_role (py_or mv empty_dict) tp r (n, role) = Inr r'" and "vr_errors r' = []"
  shows "\<forall>server \<in> set (as_list (soft_get role ''mcp_servers'')). py_in_val server mv = Inr True"
proof -
  have inner: "adds_errors (\<lambda>r server. ebind (py_in_val server ms) (\<lambda>known. Inr (require known (m server) r)))" for m ms
    by (auto simp: adds_errors_def)
  from assms obtain r1 where "efold (\<lambda>r server. ebind (py_in_val server (py_or mv empty_dict)) (\<lambda>known.
      Inr (require known (L ''role '' @ n @ L '' references unknown mcp server: '' @ py_str server) r))) r
      (as_list (soft_get role ''mcp_servers'')) = Inr r1" and "vr_errors r1 = []"
    by (auto simp: check_role_def dest!: py_get_soft)
  from conjunct2[OF efold_ok[OF this inner]]
  have "\<forall>server \<in> set (as_list (soft_get role ''mcp_servers'')). py_in_val server (py_or mv empty_dict) = Inr True" by fastforce
  then show ?thesis using py_in_val_or by blast
qed

lemma check_job_ok:
  assumes "check_job (PDict roles) schedules r job = Inr r'" and "vr_errors r' = []"
  shows "(\<exists>n. soft_get job ''role'' = PStr n \<and> n \<in> fst ` set roles) \<and>
    (truthy (soft_get (soft_get job ''inputs'') ''query_set'') \<longrightarrow>
      py_in_val (soft_get (soft_get job ''inputs'') ''query_set'') (soft_get schedules ''query_sets'') = Inr True)"
proof -
  from assms have "in_dict (soft_get job ''role'') roles = Inr True"
    by (cases "truthy (soft_get (soft_get job ''inputs'') ''query_set'')") (auto simp: check_job_def Let_def dest!: py_get_soft)
  moreover from assms have q: "py_in_val (soft_get (soft_get job ''inputs'') ''query_set'') (py_or (soft_get schedules ''query_sets'') empty_dict) = Inr True"
    if "truthy (soft_get (soft_get job ''inputs'') ''query_set'')"
    using that by (auto simp: check_job_def Let_def dest!: py_get_soft)
  ultimately have "\<exists>n. soft_get job ''role'' = PStr n \<and> n \<in> fst ` set roles"
    by (auto simp: in_dict_def List.member_iff split: if_splits pyval.splits)
  with q show ?thesis using py_in_val_or by blast
qed

lemma validate_config_ok:
  assumes "validate_config c = Inr r" and "vr_ok r"
  shows "secure_policy (cfg_policy c)" and "resolved_references c" and "models_given c"
proof -
  from assms(2) have e: "vr_errors r = []" by (simp add: vr_ok_def)
  define mv where "mv = soft_get (cfg_policy c) ''mcp_servers''"
  define roles where "roles = dict_entries (soft_get (cfg_roles c) ''roles'')"
  from assms(1) obtain tp r0 r1 r2 r3 r4 r5 r6 role_items repos where
    items: "py_items (py_or (soft_get (cfg_roles c) ''roles'') empty_dict) = Inr role_items"
    and r0: "r0 = require (is_dict (py_or mv empty_dict) \<and> truthy (py_or mv empty_dict)) (L ''policy.yaml must define mcp_servers'')
      (require (is_dict (py_or (soft_get (cfg_roles c) ''roles'') empty_dict) \<and> truthy (py_or (soft_get (cfg_roles c) ''roles'') empty_dict))
        (L ''roles.yaml must define roles'') \<lparr>vr_errors = [], vr_warnings = []\<rparr>)"
    and r1: "efold (check_role (py_or mv empty_dict) tp) r0 role_items = Inr r1"
    and r2: "efold (check_job (py_or (soft_get (cfg_roles c) ''roles'') empty_dict) (cfg_schedules c)) r1
       (as_list (soft_get (cfg_schedules c) ''jobs'')) = Inr r2"
    and r3: "check_principles (cfg_policy c) r2 = Inr r3"
    and r4: "check_claude_proxy (cfg_policy c) r3 = Inr r4"
    and r5: "check_x_policy (py_or mv empty_dict) r4 = Inr r5"
    and repos: "py_items (py_or (soft_get (cfg_policy c) ''document_repositories'') empty_dict) = Inr repos"
    and r6: "efold check_repo r5 repos = Inr r6"
    and r: "check_models (cfg_policy c) role_items r6 = Inr r"
    unfolding validate_config_def Let_def mv_def by (auto dest!: py_get_soft)
  note k7 = check_models_ok[OF r e]
  note k6 = efold_ok[OF r6 k7(1) adds_errors_checks(3)]
  note k5 = check_x_policy_ok[OF r5 conjunct1[OF k6]]
  note k4 = check_claude_proxy_ok[OF r4 k5(1)]
  note k3 = check_principles_ok[OF r3 k4(1)]
  note k2 = efold_ok[OF r2 k3(1) adds_errors_checks(2)]
  note k1 = efold_ok[OF r1 conjunct1[OF k2] adds_errors_checks(1)]
  have items': "py_items (py_or v empty_dict) = Inr kvs \<Longrightarrow> kvs = dict_entries v" for v kvs
    by (cases v) (auto simp: py_or_def split: if_splits)
  show "secure_policy (cfg_policy c)"
    using k3 k4 k5 k6 check_repo_ok items'[OF repos] unfolding secure_policy_def Let_def mv_def by fast
  have ri: "role_items = roles" using items'[OF items] by (simp add: roles_def)
  show "resolved_references c"
  proof -
    have d: "py_or (soft_get (cfg_roles c) ''roles'') empty_dict = PDict roles" and "roles \<noteq> []"
      using conjunct1[OF k1] items items'[OF items] unfolding r0 roles_def by (auto simp: py_or_def split: if_splits pyval.splits elim: is_dict.elims)
    then show ?thesis
      using k1 k2 ri check_role_ok check_job_ok unfolding resolved_references_def Let_def roles_def[symmetric] mv_def d by fast
  qed
  have "\<forall>(n, role) \<in> set role_items. is_dict role" using k1 check_role_dict by fast
  then show "models_given c" using k7(2,3) ri unfolding models_given_def roles_def by fast
qed

text \<open>C28. Soundness of the validation: a configuration that is validated without an error meets the security
  requirements of the policy (the gate before a tool call fails closed, the one after it open, the
  runner has no provider credentials and is denied the four variables that could carry them, the five
  writing tools of X are denied, every document repository has allowed paths and denies \<open>.github\<close>,
  \<open>.env\<close> and \<open>secrets\<close>), and every MCP server, role and query set that is referred to is defined.\<close>

theorem validate_config_sound:
  assumes "validate_config c = Inr r" and "vr_ok r"
  shows "secure_policy (cfg_policy c) \<and> resolved_references c"
  using validate_config_ok[OF assms] by simp

text \<open>A configuration that passes.\<close>

definition names_val :: "string list \<Rightarrow> pyval" where
  "names_val ns = PList (map (PStr \<circ> L) ns)"

definition demo_secure_policy :: pyval where
  "demo_secure_policy = PDict
     [(L ''mcp_servers'', PDict [(L ''x_mcp_readonly'', PDict
         [(L ''deny_tools'', names_val [''x.create_post'', ''x.like_post'', ''x.repost'', ''x.follow_user'', ''x.send_dm''])])]),
      (L ''role_tool_policy'', PDict [(L ''r'', PDict [(L ''allow'', names_val [''document.*''])])]),
      (L ''principles'', PDict [(L ''pre_tool_use_failure'', PStr (L ''block'')), (L ''post_tool_use_failure'', PStr (L ''continue'')),
         (L ''agent_runner_has_claude_credentials'', PBool False)]),
      (L ''claude_proxy'', PDict [(L ''runner_receives_provider_token'', PBool False),
         (L ''allowed_runner_env'', names_val [''CLAUDE_PROXY_URL'', ''CLAUDE_PROXY_SESSION_TOKEN'', ''SESSION_ID'', ''ROLE'']),
         (L ''denied_runner_env'', names_val [''ANTHROPIC_API_KEY'', ''CLAUDE_CODE_OAUTH_TOKEN'', ''CLAUDE_SUBSCRIPTION_TOKEN'', ''CLAUDE_CONFIG_DIR''])]),
      (L ''document_repositories'', PDict [(L ''docs'', PDict [(L ''repo'', PStr (L ''md'')), (L ''allowed_paths'', names_val [''**'']),
         (L ''denied_paths'', names_val protected_patterns)])]),
      (L ''model_policy'', PDict [(L ''default_model'', PStr (L ''m''))])]"

definition demo_config :: app_config where
  "demo_config = \<lparr>cfg_root = L ''/p'', cfg_roles = PDict [(L ''roles'', PDict [(L ''r'', PDict [])])],
     cfg_policy = demo_secure_policy, cfg_schedules = PDict [(L ''jobs'', PList [PDict [(L ''role'', PStr (L ''r''))]])]\<rparr>"

definition demo_validation :: "validation_result result" where
  "demo_validation = validate_config demo_config"

lemma demo_validated: "validate_config demo_config = Inr (projr demo_validation)" "vr_ok (projr demo_validation)"
proof -
  have "\<not> isl demo_validation" by code_simp
  then show "validate_config demo_config = Inr (projr demo_validation)" unfolding demo_validation_def by simp
  show "vr_ok (projr demo_validation)" by code_simp
qed

theorem validate_config_sound_witness:
  "secure_policy (cfg_policy demo_config) \<and> resolved_references demo_config"
  by (rule validate_config_sound[OF demo_validated])

section \<open>Protected paths\<close>

lemma first_cover_None: "first_cover n vs = Inr None \<Longrightarrow> PStr pat \<in> set vs \<Longrightarrow> \<not> pattern_covers n pat"
  by (induction vs) (auto split: if_splits)

lemma denied_in_list:
  assumes "is_path_allowed p av (PList vs) = Inr r" and "PStr pat \<in> set vs" and "pattern_covers (norm_path p) pat"
  shows "\<not> allowed r"
  using assms first_cover_None[OF _ assms(2)]
  by (auto simp: is_path_allowed_def Let_def split: if_splits option.splits)

lemma document_call_checked:
  assumes "decide_tool_call eng role tool (Some args) = Inr d" and "dec_allowed d" and "tool \<in> set document_tools"
  shows "check_document_path (document_repositories eng) args = Inr d"
  using assms by (auto simp: decide_tool_call_def Let_def List.member_iff split: if_splits option.splits)

text \<open>The normal forms of the paths that the protected patterns cover.\<close>

definition protected_path :: "pystr \<Rightarrow> bool" where
  "protected_path n \<longleftrightarrow> n = L ''.env'' \<or> (\<exists>d \<in> {L ''.github'', L ''secrets''}. n = d \<or> prefix (d @ [slash]) n)"

lemma protected_path_covered: "protected_path n \<Longrightarrow> \<exists>pat \<in> set protected_patterns. pattern_covers n (L pat)"
proof -
  assume n: "protected_path n"
  have dirs: "L ''.github/**'' = L ''.github'' @ L ''/**''" "L ''secrets/**'' = L ''secrets'' @ L ''/**''" by (simp_all add: L_def)
  have "pattern_covers n (L ''.github/**'')" if "n = L ''.github'' \<or> prefix (L ''.github'' @ [slash]) n"
    unfolding dirs using that by (subst pattern_covers_dir) (simp_all add: plain_def L_def)
  moreover have "pattern_covers n (L ''secrets/**'')" if "n = L ''secrets'' \<or> prefix (L ''secrets'' @ [slash]) n"
    unfolding dirs using that by (subst pattern_covers_dir) (simp_all add: plain_def L_def)
  moreover have "pattern_covers (L ''.env'') (L ''.env'')" by code_simp
  ultimately show ?thesis using n by (auto simp: protected_path_def protected_patterns_def)
qed

lemma policy_engine_repos: "policy_engine_init policy = Inr eng \<Longrightarrow> document_repositories eng = py_or (soft_get policy ''document_repositories'') empty_dict"
  by (auto simp: policy_engine_init_def dest!: py_get_soft)



section \<open>The model\<close>

text \<open>C30. Type of the model choice: under a configuration that is validated without an error the model
  chosen for a role is a non-empty text, namely the role's own model if it has one and otherwise the
  default model of the policy; the built-in fallback is never used.\<close>

theorem validated_model_type:
  assumes "validate_config c = Inr r" and "vr_ok r" and "(n, role) \<in> set (dict_entries (soft_get (cfg_roles c) ''roles''))"
  shows "nonempty_str (resolve_model role (cfg_policy c)) \<and>
    resolve_model role (cfg_policy c) =
      (if soft_get role ''model'' \<noteq> PNone then soft_get role ''model'' else soft_get (soft_get (cfg_policy c) ''model_policy'') ''default_model'')"
  using validate_config_ok(3)[OF assms(1,2)] assms(3) by (auto simp: models_given_def resolve_model_def Let_def)

theorem validated_model_type_witness:
  "nonempty_str (resolve_model (PDict []) demo_secure_policy) \<and>
   resolve_model (PDict []) demo_secure_policy = soft_get (soft_get demo_secure_policy ''model_policy'') ''default_model''"
proof -
  have "(L ''r'', PDict []) \<in> set (dict_entries (soft_get (cfg_roles demo_config) ''roles''))" by code_simp
  from validated_model_type[OF demo_validated this] show ?thesis by (auto simp: demo_config_def assoc_get_def)
qed

end
