(* ===== verification/CollectX.thy ===== *)
theory CollectX
  imports Proxies
begin

text \<open>
  Tool calls under the PreToolUse gate, and \<^verbatim>\<open>runner/collect_x.py\<close>: one X search whose posts are
  registered in the research queue, each URL once.
\<close>

section \<open>Dynamic helpers\<close>

text \<open>\<^verbatim>\<open>(v or [{}])[0]\<close>.\<close>

fun py_first :: "pyval \<Rightarrow> pyval result" where
  "py_first (PList (x # xs)) = Inr x"
| "py_first (PList []) = Inl (Exc IndexError (L ''list index out of range''))"
| "py_first (PStr (c # s)) = Inr (PStr [c])"
| "py_first (PStr []) = Inl (Exc IndexError (L ''string index out of range''))"
| "py_first (PDict kvs) = Inl (Exc KeyError (L ''0''))"
| "py_first v = Inl (Exc TypeError ([39] @ type_name v @ [39] @ L '' object is not subscriptable''))"

fun py_strip_val :: "pyval \<Rightarrow> pystr result" where
  "py_strip_val (PStr s) = Inr (py_strip s)"
| "py_strip_val v = Inl (attribute_error v ''strip'')"

text \<open>The number of bytes of \<^verbatim>\<open>text_payload.encode("utf-8")\<close>.\<close>

fun encoded_size :: "pyval \<Rightarrow> (pystr \<times> int) result" where
  "encoded_size (PStr s) = ebind (utf8_len s) (\<lambda>n. Inr (s, n))"
| "encoded_size v = Inl (attribute_error v ''encode'')"

lemma tame_py_first [tame_intros]: "tame_res (py_first v)"
  by (cases v rule: py_first.cases) (simp_all add: tame_intros)

lemma tame_py_strip_val [tame_intros]: "tame_res (py_strip_val v)"
  by (cases v) (simp_all add: tame_intros)

lemma tame_encoded_size [tame_intros]: "tame_res (encoded_size v)"
  by (cases v) (auto intro!: tame_intros)

section \<open>A tool call under the gate\<close>

definition tool_event :: "tool_call \<Rightarrow> policy_decision \<Rightarrow> int \<Rightarrow> int \<Rightarrow> row" where
  "tool_event t d success nbytes =
     [(L ''session_id'', PStr (tc_session t)), (L ''task_id'', PStr (tc_task t)), (L ''role'', PStr (tc_role t)),
      (L ''tool_name'', PStr (tc_tool t)), (L ''decision'', decision d), (L ''success'', PInt success), (L ''output_size'', PInt nbytes)]"

text \<open>
  The call itself, after it has been allowed: the MCP request, the text of the first content item,
  the audit record; the result is the error flag and the text.
\<close>

definition fetch_tool :: "outside \<Rightarrow> mcp_client \<Rightarrow> int \<Rightarrow> tool_call \<Rightarrow> policy_decision \<Rightarrow> (world, bool \<times> pystr) eff" where
  "fetch_tool out c n t d =
     sbind (call_tool out c n (tc_tool t) (tc_args t)) (\<lambda>result.
     sbind (lift_res (py_get result (L ''content''))) (\<lambda>cs.
     sbind (lift_res (py_first (py_or cs (PList [PDict []])))) (\<lambda>content.
     sbind (lift_res (py_get_def content (L ''text'') (PStr []))) (\<lambda>v.
     sbind (lift_res (encoded_size v)) (\<lambda>(payload, nbytes).
     sbind (lift_res (py_get result (L ''isError''))) (\<lambda>e1.
     sbind (run_post_tool_use out (tool_event t d (if truthy e1 then 0 else 1) nbytes)) (\<lambda>_.
     ret (truthy e1, payload))))))))"

definition permission_error :: "policy_decision \<Rightarrow> pyexc" where
  "permission_error d = Exc PermissionError (py_str (dec_reason d))"

definition gated_tool :: "outside \<Rightarrow> auth_client \<Rightarrow> mcp_client \<Rightarrow> int \<Rightarrow> tool_call \<Rightarrow> (world, bool \<times> pystr) eff" where
  "gated_tool out auth c n t =
     sbind (run_pre_tool_use out auth t) (\<lambda>d.
     if \<not> dec_allowed d then
       sbind (run_post_tool_use out (tool_event t d 0 0)) (\<lambda>_. lift_res (Inl (permission_error d)))
     else fetch_tool out c n t d)"

text \<open>The result as JSON: an error flag, or text that is no JSON, is a \<^verbatim>\<open>RuntimeError\<close>.\<close>

definition json_or_empty :: "pystr \<Rightarrow> pyval result" where
  "json_or_empty s = json_loads (if s = [] then L ''{}'' else s)"

definition tool_json :: "pystr \<Rightarrow> bool \<times> pystr \<Rightarrow> (world, pyval) eff" where
  "tool_json tool = (\<lambda>(err, payload).
     if err then raise_exc RuntimeError (tool @ L '' failed: '' @ payload)
     else catch (lift_res (json_or_empty payload)) (\<lambda>e. exc_type e = JSONDecodeError)
            (\<lambda>_. raise_exc RuntimeError (tool @ L '' returned invalid JSON'')))"

section \<open>Collecting X posts\<close>

definition collect_role :: pystr where "collect_role = L ''x_collector''"
definition search_tool :: pystr where "search_tool = L ''x.search_posts_recent''"
definition max_snippet_chars :: nat where "max_snippet_chars = 120"

text \<open>\<^verbatim>\<open>_existing_urls\<close>: a set, as the list of its elements.\<close>

definition set_add :: "pyval \<Rightarrow> pyval list \<Rightarrow> pyval list result" where
  "set_add v s = (if hashable v then Inr (if list_ex (py_eq v) s then s else s @ [v]) else Inl (unhashable_error v))"

definition add_ref_url :: "pyval list \<Rightarrow> pyval \<Rightarrow> pyval list result" where
  "add_ref_url urls ref = ebind (py_get ref (L ''url'')) (\<lambda>u. if truthy u then set_add u urls else Inr urls)"

definition add_item_urls :: "pyval list \<Rightarrow> pyval \<Rightarrow> pyval list result" where
  "add_item_urls urls item =
     ebind (py_get item (L ''source_refs'')) (\<lambda>refs.
     ebind (py_iter (py_or refs empty_list)) (\<lambda>rs. efold add_ref_url urls rs))"

definition existing_urls :: "outside \<Rightarrow> (world, pyval list) eff" where
  "existing_urls out = sbind (list_research_queue out None) (\<lambda>items. lift_res (efold add_item_urls [] items))"

text \<open>What is stored of a post.\<close>

definition post_refs :: "pyval \<Rightarrow> pyval \<Rightarrow> pyval" where
  "post_refs url author = PList [PDict [(L ''type'', PStr (L ''url'')), (L ''url'', url), (L ''author'', author)]]"

definition post_metadata :: "pyval \<Rightarrow> pystr \<Rightarrow> pystr \<Rightarrow> pyval" where
  "post_metadata pid collected_at snippet = PDict [(L ''post_id'', pid), (L ''collected_at'', PStr collected_at), (L ''text_redacted'', PStr snippet)]"

definition post_item :: "pyval \<Rightarrow> pystr \<Rightarrow> pyval \<Rightarrow> pyval \<Rightarrow> queue_item result" where
  "post_item query collected_at url post =
     ebind (py_get post (L ''author_handle'')) (\<lambda>a1.
     ebind (if truthy a1 then Inr a1 else py_get post (L ''author'')) (\<lambda>a2.
     ebind (py_get post (L ''like_count'')) (\<lambda>l. ebind (py_int_of (py_or l (PInt 0))) (\<lambda>likes.
     ebind (py_get post (L ''repost_count'')) (\<lambda>r. ebind (py_int_of (py_or r (PInt 0))) (\<lambda>reposts.
     ebind (py_get post (L ''text_redacted'')) (\<lambda>t1.
     ebind (if truthy t1 then Inr t1 else py_get post (L ''text'')) (\<lambda>t2.
     ebind (py_strip_val (py_or t2 (PStr []))) (\<lambda>tx.
     ebind (py_get post (L ''id'')) (\<lambda>i1.
     ebind (if truthy i1 then Inr i1 else py_get post (L ''post_id'')) (\<lambda>pid.
     let score = likes + reposts in
     Inr \<lparr>qi_source = L ''x'', qi_topic = query, qi_reason = PStr (L ''X signal (engagement '' @ int_str score @ L '')''),
          qi_refs = post_refs url (py_or a2 (PStr [])),
          qi_score = score, qi_status = L ''new'', qi_role = Some collect_role, qi_ticker = PNone, qi_company = PNone,
          qi_metadata = post_metadata pid collected_at (take max_snippet_chars tx)\<rparr>)))))))))))"

text \<open>The loop over the posts: the URLs seen so far and the ids recorded so far.\<close>

fun collect_posts :: "outside \<Rightarrow> pyval \<Rightarrow> pystr \<Rightarrow> pyval list \<Rightarrow> pystr list \<Rightarrow> pyval list \<Rightarrow> (world, pystr list) eff" where
  "collect_posts out query at urls ids [] = ret ids"
| "collect_posts out query at urls ids (post # posts) =
     sbind (lift_res (py_get post (L ''url''))) (\<lambda>u.
     if \<not> truthy u then collect_posts out query at urls ids posts
     else if \<not> hashable u then lift_res (Inl (unhashable_error u))
     else if list_ex (py_eq u) urls then collect_posts out query at urls ids posts
     else
       sbind (lift_res (post_item query at u post)) (\<lambda>item.
       sbind (record_research_queue_item out item) (\<lambda>i.
       sbind (lift_res (set_add u urls)) (\<lambda>urls'.
       collect_posts out query at urls' (ids @ [i]) posts))))"

text \<open>\<^verbatim>\<open>AuthProxyClient(local_fallback_engine=PolicyEngine(config.policy))\<close>.\<close>

definition auth_client_init :: "pyval \<Rightarrow> (world, auth_client) eff" where
  "auth_client_init policy =
     sbind (lift_res (policy_engine_init policy)) (\<lambda>eng.
     sbind (env_val ''AUTH_PROXY_URL'') (\<lambda>u.
     ret \<lparr>auth_base_url = (case u of None \<Rightarrow> [] | Some x \<Rightarrow> x), fallback_engine = Some eng\<rparr>))"

definition search_args :: "pyval \<Rightarrow> int \<Rightarrow> (pystr \<times> pyval) list" where
  "search_args query n = [(L ''query'', query), (L ''max_results'', PInt n)]"

text \<open>The body of the \<^verbatim>\<open>try\<close> block.\<close>

definition collect_body :: "outside \<Rightarrow> auth_client \<Rightarrow> pyval \<Rightarrow> int \<Rightarrow> pystr \<Rightarrow> pystr \<Rightarrow> (world, pystr list) eff" where
  "collect_body out auth query n sid tid =
     sbind (env_set_val ''X_MCP_URL'') (\<lambda>mcp_url.
     case mcp_url of
       None \<Rightarrow> raise_exc RuntimeError (L ''X_MCP_URL is not set; cannot reach the x-mcp /mcp endpoint'')
     | Some url \<Rightarrow>
         sbind (env_val ''X_MCP_SESSION_TOKEN'') (\<lambda>token.
         sbind (mcp_init url token) (\<lambda>client.
         sbind (mcp_initialize out client 1) (\<lambda>_.
         sbind (gated_tool out auth client 2
                  \<lparr>tc_session = sid, tc_task = tid, tc_role = collect_role, tc_tool = search_tool, tc_args = search_args query n\<rparr>) (\<lambda>res.
         sbind (tool_json search_tool res) (\<lambda>payload.
         sbind (lift_res (py_get payload (L ''posts''))) (\<lambda>ps.
         sbind (existing_urls out) (\<lambda>urls.
         sbind (iso_now out) (\<lambda>at.
         sbind (lift_res (py_iter (py_or ps empty_list))) (\<lambda>posts.
         collect_posts out query at urls [] posts))))))))))"

definition error_record :: "pyexc \<Rightarrow> pyval" where
  "error_record e = PDict [(L ''type'', PStr (exc_type_name (exc_type e))), (L ''message'', PStr (exc_msg e))]"

definition fail_run :: "outside \<Rightarrow> pystr \<Rightarrow> pystr \<Rightarrow> pyexc \<Rightarrow> (world, unit) eff" where
  "fail_run out sid tid e =
     sbind (finish_task out tid (L ''failed'') PNone (error_record e)) (\<lambda>_. update_session_status out sid (L ''failed''))"

record collect_result =
  cr_status :: pystr
  cr_query :: pyval
  cr_count :: int
  cr_ids :: "pystr list"

definition collect_rest :: "outside \<Rightarrow> auth_client \<Rightarrow> pyval \<Rightarrow> int \<Rightarrow> pystr \<Rightarrow> pystr \<Rightarrow> (world, collect_result) eff" where
  "collect_rest out auth query n sid tid =
     sbind (catch (collect_body out auth query n sid tid) is_Exception
              (\<lambda>e. sbind (fail_run out sid tid e) (\<lambda>_. lift_res (Inl e)))) (\<lambda>ids.
     sbind (finish_task out tid (L ''succeeded'')
              (PDict [(L ''query'', query), (L ''inserted_count'', PInt (int (length ids))), (L ''item_ids'', PList (map PStr ids))]) PNone) (\<lambda>_.
     sbind (update_session_status out sid (L ''stopped'')) (\<lambda>_.
     ret \<lparr>cr_status = L ''succeeded'', cr_query = query, cr_count = int (length ids), cr_ids = ids\<rparr>)))"

text \<open>\<^verbatim>\<open>x or m\<close> for an optional text.\<close>

definition or_else :: "pystr option \<Rightarrow> (world, pystr) eff \<Rightarrow> (world, pystr) eff" where
  "or_else x m = (case x of None \<Rightarrow> m | Some s \<Rightarrow> if s = [] then m else ret s)"

definition run_collect_x ::
    "outside \<Rightarrow> pyval \<Rightarrow> pyval \<Rightarrow> int \<Rightarrow> pystr option \<Rightarrow> pystr option \<Rightarrow> auth_client option \<Rightarrow> (world, collect_result) eff" where
  "run_collect_x out policy query n sid0 tid0 auth0 =
     sbind (case auth0 of None \<Rightarrow> auth_client_init policy | Some a \<Rightarrow> ret a) (\<lambda>auth.
     sbind (or_else sid0 (create_session out (L ''collect-x'') (PStr collect_role) [] PNone)) (\<lambda>sid.
     sbind (update_session_status out sid (L ''running'')) (\<lambda>_.
     sbind (or_else tid0 (create_task out sid (PStr collect_role) (PDict (search_args query n)))) (\<lambda>tid.
     collect_rest out auth query n sid tid))))"

section \<open>A blocked call is not made\<close>

text \<open>
  What a gate around a call promises: asking sends only the requests \<open>ask\<close>, and writing the audit
  record sends none.  Then a call that the gate does not allow has sent nothing else.
\<close>

locale tool_gate =
  fixes gate :: "('w, 'd) eff" and ok :: "'d \<Rightarrow> bool" and audit :: "'d \<Rightarrow> ('w, unit) eff"
    and denied :: "'d \<Rightarrow> pyexc" and requests :: "'w \<Rightarrow> 'r list" and ask :: "'r list"
  assumes gate_requests_only: "gate w = (r, w') \<Longrightarrow> requests w' = requests w @ ask"
    and audit_no_request: "audit d w = (u, w') \<Longrightarrow> requests w' = requests w"
begin

definition guarded :: "('d \<Rightarrow> ('w, 'a) eff) \<Rightarrow> ('w, 'a) eff" where
  "guarded call = sbind gate (\<lambda>d. if \<not> ok d then sbind (audit d) (\<lambda>_. lift_res (Inl (denied d))) else call d)"

lemma guarded_blocked:
  assumes "gate w = (Inr d, w1)" and "\<not> ok d"
  shows "isl (fst (guarded call w))" and "requests (snd (guarded call w)) = requests w @ ask"
proof -
  obtain u w2 where w2: "audit d w1 = (u, w2)" by fastforce
  then have g: "guarded call w = ((case u of Inl e \<Rightarrow> Inl e | Inr _ \<Rightarrow> Inl (denied d)), w2)"
    using assms by (simp add: guarded_def split: sum.splits)
  show "isl (fst (guarded call w))" using g by (simp split: sum.splits)
  show "requests (snd (guarded call w)) = requests w @ ask"
    using gate_requests_only[OF assms(1)] audit_no_request[OF w2] g by simp
qed

end

interpretation hooks: tool_gate "run_pre_tool_use out auth t" dec_allowed "\<lambda>d. run_post_tool_use out (tool_event t d 0 0)"
  permission_error http_log "gate_requests auth t" for out auth t
proof
  show "run_pre_tool_use out auth t w = (r, w') \<Longrightarrow> http_log w' = http_log w @ gate_requests auth t" for w r w'
    by (rule sendsD[OF sends_run_pre_tool_use])
  show "run_post_tool_use out (tool_event t d 0 0) w = (u, w') \<Longrightarrow> http_log w' = http_log w" for d w u w'
    using sendsD[OF sends_run_post_tool_use] by (metis append_Nil2)
qed

lemma gated_tool_guarded: "gated_tool out auth c n t = hooks.guarded out auth t (fetch_tool out c n t)"
  by (simp add: gated_tool_def hooks.guarded_def)

text \<open>C23. A tool call that the gate does not allow is never sent: the caller gets an exception, which is the
  \<open>PermissionError\<close> with the reason of the decision, and of all requests only the question to the
  auth-proxy, if one is configured, has left the process.\<close>

theorem blocked_tool_not_called:
  assumes "tame_outside out" and "run_pre_tool_use out auth t w = (Inr d, w1)" and "\<not> dec_allowed d"
  shows "\<exists>w'. gated_tool out auth c n t w = (Inl (permission_error d), w') \<and>
    http_log w' = http_log w @ (if remote_enabled auth then [authorize_request auth t] else [])"
proof -
  obtain w2 where "run_post_tool_use out (tool_event t d 0 0) w1 = (Inr (), w2)"
    using never_raisesE[OF never_run_post_tool_use[OF assms(1)]] by (metis old.unit.exhaust)
  then have "gated_tool out auth c n t w = (Inl (permission_error d), w2)"
    using assms(2,3) by (simp add: gated_tool_def)
  with hooks.guarded_blocked(2)[OF assms(2,3), of "fetch_tool out c n t"] show ?thesis
    by (simp add: gated_tool_guarded gate_requests_def)
qed

theorem blocked_tool_not_called_witness:
  "\<exists>w'. gated_tool demo_out demo_auth \<lparr>mcp_base_url = L ''http://m'', mcp_token = None\<rparr> 2 demo_call demo_start_world =
      (Inl (permission_error (projr (fst (run_pre_tool_use demo_out demo_auth demo_call demo_start_world)))), w') \<and>
    http_log w' = [authorize_request demo_auth demo_call]"
proof -
  let ?r = "run_pre_tool_use demo_out demo_auth demo_call demo_start_world"
  have "\<not> isl (fst ?r)" "\<not> dec_allowed (projr (fst ?r))" by code_simp+
  with blocked_tool_not_called[OF tame_demo_out result_pair, of demo_auth demo_call demo_start_world]
  show ?thesis by (simp add: demo_auth_def remote_enabled_def demo_start_world_def)
qed

section \<open>What the steps of the collection leave alone\<close>

lemma keeps_status_gated_tool [keeps_intros]: "keeps (status_is S T) (gated_tool out auth c n t)"
  unfolding gated_tool_def fetch_tool_def by (intro keeps_intros)

lemma keeps_tool_json [keeps_intros]: "keeps I (tool_json tool r)"
  unfolding tool_json_def by (cases r) (auto intro!: keeps_intros)

lemma keeps_status_collect_posts [keeps_intros]: "keeps (status_is S T) (collect_posts out q at urls ids posts)"
proof (induction posts arbitrary: urls ids)
  case (Cons post posts)
  then show ?case unfolding collect_posts.simps by (intro keeps_intros)
qed (simp add: keeps_intros)

lemma keeps_status_collect_body: "keeps (status_is S T) (collect_body out auth q n sid tid)"
  unfolding collect_body_def existing_urls_def by (intro keeps_intros)

section \<open>Each URL once\<close>

text \<open>The record of a post in the queue: the reference to its URL and at most 120 characters of its text.\<close>

definition stored_post :: "pystr \<Rightarrow> row \<Rightarrow> pyval \<Rightarrow> bool" where
  "stored_post at r u \<longleftrightarrow> (\<exists>a pid snippet.
     cell r (L ''source_refs_json'') = PStr (json_dumps_raw (post_refs u a)) \<and>
     cell r (L ''metadata_json'') = PStr (json_dumps_raw (post_metadata pid at snippet)) \<and> length snippet \<le> 120)"

lemma post_item_stored:
  assumes "post_item q at u post = Inr it"
  shows "\<exists>a pid snippet. qi_refs it = post_refs u a \<and> py_or (qi_metadata it) empty_dict = post_metadata pid at snippet \<and> length snippet \<le> 120"
proof -
  from assms obtain a pid tx where "qi_refs it = post_refs u a" "qi_metadata it = post_metadata pid at (take max_snippet_chars tx)"
    unfolding post_item_def Let_def by auto
  then show ?thesis by (auto simp: py_or_def post_metadata_def max_snippet_chars_def)
qed

lemma py_eq_refl: "hashable v \<Longrightarrow> py_eq v v"
  by (cases v) (simp_all add: py_eq.simps hashable_def num_eq_def)

lemma collect_posts_rows:
  assumes "collect_posts out q at urls ids posts w = (Inr ids', w')" and "dbs w (L ''research_queue'') = Some rows"
  shows "\<exists>us new. dbs w' (L ''research_queue'') = Some (rows @ new) \<and> length ids' = length ids + length us \<and>
    list_all2 (stored_post at) new us \<and> (\<forall>u \<in> set us. \<not> list_ex (py_eq u) urls) \<and> sorted_wrt (\<lambda>u v. \<not> py_eq v u) us \<and>
    (\<forall>post \<in> set posts. \<forall>u. py_get post (L ''url'') = Inr u \<and> truthy u \<longrightarrow> list_ex (py_eq u) (urls @ us))"
  using assms
proof (induction posts arbitrary: urls ids w rows)
  case Nil
  then show ?case by (intro exI[of _ "[]"]) simp
next
  case (Cons post posts)
  from Cons.prems(1) obtain u where u: "py_get post (L ''url'') = Inr u" by (auto elim!: sbind_InrE)
  show ?case
  proof (cases "truthy u \<and> \<not> list_ex (py_eq u) urls")
    case False
    then have "collect_posts out q at urls ids posts w = (Inr ids', w')" and "truthy u \<longrightarrow> list_ex (py_eq u) urls"
      using Cons.prems(1) u by (auto elim!: sbind_InrE split: if_splits)
    with Cons.IH[OF this(1) Cons.prems(2)] u show ?thesis by (elim exE conjE) (intro exI conjI; simp; blast)
  next
    case True
    then obtain it i w1 where h: "hashable u" and it: "post_item q at u post = Inr it"
      and rec: "record_research_queue_item out it w = (Inr i, w1)"
      and rest: "collect_posts out q at (urls @ [u]) (ids @ [i]) posts w1 = (Inr ids', w')"
      using Cons.prems(1) u by (auto elim!: sbind_InrE split: if_splits simp: set_add_def)
    obtain r where r: "dbs w1 (L ''research_queue'') = Some (rows @ [r])" "stored_post at r u"
      using rec
    proof (rule record_queue_row)
      fix rows' r
      assume "dbs w (L ''research_queue'') = Some rows'" "dbs w1 (L ''research_queue'') = Some (rows' @ [r])"
        "cell r (L ''source_refs_json'') = PStr (json_dumps_raw (qi_refs it))"
        "cell r (L ''metadata_json'') = PStr (json_dumps_raw (py_or (qi_metadata it) empty_dict))"
      moreover from this post_item_stored[OF it] have "stored_post at r u" unfolding stored_post_def by metis
      ultimately show thesis using that[of r] Cons.prems(2) by simp
    qed
    from Cons.IH[OF rest r(1)] obtain us new where
      ih: "dbs w' (L ''research_queue'') = Some ((rows @ [r]) @ new)" "length ids' = length (ids @ [i]) + length us"
        "list_all2 (stored_post at) new us" "\<forall>v \<in> set us. \<not> list_ex (py_eq v) (urls @ [u])" "sorted_wrt (\<lambda>u v. \<not> py_eq v u) us"
        "\<forall>post \<in> set posts. \<forall>v. py_get post (L ''url'') = Inr v \<and> truthy v \<longrightarrow> list_ex (py_eq v) ((urls @ [u]) @ us)" by blast
    show ?thesis
    proof (intro exI conjI)
      show "dbs w' (L ''research_queue'') = Some (rows @ r # new)" using ih(1) by simp
      show "length ids' = length ids + length (u # us)" using ih(2) by simp
      show "list_all2 (stored_post at) (r # new) (u # us)" using ih(3) r(2) by simp
      show "\<forall>v \<in> set (u # us). \<not> list_ex (py_eq v) urls" using ih(4) True by auto
      show "sorted_wrt (\<lambda>u v. \<not> py_eq v u) (u # us)" using ih(4,5) by auto
      show "\<forall>p \<in> set (post # posts). \<forall>v. py_get p (L ''url'') = Inr v \<and> truthy v \<longrightarrow> list_ex (py_eq v) (urls @ u # us)"
        using ih(6) u py_eq_refl[OF h] by auto
    qed
  qed
qed

text \<open>C27. The collection registers each URL once and misses none: if the loop over the posts of a search
  returns, it has appended to the queue one row per returned id, for URLs that differ from each other
  and from all URLs seen before, each with the reference to its URL and at most 120 characters of the
  post; and the URL of every post is among those seen before or those appended.\<close>

theorem collect_posts_each_url_once:
  assumes "collect_posts out q at urls [] posts w = (Inr ids, w')" and "dbs w (L ''research_queue'') = Some rows"
  shows "\<exists>us new. dbs w' (L ''research_queue'') = Some (rows @ new) \<and> length ids = length us \<and>
    list_all2 (stored_post at) new us \<and> (\<forall>u \<in> set us. \<not> list_ex (py_eq u) urls) \<and> sorted_wrt (\<lambda>u v. \<not> py_eq v u) us \<and>
    (\<forall>post \<in> set posts. \<forall>u. py_get post (L ''url'') = Inr u \<and> truthy u \<longrightarrow> list_ex (py_eq u) (urls @ us))"
  using collect_posts_rows[OF assms] by simp

text \<open>Two posts of one URL, one known URL and one post without URL.\<close>

definition demo_posts :: "pyval list" where
  "demo_posts = [PDict [(L ''url'', PStr (L ''u1'')), (L ''text'', PStr (L '' a ''))], PDict [(L ''url'', PStr (L ''u1''))],
     PDict [(L ''url'', PStr (L ''u0''))], PDict []]"

definition demo_collect :: "pystr list result \<times> world" where
  "demo_collect = collect_posts demo_out (PStr (L ''q'')) (L ''now'') [PStr (L ''u0'')] [] demo_posts demo_start_world"

theorem collect_posts_each_url_once_witness:
  "\<exists>us new. dbs (snd demo_collect) (L ''research_queue'') = Some ([] @ new) \<and> length (projr (fst demo_collect)) = length us \<and>
    list_all2 (stored_post (L ''now'')) new us \<and> (\<forall>u \<in> set us. \<not> list_ex (py_eq u) [PStr (L ''u0'')]) \<and> sorted_wrt (\<lambda>u v. \<not> py_eq v u) us \<and>
    (\<forall>post \<in> set demo_posts. \<forall>u. py_get post (L ''url'') = Inr u \<and> truthy u \<longrightarrow> list_ex (py_eq u) ([PStr (L ''u0'')] @ us))"
proof (rule collect_posts_each_url_once)
  have "\<not> isl (fst demo_collect)" by code_simp
  then show "collect_posts demo_out (PStr (L ''q'')) (L ''now'') [PStr (L ''u0'')] [] demo_posts demo_start_world =
      (Inr (projr (fst demo_collect)), snd demo_collect)"
    unfolding demo_collect_def[symmetric] by (rule result_pair)
  show "dbs demo_start_world (L ''research_queue'') = Some []" by code_simp
qed

section \<open>The course of a run\<close>

lemma collect_rest_ok:
  assumes "collect_rest out auth q n sid tid w = (Inr res, w')" and "session_status w sid \<noteq> None" and "task_status w tid \<noteq> None"
  shows "session_status w' = (session_status w)(sid \<mapsto> PStr (L ''stopped''))"
    and "task_status w' = (task_status w)(tid \<mapsto> PStr (L ''succeeded''))"
    and "cr_status res = L ''succeeded''" and "cr_count res = int (length (cr_ids res))"
proof -
  from assms(1) obtain ids w1 w2 u where
    b: "collect_body out auth q n sid tid w = (Inr ids, w1)"
    and c: "repo.close_run out sid tid (L ''succeeded'')
      (PDict [(L ''query'', q), (L ''inserted_count'', PInt (int (length ids))), (L ''item_ids'', PList (map PStr ids))], PNone) (L ''stopped'') w1 = (Inr u, w')"
    and res: "cr_status res = L ''succeeded''" "cr_count res = int (length (cr_ids res))"
    unfolding collect_rest_def repo.close_run_def by (auto elim!: sbind_InrE simp: catch_def split: prod.splits sum.splits if_splits)
  have "status_is (session_status w) (task_status w) w1"
    by (rule keepsD[OF keeps_status_collect_body _ b]) (simp add: status_is_def)
  then have w1: "session_status w1 = session_status w" "task_status w1 = task_status w" by (simp_all add: status_is_def)
  show "session_status w' = (session_status w)(sid \<mapsto> PStr (L ''stopped''))" "task_status w' = (task_status w)(tid \<mapsto> PStr (L ''succeeded''))"
    using repo.close_run_final[OF c] assms(2,3) w1 by simp_all
  show "cr_status res = L ''succeeded''" "cr_count res = int (length (cr_ids res))" by (rule res)+
qed

lemma collect_rest_fails:
  assumes "collect_body out auth q n sid tid w = (Inl e, w1)" and "is_Exception e" and "fail_run out sid tid e w1 = (Inr u, w')"
    and "session_status w sid \<noteq> None" and "task_status w tid \<noteq> None"
  shows "collect_rest out auth q n sid tid w = (Inl e, w')"
    and "session_status w' = (session_status w)(sid \<mapsto> PStr (L ''failed''))"
    and "task_status w' = (task_status w)(tid \<mapsto> PStr (L ''failed''))"
proof -
  show "collect_rest out auth q n sid tid w = (Inl e, w')"
    using assms(1-3) by (simp add: collect_rest_def)
  have c: "repo.close_run out sid tid (L ''failed'') (PNone, error_record e) (L ''failed'') w1 = (Inr u, w')"
    using assms(3) by (simp add: fail_run_def repo.close_run_def)
  have "status_is (session_status w) (task_status w) w1"
    by (rule keepsD[OF keeps_status_collect_body _ assms(1)]) (simp add: status_is_def)
  then have w1: "session_status w1 = session_status w" "task_status w1 = task_status w" by (simp_all add: status_is_def)
  show "session_status w' = (session_status w)(sid \<mapsto> PStr (L ''failed''))" "task_status w' = (task_status w)(tid \<mapsto> PStr (L ''failed''))"
    using repo.close_run_final[OF c] assms(4,5) w1 by simp_all
qed

text \<open>A collection opens exactly one session with one task and closes them with its outcome.  When
  it returns, a fresh session is \<open>stopped\<close>, a fresh task \<open>succeeded\<close>, no other session or task has
  changed, and the number it reports is the number of the ids.  When, in an open run, its body raises
  an exception \<open>e\<close> and the database still accepts statements, the caller gets \<open>e\<close> itself, and session
  and task are \<open>failed\<close>.\<close>

theorem collect_x_closes_run:
  "(run_collect_x out policy q n None None auth0 w = (Inr res, w') \<longrightarrow>
     (\<exists>sid tid. session_status w sid = None \<and> task_status w tid = None \<and>
        session_status w' = (session_status w)(sid \<mapsto> PStr (L ''stopped'')) \<and>
        task_status w' = (task_status w)(tid \<mapsto> PStr (L ''succeeded'')) \<and> cr_count res = int (length (cr_ids res)))) \<and>
   (collect_body out auth q n sid tid w = (Inl e, w1) \<and> is_Exception e \<and> fail_run out sid tid e w1 = (Inr u, w2) \<and>
      session_status w sid \<noteq> None \<and> task_status w tid \<noteq> None \<longrightarrow>
     collect_rest out auth q n sid tid w = (Inl e, w2) \<and>
     session_status w2 = (session_status w)(sid \<mapsto> PStr (L ''failed'')) \<and>
     task_status w2 = (task_status w)(tid \<mapsto> PStr (L ''failed'')))"
proof (intro conjI impI, goal_cases)
  case 1
  then obtain auth' sid tid wa wb where init: "status_is (session_status w) (task_status w) wa"
    and op: "repo.open_run out (L ''collect-x'', PStr collect_role) (L ''running'') (PStr collect_role, PDict (search_args q n)) wa = (Inr (sid, tid), wb)"
    and rest: "collect_rest out auth' q n sid tid wb = (Inr res, w')"
    unfolding run_collect_x_def repo.open_run_def or_else_def auth_client_init_def
    by (auto elim!: sbind_InrE simp: env_val_def status_is_def split: option.splits)
  note o = repo.open_run_fresh[OF op]
  note r = collect_rest_ok[OF rest]
  from init o r show ?case by (intro exI[of _ sid] exI[of _ tid]) (auto simp: status_is_def)
next
  case 2
  then show ?case using collect_rest_fails(1) by blast
next
  case 3
  then show ?case using collect_rest_fails(2) by blast
next
  case 4
  then show ?case using collect_rest_fails(3) by blast
qed

text \<open>A run without the endpoint: the body raises, the database accepts the outcome.\<close>

definition demo_row :: "table_def \<Rightarrow> pystr \<Rightarrow> row" where
  "demo_row t i = map (\<lambda>c. (col_name c, if col_name c = L ''id'' then PStr i else if col_notnull c then PStr (L ''s'') else PNone)) (tab_cols t)"

definition open_world :: world where
  "open_world = demo_start_world\<lparr>dbs := [L ''sessions'' \<mapsto> [demo_row sessions_def (L ''s'')], L ''tasks'' \<mapsto> [demo_row tasks_def (L ''t'')]]\<rparr>"

definition no_endpoint :: pyexc where
  "no_endpoint = Exc RuntimeError (L ''X_MCP_URL is not set; cannot reach the x-mcp /mcp endpoint'')"

definition demo_failed :: "unit result \<times> world" where
  "demo_failed = fail_run demo_out (L ''s'') (L ''t'') no_endpoint open_world"

theorem collect_x_closes_run_witness:
  "collect_rest demo_out demo_auth (PStr (L ''q'')) 5 (L ''s'') (L ''t'') open_world = (Inl no_endpoint, snd demo_failed) \<and>
   session_status (snd demo_failed) = (session_status open_world)((L ''s'') \<mapsto> PStr (L ''failed'')) \<and>
   task_status (snd demo_failed) = (task_status open_world)((L ''t'') \<mapsto> PStr (L ''failed''))"
proof -
  have "getenv_set open_world ''X_MCP_URL'' = None" by code_simp
  then have "collect_body demo_out demo_auth (PStr (L ''q'')) 5 (L ''s'') (L ''t'') open_world = (Inl no_endpoint, open_world)"
    by (simp add: collect_body_def env_set_val_def no_endpoint_def)
  moreover have "\<not> isl (fst demo_failed)" by code_simp
  then have "fail_run demo_out (L ''s'') (L ''t'') no_endpoint open_world = (Inr (projr (fst demo_failed)), snd demo_failed)"
    unfolding demo_failed_def[symmetric] by (rule result_pair)
  moreover have "session_status open_world (L ''s'') \<noteq> None" by code_simp
  moreover have "task_status open_world (L ''t'') \<noteq> None" by code_simp
  moreover have "is_Exception no_endpoint" by code_simp
  ultimately show ?thesis
    using collect_x_closes_run[of demo_out PNone "PStr (L ''q'')" 5 None open_world undefined undefined
        demo_auth "L ''s''" "L ''t''" no_endpoint open_world "projr (fst demo_failed)" "snd demo_failed"] by blast
qed

end
