(* ===== verification/ClaudeDigest.thy ===== *)
theory ClaudeDigest
  imports Kubernetes Config CollectX
begin

text \<open>
  A run of the AI/IT digest (\<^verbatim>\<open>runner/claude_digest.py\<close>): a session token is issued, Claude Code runs in
  a container or as a Job, and the published file is verified in a fresh clone of the notes repository.
  Docker and git are programs of the outside world.
\<close>

section \<open>Verification of the published file\<close>

definition is_ascii :: "pystr \<Rightarrow> bool" where
  "is_ascii s = list_all (\<lambda>c. c < 128) s"

definition all_environ :: "(world, (pystr \<times> pystr) list) eff" where
  "all_environ w = (Inr (environ w), w)"

definition rev_parse :: "outside \<Rightarrow> pystr \<Rightarrow> (world, pystr option) eff" where
  "rev_parse out dir =
     catch (sbind (run_proc out \<lparr>proc_argv = [L ''git'', L ''rev-parse'', L ''HEAD''], proc_cwd = Some dir, proc_env = None, proc_timeout = Some 30\<rparr>)
              (\<lambda>r. ret (if proc_code r = 0 then Some (py_strip (proc_out r)) else None)))
       is_Exception (\<lambda>_. ret None)"

definition verify_digest_in_repo :: "outside \<Rightarrow> pystr \<Rightarrow> pystr \<Rightarrow> (world, bool \<times> pystr option) eff" where
  "verify_digest_in_repo out repo_dir relative_path =
     (let digest_path = path_join repo_dir relative_path in
      sbind (path_exists digest_path) (\<lambda>found.
      if \<not> found then ret (False, None)
      else sbind (read_text digest_path) (\<lambda>content.
        if is_ascii content then ret (False, None)
        else sbind (rev_parse out repo_dir) (\<lambda>sha. ret (True, sha)))))"

definition clone_call :: "pystr \<Rightarrow> pystr \<Rightarrow> (pystr \<times> pystr) list \<Rightarrow> proc_call" where
  "clone_call url dir env = \<lparr>proc_argv = [L ''git'', L ''clone'', L ''--depth'', L ''1'', url, dir], proc_cwd = None,
     proc_env = Some env, proc_timeout = Some 120\<rparr>"

definition verify_published :: "outside \<Rightarrow> pystr \<Rightarrow> pystr \<Rightarrow> (world, bool \<times> pystr option) eff" where
  "verify_published out notes_repo relative_path =
     sbind (env_set_val ''GIT_PROXY_URL'') (\<lambda>u. sbind (env_set_val ''GIT_PROXY_SESSION_TOKEN'') (\<lambda>t.
     case (u, t) of
       (Some url, Some token) \<Rightarrow>
         sbind (env_default ''GIT_PROXY_URL_HOST'' (py_replace (L ''host.docker.internal'') (L ''127.0.0.1'') url)) (\<lambda>host_url.
         sbind all_environ (\<lambda>environ.
         temp_dir out (\<lambda>tmp.
           let clone_dir = path_join tmp (L ''notes'');
               clone_url = py_rstrip_chars [47] host_url @ L ''/git/'' @ notes_repo @ L ''.git'' in
           sbind (run_proc out (clone_call clone_url clone_dir (dict_update environ (build_git_relay_env host_url token)))) (\<lambda>r.
           if proc_code r \<noteq> 0 then ret (False, None)
           else verify_digest_in_repo out clone_dir relative_path))))
     | _ \<Rightarrow> ret (False, None)))"

section \<open>Running Claude Code\<close>

definition run_claude_via_kubernetes ::
    "nat \<Rightarrow> outside \<Rightarrow> pystr \<Rightarrow> pystr \<Rightarrow> pystr \<Rightarrow> pystr \<Rightarrow> digest_options \<Rightarrow> pystr \<Rightarrow> bool \<Rightarrow> pyval option \<Rightarrow> (world, int \<times> pystr \<times> pystr) eff" where
  "run_claude_via_kubernetes fuel out workspace session_id role prompt options allowed_tools include_git_relay mcp_config =
     sbind (build_claude_invocation workspace session_id role prompt options allowed_tools include_git_relay mcp_config) (\<lambda>ci.
     sbind KubernetesClaudeLauncherOptions (\<lambda>opts.
     launcher_run fuel out opts None workspace session_id role ci (opt_timeout options)))"

text \<open>The choice between the two launchers, which both digests make in the same way.\<close>

definition run_claude ::
    "nat \<Rightarrow> outside \<Rightarrow> sys_env \<Rightarrow> pystr \<Rightarrow> pystr \<Rightarrow> pystr \<Rightarrow> pystr \<Rightarrow> pystr \<Rightarrow> digest_options \<Rightarrow> pystr \<Rightarrow> bool \<Rightarrow> pyval \<Rightarrow> (world, int \<times> pystr \<times> pystr) eff" where
  "run_claude fuel out sys root workspace session_id role prompt options allowed_tools include_git_relay mcp_config =
     sbind (env_val ''RUNNER_BACKEND'') (\<lambda>backend.
     if backend = Some (L ''kubernetes'') then
       run_claude_via_kubernetes fuel out workspace session_id role prompt options allowed_tools include_git_relay (Some mcp_config)
     else
       sbind (\<lambda>w. build_docker_command (sys_resolve sys w) workspace session_id role prompt options allowed_tools include_git_relay
                     (Some mcp_config) None None None w) (\<lambda>cmd.
       sbind (run_proc out \<lparr>proc_argv = cmd, proc_cwd = Some root, proc_env = None, proc_timeout = Some (opt_timeout options)\<rparr>) (\<lambda>r.
       ret (proc_code r, proc_out r, proc_err r))))"

text \<open>The token for the direct connection and its configuration; \<open>what\<close> names the command in the error.\<close>

definition issue_mcp_config :: "outside \<Rightarrow> pystr \<Rightarrow> string \<Rightarrow> (world, pyval) eff" where
  "issue_mcp_config out role what =
     sbind (env_pair ''X_MCP_URL'' ''X_MCP_SESSION_TOKEN'' what) (\<lambda>(url, token).
     sbind (issue_session out url token (PStr role)) (\<lambda>issued.
     build_direct_mcp_config (is_token issued)))"

section \<open>The digest\<close>

record digest_result =
  dr_exit_code :: int
  dr_stdout :: pystr
  dr_stderr :: pystr
  dr_workspace :: pystr
  dr_verified :: bool
  dr_verified_path :: "pystr option"
  dr_commit_sha :: "pystr option"

definition digest_path :: "datetime \<Rightarrow> pystr" where
  "digest_path t = L ''daily/'' @ dec_str (dt_year t) @ [47] @ pad_str 2 (dt_month t) @ [47] @ date_iso t @ L ''.md''"

text \<open>\<^verbatim>\<open>error_excerpt(stderr) if exit_code != 0 else None\<close>.\<close>

definition excerpt_for :: "int \<Rightarrow> pystr \<Rightarrow> pyval" where
  "excerpt_for exit_code stderr = (if exit_code \<noteq> 0 then opt_str (error_excerpt (Some stderr)) else PNone)"

text \<open>\<^verbatim>\<open>exit_code if ok else (exit_code or 1)\<close>.\<close>

definition final_code :: "int \<Rightarrow> bool \<Rightarrow> int" where
  "final_code exit_code good = (if good then exit_code else if exit_code \<noteq> 0 then exit_code else 1)"

definition finish_digest :: "outside \<Rightarrow> digest_options \<Rightarrow> pystr \<Rightarrow> datetime \<Rightarrow> int \<times> pystr \<times> pystr \<Rightarrow> (world, digest_result) eff" where
  "finish_digest out options workspace date = (\<lambda>(exit_code, stdout, stderr).
     let relative_path = digest_path date in
     sbind (if exit_code = 0 then verify_published out (opt_notes_repo options) relative_path else ret (False, None)) (\<lambda>(verified, sha).
     sbind (record_document out (if verified then Some (opt_notes_repo options) else None) relative_path
              (L ''Daily AI/IT Digest - '' @ date_iso date) (L ''ai_it_daily_digest'') (if verified then L ''published'' else L ''failed'')
              (PList []) sha
              (PDict [(L ''target_repo'', PStr (opt_notes_repo options)), (L ''target_path'', PStr relative_path),
                 (L ''verified'', PBool verified), (L ''exit_code'', PInt exit_code), (L ''error'', excerpt_for exit_code stderr)])) (\<lambda>_.
     ret \<lparr>dr_exit_code = final_code exit_code verified, dr_stdout = stdout, dr_stderr = stderr, dr_workspace = workspace, dr_verified = verified,
          dr_verified_path = (if verified then Some relative_path else None), dr_commit_sha = sha\<rparr>)))"

definition run_claude_digest ::
    "nat \<Rightarrow> outside \<Rightarrow> sys_env \<Rightarrow> app_config \<Rightarrow> pystr \<Rightarrow> pystr \<Rightarrow> digest_options option \<Rightarrow> auth_client option \<Rightarrow> (world, digest_result) eff" where
  "run_claude_digest fuel out sys config session_id workspace options0 auth0 =
     (let options = (case options0 of None \<Rightarrow> ClaudeDigestOptions | Some x \<Rightarrow> x) in
      sbind (case auth0 of None \<Rightarrow> auth_client_init (cfg_policy config) | Some a \<Rightarrow> ret a) (\<lambda>_.
      sbind (issue_mcp_config out ai_it_role ''claude-digest'') (\<lambda>mcp_config.
      sbind (now_jst out) (\<lambda>date.
      sbind (env_set_val ''GIT_PROXY_URL'') (\<lambda>git_url.
      case git_url of
        None \<Rightarrow> raise_exc ValueError (L ''GIT_PROXY_URL is required for claude-digest'')
      | Some url \<Rightarrow>
          sbind (run_claude fuel out sys (cfg_root config) workspace session_id ai_it_role
                   (build_digest_prompt (opt_notes_repo options) (digest_path date) url) options DIRECT_MCP_ALLOWED_TOOLS True mcp_config)
            (finish_digest out options workspace date))))))"

section \<open>Success means a verified file\<close>

lemma verify_digest_in_repo_True:
  assumes "verify_digest_in_repo out dir rel w = (Inr (True, sha), w')"
  shows "\<exists>content. files w (path_join dir rel) = Some content \<and> \<not> is_ascii content"
  using assms unfolding verify_digest_in_repo_def Let_def
  by (auto elim!: sbind_InrE simp: path_exists_def read_text_def split: if_splits option.splits)

text \<open>In a world \<open>w\<close> the clone of the notes repository succeeds and brings the file with text that is not all
  ASCII.\<close>

definition clone_has_digest :: "outside \<Rightarrow> pystr \<Rightarrow> pystr \<Rightarrow> world \<Rightarrow> bool" where
  "clone_has_digest out repo rel w \<longleftrightarrow>
     (let dir = path_join (o_tmp out (draws w)) (L ''notes'') in
      \<exists>url env r fs content.
        o_proc out (w\<lparr>draws := Suc (draws w)\<rparr>) (clone_call (py_rstrip_chars [47] url @ L ''/git/'' @ repo @ L ''.git'') dir env) = (Inr r, fs) \<and>
        proc_code r = 0 \<and> fs (path_join dir rel) = Some content \<and> \<not> is_ascii content)"

lemma verify_published_True:
  assumes "verify_published out repo rel w = (Inr (True, sha), w')"
  shows "clone_has_digest out repo rel w"
proof -
  let ?dir = "path_join (o_tmp out (draws w)) (L ''notes'')"
  from assms obtain url token host r w1 w2 where
    c: "run_proc out (clone_call (py_rstrip_chars [47] host @ L ''/git/'' @ repo @ L ''.git'') ?dir (dict_update (environ w) (build_git_relay_env host token)))
      (w\<lparr>draws := Suc (draws w)\<rparr>) = (Inr r, w1)" "proc_code r = 0"
    and v: "verify_digest_in_repo out ?dir rel w1 = (Inr (True, sha), w2)"
    unfolding verify_published_def temp_dir_def Let_def
    by (auto elim!: sbind_InrE simp: env_set_val_def env_default_def env_val_def all_environ_def split: option.splits prod.splits if_splits)
  from verify_digest_in_repo_True[OF v] c show ?thesis
    unfolding clone_has_digest_def Let_def by (auto simp: run_proc_def split: prod.splits) blast
qed

text \<open>A digest run that reports success has published: if the run returns, its exit code is 0 exactly when
  the file was verified, which means that the clone of the notes repository made after the run
  succeeded and has the file of the day, with text that is not all ASCII; and one document has been recorded, under the path of
  the day, as \<open>published\<close> in that case and as \<open>failed\<close> in every other.\<close>

theorem digest_success_verified:
  assumes "finish_digest out options ws date run w = (Inr res, w')"
  shows "(dr_exit_code res = 0 \<longleftrightarrow> dr_verified res) \<and>
    (dr_verified res \<longrightarrow> clone_has_digest out (opt_notes_repo options) (digest_path date) w) \<and>
    (\<exists>rows r. dbs w' (L ''documents'') = Some (rows @ [r]) \<and> cell r (L ''path'') = PStr (digest_path date) \<and>
       cell r (L ''status'') = PStr (if dr_verified res then L ''published'' else L ''failed''))"
proof -
  obtain code so se where run: "run = (code, so, se)" by (cases run) auto
  from assms[unfolded run finish_digest_def Let_def prod.case] obtain verified sha w1 i where
    v: "(if code = 0 then verify_published out (opt_notes_repo options) (digest_path date) else ret (False, None)) w = (Inr (verified, sha), w1)"
    and d: "record_document out (if verified then Some (opt_notes_repo options) else None) (digest_path date)
        (L ''Daily AI/IT Digest - '' @ date_iso date) (L ''ai_it_daily_digest'') (if verified then L ''published'' else L ''failed'')
        (PList []) sha
        (PDict [(L ''target_repo'', PStr (opt_notes_repo options)), (L ''target_path'', PStr (digest_path date)),
           (L ''verified'', PBool verified), (L ''exit_code'', PInt code), (L ''error'', excerpt_for code se)]) w1 = (Inr i, w')"
    and res: "dr_exit_code res = final_code code verified" "dr_verified res = verified"
    by (auto elim!: sbind_InrE)
  have code: "verified \<Longrightarrow> code = 0" using v by (auto split: if_splits)
  have "dr_exit_code res = 0 \<longleftrightarrow> dr_verified res" using code by (auto simp: res final_code_def)
  moreover have "clone_has_digest out (opt_notes_repo options) (digest_path date) w" if "dr_verified res"
    using that v code verify_published_True by (auto simp: res)
  ultimately show ?thesis using d by (auto elim!: record_document_row simp: res)
qed

definition demo_finish :: "digest_result result \<times> world" where
  "demo_finish = finish_digest demo_out ClaudeDigestOptions (L ''/w'') 0 (2, [], L ''e'') demo_start_world"

theorem digest_success_verified_witness:
  "(dr_exit_code (projr (fst demo_finish)) = 0 \<longleftrightarrow> dr_verified (projr (fst demo_finish))) \<and>
    (\<exists>rows r. dbs (snd demo_finish) (L ''documents'') = Some (rows @ [r]) \<and> cell r (L ''path'') = PStr (digest_path 0))"
proof -
  have "\<not> isl (fst demo_finish)" by code_simp
  then have "finish_digest demo_out ClaudeDigestOptions (L ''/w'') 0 (2, [], L ''e'') demo_start_world =
      (Inr (projr (fst demo_finish)), snd demo_finish)"
    unfolding demo_finish_def[symmetric] by (rule result_pair)
  from digest_success_verified[OF this] show ?thesis by blast
qed

end
