(* ===== verification/Documents.thy ===== *)
theory Documents
  imports ClaudeDigest
begin

text \<open>
  The Markdown of the daily digest (\<^verbatim>\<open>documents/markdown.py\<close>) and the writer of documents
  (\<^verbatim>\<open>documents/repository_writer.py\<close>), which writes dry runs below \<^verbatim>\<open>.data\<close> and publishes with git.  Directories
  and links are not part of the model's files: whether a directory exists and where a path leads are
  parameters, which may depend on the files.
\<close>

section \<open>The Markdown of a digest\<close>

record topic_item =
  ti_topic :: pyval
  ti_what_happened :: pystr
  ti_why_it_matters :: pystr
  ti_evidence_url :: pyval
  ti_x_signal_url :: pyval
  ti_confidence :: pystr
  ti_follow_up :: pystr

definition UNVERIFIED :: pystr where
  "UNVERIFIED =
     [40, 26410, 30906, 35469, 32, 8212, 32, 35201, 12501, 12449, 12463, 12488, 12481, 12455, 12483, 12463, 41]"

text \<open>The fenced front matter and the title.\<close>

definition digest_head :: "pyval list \<Rightarrow> pystr \<Rightarrow> pystr list" where
  "digest_head queries today =
     [L ''---'', L ''title: Daily AI/IT Digest - '' @ today, L ''date: '' @ today, L ''generated_by: 7mimi-agent'',
      L ''role: ai_it_topic_runner'', L ''source_policy: x_is_signal_not_evidence'', L ''queries:''] @
     map (\<lambda>q. L ''  - '' @ py_repr q) queries @
     [L ''source_repo: 7milch/ai-it-research-notes'', L ''---'', [], L ''# Daily AI/IT Digest - '' @ today, [], L ''## Summary'', []]"

definition digest_summary :: "topic_item list \<Rightarrow> pystr list" where
  "digest_summary items =
     (if items \<noteq> [] then map (\<lambda>item. L ''- '' @ py_str (ti_topic item) @ L '': '' @ ti_what_happened item) (take 5 items)
      else [L ''- No notable AI/IT topics were collected in this dry run.''])"

definition topic_section :: "nat \<Rightarrow> topic_item \<Rightarrow> pystr list" where
  "topic_section idx item =
     (let primary_source = (if truthy (ti_evidence_url item) then py_str (ti_evidence_url item) else UNVERIFIED) in
      [L ''### '' @ int_str (int idx) @ L ''. '' @ py_str (ti_topic item), [],
       L ''- What happened: '' @ ti_what_happened item, L ''- Why it matters: '' @ ti_why_it_matters item,
       L ''- Evidence:'', L ''  - Official / primary source: '' @ primary_source, L ''  - Supporting source: TBD'',
       L ''- X signal:'', L ''  - Post URL: '' @ py_str (ti_x_signal_url item),
       L ''- Confidence: '' @ ti_confidence item, L ''- Follow-up: '' @ ti_follow_up item, []])"

fun topic_sections :: "nat \<Rightarrow> topic_item list \<Rightarrow> pystr list" where
  "topic_sections idx [] = []"
| "topic_sections idx (item # items) = topic_section idx item @ topic_sections (Suc idx) items"

definition link_rows :: "topic_item list \<Rightarrow> pystr list" where
  "link_rows items =
     map (\<lambda>item. L ''| '' @ py_str (ti_topic item) @ L '' | '' @ py_str (ti_evidence_url item) @ L '' | primary_or_project | '' @
            ti_why_it_matters item @ L '' |'')
       (filter (\<lambda>item. truthy (ti_evidence_url item)) items)"

definition queue_lines :: "topic_item list \<Rightarrow> pystr list" where
  "queue_lines items =
     concat (map (\<lambda>item. [L ''- [ ] '' @ py_str (ti_topic item), L ''  - Question: '' @ ti_follow_up item,
                          L ''  - Next source to check: official docs / GitHub / release notes'']) items)"

definition digest_lines :: "pyval list \<Rightarrow> topic_item list \<Rightarrow> int \<Rightarrow> int \<Rightarrow> pystr \<Rightarrow> pystr \<Rightarrow> pystr list" where
  "digest_lines queries items reviewed_posts fetched_urls today generated_at =
     digest_head queries today @ digest_summary items @ [[], L ''## Top Topics'', []] @ topic_sections 1 items @
     [L ''## Notable Links'', [], L ''| Topic | Source | Type | Why notable |'', L ''|---|---|---|---|''] @ link_rows items @
     [[], L ''## Research Queue'', []] @ queue_lines items @
     [[], L ''## Collection Metadata'', [], L ''- Generated at: '' @ generated_at, L ''- Queries:''] @
     map (\<lambda>q. L ''  - `'' @ py_str q @ L ''`'') queries @
     [L ''- X posts reviewed: '' @ int_str reviewed_posts, L ''- URLs fetched: '' @ int_str fetched_urls, [],
      L ''## Notes'', [], L ''- X posts are treated as signals, not evidence.'', L ''- Avoid bulk reproduction of X post text.'',
      L ''- Prefer official docs, GitHub repositories, release notes, and primary sources.'', []]"

definition render_ai_it_daily_digest :: "outside \<Rightarrow> pyval list \<Rightarrow> topic_item list \<Rightarrow> int \<Rightarrow> int \<Rightarrow> (world, pystr) eff" where
  "render_ai_it_daily_digest out queries items reviewed_posts fetched_urls =
     sbind (now_jst out) (\<lambda>t.
     sbind (iso_now out) (\<lambda>generated_at.
     ret (py_join [10] (digest_lines queries items reviewed_posts fetched_urls (date_iso t) generated_at))))"

section \<open>The writer\<close>

text \<open>\<^verbatim>\<open>_CREDENTIAL_URL_RE.sub("https://***@", text)\<close> for the expression \<^verbatim>\<open>https://[^@\s]*@\<close>.  The characters before
  the \<^verbatim>\<open>@\<close> exclude it, so there is at most one match at a position.\<close>

definition https :: pystr where "https = L ''https://''"
definition scrubbed :: pystr where "scrubbed = L ''***''"

definition cred_char :: "int \<Rightarrow> bool" where
  "cred_char c = (c \<noteq> 64 \<and> \<not> py_isspace c)"

text \<open>The text after a match at the beginning.\<close>

definition cred_match :: "pystr \<Rightarrow> pystr option" where
  "cred_match s =
     (if py_startswith s https then
        (case dropWhile cred_char (drop (length https) s) of c # rest \<Rightarrow> if c = 64 then Some rest else None | [] \<Rightarrow> None)
      else None)"

lemma cred_match_shorter: "cred_match s = Some rest \<Longrightarrow> length rest < length s"
proof -
  assume "cred_match s = Some rest"
  then have "dropWhile cred_char (drop (length https) s) = 64 # rest"
    by (auto simp: cred_match_def split: if_splits list.splits)
  then show ?thesis using length_dropWhile_le[of cred_char "drop (length https) s"] by simp
qed

function scrub :: "pystr \<Rightarrow> pystr" where
  "scrub s =
     (case cred_match s of
        Some rest \<Rightarrow> https @ scrubbed @ [64] @ scrub rest
      | None \<Rightarrow> (case s of [] \<Rightarrow> [] | c # s' \<Rightarrow> c # scrub s'))"
  by pat_completeness auto
termination
  by (relation "measure length") (auto dest: cred_match_shorter)

declare scrub.simps [simp del]

record write_result =
  wr_path :: pystr
  wr_repo :: "pystr option"
  wr_pushed :: bool
  wr_commit_sha :: "pystr option"

record document_writer =
  dw_root :: pystr
  dw_repositories :: pyval

definition write_dry_run :: "document_writer \<Rightarrow> pystr \<Rightarrow> pystr \<Rightarrow> (world, write_result) eff" where
  "write_dry_run dw relative_path content =
     (let output_path = path_join (path_join (dw_root dw) (L ''.data/dry-run'')) relative_path in
      sbind (write_text output_path content) (\<lambda>_.
      ret \<lparr>wr_path = output_path, wr_repo = None, wr_pushed = False, wr_commit_sha = None\<rparr>))"

text \<open>\<^verbatim>\<open>_run_git\<close>: a failing command raises with its scrubbed command line and error output.\<close>

definition run_git :: "outside \<Rightarrow> pystr list \<Rightarrow> pystr \<Rightarrow> (world, proc_result) eff" where
  "run_git out args cwd =
     sbind (run_proc out \<lparr>proc_argv = L ''git'' # args, proc_cwd = Some cwd, proc_env = None, proc_timeout = None\<rparr>) (\<lambda>r.
     if proc_code r \<noteq> 0
     then raise_exc RuntimeError (scrub (L ''git '' @ py_join [32] args @ L '' failed: '' @ proc_err r))
     else ret r)"

text \<open>What the model of files leaves open.\<close>

record fs_view =
  fs_is_dir :: "files \<Rightarrow> pystr \<Rightarrow> bool"
  fs_resolve :: "files \<Rightarrow> pystr \<Rightarrow> pystr"

definition dir_exists :: "fs_view \<Rightarrow> pystr \<Rightarrow> (world, bool) eff" where
  "dir_exists fs p w = (Inr (files w p \<noteq> None \<or> fs_is_dir fs (files w) p), w)"

definition resolve_path :: "fs_view \<Rightarrow> pystr \<Rightarrow> (world, pystr) eff" where
  "resolve_path fs p w = (Inr (fs_resolve fs (files w) p), w)"

definition path_parts :: "pystr \<Rightarrow> pystr list" where
  "path_parts p = filter (\<lambda>s. s \<noteq> []) (py_split_char 47 p)"

text \<open>\<^verbatim>\<open>p.is_relative_to(q)\<close> for resolved paths, and \<^verbatim>\<open>p.parent\<close>.\<close>

definition is_relative_to :: "pystr \<Rightarrow> pystr \<Rightarrow> bool" where
  "is_relative_to p q = prefix (path_parts q) (path_parts p)"

definition path_parent :: "pystr \<Rightarrow> pystr" where
  "path_parent p = path_norm ((if py_startswith p [47] then [47] else []) @ py_join [47] (butlast (path_parts p)))"

definition not_permitted :: "pystr \<Rightarrow> pystr \<Rightarrow> pystr \<Rightarrow> pystr" where
  "not_permitted relative_path repo why =
     L ''path '' @ str_repr relative_path @ L '' not permitted for repo '' @ str_repr repo @ L '': '' @ why"

definition checkout_dir :: "document_writer \<Rightarrow> pystr \<Rightarrow> pystr" where
  "checkout_dir dw repo = path_join (path_join (dw_root dw) (L ''.data/notes-repo'')) (last (py_split_char 47 repo))"

definition repo_path_decision :: "document_writer \<Rightarrow> pystr \<Rightarrow> pystr \<Rightarrow> path_decision result" where
  "repo_path_decision dw repo relative_path =
     ebind (find_repo_policy (dw_repositories dw) (PStr repo)) (\<lambda>rp.
     let repo_policy = py_or (case rp of None \<Rightarrow> PNone | Some p \<Rightarrow> p) empty_dict in
     ebind (py_get repo_policy (L ''allowed_paths'')) (\<lambda>av.
     ebind (py_iter (py_or av empty_list)) (\<lambda>allow.
     ebind (py_get repo_policy (L ''denied_paths'')) (\<lambda>dv.
     ebind (py_iter (py_or dv empty_list)) (\<lambda>deny.
     is_path_allowed relative_path (PList allow) (PList deny))))))"

text \<open>The clone or the update of the checkout.\<close>

definition sync_checkout :: "outside \<Rightarrow> fs_view \<Rightarrow> pystr \<Rightarrow> pystr \<Rightarrow> (world, unit) eff" where
  "sync_checkout out fs dir remote =
     sbind (dir_exists fs (path_join dir (L ''.git''))) (\<lambda>found.
     sbind (if \<not> found then run_git out [L ''clone'', remote, dir] (path_parent dir)
            else run_git out [L ''pull'', L ''--ff-only''] dir) (\<lambda>_. ret ()))"

text \<open>The commit and its push, if anything changed.\<close>

definition commit_and_push :: "outside \<Rightarrow> pystr \<Rightarrow> pystr \<Rightarrow> pystr \<Rightarrow> pystr \<Rightarrow> pystr \<Rightarrow> (world, write_result) eff" where
  "commit_and_push out dir repo relative_path target_path commit_message =
     sbind (run_git out [L ''add'', L ''--'', relative_path] dir) (\<lambda>_.
     sbind (run_git out [L ''status'', L ''--porcelain''] dir) (\<lambda>status.
     if py_strip (proc_out status) = []
     then ret \<lparr>wr_path = target_path, wr_repo = Some repo, wr_pushed = False, wr_commit_sha = None\<rparr>
     else
       sbind (run_git out [L ''commit'', L ''-m'', commit_message @ [10, 10] @ L ''Generated-by: 7mimi-agent''] dir) (\<lambda>_.
       sbind (run_git out [L ''push''] dir) (\<lambda>_.
       sbind (run_git out [L ''rev-parse'', L ''HEAD''] dir) (\<lambda>r.
       ret \<lparr>wr_path = target_path, wr_repo = Some repo, wr_pushed = True, wr_commit_sha = Some (py_strip (proc_out r))\<rparr>)))))"

definition publish ::
    "outside \<Rightarrow> fs_view \<Rightarrow> document_writer \<Rightarrow> pystr \<Rightarrow> pystr \<Rightarrow> pystr \<Rightarrow> pystr \<Rightarrow> pystr option \<Rightarrow> (world, write_result) eff" where
  "publish out fs dw repo relative_path content commit_message remote_url =
     sbind (lift_res (repo_path_decision dw repo relative_path)) (\<lambda>decision.
     if \<not> allowed decision then raise_exc PermissionError (not_permitted relative_path repo (reason decision))
     else
       let dir = checkout_dir dw repo; target_path = path_join dir relative_path;
           remote = (case remote_url of Some u \<Rightarrow> if u \<noteq> [] then u else L ''https://github.com/'' @ repo @ L ''.git''
                     | None \<Rightarrow> L ''https://github.com/'' @ repo @ L ''.git'') in
       sbind (sync_checkout out fs dir remote) (\<lambda>_.
       sbind (resolve_path fs dir) (\<lambda>resolved_checkout.
       sbind (resolve_path fs target_path) (\<lambda>resolved_target.
       if \<not> is_relative_to resolved_target resolved_checkout
       then raise_exc PermissionError (L ''path '' @ str_repr relative_path @ L '' escapes checkout directory for repo '' @ str_repr repo)
       else
         sbind (write_text target_path content) (\<lambda>_.
         commit_and_push out dir repo relative_path target_path commit_message)))))"

section \<open>No credentials in error messages\<close>

lemma scrub_Nil [simp]: "scrub [] = []"
  by (subst scrub.simps) (simp add: cred_match_def https_def L_def)

lemma scrub_match: "cred_match s = Some rest \<Longrightarrow> scrub s = https @ scrubbed @ 64 # scrub rest"
  by (subst scrub.simps) simp

lemma scrub_step: "cred_match (c # s) = None \<Longrightarrow> scrub (c # s) = c # scrub s"
  by (subst scrub.simps) simp

lemma https_Cons: "https = 104 # L ''ttps://''"
  by (simp add: https_def L_def)

lemma cred_match_Cons: "c \<noteq> 104 \<Longrightarrow> cred_match (c # s) = None"
  by (simp add: cred_match_def py_startswith_def https_Cons)

lemma cred_match_iff:
  "cred_match s = Some rest \<longleftrightarrow> (\<exists>b. s = https @ b @ 64 # rest \<and> list_all cred_char b)"
proof
  assume "cred_match s = Some rest"
  then have s: "take (length https) s = https" and d: "dropWhile cred_char (drop (length https) s) = 64 # rest"
    by (auto simp: cred_match_def py_startswith_def split: if_splits list.splits)
  let ?b = "takeWhile cred_char (drop (length https) s)"
  have "s = https @ ?b @ 64 # rest" using s d by (metis append_take_drop_id takeWhile_dropWhile_id)
  moreover have "list_all cred_char ?b" by (simp add: list_all_iff) (meson set_takeWhileD)
  ultimately show "\<exists>b. s = https @ b @ 64 # rest \<and> list_all cred_char b" by blast
next
  assume "\<exists>b. s = https @ b @ 64 # rest \<and> list_all cred_char b"
  then obtain b where "s = https @ b @ 64 # rest" and "list_all cred_char b" by blast
  moreover have "\<not> cred_char 64" by (simp add: cred_char_def)
  ultimately show "cred_match s = Some rest"
    by (simp add: cred_match_def py_startswith_def list_all_iff dropWhile_append2)
qed

text \<open>Text without the first letter of the scheme is copied.\<close>

lemma scrub_copied: "scrub s = w @ t \<Longrightarrow> 104 \<notin> set w \<Longrightarrow> \<exists>s'. s = w @ s' \<and> scrub s' = t"
proof (induction w arbitrary: s)
  case (Cons c w)
  have "cred_match s = None"
    using Cons.prems scrub_match[of s] by (cases "cred_match s") (auto simp: https_Cons)
  moreover obtain c' s' where s: "s = c' # s'" using Cons.prems(1) by (cases s) auto
  ultimately have "c' = c" "scrub s' = w @ t" using Cons.prems(1) scrub_step by auto
  with Cons.IH[of s'] Cons.prems(2) s show ?case by auto
qed auto

text \<open>A run of characters up to an \<^verbatim>\<open>@\<close> in the result stems from such a run of the text.\<close>

lemma scrub_run:
  assumes "scrub s = b @ 64 # t" and "list_all cred_char b"
  shows "\<exists>b' t'. s = b' @ 64 # t' \<and> list_all cred_char b'"
  using assms
proof (induction s arbitrary: b rule: length_induct)
  case (1 s)
  show ?case
  proof (cases "cred_match s")
    case (Some rest)
    then obtain b' where "s = https @ b' @ 64 # rest" "list_all cred_char b'" using cred_match_iff by blast
    moreover have "list_all cred_char https" by code_simp
    ultimately have "s = (https @ b') @ 64 # rest \<and> list_all cred_char (https @ b')" by simp
    then show ?thesis by blast
  next
    case None
    then obtain c s' where s: "s = c # s'" using 1 by (cases s) auto
    then have eq: "c # scrub s' = b @ 64 # t" using None 1 by (simp add: scrub_step)
    show ?thesis
    proof (cases b)
      case Nil
      then have "s = [] @ 64 # s' \<and> list_all cred_char []" using eq s by simp
      then show ?thesis by blast
    next
      case (Cons d b1)
      then have "scrub s' = b1 @ 64 # t" "list_all cred_char b1" "cred_char c" using eq 1 by auto
      then obtain b' t' where "s' = b' @ 64 # t'" "list_all cred_char b'"
        using 1 s by (metis length_Cons lessI)
      then have "s = (c # b') @ 64 # t' \<and> list_all cred_char (c # b')" using s \<open>cred_char c\<close> by simp
      then show ?thesis by blast
    qed
  qed
qed

lemma scrub_start:
  assumes "scrub s = https @ b @ 64 # c" and "list_all cred_char b"
  shows "b = scrubbed"
proof (cases "cred_match s")
  case (Some rest)
  have "list_all cred_char scrubbed" by code_simp
  then have "takeWhile cred_char (scrubbed @ 64 # scrub rest) = scrubbed"
    by (simp add: list_all_iff takeWhile_append2 cred_char_def)
  moreover have "takeWhile cred_char (b @ 64 # c) = b"
    using assms(2) by (simp add: list_all_iff takeWhile_append2 cred_char_def)
  ultimately show ?thesis using assms(1) scrub_match[OF Some] by simp
next
  case None
  then obtain x s' where s: "s = x # s'" using assms(1) by (cases s) (auto simp: https_Cons)
  with None assms(1) have "x = 104" "scrub s' = L ''ttps://'' @ b @ 64 # c" by (auto simp: scrub_step https_Cons)
  moreover have "104 \<notin> set (L ''ttps://'')" by code_simp
  ultimately obtain s2 where s2: "s' = L ''ttps://'' @ s2" "scrub s2 = b @ 64 # c" using scrub_copied by blast
  then obtain b' t' where "s2 = b' @ 64 # t'" "list_all cred_char b'" using scrub_run assms(2) by blast
  then have "cred_match s = Some t'" using s s2 \<open>x = 104\<close> by (auto simp: cred_match_iff https_Cons)
  with None show ?thesis by simp
qed

lemma no_https_inside: "a @ https @ t = scrubbed @ 64 # u \<Longrightarrow> \<exists>a'. u = a' @ https @ t"
  by (cases a; cases "tl a"; cases "tl (tl a)"; cases "tl (tl (tl a))") (auto simp: scrubbed_def L_def https_Cons)

lemma append_https_cases:
  assumes "a @ https @ t = https @ u"
  shows "a = [] \<and> t = u \<or> (\<exists>a'. u = a' @ https @ t)"
proof (cases "length a < length https")
  case True
  have "a = []"
  proof (rule ccontr)
    assume "a \<noteq> []"
    then have "1 \<le> length a" by (cases a) auto
    have "(a @ https @ t) ! length a = 104" by (simp add: https_Cons nth_append)
    moreover have "(https @ u) ! length a = https ! length a" using True by (simp add: nth_append)
    moreover have "\<forall>i\<in>{1..<8}. https ! i \<noteq> 104" by code_simp
    moreover have "length https = 8" by code_simp
    ultimately show False using assms True \<open>1 \<le> length a\<close> by auto
  qed
  then show ?thesis using assms by simp
next
  case False
  then obtain a' where "a = https @ a'" using assms by (metis append_eq_append_conv_if append_take_drop_id not_less)
  then show ?thesis using assms by auto
qed

lemma scrub_no_credentials:
  assumes "scrub s = a @ https @ b @ 64 # c" and "list_all cred_char b"
  shows "b = scrubbed"
  using assms
proof (induction s arbitrary: a rule: length_induct)
  case (1 s)
  show ?case
  proof (cases "a = []")
    case True
    then show ?thesis using 1 scrub_start by simp
  next
    case a: False
    show ?thesis
    proof (cases "cred_match s")
      case (Some rest)
      then have "a @ https @ b @ 64 # c = https @ scrubbed @ 64 # scrub rest" using 1 scrub_match by simp
      then obtain a1 where "scrubbed @ 64 # scrub rest = a1 @ https @ b @ 64 # c" using append_https_cases a by blast
      then obtain a2 where "scrub rest = a2 @ https @ b @ 64 # c" using no_https_inside by metis
      then show ?thesis using 1 cred_match_shorter[OF Some] by blast
    next
      case None
      then obtain x s' where s: "s = x # s'" using 1 a by (cases s) auto
      then have "scrub s' = tl a @ https @ b @ 64 # c" using None 1 a scrub_step by (cases a) auto
      then show ?thesis using 1 s by auto
    qed
  qed
qed

text \<open>Nothing else of the publication raises a \<open>RuntimeError\<close>, if starting a program does not.\<close>

definition clean_error :: "pyexc \<Rightarrow> bool" where
  "clean_error e \<longleftrightarrow> (exc_type e = RuntimeError \<longrightarrow> (\<exists>m. exc_msg e = scrub m))"

definition clean :: "(world, 'a) eff \<Rightarrow> bool" where
  "clean m \<longleftrightarrow> (\<forall>w e w'. m w = (Inl e, w') \<longrightarrow> clean_error e)"

lemma clean_ret: "clean (ret x)"
  by (simp add: clean_def)

lemma clean_sbind: "clean m \<Longrightarrow> (\<And>x. clean (f x)) \<Longrightarrow> clean (sbind m f)"
  unfolding clean_def by (metis sbind_cases sum.inject(1))

lemma clean_if: "clean a \<Longrightarrow> clean b \<Longrightarrow> clean (if c then a else b)"
  by simp

lemma clean_let: "clean (f x) \<Longrightarrow> clean (let y = x in f y)"
  by simp

lemma clean_raise: "t \<noteq> RuntimeError \<Longrightarrow> clean (raise_exc t m)"
  by (simp add: clean_def clean_error_def)

lemma clean_fs: "clean (dir_exists fs p)" "clean (resolve_path fs p)"
  by (simp_all add: clean_def dir_exists_def resolve_path_def)

lemma clean_write_text: "clean (write_text p t)"
proof -
  have "exc_type (encode_error t) \<noteq> RuntimeError" by (simp add: encode_error_def Let_def)
  then show ?thesis by (auto simp: clean_def clean_error_def write_text_def utf8_len_def split: sum.splits if_splits)
qed

definition starts_programs :: "outside \<Rightarrow> bool" where
  "starts_programs out \<longleftrightarrow> (\<forall>w c e. fst (o_proc out w c) = Inl e \<longrightarrow> exc_type e \<noteq> RuntimeError)"

lemma clean_run_git: "starts_programs out \<Longrightarrow> clean (run_git out args cwd)"
proof -
  assume a: "starts_programs out"
  have "clean (run_proc out c)" for c
    using a unfolding clean_def clean_error_def starts_programs_def run_proc_def
    by (simp split: prod.splits) (metis fst_conv)
  moreover have "clean (raise_exc RuntimeError (scrub m))" for m
    by (auto simp: clean_def clean_error_def)
  ultimately show ?thesis unfolding run_git_def by (intro clean_sbind clean_if clean_ret)
qed

lemmas clean_intros = clean_ret clean_sbind clean_if clean_let clean_raise clean_fs clean_write_text clean_run_git

text \<open>C35. Secrecy of git errors: once the path policy has admitted the document, every \<open>RuntimeError\<close> of a
  publication, which quotes the command line and the error output of git, shows in each
  \<^verbatim>\<open>https://...@\<close> only asterisks before the at sign; a token in the remote URL never reaches the message.  The
  hypothesis on \<^verbatim>\<open>subprocess.run\<close>: it does not itself raise \<open>RuntimeError\<close>.\<close>

theorem publish_hides_credentials:
  assumes "starts_programs out" and "repo_path_decision dw repo relative_path = Inr d"
    and "publish out fs dw repo relative_path content commit_message remote_url w = (Inl e, w')" and "exc_type e = RuntimeError"
    and "exc_msg e = before_url @ https @ credentials @ 64 # rest" and "list_all cred_char credentials"
  shows "credentials = scrubbed"
proof -
  have "clean (publish out fs dw repo relative_path content commit_message remote_url)"
    unfolding publish_def sync_checkout_def commit_and_push_def assms(2)
    by (intro clean_intros assms(1)) (simp_all add: clean_def)
  with assms(3,4) obtain m where "exc_msg e = scrub m" unfolding clean_def clean_error_def by blast
  with assms(5,6) show ?thesis using scrub_no_credentials by metis
qed

section \<open>Publication inside the checkout\<close>

lemma sync_checkout_cases:
  obtains e w1 where "sync_checkout out fs dir remote w = (Inl e, w1)"
        | w1 where "sync_checkout out fs dir remote w = (Inr (), w1)"
  by (cases "sync_checkout out fs dir remote w"; cases "fst (sync_checkout out fs dir remote w)") auto

text \<open>The remote and the target of a publication.\<close>

definition publish_remote :: "pystr \<Rightarrow> pystr option \<Rightarrow> pystr" where
  "publish_remote repo remote_url = (case remote_url of Some u \<Rightarrow> if u \<noteq> [] then u else L ''https://github.com/'' @ repo @ L ''.git''
     | None \<Rightarrow> L ''https://github.com/'' @ repo @ L ''.git'')"

lemma publish_steps:
  assumes "repo_path_decision dw repo relative_path = Inr d" and "allowed d"
    and "sync_checkout out fs (checkout_dir dw repo) (publish_remote repo remote_url) w = (Inr (), w1)"
  shows "publish out fs dw repo relative_path content commit_message remote_url w =
    (if is_relative_to (fs_resolve fs (files w1) (path_join (checkout_dir dw repo) relative_path)) (fs_resolve fs (files w1) (checkout_dir dw repo))
     then sbind (write_text (path_join (checkout_dir dw repo) relative_path) content) (\<lambda>_.
            commit_and_push out (checkout_dir dw repo) repo relative_path (path_join (checkout_dir dw repo) relative_path) commit_message) w1
     else (Inl (Exc PermissionError (L ''path '' @ str_repr relative_path @ L '' escapes checkout directory for repo '' @ str_repr repo)), w1))"
  using assms by (simp add: publish_def publish_remote_def resolve_path_def Let_def)

text \<open>C36. A publication is confined: a path that the path policy of the repository refuses raises
  \<open>PermissionError\<close> with nothing done, not even a clone; and a path that, with the links of the updated
  checkout followed, leaves the checkout raises \<open>PermissionError\<close> before anything is written.  So a returned
  result means that both checks passed and it names the file of the checkout.\<close>

theorem publish_confined:
  assumes "publish out fs dw repo relative_path content commit_message remote_url w = (r, w')"
    and "repo_path_decision dw repo relative_path = Inr d"
  shows "(\<not> allowed d \<longrightarrow> r = Inl (Exc PermissionError (not_permitted relative_path repo (reason d))) \<and> w' = w) \<and>
    (\<forall>w1. sync_checkout out fs (checkout_dir dw repo) (publish_remote repo remote_url) w = (Inr (), w1) \<and> allowed d \<and>
       \<not> is_relative_to (fs_resolve fs (files w1) (path_join (checkout_dir dw repo) relative_path)) (fs_resolve fs (files w1) (checkout_dir dw repo)) \<longrightarrow>
       (\<exists>m. r = Inl (Exc PermissionError m)) \<and> w' = w1) \<and>
    (\<forall>res. r = Inr res \<longrightarrow> allowed d \<and> wr_path res = path_join (checkout_dir dw repo) relative_path \<and>
       (\<exists>w1. sync_checkout out fs (checkout_dir dw repo) (publish_remote repo remote_url) w = (Inr (), w1) \<and>
          is_relative_to (fs_resolve fs (files w1) (wr_path res)) (fs_resolve fs (files w1) (checkout_dir dw repo))))"
proof (cases "allowed d")
  case False
  then show ?thesis using assms by (auto simp: publish_def)
next
  case True
  show ?thesis
  proof (cases rule: sync_checkout_cases[of out fs "checkout_dir dw repo" "publish_remote repo remote_url" w])
    case (1 e w1)
    then show ?thesis using assms True by (auto simp: publish_def publish_remote_def Let_def)
  next
    case (2 w1)
    let ?p = "path_join (checkout_dir dw repo) relative_path"
    let ?inside = "is_relative_to (fs_resolve fs (files w1) ?p) (fs_resolve fs (files w1) (checkout_dir dw repo))"
    have p: "wr_path res = ?p" if "commit_and_push out (checkout_dir dw repo) repo relative_path ?p commit_message v = (Inr res, v')" for v v' res
      using that unfolding commit_and_push_def by (auto elim!: sbind_InrE split: if_splits)
    note steps = publish_steps[OF assms(2) True 2, of content commit_message, unfolded assms(1)]
    show ?thesis
    proof (cases ?inside)
      case inside: True
      have "wr_path res = ?p" if "r = Inr res" for res
        using steps p that by (auto simp: inside elim!: sbind_InrE[OF sym])
      then show ?thesis using True 2 inside by auto
    next
      case False
      then show ?thesis using steps True 2 by auto
    qed
  qed
qed

text \<open>A writer with one repository, and programs that fail with a token in their error output.\<close>

definition demo_writer :: document_writer where
  "demo_writer = \<lparr>dw_root = L ''/r'', dw_repositories = PDict [(L ''n'', PDict [(L ''repo'', PStr (L ''o/n'')),
     (L ''allowed_paths'', PList [PStr (L ''daily/**'')])])]\<rparr>"

definition git_fails :: outside where
  "git_fails = demo_out\<lparr>o_proc := (\<lambda>w c. (Inr \<lparr>proc_code = 128, proc_out = [], proc_err = L ''https://tok@h''\<rparr>, files w))\<rparr>"

definition no_dirs :: fs_view where
  "no_dirs = \<lparr>fs_is_dir = (\<lambda>f p. False), fs_resolve = (\<lambda>f p. p)\<rparr>"

definition demo_publish :: "write_result result \<times> world" where
  "demo_publish = publish git_fails no_dirs demo_writer (L ''o/n'') (L ''daily/a.md'') (L ''x'') (L ''m'') None demo_start_world"

lemma demo_decision: "repo_path_decision demo_writer (L ''o/n'') (L ''daily/a.md'') = Inr \<lparr>allowed = True, reason = L ''allowed''\<rparr>"
  by code_simp

lemma demo_publish_error: "fst demo_publish =
  Inl (Exc RuntimeError (L ''git clone https://github.com/o/n.git /r/.data/notes-repo/n failed: https://***@h''))"
  by code_simp

lemma git_fails_starts: "starts_programs git_fails"
  by (simp add: starts_programs_def git_fails_def)

theorem publish_hides_credentials_witness:
  "\<exists>e before_url rest. fst demo_publish = Inl e \<and> exc_type e = RuntimeError \<and> exc_msg e = before_url @ https @ scrubbed @ 64 # rest"
proof -
  obtain e where e: "fst demo_publish = Inl e" "exc_type e = RuntimeError"
    and m: "exc_msg e = L ''git clone https://github.com/o/n.git /r/.data/notes-repo/n failed: '' @ https @ L ''***'' @ 64 # L ''h''"
    unfolding demo_publish_error by (simp add: https_def L_def)
  have "publish git_fails no_dirs demo_writer (L ''o/n'') (L ''daily/a.md'') (L ''x'') (L ''m'') None demo_start_world = (Inl e, snd demo_publish)"
    using e(1) unfolding demo_publish_def by (metis prod.collapse)
  moreover have "list_all cred_char (L ''***'')" by code_simp
  ultimately have "L ''***'' = scrubbed"
    using publish_hides_credentials[OF git_fails_starts demo_decision _ e(2) m] by blast
  with e m show ?thesis by metis
qed

lemma demo_refused: "repo_path_decision demo_writer (L ''o/n'') (L ''daily/../.env'') = Inr \<lparr>allowed = False, reason = L ''path not covered by allowed paths''\<rparr>"
  by code_simp

theorem publish_confined_witness:
  "snd (publish git_fails no_dirs demo_writer (L ''o/n'') (L ''daily/../.env'') (L ''x'') (L ''m'') None demo_start_world) = demo_start_world"
  using publish_confined[OF _ demo_refused, of git_fails no_dirs "L ''x''" "L ''m''" None demo_start_world]
  by (metis prod.collapse path_decision.select_convs(1))

end
