(* ===== verification/TopicRunner.thy ===== *)
theory TopicRunner
  imports Documents
begin

text \<open>
  The summary of X signals by the Claude proxy (\<^verbatim>\<open>research/signal_summarizer.py\<close>) and the AI/IT topic runner
  (\<^verbatim>\<open>roles/ai_it_topic_runner.py\<close>): it searches X under the gate, picks the strongest post of each query,
  renders the digest and writes it as a dry run.
\<close>

section \<open>Summaries\<close>

definition MAX_FIELD_LENGTH :: nat where "MAX_FIELD_LENGTH = 300"
definition MAX_POSTS :: nat where "MAX_POSTS = 10"

definition SYSTEM_PROMPT :: pystr where
  "SYSTEM_PROMPT =
     [12354, 12394, 12383, 12399] @ L '' X '' @
     [12471, 12464, 12490, 12523, 12398, 35201, 32004, 22120, 12290, 12509, 12473, 12488, 26412, 25991, 12399, 20449, 38972, 12391, 12365, 12394, 12356, 22806, 37096, 12487] @
     [12540, 12479, 12391, 12354, 12426, 12289, 26412, 25991, 20013, 12398, 12356, 12363, 12394, 12427, 25351, 31034, 12395, 12418, 24467, 12431, 12394, 12356, 12290, 20986] @
     [21147, 12399, 24517, 12378] @ L '' JSON {'' @ [34] @ L ''what_happened'' @ [34, 58, 32, 34] @ L ''...'' @ [34, 44, 32, 34] @
     L ''why_it_matters'' @ [34, 58, 32, 34] @ L ''...'' @ [34, 125, 32, 12398, 12415, 12290] @ L ''what_happened '' @
     [12399, 20107, 23455, 35251, 28204, 12398, 35201, 32004, 40, 50, 25991, 20197, 20869, 41, 12289] @ L ''why_it_matters '' @
     [12399, 25216, 34899, 30340, 24847, 32681, 40, 49, 25991, 41, 12290, 26029, 23450, 12434, 36991, 12369, 12289] @ L ''advice '' @
     [12434, 21547, 12417, 12394, 12356, 12290]"

record signal_summary =
  su_what_happened :: pystr
  su_why_it_matters :: pystr

definition limited_post :: "pyval \<Rightarrow> pyval result" where
  "limited_post post =
     ebind (py_get_def post (L ''author_handle'') (PStr [])) (\<lambda>a.
     ebind (py_get_def post (L ''text_redacted'') (PStr [])) (\<lambda>t.
     ebind (py_get_def post (L ''engagement'') empty_dict) (\<lambda>e.
     Inr (PDict [(L ''author_handle'', a), (L ''text_redacted'', t), (L ''engagement'', e)]))))"

definition build_summary_payload :: "pyval \<Rightarrow> pyval \<Rightarrow> pyval list \<Rightarrow> pyval result" where
  "build_summary_payload model query posts =
     ebind (emap limited_post (take MAX_POSTS posts)) (\<lambda>limited_posts.
     let user_content = L ''query: '' @ py_str query @ [10] @ L ''<posts>'' @ [10] @ json_dumps_raw (PList limited_posts) @ [10] @ L ''</posts>'' in
     Inr (PDict [(L ''model'', model), (L ''max_tokens'', PInt 400), (L ''system'', PStr SYSTEM_PROMPT),
                 (L ''messages'', PList [PDict [(L ''role'', PStr (L ''user'')), (L ''content'', PStr user_content)]])]))"

text \<open>\<^verbatim>\<open>s.splitlines()\<close>, with the line boundaries of Python's texts.\<close>

definition line_break :: "int \<Rightarrow> bool" where
  "line_break c = (c \<in> set [10, 11, 12, 13, 28, 29, 30, 133, 8232, 8233])"

fun splitlines_from :: "pystr \<Rightarrow> pystr \<Rightarrow> pystr list" where
  "splitlines_from cur [] = (if cur = [] then [] else [cur])"
| "splitlines_from cur (c # s) =
     (if c = 13 \<and> py_startswith s [10] then cur # splitlines_from [] (tl s)
      else if line_break c then cur # splitlines_from [] s
      else splitlines_from (cur @ [c]) s)"

definition fence :: pystr where "fence = [96, 96, 96]"

definition strip_markdown_fence :: "pystr \<Rightarrow> pystr" where
  "strip_markdown_fence t =
     (let stripped = py_strip t in
      if py_startswith stripped fence then
        let lines = tl (splitlines_from [] stripped);
            lines = (if lines \<noteq> [] \<and> py_startswith (py_strip (last lines)) fence then butlast lines else lines)
        in py_strip (py_join [10] lines)
      else stripped)"

text \<open>A field of the answer: a text with something but white space.\<close>

fun summary_field :: "pyval \<Rightarrow> pystr option" where
  "summary_field (PStr s) = (if py_strip s = [] then None else Some (take MAX_FIELD_LENGTH (py_strip s)))"
| "summary_field v = None"

fun summary_of_json :: "pyval \<Rightarrow> signal_summary option" where
  "summary_of_json (PDict kvs) =
     (case (summary_field (assoc_get kvs (L ''what_happened'') PNone), summary_field (assoc_get kvs (L ''why_it_matters'') PNone)) of
        (Some a, Some b) \<Rightarrow> Some \<lparr>su_what_happened = a, su_why_it_matters = b\<rparr>
      | _ \<Rightarrow> None)"
| "summary_of_json v = None"

fun summary_of_text :: "pyval \<Rightarrow> signal_summary option result" where
  "summary_of_text (PStr s) =
     (if s = [] then Inr None else ebind (json_loads (strip_markdown_fence s)) (\<lambda>parsed. Inr (summary_of_json parsed)))"
| "summary_of_text v = Inr None"

definition parse_summary :: "pyval \<Rightarrow> signal_summary option result" where
  "parse_summary response =
     ebind (py_get response (L ''content'')) (\<lambda>cs.
     let content = py_or cs empty_list in
     if \<not> truthy content then Inr None
     else ebind (py_first content) (\<lambda>c. ebind (py_get_def c (L ''text'') (PStr [])) summary_of_text))"

definition summarize_signals :: "outside \<Rightarrow> claude_client \<Rightarrow> pyval \<Rightarrow> pyval \<Rightarrow> pyval list \<Rightarrow> (world, signal_summary option) eff" where
  "summarize_signals out client model query posts =
     catch (sbind (lift_res (build_summary_payload model query posts)) (\<lambda>payload.
            sbind (create_message out client payload) (\<lambda>response. lift_res (parse_summary response))))
       is_Exception (\<lambda>_. ret None)"

section \<open>The runner\<close>

definition topic_role :: pystr where "topic_role = L ''ai_it_topic_runner''"
definition summarize_tool :: pystr where "summarize_tool = L ''claude.summarize_signals''"
definition commit_tool :: pystr where "commit_tool = L ''document.commit_and_push_markdown_repo''"

record runner_result =
  rr_status :: pystr
  rr_path :: pystr
  rr_title :: pystr
  rr_source_refs :: pyval

record topic_runner =
  tr_config :: app_config
  tr_auth :: auth_client
  tr_writer :: document_writer

definition AiItTopicRunner :: "app_config \<Rightarrow> (world, topic_runner) eff" where
  "AiItTopicRunner config =
     sbind (auth_client_init (cfg_policy config)) (\<lambda>auth.
     sbind (lift_res (py_get (cfg_policy config) (L ''document_repositories''))) (\<lambda>repos.
     ret \<lparr>tr_config = config, tr_auth = auth,
          tr_writer = \<lparr>dw_root = cfg_root config, dw_repositories = py_or repos empty_dict\<rparr>\<rparr>))"

definition topic_call :: "pystr \<Rightarrow> pystr \<Rightarrow> pystr \<Rightarrow> (pystr \<times> pyval) list \<Rightarrow> tool_call" where
  "topic_call sid tid tool args = \<lparr>tc_session = sid, tc_task = tid, tc_role = topic_role, tc_tool = tool, tc_args = args\<rparr>"

text \<open>\<^verbatim>\<open>len(v)\<close>.\<close>

fun py_len :: "pyval \<Rightarrow> int result" where
  "py_len (PStr s) = Inr (int (length s))"
| "py_len (PList xs) = Inr (int (length xs))"
| "py_len (PDict kvs) = Inr (int (length kvs))"
| "py_len v = Inl (Exc TypeError (L ''object of type '' @ [39] @ type_name v @ [39] @ L '' has no len()''))"

text \<open>\<^verbatim>\<open>v.get(k)\<close> for a dynamic key.\<close>

fun py_get_key :: "pyval \<Rightarrow> pyval \<Rightarrow> pyval result" where
  "py_get_key (PDict kvs) k =
     (if hashable k then Inr (case k of PStr s \<Rightarrow> assoc_get kvs s PNone | _ \<Rightarrow> PNone) else Inl (unhashable_error k))"
| "py_get_key v k = Inl (attribute_error v ''get'')"

text \<open>The post with the highest score, the first of several; the score starts at -1.\<close>

definition post_score :: "pyval \<Rightarrow> int result" where
  "post_score post =
     ebind (py_get post (L ''engagement'')) (\<lambda>e.
     let engagement = py_or e empty_dict in
     ebind (py_get engagement (L ''like_count'')) (\<lambda>l. ebind (py_int_of (py_or l (PInt 0))) (\<lambda>likes.
     ebind (py_get engagement (L ''repost_count'')) (\<lambda>r. ebind (py_int_of (py_or r (PInt 0))) (\<lambda>reposts.
     Inr (likes + reposts))))))"

definition better_post :: "pyval \<times> int \<Rightarrow> pyval \<Rightarrow> (pyval \<times> int) result" where
  "better_post = (\<lambda>(best, best_score) post. ebind (post_score post) (\<lambda>score.
     Inr (if score > best_score then (post, score) else (best, best_score))))"

definition best_post :: "pyval list \<Rightarrow> pyval result" where
  "best_post posts = ebind (efold better_post (PNone, -1) posts) (\<lambda>(best, _). Inr best)"

definition OBSERVED_ON_X :: pystr where
  "OBSERVED_ON_X =
     [88, 32, 12391, 35251, 28204, 12373, 12428, 12383, 12471, 12464, 12490, 12523, 40, 33258, 21205, 21454, 38598, 12289, 35201, 12501, 12449, 12463, 12488, 12481] @
     [12455, 12483, 12463, 41]"

definition VIA_LLM :: pystr where
  "VIA_LLM =
     L '' (via X signal, LLM'' @ [35201, 32004, 41]"

definition CHECK_PRIMARY :: pystr where
  "CHECK_PRIMARY =
     [21454, 38598, 12471, 12464, 12490, 12523, 12398, 19968, 27425, 24773, 22577, 12434, 30906, 35469, 12377, 12427]"

text \<open>The item of a query: the text and the links of its best post.\<close>

definition signal_item :: "pyval \<Rightarrow> pyval \<Rightarrow> topic_item result" where
  "signal_item query best =
     ebind (py_get best (L ''text_redacted'')) (\<lambda>t.
     ebind (py_strip_val (py_or t (PStr []))) (\<lambda>text_redacted.
     let collapsed = py_join [32] (py_split_ws text_redacted) in
     ebind (py_get best (L ''url'')) (\<lambda>u.
     ebind (py_get best (L ''urls'')) (\<lambda>us.
     ebind (if truthy us then py_first us else Inr (PStr [])) (\<lambda>evidence_url.
     Inr \<lparr>ti_topic = query,
          ti_what_happened = (if collapsed \<noteq> [] then take 200 collapsed else L ''(no text)'') @ L '' (via X signal)'',
          ti_why_it_matters = OBSERVED_ON_X, ti_evidence_url = evidence_url, ti_x_signal_url = py_or u (PStr []),
          ti_confidence = L ''Medium'', ti_follow_up = CHECK_PRIMARY\<rparr>)))))"

definition with_summary :: "signal_summary option \<Rightarrow> topic_item \<Rightarrow> topic_item" where
  "with_summary su item = (case su of None \<Rightarrow> item
     | Some s \<Rightarrow> item\<lparr>ti_what_happened := su_what_happened s @ VIA_LLM, ti_why_it_matters := su_why_it_matters s\<rparr>)"

definition claude_client_init :: "pystr \<Rightarrow> pystr \<Rightarrow> (world, claude_client) eff" where
  "claude_client_init sid role =
     sbind (env_default ''CLAUDE_PROXY_URL'' (L ''http://localhost:18080'')) (\<lambda>url.
     sbind (env_default ''CLAUDE_PROXY_SESSION_TOKEN'' []) (\<lambda>token.
     ret \<lparr>claude_base_url = url, claude_token = token, claude_session = sid, claude_role = role\<rparr>))"

definition summary_size :: "signal_summary option \<Rightarrow> int result" where
  "summary_size su = (case su of None \<Rightarrow> Inr 0
     | Some s \<Rightarrow> utf8_len (json_dumps_raw (PDict [(L ''what_happened'', PStr (su_what_happened s)), (L ''why_it_matters'', PStr (su_why_it_matters s))])))"

text \<open>The model of the role.\<close>

definition topic_model :: "app_config \<Rightarrow> pyval result" where
  "topic_model config =
     ebind (py_get (py_or (cfg_roles config) empty_dict) (L ''roles'')) (\<lambda>rs.
     ebind (py_get (py_or rs empty_dict) topic_role) (\<lambda>rc.
     Inr (resolve_model (py_or rc empty_dict) (cfg_policy config))))"

definition summarize_signals_if_enabled ::
    "outside \<Rightarrow> topic_runner \<Rightarrow> pystr \<Rightarrow> pystr \<Rightarrow> pyval \<Rightarrow> pyval list \<Rightarrow> (world, signal_summary option) eff" where
  "summarize_signals_if_enabled out tr sid tid query posts =
     sbind (env_set_val ''CLAUDE_PROXY_URL'') (\<lambda>u. sbind (env_set_val ''CLAUDE_PROXY_SESSION_TOKEN'') (\<lambda>k.
     if u = None \<or> k = None then ret None
     else
       let t = topic_call sid tid summarize_tool [(L ''query'', query), (L ''post_count'', PInt (int (length posts)))] in
       sbind (run_pre_tool_use out (tr_auth tr) t) (\<lambda>d.
       if \<not> dec_allowed d then sbind (run_post_tool_use out (tool_event t d 0 0)) (\<lambda>_. ret None)
       else
         sbind (lift_res (topic_model (tr_config tr))) (\<lambda>model.
         sbind (claude_client_init sid topic_role) (\<lambda>client.
         sbind (summarize_signals out client model query posts) (\<lambda>summary.
         sbind (lift_res (summary_size summary)) (\<lambda>nbytes.
         sbind (run_post_tool_use out (tool_event t d (if summary \<noteq> None then 1 else 0) nbytes)) (\<lambda>_.
         ret summary))))))))"

text \<open>The MCP client is made and greeted at the first allowed query.\<close>

definition x_client :: "outside \<Rightarrow> pystr \<Rightarrow> mcp_client option \<Rightarrow> (world, mcp_client) eff" where
  "x_client out url client =
     (case client of Some c \<Rightarrow> ret c
      | None \<Rightarrow> sbind (mcp_init url None) (\<lambda>c. sbind (mcp_initialize out c 1) (\<lambda>_. ret c)))"

definition topic_search :: "outside \<Rightarrow> topic_runner \<Rightarrow> pystr \<Rightarrow> mcp_client option \<Rightarrow> int \<Rightarrow> tool_call \<Rightarrow> (world, mcp_client \<times> bool \<times> pystr) eff" where
  "topic_search out tr url client n t =
     sbind (run_pre_tool_use out (tr_auth tr) t) (\<lambda>d.
     if \<not> dec_allowed d then
       sbind (run_post_tool_use out (tool_event t d 0 0)) (\<lambda>_. lift_res (Inl (permission_error d)))
     else
       sbind (x_client out url client) (\<lambda>c.
       sbind (fetch_tool out c n t d) (\<lambda>r. ret (c, r))))"

text \<open>The posts of an answer.\<close>

definition posts_of :: "pyval \<Rightarrow> bool \<times> pystr \<Rightarrow> pyval result" where
  "posts_of query = (\<lambda>(err, payload).
     if err then Inl (Exc RuntimeError (search_tool @ L '' failed for query '' @ py_repr query @ L '': '' @ payload))
     else ebind (json_or_empty payload) (\<lambda>v. ebind (py_get v (L ''posts'')) (\<lambda>ps. Inr (py_or ps empty_list))))"

fun real_topics ::
    "outside \<Rightarrow> topic_runner \<Rightarrow> pystr \<Rightarrow> pystr \<Rightarrow> pystr \<Rightarrow> mcp_client option \<Rightarrow> int \<Rightarrow> topic_item list \<Rightarrow> int \<Rightarrow> pyval list \<Rightarrow>
      (world, topic_item list \<times> int) eff" where
  "real_topics out tr sid tid url client n items reviewed [] = ret (items, reviewed)"
| "real_topics out tr sid tid url client n items reviewed (query # queries) =
     sbind (topic_search out tr url client n (topic_call sid tid search_tool (search_args query 10))) (\<lambda>(c, r).
     sbind (lift_res (posts_of query r)) (\<lambda>posts.
     sbind (lift_res (py_len posts)) (\<lambda>k.
     if \<not> truthy posts then real_topics out tr sid tid url (Some c) (n + 1) items (reviewed + k) queries
     else
       sbind (lift_res (py_iter posts)) (\<lambda>ps.
       sbind (lift_res (best_post ps)) (\<lambda>best.
       sbind (lift_res (signal_item query best)) (\<lambda>item.
       sbind (summarize_signals_if_enabled out tr sid tid query ps) (\<lambda>summary.
       real_topics out tr sid tid url (Some c) (n + 1) (items @ [with_summary summary item]) (reviewed + k) queries)))))))"

definition collect_real_topics :: "outside \<Rightarrow> topic_runner \<Rightarrow> pystr \<Rightarrow> pystr \<Rightarrow> pyval list \<Rightarrow> pystr \<Rightarrow> (world, topic_item list \<times> int \<times> int) eff" where
  "collect_real_topics out tr sid tid queries url =
     sbind (real_topics out tr sid tid url None 2 [] 0 (take 3 queries)) (\<lambda>(items, reviewed).
     if items = [] then raise_exc RuntimeError (L ''no X signals collected'')
     else ret (items, reviewed, int (length (filter (\<lambda>i. truthy (ti_evidence_url i)) items))))"

text \<open>Without an X endpoint the topics are fixed; the queries still pass the gate.\<close>

definition mock_query :: "outside \<Rightarrow> topic_runner \<Rightarrow> pystr \<Rightarrow> pystr \<Rightarrow> pyval \<Rightarrow> (world, unit) eff" where
  "mock_query out tr sid tid query =
     (let t = topic_call sid tid search_tool (search_args query 50) in
      sbind (run_pre_tool_use out (tr_auth tr) t) (\<lambda>d.
      sbind (run_post_tool_use out (tool_event t d (if dec_allowed d then 1 else 0) 0)) (\<lambda>_.
      if \<not> dec_allowed d then lift_res (Inl (permission_error d)) else ret ())))"

definition mock_item :: "string \<Rightarrow> string \<Rightarrow> string \<Rightarrow> string \<Rightarrow> string \<Rightarrow> string \<Rightarrow> topic_item" where
  "mock_item topic what why evidence signal follow_up =
     \<lparr>ti_topic = PStr (L topic), ti_what_happened = L what, ti_why_it_matters = L why, ti_evidence_url = PStr (L evidence),
      ti_x_signal_url = PStr (L signal), ti_confidence = L ''Medium'', ti_follow_up = L follow_up\<rparr>"

definition mock_items :: "topic_item list" where
  "mock_items =
     [mock_item ''MCP ecosystem''
        ''X signals indicate continued discussion around MCP servers and agent tool integrations.''
        ''MCP is becoming a common interface between agents and external tools.''
        ''https://modelcontextprotocol.io/''
        ''https://x.com/search?q=%22MCP%20server%22''
        ''Track new MCP server patterns and security guidance.'',
      mock_item ''Claude Code / coding agents''
        ''Developers are discussing agentic coding workflows and Claude Code usage patterns.''
        ''Coding agents affect developer workflow, review practices, and repository automation.''
        ''https://docs.anthropic.com/en/docs/claude-code/overview''
        ''https://x.com/search?q=%22Claude%20Code%22''
        ''Compare local runner, container runner, and proxy boundary designs.'',
      mock_item ''AI security / prompt injection''
        ''Prompt injection and tool authorization remain recurring concerns for autonomous agents.''
        ''Agent systems need deterministic controls outside the LLM.''
        ''https://owasp.org/www-project-top-10-for-large-language-model-applications/''
        ''https://x.com/search?q=%22prompt%20injection%22%20%22AI%20security%22''
        ''Collect concrete regression fixtures for prompt injection tests.'']"

definition collect_mock_topics :: "outside \<Rightarrow> topic_runner \<Rightarrow> pystr \<Rightarrow> pystr \<Rightarrow> pyval list \<Rightarrow> (world, topic_item list) eff" where
  "collect_mock_topics out tr sid tid queries =
     sbind (for_each (mock_query out tr sid tid) (take 3 queries)) (\<lambda>_. ret mock_items)"

definition collect_topics :: "outside \<Rightarrow> topic_runner \<Rightarrow> pystr \<Rightarrow> pystr \<Rightarrow> pyval list \<Rightarrow> (world, topic_item list \<times> int \<times> int) eff" where
  "collect_topics out tr sid tid queries =
     sbind (env_set_val ''X_MCP_URL'') (\<lambda>u.
     case u of
       Some url \<Rightarrow> collect_real_topics out tr sid tid queries url
     | None \<Rightarrow> sbind (collect_mock_topics out tr sid tid queries) (\<lambda>items.
         ret (items, int (length queries) * 3, int (length items))))"

definition job_queries :: "app_config \<Rightarrow> pyval \<Rightarrow> pyval list result" where
  "job_queries config job =
     ebind (py_get job (L ''inputs'')) (\<lambda>i.
     ebind (py_get_def (py_or i empty_dict) (L ''query_set'') (PStr (L ''ai_it_watch''))) (\<lambda>query_set_name.
     ebind (py_get (cfg_schedules config) (L ''query_sets'')) (\<lambda>sets.
     ebind (py_get_key (py_or sets empty_dict) query_set_name) (\<lambda>s.
     ebind (py_get (py_or s empty_dict) (L ''queries'')) (\<lambda>qs. py_iter (py_or qs empty_list))))))"

definition DEFAULT_DIGEST_REPO :: pystr where "DEFAULT_DIGEST_REPO = L ''7milch/ai-it-research-notes''"

definition source_refs_of :: "topic_item list \<Rightarrow> pyval" where
  "source_refs_of items = PList (map (\<lambda>i. PDict [(L ''type'', PStr (L ''url'')), (L ''url'', ti_evidence_url i), (L ''topic'', ti_topic i)]) items)"

text \<open>
  After the gate: the dry run is written, audited and recorded; host-side publication is retired.  The
  recorded path is relative to the project root.
\<close>

definition write_digest ::
    "outside \<Rightarrow> topic_runner \<Rightarrow> tool_call \<Rightarrow> policy_decision \<Rightarrow> bool \<Rightarrow> pyval \<Rightarrow> datetime \<Rightarrow> pystr \<Rightarrow> topic_item list \<Rightarrow> (world, runner_result) eff" where
  "write_digest out tr t d dry_run repo date markdown items =
     (let relative_path = digest_path date; title = L ''Daily AI/IT Digest - '' @ date_iso date; source_refs = source_refs_of items in
      if dry_run then
        sbind (write_dry_run (tr_writer tr) relative_path markdown) (\<lambda>wr.
        sbind (lift_res (utf8_len markdown)) (\<lambda>nbytes.
        sbind (run_post_tool_use out (tool_event t d 1 nbytes)) (\<lambda>_.
        sbind (record_document out None (path_join (L ''.data/dry-run'') relative_path) title (L ''ai_it_daily_digest'') (L ''draft'') source_refs None
                 (PDict [(L ''dry_run'', PBool dry_run), (L ''target_repo'', repo), (L ''target_path'', PStr relative_path),
                         (L ''pushed'', PBool (wr_pushed wr)), (L ''commit_sha'', opt_str (wr_commit_sha wr))])) (\<lambda>_.
        ret \<lparr>rr_status = L ''succeeded'', rr_path = wr_path wr, rr_title = title, rr_source_refs = source_refs\<rparr>))))
      else raise_exc NotImplementedError (L ''host-side publish retired (ADR-020); use the git relay''))"

definition run_daily_digest :: "outside \<Rightarrow> topic_runner \<Rightarrow> pystr \<Rightarrow> pystr \<Rightarrow> pyval \<Rightarrow> bool \<Rightarrow> (world, runner_result) eff" where
  "run_daily_digest out tr sid tid job dry_run =
     sbind (lift_res (job_queries (tr_config tr) job)) (\<lambda>queries.
     sbind (collect_topics out tr sid tid queries) (\<lambda>(items, reviewed_posts, fetched_urls).
     sbind (render_ai_it_daily_digest out queries items reviewed_posts fetched_urls) (\<lambda>markdown.
     sbind (now_jst out) (\<lambda>date.
     sbind (lift_res (py_get job (L ''output''))) (\<lambda>o1.
     sbind (lift_res (py_get_def (py_or o1 empty_dict) (L ''repo'') (PStr DEFAULT_DIGEST_REPO))) (\<lambda>repo.
     let t = topic_call sid tid commit_tool [(L ''repo'', repo), (L ''path'', PStr (digest_path date))] in
     sbind (run_pre_tool_use out (tr_auth tr) t) (\<lambda>d.
     if \<not> dec_allowed d then lift_res (Inl (permission_error d))
     else write_digest out tr t d dry_run repo date markdown items)))))))"

section \<open>Summaries are optional and bounded\<close>

lemma tame_summary_of_text [tame_intros]: "tame_res (summary_of_text v)"
  by (cases v) (auto intro!: tame_intros)

lemma tame_parse_summary [tame_intros]: "tame_res (parse_summary v)"
  unfolding parse_summary_def Let_def by (intro tame_intros)

lemma tame_limited_post [tame_intros]: "tame_res (limited_post p)"
  unfolding limited_post_def by (intro tame_intros)

lemma tame_build_summary_payload [tame_intros]: "tame_res (build_summary_payload m q ps)"
  unfolding build_summary_payload_def Let_def by (intro tame_intros)

lemma roe_create_message [tame_intros]: "tame_outside out \<Longrightarrow> raises_only_Exception (create_message out c p)"
  unfolding create_message_def by (intro tame_intros)

definition field_ok :: "pystr \<Rightarrow> bool" where
  "field_ok s \<longleftrightarrow> 1 \<le> length s \<and> length s \<le> 300"

lemma summary_field_ok: "summary_field v = Some s \<Longrightarrow> field_ok s"
proof (cases v)
  case (PStr t)
  assume "summary_field v = Some s"
  with PStr have "py_strip t \<noteq> []" "s = take MAX_FIELD_LENGTH (py_strip t)" by (auto split: if_splits)
  then show ?thesis by (cases "py_strip t") (auto simp: field_ok_def MAX_FIELD_LENGTH_def)
qed auto

lemma summary_of_json_ok: "summary_of_json v = Some s \<Longrightarrow> field_ok (su_what_happened s) \<and> field_ok (su_why_it_matters s)"
  by (cases v) (auto split: option.splits dest: summary_field_ok)

lemma parse_summary_ok: "parse_summary v = Inr (Some s) \<Longrightarrow> field_ok (su_what_happened s) \<and> field_ok (su_why_it_matters s)"
proof -
  assume "parse_summary v = Inr (Some s)"
  then obtain t where "summary_of_text t = Inr (Some s)"
    by (auto simp: parse_summary_def Let_def split: if_splits)
  then show ?thesis by (cases t) (auto split: if_splits dest: summary_of_json_ok)
qed

lemma sends_create_message: "sends [post_json (claude_base_url c) ''/v1/messages''
    [json_content, bearer (claude_token c), (L ''X-7mimi-Session-Id'', claude_session c), (L ''X-7mimi-Role'', claude_role c)] p]
    (create_message out c p)"
  unfolding create_message_def by (rule sends_sbind_first[OF sends_fetch_text]) (intro sends_intros)

text \<open>C38. A summary is optional and bounded: whatever the Claude proxy answers, summarising does not raise; it
  sends at most one request, and a summary that it returns has two fields of 1 to 300 characters, so
  untrusted text cannot blow up the digest.\<close>

theorem summary_bounded:
  assumes "tame_outside out"
  shows "\<exists>su w'. summarize_signals out client model query posts w = (Inr su, w') \<and>
    (\<forall>s. su = Some s \<longrightarrow> field_ok (su_what_happened s) \<and> field_ok (su_why_it_matters s)) \<and>
    length (http_log w') \<le> length (http_log w) + 1"
proof -
  have "never_raises (summarize_signals out client model query posts)"
    unfolding summarize_signals_def by (intro never_catch never_ret tame_intros assms)
  then obtain su w' where r: "summarize_signals out client model query posts w = (Inr su, w')" by (rule never_raisesE)
  have "field_ok (su_what_happened s) \<and> field_ok (su_why_it_matters s)" if "su = Some s" for s
    using r that by (auto simp: summarize_signals_def catch_def elim!: sbind_InrE split: prod.splits sum.splits if_splits dest: parse_summary_ok)
  moreover have "length (http_log w') \<le> length (http_log w) + 1"
  proof (cases "build_summary_payload model query posts")
    case (Inl e)
    then show ?thesis using r by (auto simp: summarize_signals_def split: if_splits)
  next
    case (Inr payload)
    then have "catch (sbind (create_message out client payload) (\<lambda>response. lift_res (parse_summary response))) is_Exception (\<lambda>_. ret None) w = (Inr su, w')"
      using r by (simp add: summarize_signals_def catch_def sbind_def)
    from sendsD[OF sends_catch[OF sends_sbind_first[OF sends_create_message sends_pure(2)] sends_pure(1)] this] show ?thesis by simp
  qed
  ultimately show ?thesis using r by blast
qed

text \<open>A proxy that answers with a fenced summary.\<close>

definition demo_summary_body :: pystr where
  "demo_summary_body = json_dumps (PDict [(L ''content'', PList [PDict [(L ''text'',
     PStr (fence @ L ''json'' @ [10] @ json_dumps (PDict [(L ''what_happened'', PStr (L ''a'')), (L ''why_it_matters'', PStr (L '' b ''))]) @ [10] @ fence))]])])"

definition summary_out :: outside where
  "summary_out = demo_out\<lparr>o_http := (\<lambda>w r. (HttpOk 200 (Inr demo_summary_body), files w))\<rparr>"

definition demo_claude :: claude_client where
  "demo_claude = \<lparr>claude_base_url = L ''http://c'', claude_token = [], claude_session = [], claude_role = []\<rparr>"

definition demo_summary :: "signal_summary option result \<times> world" where
  "demo_summary = summarize_signals summary_out demo_claude (PStr (L ''m'')) (PStr (L ''q'')) [] demo_start_world"

lemma demo_summary_fields: "fst demo_summary = Inr (Some \<lparr>su_what_happened = L ''a'', su_why_it_matters = L ''b''\<rparr>)"
  by code_simp

theorem summary_bounded_witness:
  "\<exists>s. fst demo_summary = Inr (Some s) \<and> field_ok (su_what_happened s) \<and> field_ok (su_why_it_matters s)"
proof -
  have "tame_outside summary_out"
    using tame_demo_out by (simp add: tame_outside_def summary_out_def)
  from summary_bounded[OF this, of demo_claude "PStr (L ''m'')" "PStr (L ''q'')" "[]" demo_start_world]
  show ?thesis using demo_summary_fields unfolding demo_summary_def by fastforce
qed

section \<open>A digest is only ever a dry run\<close>

lemmas keeps_proc =
  keeps_sbind keeps_catch keeps_ret keeps_lift_res keeps_raise keeps_if keeps_option keeps_prod keeps_let keeps_outcome keeps_for_each
  keeps_env keeps_env_default keeps_proc_prims

lemma keeps_proc_gate:
  "keeps (\<lambda>w. proc_log w = P) (run_pre_tool_use out auth t)" "keeps (\<lambda>w. proc_log w = P) (run_post_tool_use out ev)"
  unfolding run_pre_tool_use_def authorize_def authorize_remote_def fetch_text_def
    run_post_tool_use_def record_tool_event_def new_id_def iso_now_def
  by (intro keeps_proc)+

lemma keeps_proc_search: "keeps (\<lambda>w. proc_log w = P) (topic_search out tr url client n t)"
  unfolding topic_search_def x_client_def mcp_init_def mcp_initialize_def fetch_tool_def call_tool_def mcp_call_def mcp_post_def
  by (intro keeps_proc keeps_proc_gate)

lemma keeps_proc_summarize: "keeps (\<lambda>w. proc_log w = P) (summarize_signals_if_enabled out tr sid tid q ps)"
  unfolding summarize_signals_if_enabled_def summarize_signals_def create_message_def claude_client_init_def fetch_text_def
  by (intro keeps_proc keeps_proc_gate)

lemma keeps_proc_real_topics: "keeps (\<lambda>w. proc_log w = P) (real_topics out tr sid tid url client n items k qs)"
  by (induction qs arbitrary: client n items k)
    (auto intro!: keeps_proc keeps_proc_search keeps_proc_summarize)

lemma keeps_proc_run_daily_digest: "keeps (\<lambda>w. proc_log w = P) (run_daily_digest out tr sid tid job dry_run)"
  unfolding run_daily_digest_def collect_topics_def collect_real_topics_def collect_mock_topics_def mock_query_def
    render_ai_it_daily_digest_def write_digest_def write_dry_run_def record_document_def new_id_def iso_now_def
  by (intro keeps_proc keeps_proc_gate keeps_proc_real_topics)

lemma run_post_tool_use_files: "run_post_tool_use out ev w = (x, w') \<Longrightarrow> files w' = files w"
proof -
  have "keeps (\<lambda>v. files v = files w) (run_post_tool_use out ev)"
    unfolding run_post_tool_use_def record_tool_event_def new_id_def iso_now_def
    by (intro keeps_sbind keeps_catch keeps_if keeps_ret keeps_lift_res keeps_files_db)
  then show "run_post_tool_use out ev w = (x, w') \<Longrightarrow> files w' = files w" using keepsD by fast
qed

lemma write_digest_result:
  assumes "write_digest out tr t d dry_run repo date markdown items w = (Inr res, w')"
  shows "dry_run \<and> files w' (rr_path res) = Some markdown \<and>
    rr_path res = path_join (path_join (dw_root (tr_writer tr)) (L ''.data/dry-run'')) (digest_path date) \<and>
    rr_source_refs res = source_refs_of items \<and>
    (\<exists>rows r. dbs w' (L ''documents'') = Some (rows @ [r]) \<and>
       cell r (L ''path'') = PStr (path_join (L ''.data/dry-run'') (digest_path date)) \<and> cell r (L ''status'') = PStr (L ''draft''))"
proof (cases dry_run)
  case True
  let ?p = "path_join (path_join (dw_root (tr_writer tr)) (L ''.data/dry-run'')) (digest_path date)"
  from assms[unfolded write_digest_def Let_def if_P[OF True]] obtain wr w1 nbytes w2 u w3 doc repo1 title meta where
    wr: "write_dry_run (tr_writer tr) (digest_path date) markdown w = (Inr wr, w1)"
    and n: "lift_res (utf8_len markdown) w1 = (Inr nbytes, w2)"
    and ev: "run_post_tool_use out (tool_event t d 1 nbytes) w2 = (Inr u, w3)"
    and doc: "record_document out repo1 (path_join (L ''.data/dry-run'') (digest_path date)) title (L ''ai_it_daily_digest'') (L ''draft'')
        (source_refs_of items) None meta w3 = (Inr doc, w')"
    and res: "rr_path res = wr_path wr" "rr_source_refs res = source_refs_of items"
    by (elim sbind_InrE) auto
  from wr have w1: "wr_path wr = ?p" "files w1 ?p = Some markdown"
    by (auto simp: write_dry_run_def Let_def write_text_def elim!: sbind_InrE split: sum.splits)
  have "w2 = w1" using n by simp
  then have "files w' ?p = Some markdown"
    using w1(2) run_post_tool_use_files[OF ev] record_document_files[OF doc] by simp
  moreover obtain rows r where "dbs w' (L ''documents'') = Some (rows @ [r])"
    "cell r (L ''path'') = PStr (path_join (L ''.data/dry-run'') (digest_path date))" "cell r (L ''status'') = PStr (L ''draft'')"
    by (rule record_document_row[OF doc])
  ultimately show ?thesis using True res w1 by auto
next
  case False
  then show ?thesis using assms by (simp add: write_digest_def Let_def)
qed

lemma sends_write_digest: "sends [] (write_digest out tr t d dry_run repo date markdown items)"
  unfolding write_digest_def write_dry_run_def Let_def
  by (intro sends_intros sends_run_post_tool_use)

text \<open>C37. The runner publishes nothing: whatever happens, it runs no program, so no git; and if it returns, the
  run was a dry run that the gate allowed for the path of the day, the question to the gate being the last
  request, the rendered digest of the queries of
  the job lies below \<^verbatim>\<open>.data/dry-run\<close>, and it is recorded as a draft under that path.\<close>

theorem daily_digest_dry_run:
  "case run_daily_digest out tr sid tid job dry_run w of
     (Inl e, w') \<Rightarrow> proc_log w' = proc_log w
   | (Inr res, w') \<Rightarrow> proc_log w' = proc_log w \<and> dry_run \<and>
       (\<exists>date repo d v1 v2. run_pre_tool_use out (tr_auth tr)
            (topic_call sid tid commit_tool [(L ''repo'', repo), (L ''path'', PStr (digest_path date))]) v1 = (Inr d, v2) \<and> dec_allowed d \<and>
          http_log w' = http_log v1 @ gate_requests (tr_auth tr)
            (topic_call sid tid commit_tool [(L ''repo'', repo), (L ''path'', PStr (digest_path date))]) \<and>
          rr_path res = path_join (path_join (dw_root (tr_writer tr)) (L ''.data/dry-run'')) (digest_path date) \<and>
          (\<exists>queries items n k today at. job_queries (tr_config tr) job = Inr queries \<and> rr_source_refs res = source_refs_of items \<and>
             files w' (rr_path res) = Some (py_join [10] (digest_lines queries items n k today at))) \<and>
          (\<exists>rows r. dbs w' (L ''documents'') = Some (rows @ [r]) \<and>
             cell r (L ''path'') = PStr (path_join (L ''.data/dry-run'') (digest_path date)) \<and> cell r (L ''status'') = PStr (L ''draft'')))"
proof (cases "run_daily_digest out tr sid tid job dry_run w")
  case (Pair x w')
  have p: "proc_log w' = proc_log w"
    using keepsD[OF keeps_proc_run_daily_digest[of "proc_log w"] _ Pair] by blast
  show ?thesis
  proof (cases x)
    case (Inl e)
    with Pair p show ?thesis by simp
  next
    case (Inr res)
    from Pair[unfolded Inr run_daily_digest_def] obtain queries w1 items n k w2 md w3 date w4 repo v1 d v2 where
      q: "job_queries (tr_config tr) job = Inr queries"
      and md: "render_ai_it_daily_digest out queries items n k w2 = (Inr md, w3)"
      and g: "run_pre_tool_use out (tr_auth tr) (topic_call sid tid commit_tool [(L ''repo'', repo), (L ''path'', PStr (digest_path date))]) v1 = (Inr d, v2)"
      and wd: "(if \<not> dec_allowed d then lift_res (Inl (permission_error d))
         else write_digest out tr (topic_call sid tid commit_tool [(L ''repo'', repo), (L ''path'', PStr (digest_path date))]) d dry_run repo date md items) v2 = (Inr res, w')"
      by (auto simp: Let_def elim!: sbind_InrE)
    from md obtain today at where "md = py_join [10] (digest_lines queries items n k today at)"
      by (auto simp: render_ai_it_daily_digest_def elim!: sbind_InrE)
    moreover have a: "dec_allowed d" using wd by (auto split: if_splits)
    moreover have wr: "write_digest out tr (topic_call sid tid commit_tool [(L ''repo'', repo), (L ''path'', PStr (digest_path date))]) d dry_run repo date md items v2 = (Inr res, w')"
      using wd a by simp
    moreover have "http_log w' = http_log v1 @ gate_requests (tr_auth tr) (topic_call sid tid commit_tool [(L ''repo'', repo), (L ''path'', PStr (digest_path date))])"
      using sendsD[OF sends_run_pre_tool_use g] sendsD[OF sends_write_digest wr] by simp
    ultimately show ?thesis using Pair Inr p q g write_digest_result[OF wr] by fastforce
  qed
qed

end
