(* ===== verification/Runners.thy ===== *)
theory Runners
  imports TopicRunner
begin

text \<open>
  The runner backends: in the process (\<^verbatim>\<open>runner/backend.py\<close>, \<^verbatim>\<open>runner/local_runner.py\<close>), in a container
  (\<^verbatim>\<open>runner/container_runner.py\<close>) and as a Job of the cluster (\<^verbatim>\<open>runner/kubernetes_runner.py\<close>).
\<close>

section \<open>Tasks\<close>

record runner_task =
  rt_job_name :: pystr
  rt_job :: pyval
  rt_session_id :: pystr
  rt_task_id :: pystr
  rt_role :: pyval
  rt_dry_run :: bool

record exec_result =
  xr_status :: pyval
  xr_payload :: pyval

definition runner_payload :: "runner_result \<Rightarrow> pyval" where
  "runner_payload r = PDict [(L ''status'', PStr (rr_status r)), (L ''path'', PStr (rr_path r)), (L ''title'', PStr (rr_title r)),
     (L ''source_refs'', rr_source_refs r)]"

definition execute_runner_task :: "outside \<Rightarrow> app_config \<Rightarrow> runner_task \<Rightarrow> (world, exec_result) eff" where
  "execute_runner_task out config task =
     (if \<not> py_eq (rt_role task) (PStr topic_role)
      then raise_exc NotImplementedError (L ''runner currently supports ai_it_topic_runner only, got '' @ py_str (rt_role task))
      else
        sbind (AiItTopicRunner config) (\<lambda>runner.
        sbind (run_daily_digest out runner (rt_session_id task) (rt_task_id task) (rt_job task) (rt_dry_run task)) (\<lambda>r.
        ret \<lparr>xr_status = PStr (rr_status r), xr_payload = runner_payload r\<rparr>)))"

definition local_run_task :: "outside \<Rightarrow> app_config \<Rightarrow> runner_task \<Rightarrow> (world, exec_result) eff" where
  "local_run_task out config task = execute_runner_task out config task"

text \<open>\<^verbatim>\<open>RunnerExecutionResult(status=payload.get("status", "unknown"), payload=payload)\<close>.\<close>

definition result_of_payload :: "pyval \<Rightarrow> exec_result result" where
  "result_of_payload payload =
     ebind (py_get_def payload (L ''status'') (PStr (L ''unknown''))) (\<lambda>s. Inr \<lparr>xr_status = s, xr_payload = payload\<rparr>)"

section \<open>The allowlist of variables\<close>

text \<open>The tokens are forwarded only if they are set.\<close>

definition add_token :: "string \<Rightarrow> (pystr \<times> pyval) list \<Rightarrow> (world, (pystr \<times> pyval) list) eff" where
  "add_token k env = sbind (env_set_val k) (\<lambda>v. ret (case v of None \<Rightarrow> env | Some x \<Rightarrow> dict_set (L k) (PStr x) env))"

definition add_tokens :: "(pystr \<times> pyval) list \<Rightarrow> (world, (pystr \<times> pyval) list) eff" where
  "add_tokens env = sbind (add_token ''CLAUDE_PROXY_SESSION_TOKEN'' env) (add_token ''AUTH_PROXY_SESSION_TOKEN'')"

definition container_env :: "runner_task \<Rightarrow> (world, (pystr \<times> pyval) list) eff" where
  "container_env task =
     sbind (env_default ''CLAUDE_PROXY_URL'' (L ''http://host.docker.internal:18080'')) (\<lambda>claude.
     sbind (env_default ''AUTH_PROXY_URL'' (L ''http://host.docker.internal:18081'')) (\<lambda>auth.
     add_tokens
       [(L ''SESSION_ID'', PStr (rt_session_id task)), (L ''ROLE'', rt_role task),
        (L ''WORKSPACE_DIR'', PStr (L ''/workspace/.sessions/'' @ rt_session_id task @ L ''/workspace'')),
        (L ''PYTHONPATH'', PStr (L ''/workspace/src'')), (L ''CLAUDE_PROXY_URL'', PStr claude), (L ''AUTH_PROXY_URL'', PStr auth)]))"

definition kubernetes_env :: "runner_task \<Rightarrow> (world, (pystr \<times> pyval) list) eff" where
  "kubernetes_env task =
     sbind (env_default ''CLAUDE_PROXY_URL'' (L ''http://claude-proxy:18080'')) (\<lambda>claude.
     sbind (env_default ''AUTH_PROXY_URL'' (L ''http://auth-proxy:18081'')) (\<lambda>auth.
     add_tokens
       [(L ''SESSION_ID'', PStr (rt_session_id task)), (L ''ROLE'', rt_role task),
        (L ''WORKSPACE_DIR'', PStr (L ''/app/.sessions/'' @ rt_session_id task @ L ''/workspace'')),
        (L ''PYTHONPATH'', PStr (L ''/app/src'')), (L ''CLAUDE_PROXY_URL'', PStr claude), (L ''AUTH_PROXY_URL'', PStr auth),
        (L ''HOME'', PStr (L ''/tmp''))]))"

section \<open>The container backend\<close>

record container_options =
  co_image :: pystr
  co_docker_bin :: pystr
  co_network :: pystr
  co_memory :: pystr
  co_pids_limit :: int

definition ContainerRunnerOptions :: container_options where
  "ContainerRunnerOptions = \<lparr>co_image = L ''7mimi-agent-runner:latest'', co_docker_bin = L ''docker'', co_network = L ''none'',
     co_memory = L ''2g'', co_pids_limit = 256\<rparr>"

definition execute_args :: "runner_task \<Rightarrow> string \<Rightarrow> pystr list" where
  "execute_args task root =
     [L ''-m'', L ''shichimimi_agent'', L ''runner-execute'', rt_job_name task, L ''--session-id'', rt_session_id task,
      L ''--task-id'', rt_task_id task, L ''--runner-root'', L root] @ (if rt_dry_run task then [L ''--dry-run''] else [])"

definition container_command :: "container_options \<Rightarrow> pystr \<Rightarrow> runner_task \<Rightarrow> (pystr \<times> pyval) list \<Rightarrow> pystr list" where
  "container_command opts root task env =
     [co_docker_bin opts, L ''run'', L ''--rm'', L ''--name'', L ''7mimi-agent-'' @ rt_session_id task, L ''--network'', co_network opts,
      L ''--memory'', co_memory opts, L ''--pids-limit'', int_str (co_pids_limit opts), L ''-v'', root @ L '':/workspace'',
      L ''-w'', L ''/workspace''] @
     concat (map (\<lambda>(k, v). [L ''-e'', k @ L ''='' @ py_str v]) env) @
     [co_image opts, L ''python''] @ execute_args task ''/workspace''"

definition container_result :: "proc_result \<Rightarrow> (world, exec_result) eff" where
  "container_result completed =
     (if proc_code completed \<noteq> 0 then
        sbind (if proc_out completed \<noteq> [] then print_out (proc_out completed) else ret ()) (\<lambda>_.
        sbind (if proc_err completed \<noteq> [] then print_stderr (proc_err completed) else ret ()) (\<lambda>_.
        raise_exc RuntimeError (L ''container runner failed with exit code '' @ int_str (proc_code completed))))
      else
        sbind (catch (lift_res (json_loads (proc_out completed))) (\<lambda>e. exc_type e = JSONDecodeError)
                 (\<lambda>_. raise_exc RuntimeError (L ''container runner returned non-JSON output: '' @ take 500 (proc_out completed)))) (\<lambda>payload.
        lift_res (result_of_payload payload)))"

definition container_run_task :: "outside \<Rightarrow> container_options \<Rightarrow> pystr \<Rightarrow> runner_task \<Rightarrow> (world, exec_result) eff" where
  "container_run_task out opts root task =
     sbind (container_env task) (\<lambda>env.
     sbind (run_proc out \<lparr>proc_argv = container_command opts root task env, proc_cwd = Some root, proc_env = None, proc_timeout = None\<rparr>)
       container_result)"

section \<open>The Kubernetes backend\<close>

record runner_options = k8s_options +
  r_configmap_name :: "pystr option"
  r_configmap_volume_name :: pystr
  r_self_pod_name :: "pystr option"
  r_self_pod_namespace :: "pystr option"

definition KubernetesRunnerOptions :: "(world, runner_options) eff" where
  "KubernetesRunnerOptions =
     sbind (env_default ''RUNNER_IMAGE'' (L ''ghcr.io/7milch/7mimi-agent-agent-runner:latest'')) (\<lambda>image.
     sbind (env_set_val ''RUNNER_CONFIGMAP_NAME'') (\<lambda>configmap.
     sbind (env_set_val ''POD_NAME'') (\<lambda>pod.
     sbind (env_set_val ''POD_NAMESPACE'') (\<lambda>pod_ns.
     sbind (env_default ''RUNNER_PVC_NAME'' (L ''7mimi-agent-data'')) (\<lambda>pvc.
     sbind (env_default ''RUNNER_NODE_HOSTNAME'' (L ''john-cooper-works'')) (\<lambda>node.
     sbind (env_default ''RUNNER_IMAGE_PULL_SECRET'' (L ''ghcr-pull-secret'')) (\<lambda>secret.
     sbind (env_int ''RUNNER_UID'' ''10001'') (\<lambda>uid.
     sbind (env_int ''RUNNER_GID'' ''10001'') (\<lambda>gid.
     ret \<lparr>k_image = image, k_namespace = None, k_pvc_name = pvc, k_node_hostname = node, k_image_pull_secret = secret,
          k_run_as_user = uid, k_run_as_group = gid, k_memory_limit = L ''2Gi'', k_api_server = DEFAULT_API_SERVER,
          k_ca_cert_path = path_join SA_DIR (L ''ca.crt''), k_token_path = path_join SA_DIR (L ''token''),
          k_namespace_path = path_join SA_DIR (L ''namespace''), k_poll_interval = 5, k_timeout = 900, k_ttl = 600,
          k_runner_label = L ''7mimi-agent-runner'', k_job_name_prefix = L ''7mimi-agent-runner'',
          r_configmap_name = configmap, r_configmap_volume_name = L ''config'', r_self_pod_name = pod, r_self_pod_namespace = pod_ns\<rparr>)))))))))"

text \<open>The name of the mounted ConfigMap among the volumes of a Pod.\<close>

fun find_configmap :: "pystr \<Rightarrow> pyval list \<Rightarrow> pyval option result" where
  "find_configmap vol [] = Inr None"
| "find_configmap vol (v # vs) =
     ebind (py_get v (L ''name'')) (\<lambda>n.
     if py_eq n (PStr vol) then
       ebind (py_get v (L ''configMap'')) (\<lambda>c.
       ebind (py_get (py_or c empty_dict) (L ''name'')) (\<lambda>m.
       if truthy m then Inr (Some m) else find_configmap vol vs))
     else find_configmap vol vs)"

text \<open>An option that is set and not empty.\<close>

definition if_set :: "pystr option \<Rightarrow> pystr option" where
  "if_set x = (if x = Some [] then None else x)"

text \<open>\<^verbatim>\<open>_resolve_configmap_name\<close>, with the cache of the object.\<close>

definition resolve_configmap_name :: "outside \<Rightarrow> runner_options \<Rightarrow> pyval option \<Rightarrow> (world, pyval) eff" where
  "resolve_configmap_name out opts cache =
     (case (if_set (r_configmap_name opts), cache, if_set (r_self_pod_name opts), if_set (r_self_pod_namespace opts)) of
        (Some n, _, _, _) \<Rightarrow> ret (PStr n)
      | (None, Some n, _, _) \<Rightarrow> ret n
      | (None, None, Some pod, Some ns) \<Rightarrow>
          sbind (api_request out opts ''GET'' (L ''/api/v1/namespaces/'' @ ns @ L ''/pods/'' @ pod) None) (\<lambda>p.
          sbind (lift_res (py_get p (L ''spec''))) (\<lambda>spec.
          sbind (lift_res (py_get (py_or spec empty_dict) (L ''volumes''))) (\<lambda>vols.
          sbind (lift_res (py_iter (py_or vols empty_list))) (\<lambda>vs.
          sbind (lift_res (find_configmap (r_configmap_volume_name opts) vs)) (\<lambda>m.
          case m of
            Some n \<Rightarrow> ret n
          | None \<Rightarrow> raise_exc RuntimeError (L ''pod '' @ ns @ [47] @ pod @ L '' has no '' @ [39] @ r_configmap_volume_name opts @ [39] @
              L '' configMap volume; cannot mount config into the runner Job''))))))
      | _ \<Rightarrow> raise_exc RuntimeError (L ''cannot resolve the runner ConfigMap name: neither RUNNER_CONFIGMAP_NAME nor POD_NAME/POD_NAMESPACE (Downward API) are set on this process''))"

definition any_env_json :: "(pystr \<times> pyval) list \<Rightarrow> pyval" where
  "any_env_json env = PList (map (\<lambda>(k, v). PDict [(L ''name'', PStr k), (L ''value'', v)]) env)"

definition runner_manifest :: "runner_options \<Rightarrow> pyval \<Rightarrow> pystr \<Rightarrow> runner_task \<Rightarrow> (pystr \<times> pyval) list \<Rightarrow> pyval" where
  "runner_manifest opts configmap ns task env =
     (let job_labels = [(''app.kubernetes.io/name'', k_runner_label opts), (''app.kubernetes.io/part-of'', L ''7mimi-agent'')] in
      PDict
       [(L ''apiVersion'', PStr (L ''batch/v1'')), (L ''kind'', PStr (L ''Job'')),
        (L ''metadata'', PDict
          [(L ''name'', PStr (k8s_job_name opts (rt_session_id task))), (L ''namespace'', PStr ns),
           (L ''labels'', str_dict (job_labels @ [(''shichimimi.io/session-id'', rt_session_id task)]))]),
        (L ''spec'', PDict
          [(L ''backoffLimit'', PInt 0), (L ''ttlSecondsAfterFinished'', PInt (k_ttl opts)),
           (L ''template'', PDict
             [(L ''metadata'', PDict [(L ''labels'', str_dict job_labels)]),
              (L ''spec'', PDict
                [(L ''restartPolicy'', PStr (L ''Never'')),
                 (L ''nodeSelector'', str_dict [(''kubernetes.io/hostname'', k_node_hostname opts)]),
                 (L ''imagePullSecrets'', PList [str_dict [(''name'', k_image_pull_secret opts)]]),
                 (L ''automountServiceAccountToken'', PBool False),
                 (L ''securityContext'', PDict
                   [(L ''runAsNonRoot'', PBool True), (L ''runAsUser'', PInt (k_run_as_user opts)), (L ''runAsGroup'', PInt (k_run_as_group opts)),
                    (L ''fsGroup'', PInt (k_run_as_group opts)), (L ''seccompProfile'', str_dict [(''type'', L ''RuntimeDefault'')])]),
                 (L ''containers'', PList [PDict
                   [(L ''name'', PStr (L ''runner'')), (L ''image'', PStr (k_image opts)),
                    (L ''command'', PList [PStr (L ''python'')]), (L ''args'', PList (map PStr (execute_args task ''/app''))),
                    (L ''env'', any_env_json env),
                    (L ''securityContext'', PDict [(L ''allowPrivilegeEscalation'', PBool False),
                       (L ''capabilities'', PDict [(L ''drop'', PList [PStr (L ''ALL'')])])]),
                    (L ''resources'', PDict [(L ''limits'', str_dict [(''memory'', k_memory_limit opts)]), (L ''requests'', str_dict [(''memory'', k_memory_limit opts)])]),
                    (L ''volumeMounts'', PList
                      [str_dict [(''name'', L ''config''), (''mountPath'', L ''/app/config'')],
                       str_dict [(''name'', L ''data''), (''mountPath'', L ''/app/.data''), (''subPath'', L ''data'')],
                       str_dict [(''name'', L ''sessions''), (''mountPath'', L ''/app/.sessions''), (''subPath'', L ''sessions'')]])]]),
                 (L ''volumes'', PList
                   [PDict [(L ''name'', PStr (L ''config'')), (L ''configMap'', PDict [(L ''name'', configmap)])],
                    PDict [(L ''name'', PStr (L ''data'')), (L ''persistentVolumeClaim'', str_dict [(''claimName'', k_pvc_name opts)])],
                    PDict [(L ''name'', PStr (L ''sessions'')), (L ''persistentVolumeClaim'', str_dict [(''claimName'', k_pvc_name opts)])]])])])])])"

definition result_path :: "pystr \<Rightarrow> pystr \<Rightarrow> pystr" where
  "result_path root sid = path_join (path_join (path_join root (L ''.sessions'')) sid) (L ''result.json'')"

text \<open>What the failed task itself reported, if it got that far.\<close>

definition reported_error :: "pystr \<Rightarrow> pyval \<Rightarrow> pystr" where
  "reported_error msg payload =
     (let error = (case payload of PDict kvs \<Rightarrow> assoc_get kvs (L ''error'') PNone | _ \<Rightarrow> PNone) in
      if \<not> truthy error then msg
      else let ty = (case error of PDict kvs \<Rightarrow> assoc_get kvs (L ''type'') (PStr (L ''Error'')) | _ \<Rightarrow> PStr (L ''Error''));
               m = (case error of PDict kvs \<Rightarrow> assoc_get kvs (L ''message'') (PStr []) | _ \<Rightarrow> PStr (py_str error))
           in msg @ L ''; runner-execute reported '' @ py_str ty @ L '': '' @ py_str m)"

definition augment_with_result_error :: "pystr \<Rightarrow> pystr \<Rightarrow> pystr \<Rightarrow> (world, pystr) eff" where
  "augment_with_result_error root sid msg =
     sbind (path_exists (result_path root sid)) (\<lambda>found.
     if \<not> found then ret msg
     else
       sbind (catch (sbind (read_text (result_path root sid)) (\<lambda>t. sbind (lift_res (json_loads t)) (\<lambda>v. ret (Some v))))
                (\<lambda>e. is_OSError e \<or> exc_type e = JSONDecodeError) (\<lambda>_. ret None)) (\<lambda>p.
       case p of None \<Rightarrow> ret msg | Some payload \<Rightarrow> ret (reported_error msg payload)))"

definition collect_runner_result :: "pystr \<Rightarrow> pystr \<Rightarrow> (world, exec_result) eff" where
  "collect_runner_result root sid =
     sbind (path_exists (result_path root sid)) (\<lambda>found.
     if \<not> found then raise_exc RuntimeError (L ''runner Job for session '' @ sid @ L '' completed but '' @ result_path root sid @ L '' was not written'')
     else
       sbind (read_text (result_path root sid)) (\<lambda>t.
       sbind (lift_res (json_loads t)) (\<lambda>payload. lift_res (result_of_payload payload))))"

definition kubernetes_run_task ::
    "nat \<Rightarrow> outside \<Rightarrow> runner_options \<Rightarrow> pystr option \<Rightarrow> pyval option \<Rightarrow> pystr \<Rightarrow> runner_task \<Rightarrow> (world, exec_result) eff" where
  "kubernetes_run_task fuel out opts ns_cache cm_cache root task =
     sbind (resolve_configmap_name out opts cm_cache) (\<lambda>configmap.
     sbind (namespace_of opts ns_cache) (\<lambda>(ns, _).
     sbind (kubernetes_env task) (\<lambda>env.
     let job_name = k8s_job_name opts (rt_session_id task) in
     sbind (api_request out opts ''POST'' (jobs_path ns) (Some (runner_manifest opts configmap ns task env))) (\<lambda>_.
     sbind (catch (wait_for_completion fuel out opts ns job_name None) is_RuntimeError
              (\<lambda>e. sbind (augment_with_result_error root (rt_session_id task) (exc_msg e)) (\<lambda>m. raise_exc RuntimeError m))) (\<lambda>_.
     collect_runner_result root (rt_session_id task))))))"

section \<open>Both kinds of Jobs are hardened alike\<close>

text \<open>The Pod template of a manifest and its only container.\<close>

definition pod_field :: "string \<Rightarrow> pyval \<Rightarrow> pyval result" where
  "pod_field k manifest =
     ebind (py_index manifest ''spec'') (\<lambda>s. ebind (py_index s ''template'') (\<lambda>t. ebind (py_index t ''spec'') (\<lambda>p. py_index p k)))"

definition container_field :: "string \<Rightarrow> pyval \<Rightarrow> pyval result" where
  "container_field k manifest = ebind (pod_field ''containers'' manifest) (\<lambda>cs. ebind (py_first cs) (\<lambda>c. py_index c k))"

definition pod_hardening :: "string list" where
  "pod_hardening = [''restartPolicy'', ''nodeSelector'', ''imagePullSecrets'', ''automountServiceAccountToken'', ''securityContext'']"

definition container_hardening :: "string list" where
  "container_hardening = [''image'', ''securityContext'', ''resources'']"

text \<open>The hardened fields as both manifests have them, for options \<open>o\<close>.\<close>

definition hardened_pod :: "'z k8s_options_scheme \<Rightarrow> (string \<times> pyval) list" where
  "hardened_pod opts =
     [(''restartPolicy'', PStr (L ''Never'')), (''nodeSelector'', str_dict [(''kubernetes.io/hostname'', k_node_hostname opts)]),
      (''imagePullSecrets'', PList [str_dict [(''name'', k_image_pull_secret opts)]]), (''automountServiceAccountToken'', PBool False),
      (''securityContext'', PDict
        [(L ''runAsNonRoot'', PBool True), (L ''runAsUser'', PInt (k_run_as_user opts)), (L ''runAsGroup'', PInt (k_run_as_group opts)),
         (L ''fsGroup'', PInt (k_run_as_group opts)), (L ''seccompProfile'', str_dict [(''type'', L ''RuntimeDefault'')])])]"

definition hardened_container :: "'z k8s_options_scheme \<Rightarrow> (string \<times> pyval) list" where
  "hardened_container opts =
     [(''image'', PStr (k_image opts)),
      (''securityContext'', PDict [(L ''allowPrivilegeEscalation'', PBool False), (L ''capabilities'', PDict [(L ''drop'', PList [PStr (L ''ALL'')])])]),
      (''resources'', PDict [(L ''limits'', str_dict [(''memory'', k_memory_limit opts)]), (L ''requests'', str_dict [(''memory'', k_memory_limit opts)])])]"

definition fields_are :: "(string \<Rightarrow> pyval result) \<Rightarrow> (string \<times> pyval) list \<Rightarrow> bool" where
  "fields_are f kvs = list_all (\<lambda>(k, v). f k = Inr v) kvs"

lemma fields_areD: "fields_are f kvs \<Longrightarrow> (k, v) \<in> set kvs \<Longrightarrow> f k = Inr v"
  by (auto simp: fields_are_def list_all_iff)

lemma runner_pod: "fields_are (\<lambda>k. pod_field k (runner_manifest opts cm ns task env)) (hardened_pod opts)"
  by (simp add: fields_are_def hardened_pod_def pod_field_def runner_manifest_def)

lemma runner_container: "fields_are (\<lambda>k. container_field k (runner_manifest opts cm ns task env)) (hardened_container opts)"
  by (simp add: fields_are_def hardened_container_def pod_field_def container_field_def runner_manifest_def)

lemma launcher_pod: "fields_are (\<lambda>k. pod_field k (launcher_manifest opts ns sid role ci env t)) (hardened_pod opts)"
  by (simp add: fields_are_def hardened_pod_def pod_field_def launcher_manifest_def)

lemma launcher_container: "fields_are (\<lambda>k. container_field k (launcher_manifest opts ns sid role ci env t)) (hardened_container opts)"
  by (simp add: fields_are_def hardened_container_def pod_field_def container_field_def launcher_manifest_def)

lemma hardened_truncate:
  assumes "k8s_options.truncate o1 = k8s_options.truncate o2"
  shows "hardened_pod o1 = hardened_pod o2" "hardened_container o1 = hardened_container o2"
  using assms by (simp_all add: k8s_options.truncate_def hardened_pod_def hardened_container_def)

text \<open>C39. Equivalence of the two Job manifests in what protects the cluster: for the same options the Job of a
  runner task and the Job of a Claude run have the same restart policy, node, pull secret, service
  account setting and security context of the Pod, and the same image, security context and memory
  limits of the container; and these are the restricted ones: no service account token, no root user,
  no privilege escalation, all capabilities dropped.\<close>

theorem jobs_hardened_alike:
  assumes "k8s_options.truncate ro = k8s_options.truncate lo"
  shows "(\<forall>k \<in> set pod_hardening. pod_field k (runner_manifest ro configmap ns task env) =
        pod_field k (launcher_manifest lo ns' sid role ci env' timeout)) \<and>
    (\<forall>k \<in> set container_hardening. container_field k (runner_manifest ro configmap ns task env) =
        container_field k (launcher_manifest lo ns' sid role ci env' timeout)) \<and>
    pod_field ''automountServiceAccountToken'' (runner_manifest ro configmap ns task env) = Inr (PBool False) \<and>
    ebind (pod_field ''securityContext'' (runner_manifest ro configmap ns task env)) (\<lambda>c. py_index c ''runAsNonRoot'') = Inr (PBool True) \<and>
    ebind (container_field ''securityContext'' (runner_manifest ro configmap ns task env)) (\<lambda>c. py_index c ''allowPrivilegeEscalation'') = Inr (PBool False) \<and>
    ebind (container_field ''securityContext'' (runner_manifest ro configmap ns task env)) (\<lambda>c. ebind (py_index c ''capabilities'') (\<lambda>d. py_index d ''drop'')) =
      Inr (PList [PStr (L ''ALL'')])"
proof (intro conjI ballI)
  note eq = hardened_truncate[OF assms]
  note rp = fields_areD[OF runner_pod] and lp = fields_areD[OF launcher_pod[of lo], folded eq]
    and rc = fields_areD[OF runner_container] and lc = fields_areD[OF launcher_container[of lo], folded eq]
  show "pod_field k (runner_manifest ro configmap ns task env) = pod_field k (launcher_manifest lo ns' sid role ci env' timeout)"
    if "k \<in> set pod_hardening" for k
  proof -
    have "k \<in> fst ` set (hardened_pod ro)" using that by (simp add: pod_hardening_def hardened_pod_def)
    then obtain v where v: "(k, v) \<in> set (hardened_pod ro)" by (rule imageE) (metis prod.collapse)
    show ?thesis unfolding rp[OF v] lp[OF v] ..
  qed
  show "container_field k (runner_manifest ro configmap ns task env) = container_field k (launcher_manifest lo ns' sid role ci env' timeout)"
    if "k \<in> set container_hardening" for k
  proof -
    have "k \<in> fst ` set (hardened_container ro)" using that by (simp add: container_hardening_def hardened_container_def)
    then obtain v where v: "(k, v) \<in> set (hardened_container ro)" by (rule imageE) (metis prod.collapse)
    show ?thesis unfolding rc[OF v] lc[OF v] ..
  qed
qed (simp_all add: pod_field_def container_field_def runner_manifest_def)

text \<open>The default options of both in an empty environment agree.\<close>

definition demo_runner :: runner_options where
  "demo_runner = k8s_options.extend (k8s_options.truncate demo_launcher)
     (runner_options.fields None (L ''config'') None None)"

theorem jobs_hardened_alike_witness:
  "pod_field ''securityContext'' (runner_manifest demo_runner PNone [] \<lparr>rt_job_name = [], rt_job = PNone, rt_session_id = [], rt_task_id = [], rt_role = PNone, rt_dry_run = True\<rparr> []) =
   pod_field ''securityContext'' (launcher_manifest demo_launcher [] [] [] demo_invocation [] 1)"
proof -
  have "k8s_options.truncate demo_runner = k8s_options.truncate demo_launcher"
    by (simp add: demo_runner_def demo_launcher_def k8s_options.defs runner_options.defs)
  from jobs_hardened_alike[OF this] show ?thesis by (simp only: pod_hardening_def list.set insert_iff simp_thms)
qed

section \<open>One allowlist of variables\<close>

text \<open>The variables that may reach a runner.\<close>

definition allowlist :: "pystr list" where
  "allowlist = map L [''SESSION_ID'', ''ROLE'', ''WORKSPACE_DIR'', ''PYTHONPATH'', ''CLAUDE_PROXY_URL'', ''AUTH_PROXY_URL'',
     ''CLAUDE_PROXY_SESSION_TOKEN'', ''AUTH_PROXY_SESSION_TOKEN'']"

definition set_token :: "world \<Rightarrow> string \<Rightarrow> (pystr \<times> pyval) list \<Rightarrow> (pystr \<times> pyval) list" where
  "set_token w k env = (case getenv_set w k of None \<Rightarrow> env | Some x \<Rightarrow> dict_set (L k) (PStr x) env)"

lemma add_tokens_run:
  "add_tokens env w = (Inr (set_token w ''AUTH_PROXY_SESSION_TOKEN'' (set_token w ''CLAUDE_PROXY_SESSION_TOKEN'' env)), w)"
  by (simp add: add_tokens_def add_token_def env_set_val_def set_token_def sbind_def)

lemma env_default_run: "env_default k d w = (Inr (case getenv w k of None \<Rightarrow> d | Some x \<Rightarrow> x), w)"
  by (simp add: env_default_def env_val_def sbind_def)

lemma keys_set_token: "fst ` set (set_token w k env) = fst ` set env \<union> (if getenv_set w k = None then {} else {L k})"
  by (auto simp: set_token_def keys_dict_set split: option.splits)

lemma map_of_set_token:
  "map_of (set_token w k env) x = (if x = L k \<and> getenv_set w k \<noteq> None then map_option PStr (getenv_set w k) else map_of env x)"
  by (auto simp: set_token_def split: option.splits)

text \<open>C40. One allowlist for both backends: the variables given to a container and to a Job come from the
  allowlist only, and a Job gets in addition only \<^verbatim>\<open>HOME\<close>; session, role and tokens have the same values
  in both, and a token is forwarded exactly when it is set.\<close>

theorem runner_env_allowlist:
  "\<exists>ce ke. container_env task w = (Inr ce, w) \<and> kubernetes_env task w = (Inr ke, w) \<and>
     fst ` set ce \<subseteq> set allowlist \<and> fst ` set ke = insert (L ''HOME'') (fst ` set ce) \<and>
     map (map_of ke \<circ> L) [''SESSION_ID'', ''ROLE'', ''CLAUDE_PROXY_SESSION_TOKEN'', ''AUTH_PROXY_SESSION_TOKEN''] =
     map (map_of ce \<circ> L) [''SESSION_ID'', ''ROLE'', ''CLAUDE_PROXY_SESSION_TOKEN'', ''AUTH_PROXY_SESSION_TOKEN''] \<and>
     (L ''CLAUDE_PROXY_SESSION_TOKEN'' \<in> fst ` set ce \<longleftrightarrow> getenv_set w ''CLAUDE_PROXY_SESSION_TOKEN'' \<noteq> None) \<and>
     (L ''AUTH_PROXY_SESSION_TOKEN'' \<in> fst ` set ce \<longleftrightarrow> getenv_set w ''AUTH_PROXY_SESSION_TOKEN'' \<noteq> None)"
proof (intro exI conjI)
  show "container_env task w = (Inr (set_token w ''AUTH_PROXY_SESSION_TOKEN'' (set_token w ''CLAUDE_PROXY_SESSION_TOKEN''
      [(L ''SESSION_ID'', PStr (rt_session_id task)), (L ''ROLE'', rt_role task),
       (L ''WORKSPACE_DIR'', PStr (L ''/workspace/.sessions/'' @ rt_session_id task @ L ''/workspace'')),
       (L ''PYTHONPATH'', PStr (L ''/workspace/src'')),
       (L ''CLAUDE_PROXY_URL'', PStr (case getenv w ''CLAUDE_PROXY_URL'' of None \<Rightarrow> L ''http://host.docker.internal:18080'' | Some x \<Rightarrow> x)),
       (L ''AUTH_PROXY_URL'', PStr (case getenv w ''AUTH_PROXY_URL'' of None \<Rightarrow> L ''http://host.docker.internal:18081'' | Some x \<Rightarrow> x))])), w)"
    by (simp add: container_env_def sbind_def env_default_run add_tokens_run)
  show "kubernetes_env task w = (Inr (set_token w ''AUTH_PROXY_SESSION_TOKEN'' (set_token w ''CLAUDE_PROXY_SESSION_TOKEN''
      [(L ''SESSION_ID'', PStr (rt_session_id task)), (L ''ROLE'', rt_role task),
       (L ''WORKSPACE_DIR'', PStr (L ''/app/.sessions/'' @ rt_session_id task @ L ''/workspace'')),
       (L ''PYTHONPATH'', PStr (L ''/app/src'')),
       (L ''CLAUDE_PROXY_URL'', PStr (case getenv w ''CLAUDE_PROXY_URL'' of None \<Rightarrow> L ''http://claude-proxy:18080'' | Some x \<Rightarrow> x)),
       (L ''AUTH_PROXY_URL'', PStr (case getenv w ''AUTH_PROXY_URL'' of None \<Rightarrow> L ''http://auth-proxy:18081'' | Some x \<Rightarrow> x)),
       (L ''HOME'', PStr (L ''/tmp''))])), w)"
    by (simp add: kubernetes_env_def sbind_def env_default_run add_tokens_run)
qed (auto simp: keys_set_token map_of_set_token allowlist_def)

end
