(* ===== verification/Smoke.thy ===== *)
theory Smoke
  imports Documents
begin

text \<open>
  The diagnostic run of Claude Code in a container (\<^verbatim>\<open>runner/claude_smoke.py\<close>).  The listing of the workspace
  directory is a parameter, since the model's files have no directories.
\<close>

section \<open>Definitions\<close>

definition SMOKE_PROMPT :: pystr where
  "SMOKE_PROMPT = L ''You are running a smoke test. Create a file named hello.md in the current '' @
     L ''directory containing a haiku about proxies, then list the directory contents. '' @ L ''Do nothing else.''"

definition SMOKE_ALLOWED_TOOLS :: pystr where
  "SMOKE_ALLOWED_TOOLS = L ''Write,Read,Bash(ls:*)''"

record smoke_options =
  so_image :: pystr
  so_docker_bin :: pystr
  so_network :: pystr
  so_memory :: pystr
  so_pids_limit :: int
  so_max_turns :: int
  so_timeout :: int
  so_model :: pystr

definition ClaudeSmokeOptions :: smoke_options where
  "ClaudeSmokeOptions = \<lparr>so_image = L ''7mimi-agent-runner:latest'', so_docker_bin = L ''docker'', so_network = L ''bridge'',
     so_memory = L ''2g'', so_pids_limit = 256, so_max_turns = 6, so_timeout = 300, so_model = L ''claude-haiku-4-5''\<rparr>"

record smoke_result =
  sm_exit_code :: int
  sm_stdout :: pystr
  sm_stderr :: pystr
  sm_workspace :: pystr

definition smoke_env :: "pystr \<Rightarrow> pystr \<Rightarrow> pystr \<Rightarrow> pystr \<Rightarrow> pystr \<Rightarrow> pystr \<Rightarrow> (pystr \<times> pystr) list" where
  "smoke_env url token session_id role model workspace_rel =
     [(L ''SESSION_ID'', session_id), (L ''ROLE'', role), (L ''ANTHROPIC_BASE_URL'', url), (L ''ANTHROPIC_AUTH_TOKEN'', token),
      (L ''ANTHROPIC_CUSTOM_HEADERS'', L ''X-7mimi-Session-Id: '' @ session_id @ [10] @ L ''X-7mimi-Role: '' @ role),
      (L ''ANTHROPIC_MODEL'', model), (L ''CLAUDE_CONFIG_DIR'', L ''/workspace/'' @ workspace_rel @ L ''/.claude-config''),
      (L ''HOME'', L ''/workspace/'' @ workspace_rel), (L ''DISABLE_TELEMETRY'', L ''1''), (L ''DISABLE_ERROR_REPORTING'', L ''1'')]"

text \<open>The git relay is wired when a proxy URL is set; then a token is needed.\<close>

definition smoke_git_env :: "(pystr \<times> pystr) list \<Rightarrow> (world, (pystr \<times> pystr) list) eff" where
  "smoke_git_env env =
     sbind (env_set_val ''GIT_PROXY_URL'') (\<lambda>u.
     case u of
       None \<Rightarrow> ret env
     | Some url \<Rightarrow>
         sbind (env_set_val ''GIT_PROXY_SESSION_TOKEN'') (\<lambda>t.
         case t of
           None \<Rightarrow> raise_exc ValueError (L ''GIT_PROXY_URL is set but GIT_PROXY_SESSION_TOKEN is missing; '' @
             L ''refusing to start the runner without a git relay session token.'')
         | Some token \<Rightarrow> ret (dict_update env (build_git_relay_env url token))))"

definition smoke_docker_command :: "pystr \<Rightarrow> pystr \<Rightarrow> pystr \<Rightarrow> pystr \<Rightarrow> pystr \<Rightarrow> smoke_options \<Rightarrow> (world, pystr list) eff" where
  "smoke_docker_command root session_id role workspace_rel prompt opts =
     sbind (env_default ''CLAUDE_PROXY_URL'' (L ''http://host.docker.internal:18080'')) (\<lambda>url.
     sbind (env_default ''CLAUDE_PROXY_SESSION_TOKEN'' (L ''cp_sess_dev'')) (\<lambda>token.
     sbind (smoke_git_env (smoke_env url token session_id role (so_model opts) workspace_rel)) (\<lambda>env.
     ret ([so_docker_bin opts, L ''run'', L ''--rm'', L ''--name'', L ''7mimi-claude-smoke-'' @ session_id, L ''--network'', so_network opts,
           L ''--add-host'', L ''host.docker.internal:host-gateway'', L ''--memory'', so_memory opts, L ''--pids-limit'', int_str (so_pids_limit opts),
           L ''-v'', root @ L '':/workspace'', L ''-w'', L ''/workspace/'' @ workspace_rel] @ env_args env @
          [so_image opts, L ''claude'', L ''-p'', prompt, L ''--output-format'', L ''json'', L ''--max-turns'', int_str (so_max_turns opts),
           L ''--allowedTools'', SMOKE_ALLOWED_TOOLS, L ''--permission-mode'', L ''acceptEdits'']))))"

text \<open>\<^verbatim>\<open>p.relative_to(q).as_posix()\<close> for resolved paths.\<close>

definition relative_posix :: "pystr \<Rightarrow> pystr \<Rightarrow> pystr result" where
  "relative_posix p q =
     (if is_relative_to p q then
        (let rest = drop (length (path_parts q)) (path_parts p) in Inr (if rest = [] then [46] else py_join [47] rest))
      else Inl (Exc ValueError (str_repr p @ L '' is not in the subpath of '' @ str_repr q)))"

definition run_claude_smoke ::
    "outside \<Rightarrow> sys_env \<Rightarrow> pystr \<Rightarrow> pystr \<Rightarrow> pystr \<Rightarrow> pystr \<Rightarrow> pystr \<Rightarrow> smoke_options option \<Rightarrow> (world, smoke_result) eff" where
  "run_claude_smoke out sys root session_id role workspace prompt opts0 =
     (let opts = (case opts0 of None \<Rightarrow> ClaudeSmokeOptions | Some x \<Rightarrow> x) in
      sbind (\<lambda>w. (relative_posix (sys_resolve sys w workspace) (sys_resolve sys w root), w)) (\<lambda>workspace_rel.
      sbind (smoke_docker_command root session_id role workspace_rel prompt opts) (\<lambda>cmd.
      sbind (run_proc out \<lparr>proc_argv = cmd, proc_cwd = Some root, proc_env = None, proc_timeout = Some (so_timeout opts)\<rparr>) (\<lambda>c.
      ret \<lparr>sm_exit_code = proc_code c, sm_stdout = proc_out c, sm_stderr = proc_err c, sm_workspace = workspace\<rparr>))))"

text \<open>\<^verbatim>\<open>v[:n]\<close>.\<close>

fun py_prefix :: "nat \<Rightarrow> pyval \<Rightarrow> pyval result" where
  "py_prefix n (PList xs) = Inr (PList (take n xs))"
| "py_prefix n (PStr s) = Inr (PStr (take n s))"
| "py_prefix n (PDict kvs) = Inl (Exc KeyError (L ''slice(None, '' @ int_str (int n) @ L '', None)''))"
| "py_prefix n v = Inl (Exc TypeError ([39] @ type_name v @ [39] @ L '' object is not subscriptable''))"

definition claude_result :: "pystr \<Rightarrow> pyval result" where
  "claude_result stdout =
     ebind (json_loads stdout) (\<lambda>payload.
     ebind (py_get payload (L ''subtype'')) (\<lambda>subtype.
     ebind (py_get payload (L ''num_turns'')) (\<lambda>turns.
     ebind (py_get payload (L ''total_cost_usd'')) (\<lambda>cost.
     ebind (py_get payload (L ''result'')) (\<lambda>r.
     ebind (py_prefix 500 (py_or r (PStr []))) (\<lambda>res.
     Inr (PDict [(L ''subtype'', subtype), (L ''num_turns'', turns), (L ''total_cost_usd'', cost), (L ''result'', res)])))))))"

definition summarize_result :: "(files \<Rightarrow> pystr \<Rightarrow> pystr list) \<Rightarrow> smoke_result \<Rightarrow> (world, pyval) eff" where
  "summarize_result listing r =
     sbind (catch (sbind (lift_res (claude_result (sm_stdout r))) (\<lambda>c. ret (L ''claude_result'', c)))
              (\<lambda>e. exc_type e = JSONDecodeError \<or> exc_type e = AttributeError)
              (\<lambda>_. ret (L ''raw_stdout'', PStr (take 1000 (sm_stdout r))))) (\<lambda>outcome.
     sbind (\<lambda>w. (Inr (listing (files w) (sm_workspace r)), w)) (\<lambda>artifacts.
     ret (PDict ([(L ''exit_code'', PInt (sm_exit_code r)), (L ''workspace'', PStr (sm_workspace r)), outcome] @
                 (if sm_stderr r \<noteq> [] then [(L ''stderr'', PStr (take 1000 (sm_stderr r)))] else []) @
                 [(L ''workspace_files'', PList (map PStr artifacts))]))))"

end
