(* ===== verification/StockResearch.thy ===== *)
theory StockResearch
  imports CollectX Config
begin

text \<open>
  \<^verbatim>\<open>runner/stock_research.py\<close>: the research memo on a stock.  Three J-Quants tools are called under the
  gate, an X search is made if possible, and the memo is written and recorded.
\<close>

section \<open>Calling the tools\<close>

definition stock_role :: pystr where "stock_role = L ''stock_researcher''"

definition jq_call :: "pystr \<Rightarrow> pystr \<Rightarrow> string \<Rightarrow> pystr \<Rightarrow> tool_call" where
  "jq_call sid tid tool code = \<lparr>tc_session = sid, tc_task = tid, tc_role = stock_role, tc_tool = L tool, tc_args = [(L ''code'', PStr code)]\<rparr>"

definition call_jq_tool :: "outside \<Rightarrow> auth_client \<Rightarrow> mcp_client \<Rightarrow> int \<Rightarrow> tool_call \<Rightarrow> (world, pyval) eff" where
  "call_jq_tool out auth client n t = sbind (gated_tool out auth client n t) (tool_json (tc_tool t))"

text \<open>
  The optional X search: every failure, a refusal of the gate included, gives no posts.  (The code returns
  at once after a refusal, here the exception of the gated call is swallowed: no effect lies between.)
\<close>

definition x_signal_call :: "pystr \<Rightarrow> pystr \<Rightarrow> pystr \<Rightarrow> tool_call" where
  "x_signal_call sid tid code = \<lparr>tc_session = sid, tc_task = tid, tc_role = stock_role, tc_tool = search_tool,
     tc_args = search_args (PStr (code @ [32, 26666])) 10\<rparr>"

definition try_collect_x_signal :: "outside \<Rightarrow> auth_client \<Rightarrow> mcp_client \<Rightarrow> int \<Rightarrow> pystr \<Rightarrow> pystr \<Rightarrow> pystr \<Rightarrow> (world, pyval) eff" where
  "try_collect_x_signal out auth client n sid tid code =
     catch (sbind (gated_tool out auth client n (x_signal_call sid tid code)) (\<lambda>(err, payload).
            if err then ret empty_list
            else sbind (lift_res (json_or_empty payload)) (\<lambda>v. sbind (lift_res (py_get v (L ''posts''))) (\<lambda>ps. ret (py_or ps empty_list)))))
       is_Exception (\<lambda>_. ret empty_list)"

section \<open>The memo\<close>

text \<open>\<^verbatim>\<open>v[-5:]\<close> and \<^verbatim>\<open>v[:5]\<close>.\<close>

fun py_last5 :: "pyval \<Rightarrow> pyval result" where
  "py_last5 (PList xs) = Inr (PList (drop (length xs - 5) xs))"
| "py_last5 (PStr s) = Inr (PStr (drop (length s - 5) s))"
| "py_last5 (PDict kvs) = Inl (Exc KeyError (L ''slice(-5, None, None)''))"
| "py_last5 v = Inl (Exc TypeError ([39] @ type_name v @ [39] @ L '' object is not subscriptable''))"

fun py_first5 :: "pyval \<Rightarrow> pyval list result" where
  "py_first5 (PList xs) = Inr (take 5 xs)"
| "py_first5 (PStr s) = Inr (map (\<lambda>c. PStr [c]) (take 5 s))"
| "py_first5 (PDict kvs) = Inl (Exc KeyError (L ''slice(None, 5, None)''))"
| "py_first5 v = Inl (Exc TypeError ([39] @ type_name v @ [39] @ L '' object is not subscriptable''))"

definition json_block :: "pyval \<Rightarrow> pystr list" where
  "json_block v = [L ''```json'', json_dumps_pretty v, L ''```'']"

definition no_data :: pystr where
  "no_data =
     [40, 12487, 12540, 12479, 12394, 12375, 41]"

definition x_not_evidence :: pystr where
  "x_not_evidence =
     [88, 32, 12509, 12473, 12488, 12399] @ L '' signal '' @ [12391, 12354, 12426, 12289] @ L ''evidence '' @
     [12392, 12375, 12390, 25201, 12431, 12394, 12356, 12371, 12392, 12290]"

definition x_not_collected :: pystr where
  "x_not_collected =
     [40, 21454, 38598, 12394, 12375, 12289, 12414, 12383, 12399, 26410, 30906, 35469, 41]"

text \<open>A section of data: its rows as they are, after the selection \<open>sel\<close>, or the remark that there are none.\<close>

definition data_section :: "pyval \<Rightarrow> string \<Rightarrow> (pyval \<Rightarrow> pyval result) \<Rightarrow> pystr list result" where
  "data_section v key sel =
     ebind (py_get v (L key)) (\<lambda>rows.
     let rows = py_or rows empty_list in
     if truthy rows then ebind (sel rows) (\<lambda>x. Inr (json_block x)) else Inr [no_data])"

definition post_line :: "pyval \<Rightarrow> pystr result" where
  "post_line post =
     ebind (py_get post (L ''text_redacted'')) (\<lambda>t.
     ebind (py_strip_val (py_or t (PStr []))) (\<lambda>tx.
     ebind (py_get post (L ''url'')) (\<lambda>u.
     Inr (L ''- '' @ tx @ L '' ('' @ py_str (py_or u (PStr [])) @ L '')''))))"

definition x_section :: "pyval \<Rightarrow> pystr list result" where
  "x_section x_posts =
     (if truthy x_posts then
        ebind (py_first5 x_posts) (\<lambda>posts. ebind (emap post_line posts) (\<lambda>ls. Inr ([x_not_evidence, []] @ ls)))
      else Inr [x_not_collected])"

definition memo_head :: "pystr \<Rightarrow> pystr list" where
  "memo_head code = [L ''---'', L ''title: Stock Research Memo - '' @ code, L ''code: '' @ code, L ''generated_by: 7mimi-agent'',
     L ''role: stock_researcher'', L ''source_policy: x_is_signal_not_evidence'', L ''---'', [], L ''# Stock Research Memo - '' @ code, [],
     L ''## '' @ [22522, 26412, 24773, 22577], []]"

definition render_stock_research_memo :: "pystr \<Rightarrow> pyval \<Rightarrow> pyval \<Rightarrow> pyval \<Rightarrow> pyval \<Rightarrow> pystr \<Rightarrow> pystr result" where
  "render_stock_research_memo code listed_info daily_quotes statements x_posts fetched_at =
     ebind (data_section listed_info ''info'' py_first) (\<lambda>info.
     ebind (data_section daily_quotes ''daily_quotes'' py_last5) (\<lambda>quotes.
     ebind (data_section statements ''statements'' Inr) (\<lambda>stmts.
     ebind (x_section x_posts) (\<lambda>xs.
     Inr (py_join [10] (memo_head code @ info @ [[], L ''## '' @ [26666, 20385], []] @ quotes @ [[], L ''## '' @ [36001, 21209], []] @ stmts @
       [[], L ''## X'' @ [12471, 12464, 12490, 12523, 40, 26410, 30906, 35469, 41], []] @ xs @
       [[], L ''## '' @ [21462, 24471, 26178, 21051, 12539, 20986, 20856], [], [45, 32, 21462, 24471, 26178, 21051, 58, 32] @ fetched_at,
        [45, 32, 20986, 20856] @ L '': J-Quants API (jq.get_listed_info / jq.get_daily_quotes / jq.get_statements)'', []]))))))"

section \<open>The run\<close>

record stock_result =
  sr_code :: pystr
  sr_path :: pystr
  sr_markdown :: pystr
  sr_document_id :: pystr

definition memo_path :: "pystr \<Rightarrow> datetime \<Rightarrow> pystr" where
  "memo_path code t = path_join (L ''.data/generated/stocks'') (code @ [45] @ date_iso t @ L ''.md'')"

definition save_memo :: "outside \<Rightarrow> app_config \<Rightarrow> pystr \<Rightarrow> pystr \<Rightarrow> pystr \<Rightarrow> (world, stock_result) eff" where
  "save_memo out config code markdown fetched_at =
     sbind (now_jst out) (\<lambda>today.
     let relative_path = memo_path code today; output_path = path_join (cfg_root config) relative_path in
     sbind (write_text output_path markdown) (\<lambda>_.
     sbind (record_document out None relative_path (L ''Stock Research Memo - '' @ code) (L ''stock_research_memo'') (L ''draft'')
              (PList [PDict [(L ''type'', PStr (L ''jquants'')), (L ''code'', PStr code)]]) None
              (PDict [(L ''code'', PStr code), (L ''fetched_at'', PStr fetched_at)])) (\<lambda>doc.
     ret \<lparr>sr_code = code, sr_path = output_path, sr_markdown = markdown, sr_document_id = doc\<rparr>)))"

definition run_stock_research :: "outside \<Rightarrow> app_config \<Rightarrow> pystr \<Rightarrow> pystr \<Rightarrow> pystr \<Rightarrow> auth_client option \<Rightarrow> (world, stock_result) eff" where
  "run_stock_research out config sid tid code auth0 =
     sbind (case auth0 of None \<Rightarrow> auth_client_init (cfg_policy config) | Some a \<Rightarrow> ret a) (\<lambda>auth.
     sbind (env_set_val ''X_MCP_URL'') (\<lambda>mcp_url.
     case mcp_url of
       None \<Rightarrow> raise_exc RuntimeError (L ''X_MCP_URL is not set; cannot reach the J-Quants /mcp endpoint'')
     | Some url \<Rightarrow>
         sbind (env_val ''X_MCP_SESSION_TOKEN'') (\<lambda>token.
         sbind (mcp_init url token) (\<lambda>client.
         sbind (mcp_initialize out client 1) (\<lambda>_.
         sbind (call_jq_tool out auth client 2 (jq_call sid tid ''jq.get_listed_info'' code)) (\<lambda>listed_info.
         sbind (call_jq_tool out auth client 3 (jq_call sid tid ''jq.get_daily_quotes'' code)) (\<lambda>daily_quotes.
         sbind (call_jq_tool out auth client 4 (jq_call sid tid ''jq.get_statements'' code)) (\<lambda>statements.
         sbind (try_collect_x_signal out auth client 5 sid tid code) (\<lambda>x_posts.
         sbind (iso_now out) (\<lambda>fetched_at.
         sbind (lift_res (render_stock_research_memo code listed_info daily_quotes statements x_posts fetched_at)) (\<lambda>markdown.
         save_memo out config code markdown fetched_at)))))))))))"

section \<open>The X search is optional\<close>

lemma roe_gated_tool [tame_intros]: "tame_outside out \<Longrightarrow> raises_only_Exception (gated_tool out auth c n t)"
  unfolding gated_tool_def fetch_tool_def permission_error_def
  by (intro tame_intros roe_never[OF never_run_pre_tool_use] roe_never[OF never_run_post_tool_use]) simp_all

lemma tame_json_or_empty [tame_intros]: "tame_res (json_or_empty s)"
  unfolding json_or_empty_def by (intro tame_intros)

text \<open>The X search never fails a memo: whatever the gate, the endpoint or the payload do, it returns, and
  after a refusal of the gate it returns the empty list.\<close>

theorem x_signal_best_effort:
  assumes "tame_outside out" and "run_pre_tool_use out auth (x_signal_call sid tid code) w = (Inr d, w1)"
  shows "\<exists>posts w'. try_collect_x_signal out auth client n sid tid code w = (Inr posts, w') \<and>
    (\<not> dec_allowed d \<longrightarrow> posts = empty_list \<and> http_log w' = http_log w @ gate_requests auth (x_signal_call sid tid code))"
proof -
  let ?f = "\<lambda>(err, payload). if err then ret empty_list
      else sbind (lift_res (json_or_empty payload)) (\<lambda>v. sbind (lift_res (py_get v (L ''posts''))) (\<lambda>ps. ret (py_or ps empty_list)))"
  have "never_raises (try_collect_x_signal out auth client n sid tid code)"
    unfolding try_collect_x_signal_def by (intro never_catch never_ret tame_intros assms(1))
  then obtain posts w' where r: "try_collect_x_signal out auth client n sid tid code w = (Inr posts, w')"
    by (rule never_raisesE)
  have "posts = empty_list \<and> http_log w' = http_log w @ gate_requests auth (x_signal_call sid tid code)" if nd: "\<not> dec_allowed d"
  proof -
    obtain e w2 where g: "gated_tool out auth client n (x_signal_call sid tid code) w = (Inl e, w2)"
      and l: "http_log w2 = http_log w @ gate_requests auth (x_signal_call sid tid code)"
      using hooks.guarded_blocked[OF assms(2) nd, of "fetch_tool out client n (x_signal_call sid tid code)"]
      unfolding gated_tool_guarded[symmetric] by (metis isl_def prod.collapse)
    have "is_Exception e" using roe_gated_tool[OF assms(1)] g unfolding raises_only_Exception_def by blast
    then have "try_collect_x_signal out auth client n sid tid code w = (Inr empty_list, w2)"
      using g by (simp add: try_collect_x_signal_def catch_def sbind_def)
    with r l show ?thesis by simp
  qed
  with r show ?thesis by blast
qed

theorem x_signal_best_effort_witness:
  "\<exists>posts w'. try_collect_x_signal demo_out demo_auth \<lparr>mcp_base_url = L ''http://m'', mcp_token = None\<rparr> 5 (L ''s'') (L ''t'') (L ''7203'') demo_start_world = (Inr posts, w')"
proof -
  let ?g = "run_pre_tool_use demo_out demo_auth (x_signal_call (L ''s'') (L ''t'') (L ''7203'')) demo_start_world"
  have "?g = (Inr (projr (fst ?g)), snd ?g)"
    using never_raisesE[OF never_run_pre_tool_use[OF tame_demo_out]] by (metis fst_conv snd_conv sum.sel(2))
  from x_signal_best_effort[OF tame_demo_out this] show ?thesis by blast
qed

section \<open>The saved memo\<close>

lemma stock_memo_saved_lemma:
  assumes "run_stock_research out config sid tid code auth0 w = (Inr res, w')"
  shows "files w' (sr_path res) = Some (sr_markdown res) \<and> sr_code res = code \<and>
    (\<exists>rows r p. dbs w' (L ''documents'') = Some (rows @ [r]) \<and> cell r (L ''id'') = PStr (sr_document_id res) \<and>
       cell r (L ''path'') = PStr p \<and> sr_path res = path_join (cfg_root config) p \<and> cell r (L ''status'') = PStr (L ''draft''))"
proof -
  from assms obtain md at w1 where "save_memo out config code md at w1 = (Inr res, w')"
    unfolding run_stock_research_def by (auto elim!: sbind_InrE split: option.splits)
  then obtain today w0 where "sbind (write_text (path_join (cfg_root config) (memo_path code today)) md) (\<lambda>_.
     sbind (record_document out None (memo_path code today) (L ''Stock Research Memo - '' @ code) (L ''stock_research_memo'') (L ''draft'')
              (PList [PDict [(L ''type'', PStr (L ''jquants'')), (L ''code'', PStr code)]]) None
              (PDict [(L ''code'', PStr code), (L ''fetched_at'', PStr at)])) (\<lambda>doc.
     ret \<lparr>sr_code = code, sr_path = path_join (cfg_root config) (memo_path code today), sr_markdown = md, sr_document_id = doc\<rparr>)) w0 = (Inr res, w')"
    unfolding save_memo_def Let_def by (rule sbind_InrE)
  then obtain u w2 where u: "write_text (path_join (cfg_root config) (memo_path code today)) md w0 = (Inr u, w2)"
    and "sbind (record_document out None (memo_path code today) (L ''Stock Research Memo - '' @ code) (L ''stock_research_memo'') (L ''draft'')
              (PList [PDict [(L ''type'', PStr (L ''jquants'')), (L ''code'', PStr code)]]) None
              (PDict [(L ''code'', PStr code), (L ''fetched_at'', PStr at)])) (\<lambda>doc.
     ret \<lparr>sr_code = code, sr_path = path_join (cfg_root config) (memo_path code today), sr_markdown = md, sr_document_id = doc\<rparr>) w2 = (Inr res, w')"
    by (rule sbind_InrE)
  then obtain doc where
    d: "record_document out None (memo_path code today) (L ''Stock Research Memo - '' @ code) (L ''stock_research_memo'') (L ''draft'')
        (PList [PDict [(L ''type'', PStr (L ''jquants'')), (L ''code'', PStr code)]]) None
        (PDict [(L ''code'', PStr code), (L ''fetched_at'', PStr at)]) w2 = (Inr doc, w')"
    and res: "sr_path res = path_join (cfg_root config) (memo_path code today)" "sr_markdown res = md" "sr_code res = code" "sr_document_id res = doc"
    by (auto elim!: sbind_InrE)
  have f: "files w2 (path_join (cfg_root config) (memo_path code today)) = Some md"
    using u by (auto simp: write_text_def split: sum.splits)
  have "files w' (sr_path res) = Some (sr_markdown res)" using f record_document_files[OF d] by (simp add: res)
  then show ?thesis using d by (auto elim!: record_document_row simp: res)
qed

text \<open>A returned memo is on disk and on record: when the run returns a result, the file at its path
  holds exactly the returned text, and the last document of the database is a draft with the returned
  id whose path, below the project root, is the path of the file.\<close>

theorem stock_memo_saved:
  "case run_stock_research out config sid tid code auth0 w of
     (Inl e, w') \<Rightarrow> True
   | (Inr res, w') \<Rightarrow> files w' (sr_path res) = Some (sr_markdown res) \<and> sr_code res = code \<and>
       (\<exists>rows r p. dbs w' (L ''documents'') = Some (rows @ [r]) \<and> cell r (L ''id'') = PStr (sr_document_id res) \<and>
          cell r (L ''path'') = PStr p \<and> sr_path res = path_join (cfg_root config) p \<and> cell r (L ''status'') = PStr (L ''draft''))"
proof (cases "run_stock_research out config sid tid code auth0 w")
  case (Pair x w')
  show ?thesis
  proof (cases x)
    case (Inl e)
    with Pair show ?thesis by simp
  next
    case (Inr res)
    with Pair stock_memo_saved_lemma[of out config sid tid code auth0 w res w'] show ?thesis by simp
  qed
qed

end
