(* ===== verification/InvestDigest.thy ===== *)
theory InvestDigest
  imports ClaudeDigest
begin

text \<open>
  A run of the investment digest (\<^verbatim>\<open>runner/invest_digest.py\<close>): Claude Code writes a file, and the
  orchestrator posts it to Slack, under the gate for tool calls and always with the disclaimer.
\<close>

section \<open>Definitions\<close>

definition invest_role :: pystr where "invest_role = L ''investment_signal_runner''"
definition INVEST_ALLOWED_TOOLS :: pystr where "INVEST_ALLOWED_TOOLS = L ''Read,Write,WebFetch''"

definition INVEST_DIRECT_MCP_ALLOWED_TOOLS :: pystr where
  "INVEST_DIRECT_MCP_ALLOWED_TOOLS = py_join [44] [INVEST_ALLOWED_TOOLS, L ''mcp__x7mimi__x_search_posts_recent'']"

text \<open>The defaults are those of the other digest; there is no notes repository.\<close>

definition InvestDigestOptions :: digest_options where
  "InvestDigestOptions = \<lparr>opt_model = L ''claude-sonnet-5'', opt_timeout = 1200, opt_notes_repo = [],
     opt_max_turns = 40, opt_image = L ''7mimi-agent-runner:latest'', opt_docker_bin = L ''docker'', opt_network = L ''bridge'',
     opt_memory = L ''2g'', opt_cpus = L ''2'', opt_pids_limit = 512\<rparr>"

record invest_result =
  ir_exit_code :: int
  ir_stdout :: pystr
  ir_stderr :: pystr
  ir_workspace :: pystr
  ir_published :: bool
  ir_chunks :: "int option"
  ir_chars :: "int option"

definition read_digest :: "pystr \<Rightarrow> (world, pystr option) eff" where
  "read_digest workspace =
     (let p = path_join workspace (L ''digest.md'') in
      sbind (path_exists p) (\<lambda>found.
      if \<not> found then ret None
      else sbind (read_text p) (\<lambda>content.
        ret (if py_strip content = [] then None else if is_ascii content then None else Some content))))"

definition post_digest_call :: "pystr \<Rightarrow> pystr \<Rightarrow> pystr \<Rightarrow> tool_call" where
  "post_digest_call sid tid digest = \<lparr>tc_session = sid, tc_task = tid, tc_role = invest_role, tc_tool = L ''slack.post_digest'',
     tc_args = [(L ''chars'', PInt (int (length digest)))]\<rparr>"

text \<open>\<^verbatim>\<open>slack_client or SlackNotifyClient(base_url=..., session_token=...)\<close>.\<close>

definition slack_client_init :: "(world, slack_client) eff" where
  "slack_client_init =
     sbind (env_default ''SLACK_NOTIFY_URL'' []) (\<lambda>u. sbind (env_default ''SLACK_NOTIFY_SESSION_TOKEN'' []) (\<lambda>t.
     ret \<lparr>slack_base_url = u, slack_token = t\<rparr>))"

text \<open>Publishing a digest: the gate, the audit record, the post.  The result is whether it was published,
  the number of chunks and the number of characters.\<close>

definition publish_digest ::
    "outside \<Rightarrow> auth_client \<Rightarrow> slack_client option \<Rightarrow> pystr \<Rightarrow> pystr \<Rightarrow> pystr \<Rightarrow> (world, bool \<times> int option \<times> int option) eff" where
  "publish_digest out auth slack0 sid tid digest =
     (let t = post_digest_call sid tid digest in
      sbind (run_pre_tool_use out auth t) (\<lambda>d.
      sbind (lift_res (utf8_len digest)) (\<lambda>nbytes.
      sbind (run_post_tool_use out (tool_event t d (if dec_allowed d then 1 else 0) nbytes)) (\<lambda>_.
      if dec_allowed d then
        let final_text = digest @ DISCLAIMER_FOOTER in
        sbind (case slack0 of Some c \<Rightarrow> ret c | None \<Rightarrow> slack_client_init) (\<lambda>client.
        catch (sbind (slack_notify out client final_text None) (\<lambda>n. ret (True, Some n, Some (int (length final_text)))))
          (\<lambda>e. exc_type e = SlackNotifyError) (\<lambda>_. ret (False, None, Some (int (length final_text)))))
      else ret (False, None, None)))))"

definition opt_int :: "int option \<Rightarrow> pyval" where
  "opt_int x = (case x of None \<Rightarrow> PNone | Some n \<Rightarrow> PInt n)"

definition finish_invest ::
    "outside \<Rightarrow> auth_client \<Rightarrow> slack_client option \<Rightarrow> pystr \<Rightarrow> pystr \<Rightarrow> pystr \<Rightarrow> int \<times> pystr \<times> pystr \<Rightarrow> (world, invest_result) eff" where
  "finish_invest out auth slack0 sid tid workspace = (\<lambda>(exit_code, stdout, stderr).
     sbind (if exit_code = 0 then read_digest workspace else ret None) (\<lambda>digest.
     sbind (now_jst out) (\<lambda>date.
     sbind (case digest of None \<Rightarrow> ret (False, None, None) | Some t \<Rightarrow> publish_digest out auth slack0 sid tid t) (\<lambda>(published, chunks, chars).
     sbind (record_document out None (L ''slack://invest-x-daily-digest/'' @ date_iso date) (L ''Invest X Daily Digest - '' @ date_iso date)
              (L ''invest_x_daily_digest'') (if published then L ''published'' else L ''failed'') (PList []) None
              (PDict [(L ''chunks'', opt_int chunks), (L ''chars'', opt_int chars), (L ''exit_code'', PInt exit_code),
                 (L ''error'', excerpt_for exit_code stderr)])) (\<lambda>_.
     ret \<lparr>ir_exit_code = final_code exit_code published, ir_stdout = stdout, ir_stderr = stderr, ir_workspace = workspace,
          ir_published = published, ir_chunks = chunks, ir_chars = chars\<rparr>)))))"

definition run_invest_digest ::
    "nat \<Rightarrow> outside \<Rightarrow> sys_env \<Rightarrow> app_config \<Rightarrow> pystr \<Rightarrow> pystr \<Rightarrow> pystr \<Rightarrow> digest_options option \<Rightarrow> auth_client option \<Rightarrow> slack_client option \<Rightarrow>
      (world, invest_result) eff" where
  "run_invest_digest fuel out sys config session_id task_id workspace options0 auth0 slack0 =
     (let options = (case options0 of None \<Rightarrow> InvestDigestOptions | Some x \<Rightarrow> x) in
      sbind (case auth0 of None \<Rightarrow> auth_client_init (cfg_policy config) | Some a \<Rightarrow> ret a) (\<lambda>auth.
      sbind (issue_mcp_config out invest_role ''invest-digest'') (\<lambda>mcp_config.
      sbind (run_claude fuel out sys (cfg_root config) workspace session_id invest_role build_invest_digest_prompt options
               INVEST_DIRECT_MCP_ALLOWED_TOOLS False mcp_config)
        (finish_invest out auth slack0 session_id task_id workspace))))"

section \<open>What is posted\<close>


definition demo_slack :: slack_client where
  "demo_slack = \<lparr>slack_base_url = L ''http://s'', slack_token = L ''t''\<rparr>"


end
