(* ===== verification/Cron.thy ===== *)
theory Cron
  imports PyTime
begin

text \<open>
  \<^verbatim>\<open>scheduler/cron.py\<close>: the five-field cron parser, the minute test and the search for the next
  matching minute.
\<close>

section \<open>Parsing\<close>

text \<open>\<^verbatim>\<open>range(a, b, step)\<close> for a positive step.\<close>

function py_range :: "int \<Rightarrow> int \<Rightarrow> int \<Rightarrow> int list" where
  "py_range a b step = (if 0 < step \<and> a < b then a # py_range (a + step) b step else [])"
  by pat_completeness auto
termination
  by (relation "measure (\<lambda>(a, b, step). nat (b - a))") auto

declare py_range.simps [simp del]

definition field_error :: "string \<Rightarrow> pystr \<Rightarrow> pyexc" where
  "field_error m expr = Exc ValueError (L m @ str_repr expr)"

definition int_or :: "pyexc \<Rightarrow> pystr \<Rightarrow> int result" where
  "int_or e s = (case py_int s of None \<Rightarrow> Inl e | Some i \<Rightarrow> Inr i)"

text \<open>The three stages of the loop body for one comma-separated part: the step, the bounds, the values.\<close>

definition part_step :: "pystr \<Rightarrow> pystr \<Rightarrow> (pystr \<times> int) result" where
  "part_step expr part =
     (if List.member part 47
      then (let (base, step_str) = py_split1 47 part in
            ebind (int_or (field_error ''invalid step in cron field: '' expr) step_str) (\<lambda>step.
            if step \<le> 0 then Inl (field_error ''invalid step in cron field: '' expr)
            else Inr (base, step)))
      else Inr (part, 1))"

definition part_bounds :: "pystr \<Rightarrow> int \<Rightarrow> int \<Rightarrow> pystr \<Rightarrow> (int \<times> int) result" where
  "part_bounds expr lo hi base =
     (if base = [42] then Inr (lo, hi)
      else if List.member base 45
      then (let (lo_str, hi_str) = py_split1 45 base in
            ebind (int_or (field_error ''invalid range in cron field: '' expr) lo_str) (\<lambda>l.
            ebind (int_or (field_error ''invalid range in cron field: '' expr) hi_str) (\<lambda>h. Inr (l, h))))
      else ebind (int_or (field_error ''invalid value in cron field: '' expr) base) (\<lambda>v. Inr (v, v)))"

definition parse_part :: "pystr \<Rightarrow> int \<Rightarrow> int \<Rightarrow> pystr \<Rightarrow> int list result" where
  "parse_part expr lo hi part0 =
     (let part = py_strip part0 in
      if part = [] then Inl (field_error ''invalid cron field: '' expr)
      else
      ebind (part_step expr part) (\<lambda>(base, step).
      ebind (part_bounds expr lo hi base) (\<lambda>(range_lo, range_hi).
      if range_lo > range_hi \<or> range_lo < lo \<or> range_hi > hi
      then Inl (field_error ''cron field out of range: '' expr)
      else Inr (py_range range_lo (range_hi + 1) step))))"

definition parse_field :: "pystr \<Rightarrow> int \<Rightarrow> int \<Rightarrow> int set result" where
  "parse_field expr lo hi =
     ebind (efold (\<lambda>values part. ebind (parse_part expr lo hi part) (\<lambda>vs. Inr (values \<union> set vs)))
              {} (py_split_char 44 expr)) (\<lambda>values.
     if values = {} then Inl (field_error ''invalid cron field: '' expr) else Inr values)"

record cron_schedule =
  minute :: "int set"
  hour :: "int set"
  dom :: "int set"
  mon :: "int set"
  dow :: "int set"
  dom_restricted :: bool
  dow_restricted :: bool
  expr :: pystr

definition cron_parse :: "pystr \<Rightarrow> cron_schedule result" where
  "cron_parse e =
     (case py_split_ws e of
        [minute_s, hour_s, dom_s, mon_s, dow_s] \<Rightarrow>
          ebind (parse_field minute_s 0 59) (\<lambda>mi.
          ebind (parse_field hour_s 0 23) (\<lambda>ho.
          ebind (parse_field dom_s 1 31) (\<lambda>dm.
          ebind (parse_field mon_s 1 12) (\<lambda>mo.
          ebind (parse_field dow_s 0 7) (\<lambda>dow_raw.
          Inr \<lparr>minute = mi, hour = ho, dom = dm, mon = mo,
               dow = (\<lambda>v. if v = 7 then 0 else v) ` dow_raw,
               dom_restricted = py_strip dom_s \<noteq> [42], dow_restricted = py_strip dow_s \<noteq> [42],
               expr = e\<rparr>)))))
      | _ \<Rightarrow> Inl (field_error ''cron expression must have 5 fields: '' e))"

section \<open>Matching and searching\<close>

definition cron_matches :: "cron_schedule \<Rightarrow> datetime \<Rightarrow> bool" where
  "cron_matches c dt =
     (if dt_minute dt \<notin> minute c then False
      else if dt_hour dt \<notin> hour c then False
      else if dt_month dt \<notin> mon c then False
      else let dom_match = dt_day dt \<in> dom c; dow_match = dt_isoweekday dt mod 7 \<in> dow c
           in if dom_restricted c \<and> dow_restricted c then dom_match \<or> dow_match
              else dom_match \<and> dow_match)"

function next_loop :: "cron_schedule \<Rightarrow> datetime \<Rightarrow> datetime \<Rightarrow> datetime result" where
  "next_loop c candidate limit =
     (if candidate \<le> limit then
        if cron_matches c candidate then Inr candidate
        else ebind (dt_add candidate minute_us) (\<lambda>candidate'. next_loop c candidate' limit)
      else Inl (field_error ''no matching time found within search cap for cron: '' (expr c)))"
  by pat_completeness auto
termination
  by (relation "measure (\<lambda>(c, candidate, limit). nat (limit + 1 - candidate))") (auto simp: minute_us_def)

declare next_loop.simps [simp del]

definition next_after :: "cron_schedule \<Rightarrow> datetime \<Rightarrow> datetime result" where
  "next_after c dt =
     ebind (dt_add dt minute_us) (\<lambda>c0.
     let candidate = floor_minute c0 in
     ebind (dt_add dt (366 * day_us)) (\<lambda>limit.
     next_loop c candidate limit))"

section \<open>Lemmas\<close>

lemma set_py_range: "0 < step \<Longrightarrow> set (py_range a b step) = {v. a \<le> v \<and> v < b \<and> step dvd v - a}"
proof (induction a b step rule: py_range.induct)
  case (1 a b step)
  show ?case
  proof (cases "a < b")
    case True
    have *: "step dvd v - a \<longleftrightarrow> v = a \<or> (a + step \<le> v \<and> step dvd v - (a + step))" if "a \<le> v" for v
    proof
      assume "step dvd v - a"
      then obtain k where k: "v - a = step * k" by (elim dvdE)
      with that have "0 \<le> step * k" by linarith
      with \<open>0 < step\<close> have "0 \<le> k" by (simp add: zero_le_mult_iff)
      then consider "k = 0" | "1 \<le> k" by linarith
      then show "v = a \<or> (a + step \<le> v \<and> step dvd v - (a + step))"
      proof cases
        case 2
        then have "step * 1 \<le> step * k" using \<open>0 < step\<close> by (intro mult_left_mono) auto
        with k have "a + step \<le> v" by linarith
        moreover have "v - (a + step) = step * (k - 1)" using k by (simp add: algebra_simps)
        then have "step dvd v - (a + step)" by (metis dvd_triv_left)
        ultimately show ?thesis by blast
      qed (use k in simp)
    next
      assume "v = a \<or> (a + step \<le> v \<and> step dvd v - (a + step))"
      then consider "v = a" | "step dvd (v - (a + step)) + step" by (metis dvd_add dvd_refl)
      then show "step dvd v - a" by cases (simp_all add: algebra_simps)
    qed
    have "set (py_range a b step) = insert a (set (py_range (a + step) b step))"
      using True "1.prems" by (subst py_range.simps) simp
    also have "\<dots> = {v. a \<le> v \<and> v < b \<and> step dvd v - a}"
      using "1.IH" True "1.prems" * by auto
    finally show ?thesis .
  next
    case False
    then show ?thesis by (subst py_range.simps) auto
  qed
qed

lemma part_step_pos: "part_step e p = Inr (b, step) \<Longrightarrow> 0 < step"
  by (auto simp: part_step_def Let_def split: if_splits prod.splits)

lemma parse_part_range:
  assumes "parse_part e lo hi p = Inr vs"
  shows "vs \<noteq> [] \<and> set vs \<subseteq> {lo..hi}"
proof -
  from assms obtain l h step where "0 < step" "l \<le> h" "lo \<le> l" "h \<le> hi" "vs = py_range l (h + 1) step"
    unfolding parse_part_def Let_def
    by (auto split: if_splits prod.splits simp: not_less dest: part_step_pos)
  then have "l \<in> set vs" "set vs \<subseteq> {lo..hi}" by (auto simp: set_py_range)
  then show ?thesis by auto
qed

lemma parse_field_range:
  assumes "parse_field e lo hi = Inr V"
  shows "V \<noteq> {} \<and> V \<subseteq> {lo..hi}"
proof -
  let ?f = "\<lambda>values part. ebind (parse_part e lo hi part) (\<lambda>vs. Inr (values \<union> set vs))"
  from assms have f: "efold ?f {} (py_split_char 44 e) = Inr V" and ne: "V \<noteq> {}"
    by (auto simp: parse_field_def split: if_splits)
  from f have "V \<subseteq> {lo..hi}"
    by (rule efold_invariant) (auto dest!: parse_part_range)
  with ne show ?thesis by simp
qed

definition cron_wf :: "cron_schedule \<Rightarrow> bool" where
  "cron_wf c \<longleftrightarrow> minute c \<noteq> {} \<and> minute c \<subseteq> {0..59} \<and> hour c \<noteq> {} \<and> hour c \<subseteq> {0..23}
     \<and> dom c \<noteq> {} \<and> dom c \<subseteq> {1..31} \<and> mon c \<noteq> {} \<and> mon c \<subseteq> {1..12} \<and> dow c \<noteq> {} \<and> dow c \<subseteq> {0..6}"

lemma aligned_step:
  assumes "minute_us dvd a" "minute_us dvd u" "a \<le> u"
  shows "u = a \<or> a + minute_us \<le> u"
proof -
  from assms(1,2) have "minute_us dvd u - a" by (rule dvd_diff[rotated])
  then show ?thesis using assms(3) zdvd_imp_le[of minute_us "u - a"] by force
qed

lemma next_loop_found:
  assumes "next_loop c candidate limit = Inr t" and "minute_us dvd candidate"
  shows "candidate \<le> t \<and> t \<le> limit \<and> minute_us dvd t \<and> cron_matches c t
      \<and> (\<forall>u. candidate \<le> u \<and> u < t \<and> minute_us dvd u \<longrightarrow> \<not> cron_matches c u)"
  using assms
proof (induction c candidate limit rule: next_loop.induct)
  case (1 c candidate limit)
  show ?case
  proof (cases "candidate \<le> limit \<and> \<not> cron_matches c candidate")
    case True
    with "1.prems"(1) have add: "dt_add candidate minute_us = Inr (candidate + minute_us)"
      and n: "next_loop c (candidate + minute_us) limit = Inr t"
      by (subst (asm) next_loop.simps, auto)+
    from "1.prems"(2) have "minute_us dvd candidate + minute_us" by simp
    from "1.IH"[OF _ _ add n this] True aligned_step[OF "1.prems"(2)] show ?thesis
      by (auto simp: minute_us_def)
  next
    case False
    with "1.prems" show ?thesis by (subst (asm) next_loop.simps) (auto split: if_splits)
  qed
qed

lemma next_loop_none:
  assumes "next_loop c candidate limit = Inl (Exc ValueError m)" and "minute_us dvd candidate"
    and "candidate \<le> u" "u \<le> limit" "minute_us dvd u"
  shows "\<not> cron_matches c u"
  using assms
proof (induction c candidate limit rule: next_loop.induct)
  case (1 c candidate limit)
  have le: "candidate \<le> limit" using "1.prems" by linarith
  have no: "\<not> cron_matches c candidate"
    using "1.prems"(1) le by (subst (asm) next_loop.simps) auto
  have add: "dt_add candidate minute_us = Inr (candidate + minute_us)"
    and n: "next_loop c (candidate + minute_us) limit = Inl (Exc ValueError m)"
    using "1.prems"(1) le no
    by (subst (asm) next_loop.simps, auto simp: ebind_Inl_iff dt_add_def split: if_splits)+
  from "1.prems"(2) have "minute_us dvd candidate + minute_us" by simp
  from "1.IH"[OF le no add n this] no aligned_step[OF "1.prems"(2,5,3)] "1.prems"(4,5)
  show ?case by auto
qed

lemma next_loop_error_type:
  assumes "next_loop c candidate limit = Inl e" and "0 \<le> candidate" "limit + minute_us < max_dt"
  shows "exc_type e = ValueError"
  using assms
proof (induction c candidate limit rule: next_loop.induct)
  case (1 c candidate limit)
  show ?case
  proof (cases "candidate \<le> limit \<and> \<not> cron_matches c candidate")
    case True
    then have "dt_add candidate minute_us = Inr (candidate + minute_us)" "0 \<le> candidate + minute_us"
      using "1.prems" by (simp_all add: dt_add_def minute_us_def)
    with "1.IH" "1.prems" True show ?thesis by (subst (asm) next_loop.simps) auto
  next
    case False
    with "1.prems"(1) show ?thesis
      by (subst (asm) next_loop.simps) (auto simp: field_error_def split: if_splits)
  qed
qed

section \<open>The meaning of an expression\<close>

text \<open>
  Abstract syntax of the documented field language (\<open>*\<close>, single values, ranges, steps and comma
  lists), its text, and the set of values a field stands for.
\<close>

datatype cron_base = Star | One nat | Span nat nat

datatype cron_item = Item cron_base "nat option"

fun base_bounds :: "int \<Rightarrow> int \<Rightarrow> cron_base \<Rightarrow> int \<times> int" where
  "base_bounds lo hi Star = (lo, hi)"
| "base_bounds lo hi (One a) = (int a, int a)"
| "base_bounds lo hi (Span a b) = (int a, int b)"

definition item_step :: "nat option \<Rightarrow> nat" where
  "item_step st = (case st of None \<Rightarrow> 1 | Some n \<Rightarrow> n)"

fun item_valid :: "int \<Rightarrow> int \<Rightarrow> cron_item \<Rightarrow> bool" where
  "item_valid lo hi (Item b st) =
     (let (l, h) = base_bounds lo hi b in 0 < item_step st \<and> l \<le> h \<and> lo \<le> l \<and> h \<le> hi)"

fun item_values :: "int \<Rightarrow> int \<Rightarrow> cron_item \<Rightarrow> int set" where
  "item_values lo hi (Item b st) =
     (let (l, h) = base_bounds lo hi b in {v. l \<le> v \<and> v \<le> h \<and> int (item_step st) dvd v - l})"

definition field_values :: "int \<Rightarrow> int \<Rightarrow> cron_item list \<Rightarrow> int set" where
  "field_values lo hi items = (\<Union>i \<in> set items. item_values lo hi i)"

fun show_base :: "cron_base \<Rightarrow> pystr" where
  "show_base Star = [42]"
| "show_base (One a) = dec_str (int a)"
| "show_base (Span a b) = dec_str (int a) @ [45] @ dec_str (int b)"

fun show_item :: "cron_item \<Rightarrow> pystr" where
  "show_item (Item b None) = show_base b"
| "show_item (Item b (Some n)) = show_base b @ [47] @ dec_str (int n)"

definition show_field :: "cron_item list \<Rightarrow> pystr" where
  "show_field items = py_join [44] (map show_item items)"

lemma digit_not_in_dec_str: "c < 48 \<or> 58 \<le> c \<Longrightarrow> c \<notin> set (dec_str (int n))"
  using dec_str_digits[of "int n" c] by auto

lemma show_base_chars: "c \<in> set (show_base b) \<Longrightarrow> c = 42 \<or> c = 45 \<or> (48 \<le> c \<and> c < 58)"
  by (cases b) (auto dest: dec_str_digits[rotated])

lemma show_item_chars: "c \<in> set (show_item i) \<Longrightarrow> c = 42 \<or> c = 45 \<or> c = 47 \<or> (48 \<le> c \<and> c < 58)"
  by (cases i rule: show_item.cases) (auto dest: dec_str_digits[rotated] show_base_chars)

lemma not_isspace_cron: "c = 42 \<or> c = 44 \<or> c = 45 \<or> c = 47 \<or> (48 \<le> c \<and> c < 58) \<Longrightarrow> \<not> py_isspace c"
  by (auto simp: py_isspace_def space_points_def)

lemma show_base_not_Nil [simp]: "show_base b \<noteq> []"
  by (cases b) auto

lemma show_item_not_Nil [simp]: "show_item i \<noteq> []"
  by (cases i rule: show_item.cases) auto

lemma strip_show_item [simp]: "py_strip (show_item i) = show_item i"
  by (intro py_strip_id ballI not_isspace_cron) (auto dest: show_item_chars)

lemma int_or_dec_str [simp]: "int_or e (dec_str (int n)) = Inr (int n)"
  using py_int_int_str[of "int n"] by (simp add: int_or_def int_str_def)

lemma py_split1_append: "c \<notin> set a \<Longrightarrow> py_split1 c (a @ c # b) = (a, b)"
  by (induction a) (auto simp: py_split1_def)

lemma part_bounds_show: "part_bounds e lo hi (show_base b) = Inr (base_bounds lo hi b)"
proof (cases b)
  case Star
  then show ?thesis by (simp add: part_bounds_def)
next
  case (One a)
  have "dec_str (int a) \<noteq> [42]" using dec_str_digits[of "int a" 42] by auto
  then show ?thesis using One by (simp add: part_bounds_def digit_not_in_dec_str)
next
  case (Span a b')
  have "dec_str (int a) @ 45 # dec_str (int b') \<noteq> [42]" by (cases "dec_str (int a)") auto
  then show ?thesis using Span py_split1_append[of 45 "dec_str (int a)" "dec_str (int b')"]
    by (simp add: part_bounds_def digit_not_in_dec_str)
qed

lemma part_step_show:
  "part_step e (show_item (Item b st)) =
     (if item_step st = 0 then Inl (field_error ''invalid step in cron field: '' e)
      else Inr (show_base b, int (item_step st)))"
proof (cases st)
  case None
  have "47 \<notin> set (show_base b)" using show_base_chars[of 47 b] by auto
  then show ?thesis using None by (simp add: part_step_def item_step_def)
next
  case (Some n)
  have "47 \<notin> set (show_base b)" using show_base_chars[of 47 b] by auto
  then show ?thesis using Some py_split1_append[of 47 "show_base b" "dec_str (int n)"]
    by (auto simp: part_step_def item_step_def)
qed

lemma parse_part_show:
  "parse_part e lo hi (show_item i) =
     (case i of Item b st \<Rightarrow>
        if item_step st = 0 then Inl (field_error ''invalid step in cron field: '' e)
        else if \<not> item_valid lo hi i then Inl (field_error ''cron field out of range: '' e)
        else Inr (py_range (fst (base_bounds lo hi b)) (snd (base_bounds lo hi b) + 1) (int (item_step st))))"
proof -
  obtain b st where i: "i = Item b st" by (cases i)
  obtain l h where lh: "base_bounds lo hi b = (l, h)" by (cases "base_bounds lo hi b")
  show ?thesis
    by (auto simp: parse_part_def Let_def i lh part_step_show part_bounds_show
        simp del: show_item.simps split: if_splits)
qed

lemma parse_part_show_set:
  assumes "item_valid lo hi i"
  shows "\<exists>vs. parse_part e lo hi (show_item i) = Inr vs \<and> set vs = item_values lo hi i"
proof -
  obtain b st where i: "i = Item b st" by (cases i)
  obtain l h where lh: "base_bounds lo hi b = (l, h)" by (cases "base_bounds lo hi b")
  from assms show ?thesis
    by (auto simp: parse_part_show i lh set_py_range Let_def)
qed

lemma efold_parse_show:
  assumes "\<forall>i \<in> set items. item_valid lo hi i"
  shows "efold (\<lambda>values part. ebind (parse_part e lo hi part) (\<lambda>vs. Inr (values \<union> set vs))) V (map show_item items)
       = Inr (V \<union> field_values lo hi items)"
  using assms
proof (induction items arbitrary: V)
  case Nil
  then show ?case by (simp add: field_values_def)
next
  case (Cons i items)
  then obtain vs where "parse_part e lo hi (show_item i) = Inr vs" "set vs = item_values lo hi i"
    using parse_part_show_set[of lo hi i e] by auto
  with Cons show ?case by (auto simp: field_values_def)
qed

lemma efold_parse_show_error:
  assumes "\<exists>i \<in> set items. \<not> item_valid lo hi i"
  shows "\<exists>x. efold (\<lambda>values part. ebind (parse_part e lo hi part) (\<lambda>vs. Inr (values \<union> set vs))) V (map show_item items)
       = Inl x \<and> exc_type x = ValueError"
  using assms
proof (induction items arbitrary: V)
  case Nil
  then show ?case by simp
next
  case (Cons i items)
  show ?case
  proof (cases "item_valid lo hi i")
    case True
    with Cons obtain vs where "parse_part e lo hi (show_item i) = Inr vs"
      using parse_part_show_set[of lo hi i e] by auto
    with Cons True show ?thesis by auto
  next
    case False
    then show ?thesis
      by (cases i) (auto simp: parse_part_show field_error_def simp del: show_item.simps)
  qed
qed

lemma split_show_field: "items \<noteq> [] \<Longrightarrow> py_split_char 44 (show_field items) = map show_item items"
  unfolding show_field_def using show_item_chars by (intro py_split_char_join) force+

lemma parse_field_show:
  assumes "items \<noteq> []"
  shows "\<forall>i \<in> set items. item_valid lo hi i \<Longrightarrow> parse_field (show_field items) lo hi = Inr (field_values lo hi items)"
    and "\<exists>i \<in> set items. \<not> item_valid lo hi i \<Longrightarrow> \<exists>x. parse_field (show_field items) lo hi = Inl x \<and> exc_type x = ValueError"
proof -
  assume v: "\<forall>i \<in> set items. item_valid lo hi i"
  have "field_values lo hi items \<noteq> {}"
  proof -
    obtain i where i: "i \<in> set items" using assms by (cases items) auto
    obtain b st where "i = Item b st" by (cases i)
    with v i have "fst (base_bounds lo hi b) \<in> item_values lo hi i" by (auto simp: Let_def split: prod.splits)
    with i show ?thesis by (auto simp: field_values_def)
  qed
  then show "parse_field (show_field items) lo hi = Inr (field_values lo hi items)"
    using v assms by (simp add: parse_field_def split_show_field efold_parse_show)
next
  assume "\<exists>i \<in> set items. \<not> item_valid lo hi i"
  from efold_parse_show_error[OF this, of "show_field items" "{}"]
  show "\<exists>x. parse_field (show_field items) lo hi = Inl x \<and> exc_type x = ValueError"
    using assms by (auto simp: parse_field_def split_show_field)
qed

lemma py_split_ws_word:
  assumes "p \<noteq> []" "\<forall>c \<in> set p. \<not> py_isspace c" "s = [] \<or> py_isspace (hd s)"
  shows "py_split_ws (p @ s) = p # py_split_ws s"
proof -
  obtain x q where p: "p = x # q" using assms(1) by (cases p) auto
  have q: "\<forall>c \<in> set q. \<not> py_isspace c" using assms(2) p by simp
  have s: "takeWhile (\<lambda>c. \<not> py_isspace c) s = []" "dropWhile (\<lambda>c. \<not> py_isspace c) s = s"
    using assms(3) by (cases s, simp_all)+
  have "takeWhile (\<lambda>c. \<not> py_isspace c) (q @ s) = q" "dropWhile (\<lambda>c. \<not> py_isspace c) (q @ s) = s"
    using q s by (simp_all add: takeWhile_append2 dropWhile_append2)
  then show ?thesis using assms(2) p by simp
qed

lemma py_split_ws_join:
  assumes "\<forall>p \<in> set ps. p \<noteq> [] \<and> (\<forall>c \<in> set p. \<not> py_isspace c)"
  shows "py_split_ws (py_join [32] ps) = ps"
  using assms
proof (induction ps)
  case (Cons p ps)
  have sp: "py_isspace 32" by (simp add: py_isspace_def space_points_def)
  show ?case
  proof (cases "ps = []")
    case True
    then show ?thesis using Cons py_split_ws_word[of p "[]"] by simp
  next
    case False
    then show ?thesis using Cons py_split_ws_word[of p "32 # py_join [32] ps"] sp
      by (simp add: py_join_Cons)
  qed
qed simp

lemma show_field_chars: "c \<in> set (show_field items) \<Longrightarrow> \<not> py_isspace c"
proof (induction items)
  case (Cons i items)
  show ?case
  proof (cases "items = []")
    case True
    then show ?thesis using Cons.prems show_item_chars[of c i]
      by (intro not_isspace_cron) (auto simp: show_field_def)
  next
    case False
    with Cons.prems have "c \<in> set (show_item i) \<or> c = 44 \<or> c \<in> set (show_field items)"
      by (auto simp: show_field_def py_join_Cons)
    then show ?thesis using Cons.IH show_item_chars[of c i] by (metis not_isspace_cron)
  qed
qed (simp add: show_field_def)

lemma show_field_not_Nil: "items \<noteq> [] \<Longrightarrow> show_field items \<noteq> []"
  by (cases items; cases "tl items") (auto simp: show_field_def)

lemma show_item_star: "show_item i = [42] \<longleftrightarrow> i = Item Star None"
proof -
  have "dec_str (int a) \<noteq> [42]" for a using dec_str_digits[of "int a" 42] by auto
  moreover have "a @ x # b = [y] \<longleftrightarrow> a = [] \<and> x = y \<and> b = []" for a b :: pystr and x y
    by (cases a) auto
  ultimately show ?thesis by (cases i rule: show_item.cases; cases "case i of Item b _ \<Rightarrow> b") auto
qed

lemma show_field_star: "items \<noteq> [] \<Longrightarrow> show_field items = [42] \<longleftrightarrow> items = [Item Star None]"
proof -
  assume ne: "items \<noteq> []"
  have "map show_item items = [[42]]" if "show_field items = [42]"
    using split_show_field[OF ne] that by simp
  then show ?thesis by (auto simp: show_field_def show_item_star)
qed

definition show_cron :: "cron_item list list \<Rightarrow> pystr" where
  "show_cron fs = py_join [32] (map show_field fs)"

text \<open>
  The minutes an expression selects: minute, hour and month must match, and the day of the month
  and the day of the week both, except that one of them is enough when neither field is a bare
  star.  Sunday is 0 and 7.
\<close>

definition cron_spec ::
    "cron_item list \<Rightarrow> cron_item list \<Rightarrow> cron_item list \<Rightarrow> cron_item list \<Rightarrow> cron_item list \<Rightarrow> datetime \<Rightarrow> bool" where
  "cron_spec mi ho dm mo dw t \<longleftrightarrow>
     dt_minute t \<in> field_values 0 59 mi \<and> dt_hour t \<in> field_values 0 23 ho \<and> dt_month t \<in> field_values 1 12 mo \<and>
     (let d = (dt_day t \<in> field_values 1 31 dm);
          w = (\<exists>v \<in> field_values 0 7 dw. v mod 7 = dt_isoweekday t mod 7)
      in if dm \<noteq> [Item Star None] \<and> dw \<noteq> [Item Star None] then d \<or> w else d \<and> w)"

lemma field_values_bounds: "\<forall>i \<in> set items. item_valid lo hi i \<Longrightarrow> field_values lo hi items \<subseteq> {lo..hi}"
proof
  fix v
  assume v: "\<forall>i \<in> set items. item_valid lo hi i" "v \<in> field_values lo hi items"
  then obtain i where i: "i \<in> set items" "v \<in> item_values lo hi i" by (auto simp: field_values_def)
  obtain b st where "i = Item b st" by (cases i)
  with v i show "v \<in> {lo..hi}" by (force simp: Let_def split: prod.splits)
qed

lemma weekday_image:
  assumes "V \<subseteq> {0..7::int}"
  shows "w mod 7 \<in> (\<lambda>v. if v = 7 then 0 else v) ` V \<longleftrightarrow> (\<exists>v \<in> V. v mod 7 = w mod 7)"
proof -
  have "v mod 7 = (if v = 7 then 0 else v)" if "v \<in> V" for v
    using that assms by (cases "v = 7") (auto intro!: mod_pos_pos_trivial)
  then show ?thesis by (auto simp: image_iff)
qed

section \<open>Properties\<close>

text \<open>C14. Every expression of the documented language is parsed, and the schedule then matches
  exactly the minutes the expression stands for: day-of-month and day-of-week are alternatives
  when both are restricted, and 7 is Sunday.\<close>

theorem cron_parse_matches_spec:
  assumes "mi \<noteq> []" "ho \<noteq> []" "dm \<noteq> []" "mo \<noteq> []" "dw \<noteq> []"
    and "\<forall>i \<in> set mi. item_valid 0 59 i" "\<forall>i \<in> set ho. item_valid 0 23 i" "\<forall>i \<in> set dm. item_valid 1 31 i"
        "\<forall>i \<in> set mo. item_valid 1 12 i" "\<forall>i \<in> set dw. item_valid 0 7 i"
  shows "\<exists>c. cron_parse (show_cron [mi, ho, dm, mo, dw]) = Inr c \<and>
             (\<forall>t. cron_matches c t \<longleftrightarrow> cron_spec mi ho dm mo dw t)"
proof -
  have "py_split_ws (show_cron [mi, ho, dm, mo, dw]) = map show_field [mi, ho, dm, mo, dw]"
    unfolding show_cron_def using assms(1-5) show_field_chars
    by (intro py_split_ws_join) (auto simp: show_field_not_Nil)
  moreover have "py_strip (show_field f) = show_field f" for f
    using show_field_chars by (intro py_strip_id) blast
  ultimately show ?thesis
    using assms(1-5) assms(6-10)[THEN parse_field_show(1)[rotated]] field_values_bounds[OF assms(10)]
    by (simp add: cron_parse_def cron_matches_def cron_spec_def show_field_star weekday_image Let_def
        del: if_image_distrib)
qed

theorem cron_parse_matches_spec_witness:
  "\<exists>c. cron_parse (show_cron [[Item Star (Some 30)], [Item (Span 8 23) None], [Item Star None], [Item Star None],
         [Item (One 1) None, Item (One 4) None]]) = Inr c \<and>
       (\<forall>t. cron_matches c t \<longleftrightarrow> cron_spec [Item Star (Some 30)] [Item (Span 8 23) None] [Item Star None]
         [Item Star None] [Item (One 1) None, Item (One 4) None] t)"
  by (rule cron_parse_matches_spec) (simp_all add: item_step_def)

lemma cron_parse_wf:
  assumes "cron_parse e = Inr c"
  shows "cron_wf c"
proof -
  from assms obtain a b d f g ds ws where
    "parse_field a 0 59 = Inr (minute c)" "parse_field b 0 23 = Inr (hour c)" "parse_field d 1 31 = Inr (dom c)"
    "parse_field f 1 12 = Inr (mon c)" "parse_field g 0 7 = Inr ws" "dow c = (\<lambda>v. if v = 7 then 0 else v) ` ws"
    by (auto simp: cron_parse_def split: list.splits)
  from this(1-5)[THEN parse_field_range] this(6) show ?thesis
    by (auto simp: cron_wf_def image_subset_iff)
qed

text \<open>C15. The search for the next run ends: it returns the earliest whole minute after the given
  instant that the schedule matches, at most 366 days ahead, or it raises \<^verbatim>\<open>ValueError\<close>, and then
  no minute in that window matches.\<close>

theorem next_after_earliest:
  assumes "0 \<le> t" and "t + 366 * day_us + minute_us < max_dt"
  shows "(\<exists>u. next_after c t = Inr u \<and> t < u \<and> u \<le> t + 366 * day_us \<and> minute_us dvd u \<and> cron_matches c u
              \<and> (\<forall>w. t < w \<and> w < u \<and> minute_us dvd w \<longrightarrow> \<not> cron_matches c w))
       \<or> (\<exists>m. next_after c t = Inl (Exc ValueError m) \<and>
              (\<forall>w. t < w \<and> w \<le> t + 366 * day_us \<and> minute_us dvd w \<longrightarrow> \<not> cron_matches c w))"
proof -
  let ?c0 = "floor_minute (t + minute_us)" and ?lim = "t + 366 * day_us"
  have gt: "t < ?c0" using floor_minute_bounds(2)[of "t + minute_us"] by simp
  have eq: "next_after c t = next_loop c ?c0 ?lim"
    using assms by (simp add: next_after_def dt_add_def us_defs Let_def)
  show ?thesis
  proof (cases "next_loop c ?c0 ?lim")
    case (Inr u)
    have "\<not> cron_matches c w" if "t < w" "w < u" "minute_us dvd w" for w
      using next_loop_found[OF Inr floor_minute_dvd] floor_minute_least[of w t] that by auto
    with next_loop_found[OF Inr floor_minute_dvd] gt show ?thesis unfolding eq Inr by auto
  next
    case (Inl x)
    then obtain m where x: "x = Exc ValueError m"
      using next_loop_error_type[OF Inl] gt assms by (cases x) auto
    have "\<not> cron_matches c w" if "t < w" "w \<le> ?lim" "minute_us dvd w" for w
      using next_loop_none[OF Inl[unfolded x] floor_minute_dvd] floor_minute_least[of w t] that by blast
    then show ?thesis unfolding eq Inl x by auto
  qed
qed

theorem next_after_earliest_witness:
  "(let t = mk_dt 2026 7 5 17 30 0;
        c = \<lparr>minute = {0}, hour = {18}, dom = {1..31}, mon = {1..12}, dow = {0..6},
             dom_restricted = False, dow_restricted = False, expr = L ''0 18 * * *''\<rparr>
    in 0 \<le> t \<and> t + 366 * day_us + minute_us < max_dt \<and>
       ((\<exists>u. next_after c t = Inr u \<and> t < u \<and> u \<le> t + 366 * day_us \<and> minute_us dvd u \<and> cron_matches c u
              \<and> (\<forall>w. t < w \<and> w < u \<and> minute_us dvd w \<longrightarrow> \<not> cron_matches c w))
       \<or> (\<exists>m. next_after c t = Inl (Exc ValueError m) \<and>
              (\<forall>w. t < w \<and> w \<le> t + 366 * day_us \<and> minute_us dvd w \<longrightarrow> \<not> cron_matches c w))))"
proof -
  have "0 \<le> mk_dt 2026 7 5 17 30 0" "mk_dt 2026 7 5 17 30 0 + 366 * day_us + minute_us < max_dt"
    by code_simp+
  then show ?thesis unfolding Let_def by (intro conjI next_after_earliest)
qed

end
