(* ===== verification/Scheduler.thy ===== *)
theory Scheduler
  imports Cron
begin

text \<open>
  \<^verbatim>\<open>scheduler/engine.py\<close>: loading the jobs, one pass over them (\<^verbatim>\<open>run_pending\<close>) with retries,
  deadline and notification, and the resident loop.

  The executors, the notifier and the clocks are injected into the engine by its constructor, so
  they are parameters here, over a state \<open>'s\<close> of the outside world that they may change.  An
  executor can be called directly, or on a worker thread that is joined with a timeout: then
  \<open>None\<close> means that the thread was still alive when the timeout expired.
\<close>

section \<open>Data\<close>

record job_run_result =
  job_name :: pyval
  status :: pystr
  reason :: "pystr option"
  duration_us :: "int option"
  attempts :: "int option"

record job_spec =
  name :: pyval
  role :: pyval
  cron_expr :: pyval
  enabled :: pyval
  concurrency_policy :: pyval
  backoff_limit :: pyval
  active_deadline_seconds :: pyval
  raw :: pyval

record 's executor =
  exec_direct :: "pyval \<Rightarrow> ('s, unit) eff"
  exec_thread :: "pyval \<Rightarrow> pyval \<Rightarrow> 's \<Rightarrow> unit result option \<times> 's"

record 's sched_env =
  executors :: "pyval \<rightharpoonup> 's executor"
  notifier :: "(job_run_result \<Rightarrow> ('s, unit) eff) option"
  monotonic :: "'s \<Rightarrow> int"
  now_fn :: "'s \<Rightarrow> datetime"
  sleep_fn :: "int \<Rightarrow> 's \<Rightarrow> 's"

record engine_jobs =
  jobs :: "job_spec list"
  crons :: "pyval \<rightharpoonup> cron_schedule"

text \<open>What changes while the engine runs: \<^verbatim>\<open>_last_fired\<close>, the lines printed, the outside world.\<close>

record 's sched_state =
  last_fired :: "pyval \<rightharpoonup> datetime"
  stderr :: "pystr list"
  outer :: 's

section \<open>Loading the jobs\<close>

definition ASSUMED_TIMEZONE :: pystr where "ASSUMED_TIMEZONE = L ''Asia/Tokyo''"

definition load_job :: "pyval \<Rightarrow> pyval \<Rightarrow> job_spec option result" where
  "load_job defaults r =
     ebind (py_get_def defaults (L ''enabled'') (PBool True)) (\<lambda>de.
     ebind (py_get_def r (L ''enabled'') de) (\<lambda>en.
     if \<not> truthy en then Inr None
     else
     ebind (py_index r ''name'') (\<lambda>nm.
     ebind (py_get_def r (L ''role'') (PStr [])) (\<lambda>ro.
     ebind (py_index r ''cron'') (\<lambda>cr.
     ebind (py_get_def defaults (L ''concurrency_policy'') (PStr (L ''forbid''))) (\<lambda>dcp.
     ebind (py_get_def r (L ''concurrency_policy'') dcp) (\<lambda>cp.
     ebind (py_get_def defaults (L ''backoff_limit'') (PInt 1)) (\<lambda>dbl.
     ebind (py_get_def r (L ''backoff_limit'') dbl) (\<lambda>bl.
     ebind (py_get r (L ''active_deadline_seconds'')) (\<lambda>ads.
     Inr (Some \<lparr>name = nm, role = ro, cron_expr = cr, enabled = en, concurrency_policy = cp,
                backoff_limit = bl, active_deadline_seconds = ads, raw = r\<rparr>)))))))))))"

fun load_job_list :: "pyval \<Rightarrow> pyval list \<Rightarrow> job_spec list result" where
  "load_job_list defaults [] = Inr []"
| "load_job_list defaults (r # rs) =
     ebind (load_job defaults r) (\<lambda>j.
     ebind (load_job_list defaults rs) (\<lambda>js.
     Inr (case j of None \<Rightarrow> js | Some job \<Rightarrow> job # js)))"

definition load_jobs :: "pyval \<Rightarrow> job_spec list result" where
  "load_jobs schedules0 =
     (let schedules = py_or schedules0 empty_dict in
      ebind (py_get schedules (L ''defaults'')) (\<lambda>d.
      let defaults = py_or d empty_dict in
      ebind (py_get_def defaults (L ''timezone'') (PStr ASSUMED_TIMEZONE)) (\<lambda>timezone.
      if timezone \<noteq> PStr ASSUMED_TIMEZONE
      then Inl (Exc ValueError (L ''unsupported schedules timezone '' @ py_repr timezone
             @ L ''; scheduler engine assumes '' @ str_repr ASSUMED_TIMEZONE @ L '' (ADR-022)''))
      else
      ebind (py_get schedules (L ''jobs'')) (\<lambda>js.
      ebind (py_iter (py_or js empty_list)) (\<lambda>raws.
      load_job_list defaults raws)))))"

text \<open>The dictionary comprehension over the jobs: a later job of the same name replaces the entry.\<close>

fun parse_cron_val :: "pyval \<Rightarrow> cron_schedule result" where
  "parse_cron_val (PStr e) = cron_parse e"
| "parse_cron_val v = Inl (attribute_error v ''split'')"

fun build_crons :: "(pyval \<rightharpoonup> cron_schedule) \<Rightarrow> job_spec list \<Rightarrow> (pyval \<rightharpoonup> cron_schedule) result" where
  "build_crons m [] = Inr m"
| "build_crons m (j # js) =
     ebind (parse_cron_val (cron_expr j)) (\<lambda>c.
     if \<not> hashable (name j) then Inl (unhashable_error (name j))
     else build_crons (m(name j \<mapsto> c)) js)"

definition engine_init :: "pyval \<Rightarrow> engine_jobs result" where
  "engine_init schedules =
     ebind (load_jobs schedules) (\<lambda>js.
     ebind (build_crons Map.empty js) (\<lambda>cs.
     Inr \<lparr>jobs = js, crons = cs\<rparr>))"

section \<open>Running one job\<close>

text \<open>\<^verbatim>\<open>max(1, job.backoff_limit + 1)\<close> as the number of attempts it admits.\<close>

fun max_attempts :: "pyval \<Rightarrow> int result" where
  "max_attempts (PInt i) = Inr (max 1 (i + 1))"
| "max_attempts (PBool b) = Inr (max 1 ((if b then 1 else 0) + 1))"
| "max_attempts (PFloat m e) = Inr (max 1 ((if e \<ge> 0 then m * 10 ^ nat e else - ((- m) div 10 ^ nat (- e))) + 1))"
| "max_attempts (PStr s) = Inl (Exc TypeError (L ''can only concatenate str (not \"int\") to str''))"
| "max_attempts (PList s) = Inl (Exc TypeError (L ''can only concatenate list (not \"int\") to list''))"
| "max_attempts v = Inl (Exc TypeError (L ''unsupported operand type(s) for +: '' @ [39] @ type_name v @ [39]
     @ L '' and '' @ [39] @ L ''int'' @ [39]))"

text \<open>\<^verbatim>\<open>_run_with_deadline\<close>\<close>

definition run_with_deadline :: "'s executor \<Rightarrow> pyval \<Rightarrow> pyval \<Rightarrow> ('s, unit) eff" where
  "run_with_deadline ex job deadline = (\<lambda>s.
     case exec_thread ex job deadline s of
       (None, s') \<Rightarrow> (Inl (Exc RuntimeError (L ''deadline exceeded'')), s')
     | (Some r, s') \<Rightarrow> (r, s'))"

definition run_attempt :: "'s executor \<Rightarrow> job_spec \<Rightarrow> ('s, unit) eff" where
  "run_attempt ex job =
     (if truthy (active_deadline_seconds job)
      then run_with_deadline ex (raw job) (active_deadline_seconds job)
      else exec_direct ex (raw job))"

definition print_err :: "pystr \<Rightarrow> 's sched_state \<Rightarrow> 's sched_state" where
  "print_err l st = st\<lparr>stderr := stderr st @ [l]\<rparr>"

text \<open>
  The retry loop: \<open>left\<close> attempts remain, \<open>n\<close> have been made.  The result is the number of
  attempts and the last error; an exception that is no \<^verbatim>\<open>Exception\<close> leaves the loop.
\<close>

fun retry_loop :: "'s executor \<Rightarrow> job_spec \<Rightarrow> nat \<Rightarrow> int \<Rightarrow> pyexc option \<Rightarrow> ('s sched_state, int \<times> pyexc option) eff" where
  "retry_loop ex job 0 n err st = (Inr (n, err), st)"
| "retry_loop ex job (Suc left) n err st =
     (case run_attempt ex job (outer st) of
        (Inr _, s') \<Rightarrow> (Inr (n + 1, None), st\<lparr>outer := s'\<rparr>)
      | (Inl e, s') \<Rightarrow>
          if is_Exception e
          then retry_loop ex job left (n + 1) (Some e)
                 (print_err (L ''scheduler: job '' @ py_repr (name job) @ L '' attempt '' @ int_str (n + 1) @ L '' failed: '' @ exc_msg e)
                    (st\<lparr>outer := s'\<rparr>))
          else (Inl e, st\<lparr>outer := s'\<rparr>))"

definition skipped_result :: "pyval \<Rightarrow> string \<Rightarrow> job_run_result" where
  "skipped_result nm why = \<lparr>job_name = nm, status = L ''skipped'', reason = Some (L why), duration_us = None, attempts = None\<rparr>"

definition dispatch :: "'s sched_env \<Rightarrow> job_spec \<Rightarrow> ('s sched_state, job_run_result) eff" where
  "dispatch env job st =
     (case executors env (name job) of
        None \<Rightarrow> (Inr (skipped_result (name job) ''no executor''),
                 print_err (L ''scheduler: no executor registered for job '' @ py_repr (name job) @ L ''; skipping'') st)
      | Some ex \<Rightarrow>
          (case max_attempts (backoff_limit job) of
             Inl e \<Rightarrow> (Inl e, st)
           | Inr mx \<Rightarrow>
               (case retry_loop ex job (nat mx) 0 None st of
                  (Inl e, st') \<Rightarrow> (Inl e, st')
                | (Inr (n, err), st') \<Rightarrow>
                    (let dur = monotonic env (outer st') - monotonic env (outer st) in
                     case err of
                       None \<Rightarrow> (Inr \<lparr>job_name = name job, status = L ''succeeded'', reason = None,
                                     duration_us = Some dur, attempts = Some n\<rparr>, st')
                     | Some e \<Rightarrow> (Inr \<lparr>job_name = name job, status = L ''failed'', reason = Some (exc_msg e),
                                       duration_us = Some dur, attempts = Some n\<rparr>, st')))))"

text \<open>\<^verbatim>\<open>_run_job_safely\<close>: \<open>None\<close> when the schedule does not match this minute.\<close>

definition run_job_checked :: "'s sched_env \<Rightarrow> engine_jobs \<Rightarrow> job_spec \<Rightarrow> datetime \<Rightarrow> ('s sched_state, job_run_result option) eff" where
  "run_job_checked env eng job current_minute st =
     (case crons eng (name job) of
        None \<Rightarrow> (Inl (Exc KeyError (py_repr (name job))), st)
      | Some cron \<Rightarrow>
          if \<not> cron_matches cron current_minute then (Inr None, st)
          else if concurrency_policy job = PStr (L ''forbid'') \<and> last_fired st (name job) = Some current_minute
          then (Inr (Some (skipped_result (name job) ''already fired this minute'')), st)
          else (case dispatch env job (st\<lparr>last_fired := (last_fired st)(name job \<mapsto> current_minute)\<rparr>) of
                  (Inl e, st') \<Rightarrow> (Inl e, st')
                | (Inr r, st') \<Rightarrow> (Inr (Some r), st')))"

definition run_job_safely :: "'s sched_env \<Rightarrow> engine_jobs \<Rightarrow> job_spec \<Rightarrow> datetime \<Rightarrow> ('s sched_state, job_run_result option) eff" where
  "run_job_safely env eng job current_minute =
     catch (run_job_checked env eng job current_minute) is_Exception (\<lambda>e st.
       (Inr (Some \<lparr>job_name = name job, status = L ''failed'', reason = Some (exc_msg e), duration_us = None, attempts = None\<rparr>),
        print_err (L ''scheduler: job '' @ py_repr (name job) @ L '' raised unexpectedly: '' @ exc_msg e) st))"

definition terminal :: "job_run_result \<Rightarrow> bool" where
  "terminal r = (status r = L ''succeeded'' \<or> status r = L ''failed'')"

definition notify :: "'s sched_env \<Rightarrow> job_run_result \<Rightarrow> ('s sched_state, unit) eff" where
  "notify env r st =
     (case notifier env of
        None \<Rightarrow> (Inr (), st)
      | Some f \<Rightarrow> if \<not> terminal r then (Inr (), st)
                   else (case f r (outer st) of (x, s') \<Rightarrow> (x, st\<lparr>outer := s'\<rparr>)))"

section \<open>One pass, and the resident loop\<close>

fun run_jobs :: "'s sched_env \<Rightarrow> engine_jobs \<Rightarrow> datetime \<Rightarrow> job_spec list \<Rightarrow> ('s sched_state, job_run_result list) eff" where
  "run_jobs env eng m [] = ret []"
| "run_jobs env eng m (j # js) =
     sbind (run_job_safely env eng j m) (\<lambda>r.
     case r of
       None \<Rightarrow> run_jobs env eng m js
     | Some res \<Rightarrow> sbind (notify env res) (\<lambda>_. sbind (run_jobs env eng m js) (\<lambda>rs. ret (res # rs))))"

definition run_pending :: "'s sched_env \<Rightarrow> engine_jobs \<Rightarrow> datetime \<Rightarrow> ('s sched_state, job_run_result list) eff" where
  "run_pending env eng at = run_jobs env eng (floor_minute at) (jobs eng)"

definition run_once :: "'s sched_env \<Rightarrow> engine_jobs \<Rightarrow> ('s sched_state, job_run_result list) eff" where
  "run_once env eng st = run_pending env eng (now_fn env (outer st)) st"

text \<open>The sleep after a pass that started at \<open>now\<close>, in microseconds.\<close>

definition sleep_us :: "datetime \<Rightarrow> int result" where
  "sleep_us now = ebind (dt_add (floor_minute now) minute_us) (\<lambda>next_minute. Inr (max 0 (next_minute - now)))"

text \<open>One turn of \<^verbatim>\<open>run_forever\<close>.\<close>

definition forever_turn :: "'s sched_env \<Rightarrow> engine_jobs \<Rightarrow> ('s sched_state, unit) eff" where
  "forever_turn env eng st =
     (let now = now_fn env (outer st) in
      sbind (catch (sbind (run_pending env eng now) (\<lambda>_. ret ())) is_Exception
               (\<lambda>e st. (Inr (), print_err (L ''scheduler: run_pending raised unexpectedly: '' @ exc_msg e) st)))
        (\<lambda>_ st'. case sleep_us now of
                    Inl e \<Rightarrow> (Inl e, st')
                  | Inr d \<Rightarrow> (Inr (), st'\<lparr>outer := sleep_fn env d (outer st')\<rparr>)) st)"

fun forever_turns :: "nat \<Rightarrow> 's sched_env \<Rightarrow> engine_jobs \<Rightarrow> ('s sched_state, unit) eff" where
  "forever_turns 0 env eng = ret ()"
| "forever_turns (Suc n) env eng = sbind (forever_turn env eng) (\<lambda>_. forever_turns n env eng)"

section \<open>A small instance\<close>

text \<open>
  A schedule with an enabled half-hourly job and a disabled one, and an outside world with a clock:
  the executor takes ten seconds, fails when called for the first time and succeeds afterwards.
\<close>

record demo_world =
  clock :: datetime
  calls :: nat
  notified :: "job_run_result list"

definition demo_entries :: "pyval list" where
  "demo_entries =
     [PDict [(L ''name'', PStr (L ''digest'')), (L ''cron'', PStr (L ''*/30 * * * *''))],
      PDict [(L ''name'', PStr (L ''off'')), (L ''cron'', PStr (L ''bad'')), (L ''enabled'', PBool False)]]"

definition demo_schedules :: pyval where
  "demo_schedules = PDict [(L ''jobs'', PList demo_entries)]"

definition demo_exec :: "(demo_world, unit) eff" where
  "demo_exec w = ((if calls w = 0 then Inl (Exc RuntimeError (L ''x'')) else Inr ()),
     w\<lparr>clock := clock w + 10 * second_us, calls := calls w + 1\<rparr>)"

definition demo_env :: "demo_world sched_env" where
  "demo_env = \<lparr>executors = [PStr (L ''digest'') \<mapsto> \<lparr>exec_direct = (\<lambda>_. demo_exec),
       exec_thread = (\<lambda>_ _ w. case demo_exec w of (r, w') \<Rightarrow> (Some r, w'))\<rparr>],
     notifier = Some (\<lambda>r w. (Inr (), w\<lparr>notified := notified w @ [r]\<rparr>)),
     monotonic = clock, now_fn = clock, sleep_fn = (\<lambda>d w. w\<lparr>clock := clock w + d\<rparr>)\<rparr>"

definition demo_now :: datetime where "demo_now = 30 * minute_us + 5 * second_us"

definition demo_start :: "demo_world sched_state" where
  "demo_start = \<lparr>last_fired = Map.empty, stderr = [], outer = \<lparr>clock = demo_now, calls = 0, notified = []\<rparr>\<rparr>"

definition demo_engine :: engine_jobs where
  "demo_engine = projr (engine_init demo_schedules)"

definition demo_pass :: "job_run_result list result \<times> demo_world sched_state" where
  "demo_pass = run_pending demo_env demo_engine demo_now demo_start"

definition demo_executor :: "demo_world executor" where
  "demo_executor = \<lparr>exec_direct = (\<lambda>_. demo_exec),
     exec_thread = (\<lambda>_ _ w. case demo_exec w of (r, w') \<Rightarrow> (Some r, w'))\<rparr>"

definition demo_job :: job_spec where
  "demo_job = hd (jobs demo_engine)"

lemma demo_engine_init: "engine_init demo_schedules = Inr demo_engine"
proof -
  have "\<not> isl (engine_init demo_schedules)" by code_simp
  then show ?thesis by (simp add: demo_engine_def)
qed

lemma demo_pass_Inr: "run_pending demo_env demo_engine demo_now demo_start = (Inr (projr (fst demo_pass)), snd demo_pass)"
proof -
  have "\<not> isl (fst demo_pass)" by code_simp
  then show ?thesis by (simp add: demo_pass_def prod_eq_iff)
qed

lemma demo_job_fields:
  "name demo_job = PStr (L ''digest'')" "backoff_limit demo_job = PInt 1" "active_deadline_seconds demo_job = PNone"
  by code_simp+

lemmas demo_defs = demo_env_def demo_executor_def demo_exec_def demo_start_def demo_now_def demo_job_fields

section \<open>Invariants of the loader\<close>

text \<open>A loaded engine: every job is enabled and its schedule has been parsed and is well formed.\<close>

definition engine_wf :: "engine_jobs \<Rightarrow> bool" where
  "engine_wf eng \<longleftrightarrow> (\<forall>j \<in> set (jobs eng). truthy (enabled j) \<and> hashable (name j) \<and>
     (\<exists>c. crons eng (name j) = Some c \<and> cron_wf c))"

lemma load_job_enabled: "load_job d r = Inr (Some j) \<Longrightarrow> truthy (enabled j) \<and> raw j = r \<and> py_index r ''name'' = Inr (name j)"
  by (auto simp: load_job_def split: if_splits)

lemma load_job_list_enabled:
  "load_job_list d rs = Inr js \<Longrightarrow> j \<in> set js \<Longrightarrow> truthy (enabled j) \<and> raw j \<in> set rs"
  by (induction rs arbitrary: js) (auto split: option.splits dest: load_job_enabled)

lemma load_jobs_enabled: "load_jobs v = Inr js \<Longrightarrow> j \<in> set js \<Longrightarrow> truthy (enabled j)"
  by (auto simp: load_jobs_def Let_def split: if_splits dest: load_job_list_enabled)

lemma parse_cron_val_wf: "parse_cron_val v = Inr c \<Longrightarrow> cron_wf c"
  by (cases v) (auto intro: cron_parse_wf)

lemma build_crons_dom:
  assumes "build_crons m js = Inr m'" and "\<forall>c \<in> ran m. cron_wf c"
  shows "(\<forall>j \<in> set js. hashable (name j) \<and> name j \<in> Map.dom m') \<and> Map.dom m \<subseteq> Map.dom m' \<and> (\<forall>c \<in> ran m'. cron_wf c)"
  using assms
proof (induction js arbitrary: m)
  case (Cons j js)
  from Cons.prems(1) obtain c where c: "parse_cron_val (cron_expr j) = Inr c" "hashable (name j)"
    "build_crons (m(name j \<mapsto> c)) js = Inr m'" by (auto split: if_splits)
  have "\<forall>c \<in> ran (m(name j \<mapsto> c)). cron_wf c"
    using Cons.prems(2) parse_cron_val_wf[OF c(1)] by (auto simp: ran_def)
  from Cons.IH[OF c(3) this] c(2) dom_fun_upd[of m "name j" "Some c"] show ?case by (metis insert_iff insert_subset option.distinct(1) set_ConsD)
qed auto

text \<open>What an entry says about a key: its own value, else the default, else the engine's.\<close>

definition job_field :: "(pystr \<times> pyval) list \<Rightarrow> pyval \<Rightarrow> string \<Rightarrow> pyval \<Rightarrow> pyval" where
  "job_field d r k v = (case r of PDict kvs \<Rightarrow> assoc_get kvs (L k) (assoc_get d (L k) v) | _ \<Rightarrow> v)"

lemma load_job_list_raws:
  "load_job_list (PDict d) rs = Inr js \<Longrightarrow> map raw js = filter (\<lambda>r. truthy (job_field d r ''enabled'' (PBool True))) rs"
proof (induction rs arbitrary: js)
  case (Cons r rs)
  from Cons.prems obtain j js' where j: "load_job (PDict d) r = Inr j" "load_job_list (PDict d) rs = Inr js'"
    "js = (case j of None \<Rightarrow> js' | Some job \<Rightarrow> job # js')" by auto
  then have "(j \<noteq> None \<longleftrightarrow> truthy (job_field d r ''enabled'' (PBool True))) \<and> (\<forall>i. j = Some i \<longrightarrow> raw i = r)"
    by (auto simp: load_job_def job_field_def split: if_splits)
  with Cons.IH[OF j(2)] j(3) show ?case by (auto split: option.splits)
qed simp

lemma engine_init_wf: "engine_init v = Inr eng \<Longrightarrow> engine_wf eng"
proof -
  assume "engine_init v = Inr eng"
  then have l: "load_jobs v = Inr (jobs eng)" and b: "build_crons Map.empty (jobs eng) = Inr (crons eng)"
    by (auto simp: engine_init_def)
  have "\<exists>c. crons eng (name j) = Some c \<and> cron_wf c" "hashable (name j)" if "j \<in> set (jobs eng)" for j
    using build_crons_dom[OF b] that by (auto simp: ran_def dest!: bspec)
  then show ?thesis using load_jobs_enabled[OF l] by (auto simp: engine_wf_def)
qed

text \<open>Loading: an accepted configuration gives exactly the entries that are enabled (by their own
  flag, else the default, else yes), in their order, and each has a parsed, well-formed schedule;
  a time zone other than the assumed one is never accepted.\<close>

theorem engine_init_loads:
  assumes "engine_init (PDict s) = Inr eng"
    and "py_or (assoc_get s (L ''defaults'') PNone) empty_dict = PDict d"
    and "py_or (assoc_get s (L ''jobs'') PNone) empty_list = PList raws"
  shows "engine_wf eng \<and> assoc_get d (L ''timezone'') (PStr ASSUMED_TIMEZONE) = PStr ASSUMED_TIMEZONE \<and>
    map raw (jobs eng) = filter (\<lambda>r. truthy (job_field d r ''enabled'' (PBool True))) raws"
proof -
  have "load_jobs (PDict s) = Inr (jobs eng)" using assms(1) by (auto simp: engine_init_def)
  moreover have "py_or (PDict s) empty_dict = PDict s" by (simp add: py_or_def)
  ultimately have "assoc_get d (L ''timezone'') (PStr ASSUMED_TIMEZONE) = PStr ASSUMED_TIMEZONE"
    "load_job_list (PDict d) raws = Inr (jobs eng)"
    using assms(2,3) by (auto simp: load_jobs_def split: if_splits)
  with load_job_list_raws engine_init_wf[OF assms(1)] show ?thesis by auto
qed

theorem engine_init_loads_witness:
  "engine_wf demo_engine \<and> assoc_get [] (L ''timezone'') (PStr ASSUMED_TIMEZONE) = PStr ASSUMED_TIMEZONE \<and>
   map raw (jobs demo_engine) = filter (\<lambda>r. truthy (job_field [] r ''enabled'' (PBool True))) demo_entries"
  by (rule engine_init_loads[OF demo_engine_init[unfolded demo_schedules_def]])
    (simp_all add: assoc_get_def py_or_def)

section \<open>What a pass does to the record of fired jobs\<close>

lemma print_err_simps [simp]:
  "last_fired (print_err l st) = last_fired st" "outer (print_err l st) = outer st"
  by (simp_all add: print_err_def)

lemma retry_loop_last_fired: "retry_loop ex job n k err st = (r, st') \<Longrightarrow> last_fired st' = last_fired st"
  by (induction ex job n k err st rule: retry_loop.induct) (auto split: prod.splits sum.splits if_splits)

lemma dispatch_last_fired: "dispatch env job st = (r, st') \<Longrightarrow> last_fired st' = last_fired st"
  by (auto simp: dispatch_def Let_def split: option.splits sum.splits prod.splits dest: retry_loop_last_fired)

lemma notify_last_fired: "notify env res st = (r, st') \<Longrightarrow> last_fired st' = last_fired st"
  by (auto simp: notify_def split: option.splits if_splits prod.splits)

text \<open>Whether a job of the engine is due in a minute.\<close>

definition due :: "engine_jobs \<Rightarrow> datetime \<Rightarrow> job_spec \<Rightarrow> bool" where
  "due eng m j \<longleftrightarrow> (case crons eng (name j) of None \<Rightarrow> False | Some c \<Rightarrow> cron_matches c m)"

lemma run_job_safely_last_fired:
  assumes "run_job_safely env eng j m st = (r, st')"
  shows "last_fired st' = (if due eng m j then (last_fired st)(name j \<mapsto> m) else last_fired st)"
  using assms
  by (auto simp: run_job_safely_def run_job_checked_def due_def catch_def fun_upd_idem
      split: option.splits if_splits prod.splits sum.splits dest: dispatch_last_fired)

lemma run_job_safely_not_due:
  "engine_wf eng \<Longrightarrow> j \<in> set (jobs eng) \<Longrightarrow> \<not> due eng m j \<Longrightarrow> run_job_safely env eng j m st = (Inr None, st)"
  by (auto simp: engine_wf_def due_def run_job_safely_def run_job_checked_def catch_def split: option.splits dest!: bspec)

lemma run_job_safely_fired:
  assumes "due eng m j" and "concurrency_policy j = PStr (L ''forbid'')" and "last_fired st (name j) = Some m"
  shows "run_job_safely env eng j m st = (Inr (Some (skipped_result (name j) ''already fired this minute'')), st)"
  using assms by (auto simp: due_def run_job_safely_def run_job_checked_def catch_def split: option.splits)

lemma run_job_safely_result:
  assumes "run_job_safely env eng j m st = (Inr (Some res), st')"
  shows "job_name res = name j"
  using assms
  by (auto simp: run_job_safely_def run_job_checked_def catch_def dispatch_def skipped_result_def Let_def
      split: option.splits if_splits prod.splits sum.splits)

text \<open>The record after a pass over some jobs.\<close>

lemma run_jobs_last_fired:
  assumes "run_jobs env eng m js st = (r, st')"
  shows "last_fired st' nm = last_fired st nm \<or> last_fired st' nm = Some m \<and> (\<exists>j \<in> set js. name j = nm \<and> due eng m j)"
  using assms
proof (induction js arbitrary: st r)
  case (Cons j js)
  obtain o1 st1 where j: "run_job_safely env eng j m st = (o1, st1)" by fastforce
  note lf = run_job_safely_last_fired[OF j]
  from Cons.prems j consider (stop) "st' = st1" | (skip) r' where "run_jobs env eng m js st1 = (r', st')"
    | (res) res u st2 where "notify env res st1 = (u, st2)" "st' = st2 \<or> (\<exists>r'. run_jobs env eng m js st2 = (r', st'))"
    by (auto simp: sbind_def split: sum.splits option.splits prod.splits)
  then show ?case
  proof cases
    case stop
    then show ?thesis using lf by auto
  next
    case skip
    from Cons.IH[OF skip] lf show ?thesis by (auto split: if_splits)
  next
    case res
    then show ?thesis using notify_last_fired[OF res(1)] Cons.IH[of st2] lf by (auto split: if_splits)
  qed
qed simp


section \<open>A second pass in the same minute\<close>

definition all_forbid :: "engine_jobs \<Rightarrow> bool" where
  "all_forbid eng \<longleftrightarrow> (\<forall>j \<in> set (jobs eng). concurrency_policy j = PStr (L ''forbid''))"

lemma run_jobs_marks_due:
  assumes "run_jobs env eng m js st = (Inr rs, st')" and "j \<in> set js" and "due eng m j"
  shows "last_fired st' (name j) = Some m"
  using assms(1,2)
proof (induction js arbitrary: st rs)
  case (Cons i js)
  obtain o1 st1 where i: "run_job_safely env eng i m st = (Inr o1, st1)"
    using Cons.prems(1) by (auto elim: sbind_InrE)
  have rest: "\<exists>st2 rs'. last_fired st2 = last_fired st1 \<and> run_jobs env eng m js st2 = (Inr rs', st')"
    using Cons.prems(1) i by (cases o1) (auto elim!: sbind_InrE dest: notify_last_fired)
  then obtain st2 rs' where st2: "last_fired st2 = last_fired st1" "run_jobs env eng m js st2 = (Inr rs', st')"
    by blast
  show ?case
  proof (cases "j \<in> set js")
    case True
    then show ?thesis using Cons.IH[OF st2(2)] by simp
  next
    case False
    with Cons.prems(2) have "j = i" by simp
    then have "last_fired st2 (name j) = Some m"
      using run_job_safely_last_fired[OF i] assms(3) st2(1) by simp
    then show ?thesis using run_jobs_last_fired[OF st2(2), of "name j"] by auto
  qed
qed simp

lemma run_jobs_all_fired:
  assumes "engine_wf eng" and "set js \<subseteq> set (jobs eng)"
    and "\<forall>j \<in> set js. concurrency_policy j = PStr (L ''forbid'')"
    and "\<forall>j \<in> set js. due eng m j \<longrightarrow> last_fired st (name j) = Some m"
  shows "run_jobs env eng m js st =
    (Inr (map (\<lambda>j. skipped_result (name j) ''already fired this minute'') (filter (due eng m) js)), st)"
  using assms(2-)
proof (induction js)
  case (Cons j js)
  have n: "notify env (skipped_result (name j) w) st = (Inr (), st)" for w
    by (auto simp: notify_def skipped_result_def terminal_def split: option.splits)
  show ?case
  proof (cases "due eng m j")
    case True
    with Cons.prems have "run_job_safely env eng j m st =
      (Inr (Some (skipped_result (name j) ''already fired this minute'')), st)"
      by (intro run_job_safely_fired) auto
    with True Cons n show ?thesis by simp
  next
    case False
    with Cons.prems assms(1) have "run_job_safely env eng j m st = (Inr None, st)"
      by (intro run_job_safely_not_due) auto
    with False Cons show ?thesis by simp
  qed
qed simp

text \<open>C13. Double-fire guard: when every job has the policy \<open>forbid\<close>, a second pass within a minute
  in which a pass has completed calls no executor, notifies nobody and changes no state at all: it
  returns, in job order, one \<open>skipped\<close> result for each job due in that minute.\<close>

theorem second_pass_same_minute:
  assumes "engine_init cfg = Inr eng" and "all_forbid eng"
    and "run_pending env eng t1 st = (Inr rs, st1)" and "floor_minute t2 = floor_minute t1"
  shows "run_pending env eng t2 st1 =
    (Inr (map (\<lambda>j. skipped_result (name j) ''already fired this minute'')
            (filter (due eng (floor_minute t1)) (jobs eng))), st1)"
proof -
  have "\<forall>j \<in> set (jobs eng). due eng (floor_minute t1) j \<longrightarrow> last_fired st1 (name j) = Some (floor_minute t1)"
    using run_jobs_marks_due[OF assms(3)[unfolded run_pending_def]] by blast
  then show ?thesis using assms(2,4) engine_init_wf[OF assms(1)]
    by (simp add: run_pending_def run_jobs_all_fired all_forbid_def)
qed

theorem second_pass_same_minute_witness:
  "run_pending demo_env demo_engine (30 * minute_us + 59 * second_us) (snd demo_pass) =
     (Inr (map (\<lambda>j. skipped_result (name j) ''already fired this minute'')
             (filter (due demo_engine (floor_minute demo_now)) (jobs demo_engine))), snd demo_pass)"
  by (rule second_pass_same_minute[OF demo_engine_init _ demo_pass_Inr]) code_simp+

section \<open>Isolation of the jobs from each other\<close>

text \<open>Executors that raise nothing but \<^verbatim>\<open>Exception\<close>s, and a notifier that never raises.\<close>

definition tame_executor :: "'s executor \<Rightarrow> bool" where
  "tame_executor ex \<longleftrightarrow> (\<forall>v d. raises_only_Exception (exec_direct ex v) \<and> raises_only_Exception (run_with_deadline ex v d))"

definition tame_env :: "'s sched_env \<Rightarrow> bool" where
  "tame_env env \<longleftrightarrow> (\<forall>ex \<in> ran (executors env). tame_executor ex) \<and>
     (\<forall>f. notifier env = Some f \<longrightarrow> (\<forall>r. never_raises (f r)))"

lemma run_attempt_tame: "tame_executor ex \<Longrightarrow> run_attempt ex job s = (Inl e, s') \<Longrightarrow> is_Exception e"
  unfolding run_attempt_def tame_executor_def raises_only_Exception_def by metis

lemma retry_loop_tame: "tame_executor ex \<Longrightarrow> retry_loop ex job n k err st \<noteq> (Inl e, st')"
  by (induction ex job n k err st rule: retry_loop.induct)
    (auto split: prod.splits sum.splits if_splits dest: run_attempt_tame)

lemma max_attempts_error: "max_attempts v = Inl e \<Longrightarrow> is_Exception e"
  by (cases v) (auto simp: is_Exception_def)

lemma dispatch_tame: "tame_env env \<Longrightarrow> dispatch env job st = (Inl e, st') \<Longrightarrow> is_Exception e"
  by (auto simp: dispatch_def Let_def tame_env_def ran_def retry_loop_tame
      split: option.splits sum.splits prod.splits dest: max_attempts_error)

lemma run_job_safely_total:
  assumes "tame_env env" and "engine_wf eng" and "j \<in> set (jobs eng)"
  obtains "\<not> due eng m j" "run_job_safely env eng j m st = (Inr None, st)"
    | res st' where "due eng m j" "run_job_safely env eng j m st = (Inr (Some res), st')" "job_name res = name j"
proof (cases "due eng m j")
  case True
  then have "\<exists>res st'. run_job_safely env eng j m st = (Inr (Some res), st')"
    using dispatch_tame[OF assms(1)]
    by (auto simp: due_def run_job_safely_def run_job_checked_def catch_def split: option.splits prod.splits sum.splits)
  with True that(2) run_job_safely_result show ?thesis by blast
next
  case False
  with assms that(1) run_job_safely_not_due show ?thesis by blast
qed

lemma notify_tame: "tame_env env \<Longrightarrow> \<exists>st'. notify env res st = (Inr (), st')"
  by (auto simp: notify_def tame_env_def never_raises_def split: option.splits prod.splits)
    (metis old.unit.exhaust sum.exhaust)

lemma run_jobs_total:
  assumes "tame_env env" and "engine_wf eng" and "set js \<subseteq> set (jobs eng)"
  shows "\<exists>rs st'. run_jobs env eng m js st = (Inr rs, st') \<and> map job_name rs = map name (filter (due eng m) js)"
  using assms(3)
proof (induction js arbitrary: st)
  case (Cons j js)
  then have j: "j \<in> set (jobs eng)" and js: "set js \<subseteq> set (jobs eng)" by auto
  from run_job_safely_total[OF assms(1,2) j, of m st] show ?case
  proof cases
    case 1
    then show ?thesis using Cons.IH[OF js, of st] by auto
  next
    case (2 res st1)
    obtain st2 where n: "notify env res st1 = (Inr (), st2)" using notify_tame[OF assms(1)] by blast
    from Cons.IH[OF js, of st2] obtain rs st3 where
      "run_jobs env eng m js st2 = (Inr rs, st3)" "map job_name rs = map name (filter (due eng m) js)" by blast
    then show ?thesis using 2 n by simp
  qed
qed simp

text \<open>C4. Isolation: whatever \<^verbatim>\<open>Exception\<close>s the executors raise, and however often, a pass goes through
  all jobs and returns exactly one result per job due in that minute, in job order.  (A raising
  notifier, and \<^verbatim>\<open>KeyboardInterrupt\<close> or \<^verbatim>\<open>SystemExit\<close>, do end the pass: they are excluded.)\<close>

theorem run_pending_isolates_jobs:
  assumes "engine_init cfg = Inr eng" and "tame_env env"
  shows "\<exists>rs st'. run_pending env eng t st = (Inr rs, st') \<and>
           map job_name rs = map name (filter (due eng (floor_minute t)) (jobs eng))"
  unfolding run_pending_def using run_jobs_total[OF assms(2) engine_init_wf[OF assms(1)]] by blast


theorem run_pending_isolates_jobs_witness:
  "\<exists>rs st'. run_pending demo_env demo_engine demo_now demo_start = (Inr rs, st') \<and>
     map job_name rs = map name (filter (due demo_engine (floor_minute demo_now)) (jobs demo_engine))"
  by (rule run_pending_isolates_jobs[OF demo_engine_init])
    (auto simp: tame_env_def tame_executor_def raises_only_Exception_def never_raises_def demo_env_def demo_exec_def
      run_with_deadline_def is_Exception_def split: if_splits)

section \<open>Retries\<close>

text \<open>The outside world before attempt number \<open>k\<close> (from 0), and the outcome of that attempt.\<close>

fun world_before :: "'s executor \<Rightarrow> job_spec \<Rightarrow> nat \<Rightarrow> 's \<Rightarrow> 's" where
  "world_before ex job 0 s = s"
| "world_before ex job (Suc k) s = snd (run_attempt ex job (world_before ex job k s))"

definition attempt_outcome :: "'s executor \<Rightarrow> job_spec \<Rightarrow> nat \<Rightarrow> 's \<Rightarrow> unit result" where
  "attempt_outcome ex job k s = fst (run_attempt ex job (world_before ex job k s))"

lemma world_before_Suc: "world_before ex job (Suc k) s = world_before ex job k (snd (run_attempt ex job s))"
  by (induction k) auto

lemma attempt_outcome_Suc: "attempt_outcome ex job (Suc k) s = attempt_outcome ex job k (snd (run_attempt ex job s))"
  unfolding attempt_outcome_def world_before_Suc ..

lemma attempt_outcome_0: "attempt_outcome ex job 0 s = fst (run_attempt ex job s)"
  by (simp add: attempt_outcome_def)

lemma retry_loop_succeeds:
  assumes "attempt_outcome ex job k (outer st) = Inr ()" and "k < n"
    and "\<forall>i < k. \<exists>e. attempt_outcome ex job i (outer st) = Inl e \<and> is_Exception e"
  shows "\<exists>st'. retry_loop ex job n a err st = (Inr (a + int k + 1, None), st') \<and>
           outer st' = world_before ex job (Suc k) (outer st)"
  using assms
proof (induction n arbitrary: k a err st)
  case (Suc n)
  obtain o1 s1 where r: "run_attempt ex job (outer st) = (o1, s1)" by fastforce
  show ?case
  proof (cases k)
    case 0
    then show ?thesis using Suc.prems(1) r by (simp add: attempt_outcome_0)
  next
    case (Suc k')
    with Suc.prems(3) r obtain e where e: "o1 = Inl e" "is_Exception e"
      by (auto simp: attempt_outcome_0 dest!: spec[of _ 0])
    define st1 where "st1 = print_err (L ''scheduler: job '' @ py_repr (name job) @ L '' attempt '' @ int_str (a + 1)
      @ L '' failed: '' @ exc_msg e) (st\<lparr>outer := s1\<rparr>)"
    have o: "outer st1 = s1" by (simp add: st1_def)
    have "\<forall>i < k'. \<exists>e. attempt_outcome ex job i s1 = Inl e \<and> is_Exception e"
      using Suc.prems(3) Suc r attempt_outcome_Suc[of ex job _ "outer st"] by fastforce
    then have "\<exists>st'. retry_loop ex job n (a + 1) (Some e) st1 = (Inr (a + 1 + int k' + 1, None), st') \<and>
        outer st' = world_before ex job (Suc k') s1"
      using Suc.IH[of k' st1 "a + 1" "Some e"] Suc.prems(1,2) Suc r o by (simp add: attempt_outcome_Suc)
    then show ?thesis using r e Suc world_before_Suc[of ex job "Suc k'" "outer st"] by (simp add: st1_def ac_simps)
  qed
qed simp

lemma retry_loop_fails:
  assumes "\<forall>i < n. \<exists>e. attempt_outcome ex job i (outer st) = Inl e \<and> is_Exception e"
  shows "\<exists>st'. retry_loop ex job n a err st =
             (Inr (a + int n, if n = 0 then err else Some (projl (attempt_outcome ex job (n - 1) (outer st)))), st') \<and>
           outer st' = world_before ex job n (outer st)"
  using assms
proof (induction n arbitrary: a err st)
  case (Suc n)
  obtain o1 s1 where r: "run_attempt ex job (outer st) = (o1, s1)" by fastforce
  from Suc.prems r obtain e where e: "o1 = Inl e" "is_Exception e"
    by (auto simp: attempt_outcome_0 dest!: spec[of _ 0])
  define st1 where "st1 = print_err (L ''scheduler: job '' @ py_repr (name job) @ L '' attempt '' @ int_str (a + 1)
    @ L '' failed: '' @ exc_msg e) (st\<lparr>outer := s1\<rparr>)"
  have o: "outer st1 = s1" by (simp add: st1_def)
  have "\<forall>i < n. \<exists>e. attempt_outcome ex job i s1 = Inl e \<and> is_Exception e"
    using Suc.prems r attempt_outcome_Suc[of ex job _ "outer st"] by fastforce
  from Suc.IH[of st1 "a + 1" "Some e"] this o obtain st' where st':
    "retry_loop ex job n (a + 1) (Some e) st1 =
       (Inr (a + 1 + int n, if n = 0 then Some e else Some (projl (attempt_outcome ex job (n - 1) s1))), st')"
    "outer st' = world_before ex job n s1" by auto
  have "attempt_outcome ex job n (outer st) = (if n = 0 then Inl e else attempt_outcome ex job (n - 1) s1)"
    using r e by (cases n) (auto simp: attempt_outcome_0 attempt_outcome_Suc)
  then show ?case using st' r e world_before_Suc[of ex job n "outer st"] by (simp add: st1_def ac_simps)
qed simp

text \<open>Retries: a job whose attempt number \<open>k\<close> is the first to succeed, within the
  \<^verbatim>\<open>backoff_limit + 1\<close> attempts allowed, is reported as succeeded after exactly \<open>k\<close> attempts;
  no later attempt is made.\<close>

theorem dispatch_succeeds:
  assumes "executors env (name job) = Some ex" and "backoff_limit job = PInt b"
    and "int k < max 1 (b + 1)"
    and "attempt_outcome ex job k (outer st) = Inr ()"
    and "\<forall>i < k. \<exists>e. attempt_outcome ex job i (outer st) = Inl e \<and> is_Exception e"
  shows "\<exists>r st'. dispatch env job st = (Inr r, st') \<and> status r = L ''succeeded'' \<and> reason r = None \<and>
           attempts r = Some (int k + 1) \<and> outer st' = world_before ex job (Suc k) (outer st)"
proof -
  have "k < nat (max 1 (b + 1))" using assms(3) by simp
  from retry_loop_succeeds[OF assms(4) this assms(5), of 0 None] assms(1,2)
  show ?thesis by (auto simp: dispatch_def Let_def)
qed

theorem dispatch_succeeds_witness:
  "\<exists>r st'. dispatch demo_env demo_job demo_start = (Inr r, st') \<and> status r = L ''succeeded'' \<and> reason r = None \<and>
     attempts r = Some (int 1 + 1) \<and> outer st' = world_before demo_executor demo_job (Suc 1) (outer demo_start)"
  by (rule dispatch_succeeds[where b = 1])
    (simp_all add: demo_defs attempt_outcome_def run_attempt_def is_Exception_def)

text \<open>C16. Exhausted retries: when every one of the \<^verbatim>\<open>backoff_limit + 1\<close> attempts (at least one)
  raises, exactly that many are made and the job is reported as failed with the message of the
  last error.\<close>

theorem dispatch_fails:
  assumes "executors env (name job) = Some ex" and "backoff_limit job = PInt b"
    and "n = nat (max 1 (b + 1))"
    and "\<forall>i < n. \<exists>e. attempt_outcome ex job i (outer st) = Inl e \<and> is_Exception e"
  shows "\<exists>r st' e. dispatch env job st = (Inr r, st') \<and> status r = L ''failed'' \<and>
           attempt_outcome ex job (n - 1) (outer st) = Inl e \<and> reason r = Some (exc_msg e) \<and>
           attempts r = Some (int n) \<and> outer st' = world_before ex job n (outer st)"
proof -
  have n: "n \<noteq> 0" "n - 1 < n" using assms(3) by auto
  then obtain e where "attempt_outcome ex job (n - 1) (outer st) = Inl e" using assms(4) by blast
  with retry_loop_fails[OF assms(4), of 0 None] assms(1-3) n show ?thesis
    by (auto simp: dispatch_def Let_def)
qed


theorem dispatch_fails_witness:
  "\<exists>r st' e. dispatch demo_env (demo_job\<lparr>backoff_limit := PInt (- 4)\<rparr>) demo_start = (Inr r, st') \<and> status r = L ''failed'' \<and>
     attempt_outcome demo_executor (demo_job\<lparr>backoff_limit := PInt (- 4)\<rparr>) (1 - 1) (outer demo_start) = Inl e \<and>
     reason r = Some (exc_msg e) \<and> attempts r = Some (int 1) \<and>
     outer st' = world_before demo_executor (demo_job\<lparr>backoff_limit := PInt (- 4)\<rparr>) 1 (outer demo_start)"
  by (rule dispatch_fails[where b = "- 4"])
    (simp_all add: demo_defs attempt_outcome_def run_attempt_def is_Exception_def)

section \<open>Notifications\<close>

text \<open>
  A notifier that records each result it receives in a log the executors do not touch; \<open>log\<close>
  reads it off the outside world.
\<close>

definition logs_to :: "'s sched_env \<Rightarrow> ('s \<Rightarrow> job_run_result list) \<Rightarrow> bool" where
  "logs_to env log \<longleftrightarrow>
     (\<exists>f. notifier env = Some f \<and> (\<forall>r s. log (snd (f r s)) = log s @ [r])) \<and>
     (\<forall>ex \<in> ran (executors env). \<forall>v s. log (snd (exec_direct ex v s)) = log s \<and>
        (\<forall>d. log (snd (exec_thread ex v d s)) = log s))"

lemma run_attempt_log:
  "logs_to env log \<Longrightarrow> ex \<in> ran (executors env) \<Longrightarrow> run_attempt ex job s = (r, s') \<Longrightarrow> log s' = log s"
  unfolding logs_to_def run_attempt_def run_with_deadline_def
  by (auto split: if_splits prod.splits option.splits dest!: bspec) (metis snd_conv)+

lemma retry_loop_log:
  "logs_to env log \<Longrightarrow> ex \<in> ran (executors env) \<Longrightarrow> retry_loop ex job n k err st = (r, st') \<Longrightarrow>
     log (outer st') = log (outer st)"
  by (induction ex job n k err st rule: retry_loop.induct)
    (auto split: prod.splits sum.splits if_splits dest: run_attempt_log)

lemma dispatch_log:
  "logs_to env log \<Longrightarrow> dispatch env job st = (r, st') \<Longrightarrow> log (outer st') = log (outer st)"
  by (auto simp: dispatch_def Let_def split: option.splits sum.splits prod.splits dest!: retry_loop_log[OF _ ranI])

lemma run_job_safely_log:
  assumes "logs_to env log" and "run_job_safely env eng j m st = (r, st')"
  shows "log (outer st') = log (outer st)"
  using assms(2) dispatch_log[OF assms(1)]
  by (auto simp: run_job_safely_def run_job_checked_def catch_def
      split: option.splits if_splits prod.splits sum.splits dest!: dispatch_log[OF assms(1)])

lemma notify_log:
  assumes "logs_to env log" and "notify env res st = (r, st')"
  shows "log (outer st') = log (outer st) @ filter terminal [res]"
  using assms by (auto simp: notify_def logs_to_def split: option.splits if_splits prod.splits) (metis snd_conv)

lemma run_jobs_log:
  assumes "logs_to env log" and "run_jobs env eng m js st = (Inr rs, st')"
  shows "log (outer st') = log (outer st) @ filter terminal rs"
  using assms(2)
proof (induction js arbitrary: st rs)
  case (Cons j js)
  obtain o1 st1 where j: "run_job_safely env eng j m st = (Inr o1, st1)"
    using Cons.prems by (auto elim: sbind_InrE)
  note l1 = run_job_safely_log[OF assms(1) j]
  show ?case
  proof (cases o1)
    case None
    then show ?thesis using Cons.prems Cons.IH[of st1 rs] j l1 by simp
  next
    case (Some res)
    with Cons.prems j obtain u st2 rs' where
      2: "notify env res st1 = (u, st2)" "run_jobs env eng m js st2 = (Inr rs', st')" "rs = res # rs'"
      by (auto elim!: sbind_InrE)
    from Cons.IH[OF 2(2)] notify_log[OF assms(1) 2(1)] l1 2(3) show ?thesis by simp
  qed
qed simp

text \<open>C18. Notifications: during a pass the notifier receives exactly the succeeded and the failed
  results, each once, in the order of the results; skipped jobs are never announced.\<close>

theorem run_pending_notifies_terminal:
  assumes "logs_to env log" and "run_pending env eng t st = (Inr rs, st')"
  shows "log (outer st') = log (outer st) @ filter terminal rs"
  using run_jobs_log[OF assms(1)] assms(2) by (simp add: run_pending_def)

theorem run_pending_notifies_terminal_witness:
  "notified (outer (snd demo_pass)) = notified (outer demo_start) @ filter terminal (projr (fst demo_pass))"
  by (rule run_pending_notifies_terminal[OF _ demo_pass_Inr])
    (auto simp: logs_to_def demo_defs split: if_splits)

section \<open>The resident loop\<close>

text \<open>The clock: sleeping lets that much time pass.\<close>

definition clock_sleeps :: "'s sched_env \<Rightarrow> bool" where
  "clock_sleeps env \<longleftrightarrow> (\<forall>d s. 0 \<le> d \<longrightarrow> now_fn env (sleep_fn env d s) = now_fn env s + d)"

lemma floor_minute_shift: "minute_us dvd a \<Longrightarrow> floor_minute (a + e) = a + minute_us * (e div minute_us)"
  by (auto simp: floor_minute_def minus_mod_eq_mult_div[symmetric] elim!: dvdE)

lemma sleep_us_value:
  assumes "0 \<le> now" and "floor_minute now + minute_us < max_dt"
  shows "sleep_us now = Inr (floor_minute now + minute_us - now)" "0 < floor_minute now + minute_us - now"
    "floor_minute now + minute_us - now \<le> minute_us"
proof -
  show pos: "0 < floor_minute now + minute_us - now" "floor_minute now + minute_us - now \<le> minute_us"
    using floor_minute_bounds[of now] by auto
  then have "0 \<le> floor_minute now + minute_us" using assms(1) by linarith
  with assms pos show "sleep_us now = Inr (floor_minute now + minute_us - now)"
    by (auto simp: sleep_us_def dt_add_def)
qed



section \<open>Reachable states\<close>

text \<open>
  The states of an engine under any sequence of passes at non-decreasing times, completed or ended
  by an exception, with anything happening in the outside world in between.
\<close>

inductive sched_reach :: "'s sched_env \<Rightarrow> engine_jobs \<Rightarrow> datetime \<Rightarrow> 's sched_state \<Rightarrow> bool"
  for env :: "'s sched_env" and eng :: engine_jobs where
  start: "last_fired st = Map.empty \<Longrightarrow> sched_reach env eng t st"
| pass: "sched_reach env eng t st \<Longrightarrow> t \<le> t' \<Longrightarrow> run_pending env eng t' (st\<lparr>outer := w\<rparr>) = (r, st') \<Longrightarrow>
    sched_reach env eng t' st'"

inductive_cases sched_reachE: "sched_reach env eng t st"

text \<open>C20. Safety of the record of fired jobs: in every reachable state each entry is a whole minute,
  not in the future, in which the schedule of a job of that name matched.\<close>

theorem last_fired_sound:
  assumes "sched_reach env eng t st" and "last_fired st nm = Some m"
  shows "minute_us dvd m \<and> m \<le> t \<and> (\<exists>j \<in> set (jobs eng). name j = nm \<and> due eng m j)"
  using assms
proof (induction arbitrary: m rule: sched_reach.induct)
  case (start st t)
  then show ?case by simp
next
  case (pass t st t' w r st')
  from run_jobs_last_fired[OF pass.hyps(3)[unfolded run_pending_def], of nm] pass.prems
  consider "last_fired st nm = Some m"
    | "m = floor_minute t'" "\<exists>j \<in> set (jobs eng). name j = nm \<and> due eng (floor_minute t') j"
    by auto
  then show ?case
  proof cases
    case 1
    from pass.IH[OF 1] pass.hyps(2) show ?thesis by auto
  next
    case 2
    then show ?thesis using floor_minute_dvd[of t'] floor_minute_bounds(1)[of t'] by auto
  qed
qed


theorem last_fired_sound_witness:
  "last_fired (snd demo_pass) (PStr (L ''digest'')) = Some (30 * minute_us) \<and>
   minute_us dvd 30 * minute_us \<and> 30 * minute_us \<le> demo_now \<and>
   (\<exists>j \<in> set (jobs demo_engine). name j = PStr (L ''digest'') \<and> due demo_engine (30 * minute_us) j)"
proof -
  have "sched_reach demo_env demo_engine demo_now (snd demo_pass)"
    by (rule sched_reach.pass[OF sched_reach.start[of demo_start] order_refl, where w = "outer demo_start" and r = "fst demo_pass"])
      (simp_all add: demo_pass_def, simp add: demo_start_def)
  moreover have "last_fired (snd demo_pass) (PStr (L ''digest'')) = Some (30 * minute_us)" by code_simp
  ultimately show ?thesis using last_fired_sound by blast
qed

end
