(* ===== verification/Notify.thy ===== *)
theory Notify
  imports Invocation Scheduler
begin

text \<open>
  The notification of job results to the Slack syslog channel (\<^verbatim>\<open>scheduler/notify.py\<close>), the notifier
  that the command line gives to the scheduler.
\<close>

section \<open>Definitions\<close>

text \<open>\<^verbatim>\<open>f"{x:.1f}"\<close> of a time span in microseconds, held as the nearest double number of seconds.\<close>

definition one_decimal_abs :: "int \<Rightarrow> pystr" where
  "one_decimal_abs d =
     (case to_double d (-6) of (q, x) \<Rightarrow>
        let n = round_half_even (10 * q * 2 ^ nat x) (2 ^ nat (- x)) in dec_str (n div 10) @ [46] @ dec_str (n mod 10))"

definition one_decimal :: "int \<Rightarrow> pystr" where
  "one_decimal d = (if d < 0 then [45] @ one_decimal_abs (- d) else one_decimal_abs d)"

definition status_label :: "pystr \<Rightarrow> pystr" where
  "status_label s = assoc_get [(L ''succeeded'', L ''OK''), (L ''failed'', L ''NG'')] s s"

definition format_job_run_notification :: "job_run_result \<Rightarrow> pystr" where
  "format_job_run_notification r =
     (let duration = (case duration_us r of None \<Rightarrow> L ''-'' | Some d \<Rightarrow> one_decimal d @ L ''s'');
          attempts = (case attempts r of None \<Rightarrow> L ''-'' | Some n \<Rightarrow> int_str n);
          line = L ''[scheduler] job='' @ py_str (job_name r) @ L '' status='' @ status_label (status r) @
                 L '' duration='' @ duration @ L '' attempts='' @ attempts;
          excerpt = (if status r = L ''failed'' then error_excerpt (reason r) else None)
      in py_join [10] (line # (case excerpt of None \<Rightarrow> [] | Some x \<Rightarrow> if x = [] then [] else [L ''error: '' @ x])))"

definition notify_error_line :: "job_run_result \<Rightarrow> pyexc \<Rightarrow> pystr" where
  "notify_error_line r e =
     (if exc_type e = SlackNotifyError then L ''scheduler-notify: syslog notification failed for job ''
      else L ''scheduler-notify: unexpected error sending syslog notification for job '') @
     py_repr (job_name r) @ L '': '' @ exc_msg e"

definition syslog_notifier :: "outside \<Rightarrow> pystr \<Rightarrow> pystr \<Rightarrow> job_run_result \<Rightarrow> (world, unit) eff" where
  "syslog_notifier out base_url session_token r =
     catch (sbind (slack_notify out \<lparr>slack_base_url = base_url, slack_token = session_token\<rparr> (format_job_run_notification r) (Some (L ''syslog'')))
              (\<lambda>_. ret ()))
       is_Exception (\<lambda>e. print_stderr (notify_error_line r e))"

section \<open>The notifier fails open\<close>

lemma roe_slack_notify [tame_intros]: "tame_outside out \<Longrightarrow> raises_only_Exception (slack_notify out c x tg)"
  unfolding slack_notify_def by (intro tame_intros) simp_all

lemma never_print_stderr: "never_raises (print_stderr l)"
  by (simp add: never_raises_def print_stderr_def)

lemma never_syslog_notifier: "tame_outside out \<Longrightarrow> never_raises (syslog_notifier out url token r)"
  unfolding syslog_notifier_def by (intro never_catch never_print_stderr tame_intros)

lemma sends_slack_notify: "sends [slack_request c x tg] (slack_notify out c x tg)"
  unfolding slack_notify_def
  by (rule sends_sbind_first, rule sends_catch, rule sends_sbind_first[OF sends_fetch_text]) (intro sends_intros)+

lemma sends_syslog_notifier:
  "sends [slack_request \<lparr>slack_base_url = url, slack_token = token\<rparr> (format_job_run_notification r) (Some (L ''syslog''))] (syslog_notifier out url token r)"
  unfolding syslog_notifier_def by (rule sends_catch, rule sends_sbind_first[OF sends_slack_notify]) (intro sends_intros)+

text \<open>The notifier fails open: for every result it sends exactly one request, to the syslog target with the
  text of the result, and returns normally, whatever the service answers; an error becomes a line on
  standard error.\<close>

theorem syslog_notifier_fails_open:
  assumes "tame_outside out"
  shows "\<exists>w'. syslog_notifier out url token r w = (Inr (), w') \<and>
    http_log w' = http_log w @
      [slack_request \<lparr>slack_base_url = url, slack_token = token\<rparr> (format_job_run_notification r) (Some (L ''syslog''))]"
proof -
  obtain w' where w': "syslog_notifier out url token r w = (Inr (), w')"
    using never_raisesE[OF never_syslog_notifier[OF assms]] by (metis old.unit.exhaust)
  with sendsD[OF sends_syslog_notifier w'] show ?thesis by blast
qed

definition demo_result :: job_run_result where
  "demo_result = \<lparr>job_name = PStr (L ''j''), status = L ''failed'', reason = Some (L ''e''), duration_us = Some 1250000, attempts = Some 2\<rparr>"

theorem syslog_notifier_fails_open_witness:
  "\<exists>w'. syslog_notifier demo_out (L ''u'') (L ''t'') demo_result demo_start_world = (Inr (), w') \<and>
    http_log w' = http_log demo_start_world @
      [slack_request \<lparr>slack_base_url = L ''u'', slack_token = L ''t''\<rparr> (format_job_run_notification demo_result) (Some (L ''syslog''))]"
  by (rule syslog_notifier_fails_open[OF tame_demo_out])

text \<open>A failed run of 1.25 seconds, as it is posted.\<close>

lemma demo_notification:
  "format_job_run_notification demo_result =
    L ''[scheduler] job=j status=NG duration=1.2s attempts=2'' @ [10] @ L ''error: e''"
  by code_simp

end
