(* ===== verification/Cli.thy ===== *)
theory Cli
  imports Runners Smoke StockResearch InvestDigest Notify
begin

text \<open>
  The command line (\<^verbatim>\<open>cli.py\<close>): each command as a computation that returns the exit code, the executors and
  the notifier that it gives to the scheduler, and the workspace of a session.  The parsed arguments
  are the arguments of the commands; \<open>Entry\<close> parses them.  \<open>fuel\<close> bounds the polls of Jobs, \<open>giveup\<close>
  says when a job on a thread is given up and what the world is then.
\<close>

section \<open>Structured log lines\<close>

text \<open>\<^verbatim>\<open>log(event, **fields)\<close> of \<^verbatim>\<open>util/logging.py\<close>.\<close>

definition log_event :: "outside \<Rightarrow> pystr \<Rightarrow> (pystr \<times> pyval) list \<Rightarrow> (world, unit) eff" where
  "log_event out event kvs =
     sbind (iso_now out) (\<lambda>ts. print_stderr (json_dumps_raw (PDict (dict_update [(L ''ts'', PStr ts), (L ''event'', PStr event)] kvs))))"

section \<open>Configuration commands\<close>

definition print_validation :: "validation_result \<Rightarrow> (world, int) eff" where
  "print_validation r =
     sbind (for_each (\<lambda>m. print_stderr (L ''warning: '' @ m)) (vr_warnings r)) (\<lambda>_.
     sbind (for_each (\<lambda>m. print_stderr (L ''error: '' @ m)) (vr_errors r)) (\<lambda>_.
     if vr_ok r then sbind (print_out (L ''config ok'')) (\<lambda>_. ret 0) else ret 1))"

definition load_validated_config :: "sys_env \<Rightarrow> pystr option \<Rightarrow> (world, app_config) eff" where
  "load_validated_config sys root =
     sbind (load_config sys (if_set root)) (\<lambda>config.
     sbind (lift_res (validate_config config)) (\<lambda>r.
     if \<not> vr_ok r then raise_exc ValueError (L ''config validation failed: '' @ py_join (L ''; '') (vr_errors r))
     else ret config))"

definition cmd_config_validate :: "sys_env \<Rightarrow> pystr option \<Rightarrow> (world, int) eff" where
  "cmd_config_validate sys root =
     sbind (load_config sys (if_set root)) (\<lambda>config. sbind (lift_res (validate_config config)) print_validation)"

definition default_db_path :: "pystr \<Rightarrow> pystr" where
  "default_db_path root = path_join (path_join (path_join root (L ''.data'')) (L ''normalized'')) (L ''app.sqlite'')"

definition cmd_db_init :: "outside \<Rightarrow> sys_env \<Rightarrow> pystr option \<Rightarrow> (world, int) eff" where
  "cmd_db_init out sys root =
     sbind (load_config sys (if_set root)) (\<lambda>config.
     sbind (migrate out) (\<lambda>_.
     sbind (print_out (L ''initialized database: '' @ default_db_path (cfg_root config))) (\<lambda>_. ret 0)))"

definition job_line :: "pyval \<Rightarrow> pystr result" where
  "job_line job =
     ebind (py_get job (L ''name'')) (\<lambda>n. ebind (py_get job (L ''role'')) (\<lambda>r. ebind (py_get job (L ''cron'')) (\<lambda>c.
     ebind (py_get_def job (L ''enabled'') (PBool True)) (\<lambda>e.
     Inr (py_str n @ [9] @ L ''role='' @ py_str r @ [9] @ L ''cron='' @ py_str c @ [9] @ L ''enabled='' @ py_str e)))))"

definition config_jobs :: "app_config \<Rightarrow> pyval list result" where
  "config_jobs config = ebind (py_get (cfg_schedules config) (L ''jobs'')) (\<lambda>js. py_iter (py_or js empty_list))"

definition cmd_schedule_list :: "sys_env \<Rightarrow> pystr option \<Rightarrow> (world, int) eff" where
  "cmd_schedule_list sys root =
     sbind (load_config sys (if_set root)) (\<lambda>config.
     sbind (lift_res (config_jobs config)) (\<lambda>js.
     sbind (for_each (\<lambda>job. sbind (lift_res (job_line job)) print_out) js) (\<lambda>_. ret 0)))"

text \<open>
  The beginning of all other commands: an invalid configuration is reported and ends the command with
  exit code 1; otherwise the database is migrated.
\<close>

definition with_config :: "outside \<Rightarrow> sys_env \<Rightarrow> pystr option \<Rightarrow> (app_config \<Rightarrow> (world, int) eff) \<Rightarrow> (world, int) eff" where
  "with_config out sys root body =
     sbind (catch (sbind (load_validated_config sys root) (\<lambda>c. ret (Some c))) is_ValueError
              (\<lambda>e. sbind (print_stderr (L ''error: '' @ exc_msg e)) (\<lambda>_. ret None))) (\<lambda>c.
     case c of None \<Rightarrow> ret 1 | Some config \<Rightarrow> sbind (migrate out) (\<lambda>_. body config))"

section \<open>Sessions and tasks\<close>

text \<open>\<^verbatim>\<open>create_workspace\<close>: the path; directories are not part of the model's files.\<close>

definition create_workspace :: "pystr \<Rightarrow> pystr \<Rightarrow> pystr" where
  "create_workspace root session_id = path_join (path_join (path_join root (L ''.sessions'')) session_id) (L ''workspace'')"

definition begin_run :: "outside \<Rightarrow> string \<Rightarrow> pyval \<Rightarrow> pyval \<Rightarrow> (world, pystr \<times> pystr) eff" where
  "begin_run out source rl input_data =
     sbind (create_session out (L source) rl [] PNone) (\<lambda>sid.
     sbind (update_session_status out sid (L ''running'')) (\<lambda>_.
     sbind (create_task out sid rl input_data) (\<lambda>tid. ret (sid, tid))))"

definition end_run :: "outside \<Rightarrow> pystr \<Rightarrow> pystr \<Rightarrow> pystr \<Rightarrow> pyval \<Rightarrow> pyval \<Rightarrow> pystr \<Rightarrow> (world, unit) eff" where
  "end_run out sid tid outcome output error final =
     sbind (finish_task out tid outcome output error) (\<lambda>_. update_session_status out sid final)"

definition error_dict :: "string \<Rightarrow> pyval \<Rightarrow> pyval" where
  "error_dict ty m = PDict [(L ''type'', PStr (L ty)), (L ''message'', m)]"

fun find_named :: "pystr \<Rightarrow> pyval list \<Rightarrow> pyval result" where
  "find_named nm [] = Inl (Exc KeyError (str_repr (L ''unknown job: '' @ nm)))"
| "find_named nm (j # js) = ebind (py_get j (L ''name'')) (\<lambda>n. if py_eq n (PStr nm) then Inr j else find_named nm js)"

definition find_job :: "app_config \<Rightarrow> pystr \<Rightarrow> pyval result" where
  "find_job config nm = ebind (config_jobs config) (find_named nm)"

definition prepare_task :: "outside \<Rightarrow> app_config \<Rightarrow> pystr \<Rightarrow> bool \<Rightarrow> string \<Rightarrow> (world, runner_task) eff" where
  "prepare_task out config nm dry_run source =
     sbind (lift_res (find_job config nm)) (\<lambda>job.
     sbind (lift_res (py_index job ''role'')) (\<lambda>role.
     sbind (begin_run out source role (PDict [(L ''job'', job), (L ''dry_run'', PBool dry_run)])) (\<lambda>(sid, tid).
     ret \<lparr>rt_job_name = nm, rt_job = job, rt_session_id = sid, rt_task_id = tid, rt_role = role, rt_dry_run = dry_run\<rparr>)))"

definition finalize_task :: "outside \<Rightarrow> runner_task \<Rightarrow> pystr \<Rightarrow> pyval \<Rightarrow> pyexc option \<Rightarrow> (world, unit) eff" where
  "finalize_task out task outcome payload error =
     (case error of
        None \<Rightarrow> end_run out (rt_session_id task) (rt_task_id task) outcome payload PNone (L ''stopped'')
      | Some e \<Rightarrow> end_run out (rt_session_id task) (rt_task_id task) (L ''failed'') PNone (error_record e) (L ''failed''))"

section \<open>Running a job\<close>

datatype backend = LocalBackend | KubernetesBackend runner_options | ContainerBackend container_options

record run_job_args =
  ra_name :: pystr
  ra_runner :: pystr
  ra_image :: pystr
  ra_network :: pystr
  ra_memory :: pystr
  ra_pids_limit :: int

definition choose_backend :: "run_job_args \<Rightarrow> (world, backend) eff" where
  "choose_backend args =
     (if ra_runner args = L ''local'' then ret LocalBackend
      else if ra_runner args = L ''kubernetes'' then sbind KubernetesRunnerOptions (\<lambda>opts. ret (KubernetesBackend opts))
      else ret (ContainerBackend (ContainerRunnerOptions\<lparr>co_image := ra_image args, co_network := ra_network args,
                                    co_memory := ra_memory args, co_pids_limit := ra_pids_limit args\<rparr>)))"

definition run_task :: "nat \<Rightarrow> outside \<Rightarrow> sys_env \<Rightarrow> app_config \<Rightarrow> backend \<Rightarrow> runner_task \<Rightarrow> (world, exec_result) eff" where
  "run_task fuel out sys config b task = (\<lambda>w.
     case b of
       LocalBackend \<Rightarrow> local_run_task out config task w
     | KubernetesBackend opts \<Rightarrow> kubernetes_run_task fuel out opts None None (sys_resolve sys w (cfg_root config)) task w
     | ContainerBackend opts \<Rightarrow> container_run_task out opts (sys_resolve sys w (cfg_root config)) task w)"

text \<open>The \<^verbatim>\<open>try\<close> statement of the command.\<close>

definition execute_and_report :: "outside \<Rightarrow> runner_task \<Rightarrow> (world, exec_result) eff \<Rightarrow> (world, int) eff" where
  "execute_and_report out task run =
     catch (sbind run (\<lambda>result.
            sbind (finalize_task out task (L ''succeeded'') (xr_payload result) None) (\<lambda>_.
            sbind (print_out (json_dumps_pretty (xr_payload result))) (\<lambda>_. ret 0))))
       is_Exception
       (\<lambda>e. sbind (finalize_task out task (L ''failed'') PNone (Some e)) (\<lambda>_.
            sbind (print_stderr (L ''error: '' @ exc_msg e)) (\<lambda>_. ret 1)))"

definition cmd_run_job :: "nat \<Rightarrow> outside \<Rightarrow> sys_env \<Rightarrow> pystr option \<Rightarrow> run_job_args \<Rightarrow> (world, int) eff" where
  "cmd_run_job fuel out sys root args =
     with_config out sys root (\<lambda>config.
     sbind (prepare_task out config (ra_name args) True ''cli'') (\<lambda>task.
     sbind (choose_backend args) (\<lambda>b.
     execute_and_report out task (run_task fuel out sys config b task))))"

text \<open>Inside the runner: the payload goes to standard output and to the result file.\<close>

definition write_result_file :: "app_config \<Rightarrow> pystr \<Rightarrow> pyval \<Rightarrow> (world, unit) eff" where
  "write_result_file config sid payload = write_text (result_path (cfg_root config) sid) (json_dumps_raw payload)"

definition failed_payload :: "pyexc \<Rightarrow> pyval" where
  "failed_payload e = PDict [(L ''status'', PStr (L ''failed'')), (L ''error'', error_record e)]"

definition publish_result :: "app_config \<Rightarrow> pystr \<Rightarrow> pyval \<Rightarrow> int \<Rightarrow> (world, int) eff" where
  "publish_result config sid payload code =
     sbind (print_out (json_dumps_raw payload)) (\<lambda>_. sbind (write_result_file config sid payload) (\<lambda>_. ret code))"

definition execute_and_publish :: "outside \<Rightarrow> app_config \<Rightarrow> runner_task \<Rightarrow> (world, int) eff" where
  "execute_and_publish out config task =
     catch (sbind (execute_runner_task out config task) (\<lambda>result. publish_result config (rt_session_id task) (xr_payload result) 0))
       is_Exception (\<lambda>e. publish_result config (rt_session_id task) (failed_payload e) 1)"

definition cmd_runner_execute ::
    "outside \<Rightarrow> sys_env \<Rightarrow> pystr option \<Rightarrow> pystr option \<Rightarrow> pystr \<Rightarrow> pystr \<Rightarrow> pystr \<Rightarrow> bool \<Rightarrow> (world, int) eff" where
  "cmd_runner_execute out sys runner_root root nm sid tid dry_run =
     sbind (catch (sbind (load_validated_config sys (case if_set runner_root of Some r \<Rightarrow> Some r | None \<Rightarrow> root)) (\<lambda>c. ret (Some c))) is_ValueError
              (\<lambda>e. sbind (print_out (json_dumps_raw (PDict [(L ''status'', PStr (L ''failed'')), (L ''error'', PStr (exc_msg e))]))) (\<lambda>_. ret None))) (\<lambda>c.
     case c of
       None \<Rightarrow> ret 1
     | Some config \<Rightarrow>
         sbind (migrate out) (\<lambda>_.
         sbind (lift_res (find_job config nm)) (\<lambda>job.
         sbind (lift_res (py_index job ''role'')) (\<lambda>role.
         execute_and_publish out config
           \<lparr>rt_job_name = nm, rt_job = job, rt_session_id = sid, rt_task_id = tid, rt_role = role, rt_dry_run = dry_run\<rparr>))))"

end
