(* ===== verification/Commands.thy ===== *)
theory Commands
  imports Cli
begin

text \<open>
  The commands and the scheduled executors of \<^verbatim>\<open>cli.py\<close> that run the digests, the stock research and the X
  collection, the diagnostic commands, and the command that runs the scheduler with these executors.
\<close>

section \<open>Digest runs\<close>

text \<open>\<^verbatim>\<open>resolve_model(((config.roles or {}).get("roles") or {}).get(role) or {}, config.policy)\<close>.\<close>

definition role_model :: "app_config \<Rightarrow> pyval \<Rightarrow> pystr result" where
  "role_model config rl =
     ebind (py_get (py_or (cfg_roles config) empty_dict) (L ''roles'')) (\<lambda>rs.
     ebind (py_get_key (py_or rs empty_dict) rl) (\<lambda>rc.
     Inr (py_str (resolve_model (py_or rc empty_dict) (cfg_policy config)))))"

text \<open>The outcome of a digest on its task and session.\<close>

definition close_digest :: "outside \<Rightarrow> pystr \<Rightarrow> pystr \<Rightarrow> digest_result \<Rightarrow> (world, unit) eff" where
  "close_digest out sid tid r =
     (if dr_exit_code r = 0
      then end_run out sid tid (L ''succeeded'')
             (PDict [(L ''path'', opt_str (dr_verified_path r)), (L ''commit_sha'', opt_str (dr_commit_sha r))]) PNone (L ''stopped'')
      else end_run out sid tid (L ''failed'') PNone
             (error_dict ''ClaudeDigestError'' (PStr (L ''digest run or verification failed''))) (L ''failed''))"

definition close_invest :: "outside \<Rightarrow> pystr \<Rightarrow> pystr \<Rightarrow> invest_result \<Rightarrow> (world, unit) eff" where
  "close_invest out sid tid r =
     (if ir_exit_code r = 0
      then end_run out sid tid (L ''succeeded'') (PDict [(L ''chunks'', opt_int (ir_chunks r)), (L ''chars'', opt_int (ir_chars r))]) PNone (L ''stopped'')
      else end_run out sid tid (L ''failed'') PNone
             (error_dict ''InvestDigestError'' (PStr (L ''digest run or slack notify failed''))) (L ''failed''))"

definition digest_run :: "nat \<Rightarrow> outside \<Rightarrow> sys_env \<Rightarrow> app_config \<Rightarrow> string \<Rightarrow> pyval \<Rightarrow> pyval \<Rightarrow> digest_options \<Rightarrow> (world, digest_result) eff" where
  "digest_run fuel out sys config source rl job opts =
     sbind (begin_run out source rl (PDict [(L ''job'', job)])) (\<lambda>(sid, tid).
     sbind (run_claude_digest fuel out sys config sid (create_workspace (cfg_root config) sid) (Some opts) None) (\<lambda>r.
     sbind (close_digest out sid tid r) (\<lambda>_. ret r)))"

definition invest_run :: "nat \<Rightarrow> outside \<Rightarrow> sys_env \<Rightarrow> app_config \<Rightarrow> string \<Rightarrow> pyval \<Rightarrow> pyval \<Rightarrow> digest_options \<Rightarrow> (world, invest_result) eff" where
  "invest_run fuel out sys config source rl job opts =
     sbind (begin_run out source rl (PDict [(L ''job'', job)])) (\<lambda>(sid, tid).
     sbind (run_invest_digest fuel out sys config sid tid (create_workspace (cfg_root config) sid) (Some opts) None None) (\<lambda>r.
     sbind (close_invest out sid tid r) (\<lambda>_. ret r)))"

section \<open>Scheduled executors\<close>

definition require_env :: "string list \<Rightarrow> (world, unit) eff" where
  "require_env names = (\<lambda>w.
     let missing = filter (\<lambda>k. getenv_set w k = None) names in
     if missing \<noteq> [] then (Inl (Exc RuntimeError (L ''required env missing: '' @ py_join (L '', '') (map L missing))), w)
     else (Inr (), w))"

definition x_signal_collector_required_env :: "string list" where
  "x_signal_collector_required_env = [''X_MCP_URL'', ''X_MCP_SESSION_TOKEN'']"

definition required_env :: "string list" where
  "required_env = [''X_MCP_URL'', ''X_MCP_SESSION_TOKEN'', ''CLAUDE_PROXY_URL'', ''CLAUDE_PROXY_SESSION_TOKEN'', ''GIT_PROXY_URL'', ''GIT_PROXY_SESSION_TOKEN'']"

definition invest_required_env :: "string list" where
  "invest_required_env = [''X_MCP_URL'', ''X_MCP_SESSION_TOKEN'', ''CLAUDE_PROXY_URL'', ''CLAUDE_PROXY_SESSION_TOKEN'', ''SLACK_NOTIFY_URL'', ''SLACK_NOTIFY_SESSION_TOKEN'']"

definition run_ai_it_x_daily_digest :: "nat \<Rightarrow> outside \<Rightarrow> sys_env \<Rightarrow> app_config \<Rightarrow> pyval \<Rightarrow> (world, unit) eff" where
  "run_ai_it_x_daily_digest fuel out sys config job =
     sbind (require_env required_env) (\<lambda>_.
     sbind (lift_res (py_index job ''role'')) (\<lambda>rl.
     sbind (lift_res (role_model config rl)) (\<lambda>model.
     sbind (digest_run fuel out sys config ''scheduler'' rl job (ClaudeDigestOptions\<lparr>opt_model := model\<rparr>)) (\<lambda>r.
     if dr_exit_code r = 0 then ret () else raise_exc RuntimeError (L ''claude-digest run failed or verification failed'')))))"

definition run_invest_x_daily_digest :: "nat \<Rightarrow> outside \<Rightarrow> sys_env \<Rightarrow> app_config \<Rightarrow> pyval \<Rightarrow> (world, unit) eff" where
  "run_invest_x_daily_digest fuel out sys config job =
     sbind (require_env invest_required_env) (\<lambda>_.
     sbind (lift_res (py_index job ''role'')) (\<lambda>rl.
     sbind (lift_res (role_model config rl)) (\<lambda>model.
     sbind (invest_run fuel out sys config ''scheduler'' rl job (InvestDigestOptions\<lparr>opt_model := model\<rparr>)) (\<lambda>r.
     if ir_exit_code r = 0 then ret () else raise_exc RuntimeError (L ''invest-digest run failed or slack notify failed'')))))"

text \<open>The queries of the collector and the number of results per query.\<close>

definition collector_inputs :: "app_config \<Rightarrow> pyval \<Rightarrow> (pyval list \<times> int) result" where
  "collector_inputs config job =
     ebind (py_get job (L ''inputs'')) (\<lambda>i.
     let inputs = py_or i empty_dict in
     ebind (py_get_def inputs (L ''query_set'') (PStr (L ''default_x_watch''))) (\<lambda>query_set_name.
     ebind (py_get (cfg_schedules config) (L ''query_sets'')) (\<lambda>sets.
     ebind (py_get_key (py_or sets empty_dict) query_set_name) (\<lambda>s.
     ebind (py_get (py_or s empty_dict) (L ''queries'')) (\<lambda>qs.
     if \<not> truthy qs then Inl (Exc RuntimeError (L ''query_set '' @ py_repr query_set_name @ L '' has no queries configured''))
     else
       ebind (py_get_def inputs (L ''max_posts_per_query'') (PInt 20)) (\<lambda>m.
       ebind (py_int_of m) (\<lambda>n.
       ebind (py_iter qs) (\<lambda>queries. Inr (queries, min n 50)))))))))"

definition run_x_signal_collector :: "outside \<Rightarrow> app_config \<Rightarrow> pyval \<Rightarrow> (world, unit) eff" where
  "run_x_signal_collector out config job =
     sbind (require_env x_signal_collector_required_env) (\<lambda>_.
     sbind (lift_res (collector_inputs config job)) (\<lambda>(queries, n).
     for_each (\<lambda>q. sbind (run_collect_x out (cfg_policy config) q n None None None) (\<lambda>_. ret ())) queries))"

text \<open>
  An executor as the scheduler calls it: directly, or on a thread with a deadline.  When the thread is
  given up, the world is what the parameter \<open>giveup\<close> says.
\<close>

type_synonym thread_cut = "pyval \<Rightarrow> pyval \<Rightarrow> world \<Rightarrow> world option"

definition as_executor :: "thread_cut \<Rightarrow> (pyval \<Rightarrow> (world, unit) eff) \<Rightarrow> world executor" where
  "as_executor giveup f = \<lparr>exec_direct = f,
     exec_thread = (\<lambda>job deadline w. case giveup job deadline w of
        Some w' \<Rightarrow> (None, w') | None \<Rightarrow> (case f job w of (r, w') \<Rightarrow> (Some r, w')))\<rparr>"

definition build_scheduler_executors :: "nat \<Rightarrow> outside \<Rightarrow> sys_env \<Rightarrow> thread_cut \<Rightarrow> app_config \<Rightarrow> pyval \<rightharpoonup> world executor" where
  "build_scheduler_executors fuel out sys giveup config =
     [PStr (L ''x-signal-collector'') \<mapsto> as_executor giveup (run_x_signal_collector out config),
      PStr (L ''ai-it-x-daily-digest'') \<mapsto> as_executor giveup (run_ai_it_x_daily_digest fuel out sys config),
      PStr (L ''invest-x-daily-digest'') \<mapsto> as_executor giveup (run_invest_x_daily_digest fuel out sys config)]"

definition build_scheduler_notifier :: "outside \<Rightarrow> world \<Rightarrow> (job_run_result \<Rightarrow> (world, unit) eff) option" where
  "build_scheduler_notifier out w =
     (case (getenv_set w ''SLACK_NOTIFY_URL'', getenv_set w ''SLACK_NOTIFY_SESSION_TOKEN'') of
        (Some url, Some token) \<Rightarrow> Some (syslog_notifier out url token)
      | _ \<Rightarrow> None)"

definition scheduler_env :: "nat \<Rightarrow> outside \<Rightarrow> sys_env \<Rightarrow> thread_cut \<Rightarrow> app_config \<Rightarrow> world \<Rightarrow> world sched_env" where
  "scheduler_env fuel out sys giveup config w =
     \<lparr>executors = build_scheduler_executors fuel out sys giveup config, notifier = build_scheduler_notifier out w,
      monotonic = (\<lambda>v. o_mono out (ticks v)), now_fn = (\<lambda>v. o_now out (ticks v)), sleep_fn = (\<lambda>d v. snd (sleep out d v))\<rparr>"

definition result_line :: "job_run_result \<Rightarrow> pystr" where
  "result_line r = py_str (job_name r) @ [9] @ L ''status='' @ status r @ [9] @ L ''reason='' @ py_str (opt_str (reason r))"

text \<open>The lines that the engine prints are appended to standard error after its run.\<close>

definition run_engine :: "(world sched_state, 'a) eff \<Rightarrow> (world, 'a) eff" where
  "run_engine m = (\<lambda>w. case m \<lparr>last_fired = Map.empty, stderr = [], outer = w\<rparr> of
     (r, st) \<Rightarrow> (r, (outer st)\<lparr>err_log := err_log (outer st) @ stderr st\<rparr>))"

text \<open>With \<^verbatim>\<open>--once\<close> one pass, otherwise the resident loop, here its first \<open>turns\<close> turns.\<close>

definition cmd_schedule_run :: "nat \<Rightarrow> nat \<Rightarrow> outside \<Rightarrow> sys_env \<Rightarrow> thread_cut \<Rightarrow> pystr option \<Rightarrow> bool \<Rightarrow> (world, int) eff" where
  "cmd_schedule_run turns fuel out sys giveup root once =
     with_config out sys root (\<lambda>config.
     sbind (\<lambda>w. (Inr (scheduler_env fuel out sys giveup config w), w)) (\<lambda>env.
     sbind (lift_res (engine_init (cfg_schedules config))) (\<lambda>eng.
     if once then
       sbind (run_engine (run_once env eng)) (\<lambda>results.
       sbind (for_each (\<lambda>r. print_out (result_line r)) results) (\<lambda>_. ret 0))
     else sbind (run_engine (forever_turns turns env eng)) (\<lambda>_. ret 0))))"

section \<open>The other commands\<close>

definition find_job_or_report :: "app_config \<Rightarrow> pystr \<Rightarrow> (pyval \<Rightarrow> (world, int) eff) \<Rightarrow> (world, int) eff" where
  "find_job_or_report config nm body =
     sbind (catch (sbind (lift_res (find_job config nm)) (\<lambda>j. ret (Some j))) (\<lambda>e. exc_type e = KeyError)
              (\<lambda>e. sbind (print_stderr (L ''error: '' @ exc_msg e)) (\<lambda>_. ret None))) (\<lambda>j.
     case j of None \<Rightarrow> ret 1 | Some job \<Rightarrow> body job)"

text \<open>\<^verbatim>\<open>args.model or resolve_model(role_config, config.policy)\<close>, after the role configuration was looked up.\<close>

definition chosen_model :: "pystr option \<Rightarrow> app_config \<Rightarrow> pyval \<Rightarrow> pystr result" where
  "chosen_model arg config rl = ebind (role_model config rl) (\<lambda>m. Inr (case if_set arg of Some x \<Rightarrow> x | None \<Rightarrow> m))"

definition print_summary :: "(string \<times> pyval) list \<Rightarrow> int \<Rightarrow> (world, int) eff" where
  "print_summary kvs code =
     sbind (print_out (json_dumps_pretty (PDict (map (\<lambda>(k, v). (L k, v)) kvs)))) (\<lambda>_. ret (if code = 0 then 0 else 1))"

definition cmd_claude_digest :: "nat \<Rightarrow> outside \<Rightarrow> sys_env \<Rightarrow> pystr option \<Rightarrow> pystr \<Rightarrow> pystr option \<Rightarrow> int \<Rightarrow> (world, int) eff" where
  "cmd_claude_digest fuel out sys root job_arg model_arg max_turns =
     with_config out sys root (\<lambda>config.
     find_job_or_report config job_arg (\<lambda>job.
     sbind (lift_res (py_index job ''role'')) (\<lambda>rl.
     sbind (lift_res (chosen_model model_arg config rl)) (\<lambda>model.
     sbind (digest_run fuel out sys config ''claude-digest'' rl job (ClaudeDigestOptions\<lparr>opt_model := model, opt_max_turns := max_turns\<rparr>)) (\<lambda>r.
     print_summary [(''exit_code'', PInt (dr_exit_code r)), (''verified'', PBool (dr_verified r)),
       (''verified_path'', opt_str (dr_verified_path r)), (''commit_sha'', opt_str (dr_commit_sha r))] (dr_exit_code r))))))"

definition cmd_invest_digest :: "nat \<Rightarrow> outside \<Rightarrow> sys_env \<Rightarrow> pystr option \<Rightarrow> pystr \<Rightarrow> pystr option \<Rightarrow> int \<Rightarrow> (world, int) eff" where
  "cmd_invest_digest fuel out sys root job_arg model_arg max_turns =
     with_config out sys root (\<lambda>config.
     find_job_or_report config job_arg (\<lambda>job.
     sbind (lift_res (py_index job ''role'')) (\<lambda>rl.
     sbind (lift_res (chosen_model model_arg config rl)) (\<lambda>model.
     sbind (invest_run fuel out sys config ''invest-digest'' rl job (InvestDigestOptions\<lparr>opt_model := model, opt_max_turns := max_turns\<rparr>)) (\<lambda>r.
     print_summary [(''exit_code'', PInt (ir_exit_code r)), (''published'', PBool (ir_published r)),
       (''chunks'', opt_int (ir_chunks r)), (''chars'', opt_int (ir_chars r))] (ir_exit_code r))))))"

definition cmd_research_stock :: "outside \<Rightarrow> sys_env \<Rightarrow> pystr option \<Rightarrow> pystr \<Rightarrow> (world, int) eff" where
  "cmd_research_stock out sys root code =
     with_config out sys root (\<lambda>config.
     sbind (begin_run out ''research-stock'' (PStr stock_role) (PDict [(L ''code'', PStr code)])) (\<lambda>(sid, tid).
     sbind (catch (sbind (run_stock_research out config sid tid code None) (\<lambda>r. ret (Some r))) is_Exception
              (\<lambda>e. sbind (end_run out sid tid (L ''failed'') PNone (error_record e) (L ''failed'')) (\<lambda>_.
                   sbind (print_stderr (L ''error: '' @ exc_msg e)) (\<lambda>_. ret None)))) (\<lambda>r.
     case r of
       None \<Rightarrow> ret 1
     | Some res \<Rightarrow>
         sbind (end_run out sid tid (L ''succeeded'')
                  (PDict [(L ''path'', PStr (sr_path res)), (L ''document_id'', PStr (sr_document_id res))]) PNone (L ''stopped'')) (\<lambda>_.
         print_summary [(''code'', PStr (sr_code res)), (''path'', PStr (sr_path res)), (''document_id'', PStr (sr_document_id res))] 0))))"

definition cmd_collect_x :: "outside \<Rightarrow> sys_env \<Rightarrow> pystr option \<Rightarrow> pystr \<Rightarrow> int \<Rightarrow> (world, int) eff" where
  "cmd_collect_x out sys root query n =
     with_config out sys root (\<lambda>config.
     sbind (catch (sbind (run_collect_x out (cfg_policy config) (PStr query) n None None None) (\<lambda>r. ret (Some r))) is_Exception
              (\<lambda>e. sbind (print_stderr (L ''error: '' @ exc_msg e)) (\<lambda>_. ret None))) (\<lambda>r.
     case r of
       None \<Rightarrow> ret 1
     | Some res \<Rightarrow> print_summary [(''status'', PStr (cr_status res)), (''query'', cr_query res), (''inserted_count'', PInt (cr_count res)),
         (''item_ids'', PList (map PStr (cr_ids res)))] 0))"

definition smoke_role :: pystr where "smoke_role = L ''ai_it_topic_runner''"

definition cmd_claude_smoke ::
    "outside \<Rightarrow> sys_env \<Rightarrow> (files \<Rightarrow> pystr \<Rightarrow> pystr list) \<Rightarrow> pystr option \<Rightarrow> pystr option \<Rightarrow> pystr \<Rightarrow> pystr \<Rightarrow> pystr \<Rightarrow> (world, int) eff" where
  "cmd_claude_smoke out sys listing root prompt img network model =
     with_config out sys root (\<lambda>config.
     sbind (create_session out (L ''claude-smoke'') (PStr smoke_role) [] PNone) (\<lambda>sid.
     sbind (update_session_status out sid (L ''running'')) (\<lambda>_.
     sbind (run_claude_smoke out sys (cfg_root config) sid smoke_role (create_workspace (cfg_root config) sid)
              (case if_set prompt of Some p \<Rightarrow> p | None \<Rightarrow> SMOKE_PROMPT)
              (Some (ClaudeSmokeOptions\<lparr>so_image := img, so_network := network, so_model := model\<rparr>))) (\<lambda>r.
     sbind (summarize_result listing r) (\<lambda>summary.
     sbind (update_session_status out sid (if sm_exit_code r = 0 then L ''stopped'' else L ''failed'')) (\<lambda>_.
     sbind (print_out (json_dumps_pretty summary)) (\<lambda>_. ret (if sm_exit_code r = 0 then 0 else 1))))))))"

text \<open>\<^verbatim>\<open>json.loads(v)\<close> for a dynamic value.\<close>

fun json_loads_val :: "pyval \<Rightarrow> pyval result" where
  "json_loads_val (PStr s) = json_loads s"
| "json_loads_val v = Inl (Exc TypeError (L ''the JSON object must be str, bytes or bytearray, not '' @ type_name v))"

text \<open>A failure of the X diagnostic: the task and the session fail, the message is printed.\<close>

definition x_smoke_fails :: "outside \<Rightarrow> pystr \<Rightarrow> pystr \<Rightarrow> string \<Rightarrow> pyval \<Rightarrow> pystr \<Rightarrow> (world, int) eff" where
  "x_smoke_fails out sid tid ty m line =
     sbind (end_run out sid tid (L ''failed'') PNone (error_dict ty m) (L ''failed'')) (\<lambda>_.
     sbind (print_stderr (L ''error: '' @ line)) (\<lambda>_. ret 1))"

definition x_smoke_text :: "pyval \<Rightarrow> pyval result" where
  "x_smoke_text result =
     ebind (py_get result (L ''content'')) (\<lambda>c.
     let items = py_or c empty_list in
     if truthy items then ebind (py_first items) (\<lambda>i. py_index i ''text'') else Inr (PStr (L ''{}'')))"

definition x_smoke_call :: "outside \<Rightarrow> pystr \<Rightarrow> pystr \<Rightarrow> mcp_client \<Rightarrow> tool_call \<Rightarrow> (world, int) eff" where
  "x_smoke_call out sid tid client t =
     sbind (catch (sbind (mcp_initialize out client 1) (\<lambda>_. sbind (call_tool out client 2 (tc_tool t) (tc_args t)) (\<lambda>r. ret (Inr r))))
              (\<lambda>e. exc_type e = McpClientError) (\<lambda>e. ret (Inl e))) (\<lambda>r.
     case r of
       Inl e \<Rightarrow> x_smoke_fails out sid tid ''McpClientError'' (PStr (exc_msg e)) (exc_msg e)
     | Inr result \<Rightarrow>
         sbind (lift_res (x_smoke_text result)) (\<lambda>txt.
         sbind (lift_res (py_get result (L ''isError''))) (\<lambda>bad.
         if truthy bad then x_smoke_fails out sid tid ''McpToolError'' txt (py_str txt)
         else
           sbind (lift_res (json_loads_val txt)) (\<lambda>payload.
           sbind (end_run out sid tid (L ''succeeded'') payload PNone (L ''stopped'')) (\<lambda>_.
           sbind (print_out (json_dumps_pretty payload)) (\<lambda>_. ret 0))))))"

definition cmd_x_smoke :: "outside \<Rightarrow> sys_env \<Rightarrow> pystr option \<Rightarrow> pystr \<Rightarrow> int \<Rightarrow> pystr option \<Rightarrow> (world, int) eff" where
  "cmd_x_smoke out sys root query n mcp_url_arg =
     with_config out sys root (\<lambda>config.
     sbind (begin_run out ''x-smoke'' (PStr smoke_role) (PDict (search_args (PStr query) n))) (\<lambda>(sid, tid).
     sbind (auth_client_init (cfg_policy config)) (\<lambda>auth.
     let t = \<lparr>tc_session = sid, tc_task = tid, tc_role = smoke_role, tc_tool = search_tool, tc_args = search_args (PStr query) n\<rparr> in
     sbind (run_pre_tool_use out auth t) (\<lambda>d.
     sbind (run_post_tool_use out (tool_event t d (if dec_allowed d then 1 else 0) 0)) (\<lambda>_.
     if \<not> dec_allowed d then
       x_smoke_fails out sid tid ''PermissionError'' (dec_reason d) (L ''blocked by policy: '' @ py_str (dec_reason d))
     else
       sbind (env_default ''X_MCP_URL'' (L ''http://127.0.0.1:18081'')) (\<lambda>env_url.
       sbind (env_set_val ''X_MCP_SESSION_TOKEN'') (\<lambda>token.
       case token of
         None \<Rightarrow> x_smoke_fails out sid tid ''ConfigurationError'' (PStr (L ''X_MCP_SESSION_TOKEN is not set; cannot call x-mcp''))
           (L ''X_MCP_SESSION_TOKEN is not set (set it to the same value as AUTH_PROXY_SESSION_TOKEN)'')
       | Some tok \<Rightarrow>
           x_smoke_call out sid tid \<lparr>mcp_base_url = (case if_set mcp_url_arg of Some u \<Rightarrow> u | None \<Rightarrow> env_url), mcp_token = Some tok\<rparr> t)))))))"

end
