(* ===== verification/Lifecycle.thy ===== *)
theory Lifecycle
  imports Commands
begin

text \<open>
  The life of sessions and tasks under the commands: what the runs in between keep, and with which status
  a command leaves the session and the task that it opened.
\<close>

declare world_prims_db [simp del]

section \<open>Runs keep the statuses\<close>

text \<open>Code that only talks to services and programs keeps every property of the database.\<close>

lemma keeps_job_state [keeps_intros]:
  "keeps I a \<Longrightarrow> (\<And>d. keeps I (b d)) \<Longrightarrow> keeps I c \<Longrightarrow> keeps I (case s of JobDone \<Rightarrow> a | JobFailed d \<Rightarrow> b d | JobActive \<Rightarrow> c)"
  by (cases s) simp_all

lemma keeps_api_request [keeps_intros]: "db_only I \<Longrightarrow> keeps I (api_request out opts meth path body)"
  unfolding api_request_def read_token_def ssl_context_def k8s_answer_def by (intro keeps_intros)

lemma keeps_wait_loop [keeps_intros]: "db_only I \<Longrightarrow> keeps I (wait_loop n out opts ns jn timeout deadline)"
  by (induction n) (auto intro!: keeps_intros)

lemma keeps_wait_for_completion [keeps_intros]: "db_only I \<Longrightarrow> keeps I (wait_for_completion n out opts ns jn timeout)"
  unfolding wait_for_completion_def by (intro keeps_intros)

lemma keeps_namespace_of [keeps_intros]: "db_only I \<Longrightarrow> keeps I (namespace_of opts cache)"
  unfolding namespace_of_def by (intro keeps_intros)

lemma keeps_read_optional [keeps_intros]: "db_only I \<Longrightarrow> keeps I (read_optional p)"
  unfolding read_optional_def by (intro keeps_intros)

lemma keeps_env_int [keeps_intros]: "keeps I (env_int k d)"
  unfolding env_int_def by (intro keeps_intros)

lemma keeps_launcher_run [keeps_intros]: "db_only I \<Longrightarrow> keeps I (launcher_run fuel out opts cache ws sid rl ci timeout)"
  unfolding launcher_run_def launcher_env_def by (intro keeps_intros)

lemma keeps_env_pair [keeps_intros]: "keeps I (env_pair a b c)"
  unfolding env_pair_def by (auto intro!: keeps_intros)

lemma keeps_build_claude_invocation [keeps_intros]: "db_only I \<Longrightarrow> keeps I (build_claude_invocation ws sid rl p opts tools git mcp)"
  unfolding build_claude_invocation_def by (intro keeps_intros)

lemma keeps_run_claude [keeps_intros]:
  assumes "db_only I"
  shows "keeps I (run_claude fuel out sys root ws sid rl p opts tools git mcp)"
proof -
  have "keeps I (build_docker_command resolve ws sid rl p opts tools git (Some mcp) None None None)" for resolve
    unfolding build_docker_command_def text_limit_of_def pids_limit_of_def docker_network_def by (intro keeps_intros assms)
  then have "keeps I (\<lambda>w. build_docker_command (sys_resolve sys w) ws sid rl p opts tools git (Some mcp) None None None w)"
    unfolding keeps_def by blast
  then show ?thesis
    unfolding run_claude_def run_claude_via_kubernetes_def KubernetesClaudeLauncherOptions_def by (intro keeps_intros assms)
qed

lemma keeps_all_environ [keeps_intros]: "keeps I all_environ"
  by (simp add: keeps_def all_environ_def)

lemma keeps_verify_published [keeps_intros]: "db_only I \<Longrightarrow> keeps I (verify_published out repo rel)"
  unfolding verify_published_def verify_digest_in_repo_def rev_parse_def
  by (auto intro!: keeps_intros split: option.splits)

lemma keeps_issue_mcp_config [keeps_intros]: "db_only I \<Longrightarrow> keeps I (issue_mcp_config out rl what)"
  unfolding issue_mcp_config_def build_direct_mcp_config_def direct_mcp_server_url_def by (intro keeps_intros)

lemma keeps_auth_client_init [keeps_intros]: "keeps I (auth_client_init p)"
  unfolding auth_client_init_def by (intro keeps_intros)

lemma keeps_status_run_claude_digest: "keeps (status_is S T) (run_claude_digest fuel out sys config sid ws opts auth)"
  unfolding run_claude_digest_def finish_digest_def by (intro keeps_intros)

lemma keeps_status_run_invest_digest: "keeps (status_is S T) (run_invest_digest fuel out sys config sid tid ws opts auth slack)"
  unfolding run_invest_digest_def finish_invest_def publish_digest_def slack_client_init_def read_digest_def by (intro keeps_intros)

lemma keeps_status_run_stock_research: "keeps (status_is S T) (run_stock_research out config sid tid code auth)"
  unfolding run_stock_research_def call_jq_tool_def try_collect_x_signal_def save_memo_def by (intro keeps_intros)

lemma keeps_status_real_topics: "keeps (status_is S T) (real_topics out tr sid tid url client n items k qs)"
  by (induction qs arbitrary: client n items k)
    (auto intro!: keeps_intros simp: topic_search_def x_client_def fetch_tool_def summarize_signals_if_enabled_def summarize_signals_def
      create_message_def claude_client_init_def)

lemma keeps_status_execute_runner_task [keeps_intros]: "keeps (status_is S T) (execute_runner_task out config task)"
  unfolding execute_runner_task_def AiItTopicRunner_def run_daily_digest_def collect_topics_def collect_real_topics_def
    collect_mock_topics_def mock_query_def render_ai_it_daily_digest_def write_digest_def write_dry_run_def
  by (intro keeps_intros keeps_status_real_topics)

lemma keeps_container_run_task: "db_only I \<Longrightarrow> keeps I (container_run_task out opts root task)"
  unfolding container_run_task_def container_env_def add_tokens_def add_token_def container_result_def by (intro keeps_intros)

lemma keeps_resolve_configmap_name: "db_only I \<Longrightarrow> keeps I (resolve_configmap_name out opts cache)"
  unfolding resolve_configmap_name_def by (auto intro!: keeps_intros split: option.splits)

lemma keeps_kubernetes_run_task: "db_only I \<Longrightarrow> keeps I (kubernetes_run_task fuel out opts c1 c2 root task)"
  unfolding kubernetes_run_task_def kubernetes_env_def add_tokens_def add_token_def augment_with_result_error_def collect_runner_result_def
  by (intro keeps_intros keeps_resolve_configmap_name)

lemma keeps_status_run_task: "keeps (status_is S T) (run_task fuel out sys config b task)"
proof (cases b)
  case LocalBackend
  then show ?thesis by (simp add: run_task_def local_run_task_def keeps_status_execute_runner_task)
next
  case (KubernetesBackend opts)
  then show ?thesis
    using keeps_kubernetes_run_task[OF db_only_status] unfolding run_task_def keeps_def by simp
next
  case (ContainerBackend opts)
  then show ?thesis
    using keeps_container_run_task[OF db_only_status] unfolding run_task_def keeps_def by simp
qed

lemma keeps_status_migrate [keeps_intros]: "keeps (status_is S T) (migrate out)"
proof -
  have "row_of (create_tables db) t k = row_of db t k" if "tab_name t = L ''sessions'' \<or> tab_name t = L ''tasks''" for db t k
    by (auto simp: row_of_def create_tables_def split: option.splits)
  then have "keeps (status_is S T) (exec_sql (\<lambda>db. Inr (create_tables db)))"
    by (auto simp: keeps_def exec_sql_def status_is_def session_status_def task_status_def fun_eq_iff)
  then show ?thesis unfolding migrate_def by (intro keeps_intros)
qed

text \<open>Reading the configuration and choosing the backend change nothing.\<close>

lemma load_validated_config_pure: "load_validated_config sys root w = (r, w') \<Longrightarrow> w' = w"
proof -
  have f: "find_project_root sys s v = (x, v') \<Longrightarrow> v' = v" for s v x v'
    by (auto simp: find_project_root_def Let_def split: option.splits)
  have y: "load_yaml sys q v = (x, v') \<Longrightarrow> v' = v" for q v x v'
    by (auto simp: load_yaml_def read_text_def sbind_def split: option.splits sum.splits if_splits)
  show "load_validated_config sys root w = (r, w') \<Longrightarrow> w' = w"
    unfolding load_validated_config_def load_config_def by (auto elim!: sbind_cases dest!: f y split: if_splits)
qed

lemma choose_backend_keeps: "keeps I (choose_backend args)"
  unfolding choose_backend_def KubernetesRunnerOptions_def by (intro keeps_intros)

section \<open>A run in brackets\<close>

text \<open>
  A client of the store of sessions and tasks that opens a run, executes a body that leaves the statuses
  alone, and closes the run with the outcome of the body.
\<close>

locale bracketed_run = task_store sess tsk new_session new_task set_session set_task stored created queued
  for sess :: "'w \<Rightarrow> 'i \<Rightarrow> 's option" and tsk :: "'w \<Rightarrow> 'i \<Rightarrow> 's option"
    and new_session :: "'a \<Rightarrow> ('w, 'i) eff" and new_task :: "'i \<Rightarrow> 'b \<Rightarrow> ('w, 'i) eff"
    and set_session :: "'i \<Rightarrow> 'v \<Rightarrow> ('w, unit) eff" and set_task :: "'i \<Rightarrow> 'v \<Rightarrow> 'c \<Rightarrow> ('w, unit) eff"
    and stored :: "'v \<Rightarrow> 's" and created :: 's and queued :: 's +
  fixes body :: "'i \<Rightarrow> 'i \<Rightarrow> ('w, 'r) eff" and outcome :: "'r \<Rightarrow> 'v" and report :: "'r \<Rightarrow> 'c" and final :: "'r \<Rightarrow> 'v"
  assumes body_keeps: "body s t w = (x, w') \<Longrightarrow> sess w' = sess w \<and> tsk w' = tsk w"
begin

definition bracket :: "'a \<Rightarrow> 'v \<Rightarrow> 'b \<Rightarrow> ('w, 'r) eff" where
  "bracket a v b = sbind (open_run a v b) (\<lambda>(s, t). sbind (body s t) (\<lambda>r. sbind (close_run s t (outcome r) (report r) (final r)) (\<lambda>_. ret r)))"

lemma bracket_closed:
  assumes "bracket a v b w = (Inr r, w')"
  obtains s t w1 w2 where "open_run a v b w = (Inr (s, t), w1)" "body s t w1 = (Inr r, w2)"
    "close_run s t (outcome r) (report r) (final r) w2 = (Inr (), w')" "sess w s = None" "tsk w t = None"
    "sess w' = (sess w)(s \<mapsto> stored (final r))" "tsk w' = (tsk w)(t \<mapsto> stored (outcome r))"
proof -
  from assms obtain s t w1 w2 u where 1: "open_run a v b w = (Inr (s, t), w1)" and 2: "body s t w1 = (Inr r, w2)"
    and 3: "close_run s t (outcome r) (report r) (final r) w2 = (Inr u, w')"
    unfolding bracket_def by (auto elim!: sbind_InrE)
  note o = open_run_fresh[OF 1] and b = body_keeps[OF 2]
  have "sess w2 s \<noteq> None" "tsk w2 t \<noteq> None" using o b by auto
  from close_run_final[OF 3 this] o b show thesis using 3 by (intro that[OF 1 2]) auto
qed

end

text \<open>The digests are such runs.\<close>

interpretation digest: bracketed_run session_status task_status
  "\<lambda>(src, rl). create_session out src rl [] PNone" "\<lambda>s (rl, i). create_task out s rl i"
  "update_session_status out" "\<lambda>t st (ou, e). finish_task out t st ou e"
  PStr "PStr (L ''created'')" "PStr (L ''queued'')"
  "\<lambda>s t. run_claude_digest fuel out sys config s (create_workspace (cfg_root config) s) (Some opts) None"
  "\<lambda>r. if dr_exit_code r = 0 then L ''succeeded'' else L ''failed''"
  "\<lambda>r. if dr_exit_code r = 0
     then (PDict [(L ''path'', opt_str (dr_verified_path r)), (L ''commit_sha'', opt_str (dr_commit_sha r))], PNone)
     else (PNone, error_dict ''ClaudeDigestError'' (PStr (L ''digest run or verification failed'')))"
  "\<lambda>r. if dr_exit_code r = 0 then L ''stopped'' else L ''failed''" for fuel out sys config opts
proof
  fix s t :: pystr and w x w'
  assume "run_claude_digest fuel out sys config s (create_workspace (cfg_root config) s) (Some opts) None w = (x, w')"
  from keepsD[OF keeps_status_run_claude_digest _ this, of "session_status w" "task_status w"]
  show "session_status w' = session_status w \<and> task_status w' = task_status w" by (simp add: status_is_def)
qed

interpretation invest: bracketed_run session_status task_status
  "\<lambda>(src, rl). create_session out src rl [] PNone" "\<lambda>s (rl, i). create_task out s rl i"
  "update_session_status out" "\<lambda>t st (ou, e). finish_task out t st ou e"
  PStr "PStr (L ''created'')" "PStr (L ''queued'')"
  "\<lambda>s t. run_invest_digest fuel out sys config s t (create_workspace (cfg_root config) s) (Some opts) None None"
  "\<lambda>r. if ir_exit_code r = 0 then L ''succeeded'' else L ''failed''"
  "\<lambda>r. if ir_exit_code r = 0
     then (PDict [(L ''chunks'', opt_int (ir_chunks r)), (L ''chars'', opt_int (ir_chars r))], PNone)
     else (PNone, error_dict ''InvestDigestError'' (PStr (L ''digest run or slack notify failed'')))"
  "\<lambda>r. if ir_exit_code r = 0 then L ''stopped'' else L ''failed''" for fuel out sys config opts
proof
  fix s t :: pystr and w x w'
  assume "run_invest_digest fuel out sys config s t (create_workspace (cfg_root config) s) (Some opts) None None w = (x, w')"
  from keepsD[OF keeps_status_run_invest_digest _ this, of "session_status w" "task_status w"]
  show "session_status w' = session_status w \<and> task_status w' = task_status w" by (simp add: status_is_def)
qed

lemma begin_run_open: "begin_run out src rl i = repo.open_run out (L src, rl) (L ''running'') (rl, i)"
  by (simp add: begin_run_def repo.open_run_def)

lemma end_run_close: "end_run out sid tid a ou e b = repo.close_run out sid tid a (ou, e) b"
  by (simp add: end_run_def repo.close_run_def)

lemma digest_run_bracket:
  "digest_run fuel out sys config src rl job opts = digest.bracket out fuel sys config opts (L src, rl) (L ''running'') (rl, PDict [(L ''job'', job)])"
  by (auto simp: digest_run_def digest.bracket_def begin_run_open close_digest_def end_run_close fun_eq_iff
      intro!: arg_cong[where f = "\<lambda>f. sbind _ f _"] split: prod.splits)

lemma invest_run_bracket:
  "invest_run fuel out sys config src rl job opts = invest.bracket out fuel sys config opts (L src, rl) (L ''running'') (rl, PDict [(L ''job'', job)])"
  by (auto simp: invest_run_def invest.bracket_def begin_run_open close_invest_def end_run_close fun_eq_iff
      intro!: arg_cong[where f = "\<lambda>f. sbind _ f _"] split: prod.splits)

text \<open>Closing a run leaves the documents alone.\<close>

lemma update_other_table: "sql_update t ps k db = Inr db' \<Longrightarrow> n \<noteq> tab_name t \<Longrightarrow> db' n = db n"
  by (auto simp: sql_update_def Let_def split: option.splits)

lemma close_run_documents: "repo.close_run out sid tid a c b w = (Inr u, w') \<Longrightarrow> dbs w' (L ''documents'') = dbs w (L ''documents'')"
proof -
  have f: "dbs v' (L ''documents'') = dbs v (L ''documents'')" if "finish_task out tid a ou e v = (Inr u, v')" for ou e v u v'
    using that unfolding finish_task_def
    by (auto elim!: sbind_InrE dest!: world_prims_db update_other_table[where n = "L ''documents''"] simp: exec_sql_Inr)
  have s: "dbs v' (L ''documents'') = dbs v (L ''documents'')" if "update_session_status out sid b v = (Inr u, v')" for v u v'
    using that unfolding update_session_status_def
    by (auto elim!: sbind_InrE dest!: world_prims_db update_other_table[where n = "L ''documents''"] simp: exec_sql_Inr)
  show "repo.close_run out sid tid a c b w = (Inr u, w') \<Longrightarrow> dbs w' (L ''documents'') = dbs w (L ''documents'')"
    unfolding repo.close_run_def by (auto elim!: sbind_InrE dest!: f s split: prod.splits)
qed

lemma digest_success:
  assumes "run_claude_digest fuel out sys config sid ws (Some opts) None w = (Inr r, w')" and "dr_exit_code r = 0"
  shows "\<exists>date prompt mcp v1 v2 so se.
    run_claude fuel out sys (cfg_root config) ws sid ai_it_role prompt opts DIRECT_MCP_ALLOWED_TOOLS True mcp v1 = (Inr (0, so, se), v2) \<and>
    clone_has_digest out (opt_notes_repo opts) (digest_path date) v2 \<and>
    (\<exists>rows d. dbs w' (L ''documents'') = Some (rows @ [d]) \<and> cell d (L ''path'') = PStr (digest_path date) \<and> cell d (L ''status'') = PStr (L ''published''))"
proof -
  from assms(1) obtain date prompt mcp v1 code so se v2 where
    rc: "run_claude fuel out sys (cfg_root config) ws sid ai_it_role prompt opts DIRECT_MCP_ALLOWED_TOOLS True mcp v1 = (Inr (code, so, se), v2)"
    and f: "finish_digest out opts ws date (code, so, se) v2 = (Inr r, w')"
    unfolding run_claude_digest_def by (auto simp: Let_def elim!: sbind_InrE split: option.splits)
  obtain verified sha v3 i where
    v: "(if code = 0 then verify_published out (opt_notes_repo opts) (digest_path date) else ret (False, None)) v2 = (Inr (verified, sha), v3)"
    and d: "record_document out (if verified then Some (opt_notes_repo opts) else None) (digest_path date)
        (L ''Daily AI/IT Digest - '' @ date_iso date) (L ''ai_it_daily_digest'') (if verified then L ''published'' else L ''failed'')
        (PList []) sha
        (PDict [(L ''target_repo'', PStr (opt_notes_repo opts)), (L ''target_path'', PStr (digest_path date)),
           (L ''verified'', PBool verified), (L ''exit_code'', PInt code), (L ''error'', excerpt_for code se)]) v3 = (Inr i, w')"
    and r: "dr_exit_code r = final_code code verified"
    using f[unfolded finish_digest_def Let_def prod.case] by (auto elim!: sbind_InrE)
  have z: "verified" "code = 0" using assms(2) v r by (auto simp: final_code_def split: if_splits)
  then have "clone_has_digest out (opt_notes_repo opts) (digest_path date) v2" using v verify_published_True by auto
  moreover obtain rows d' where "dbs w' (L ''documents'') = Some (rows @ [d'])" "cell d' (L ''path'') = PStr (digest_path date)"
    "cell d' (L ''status'') = PStr (L ''published'')"
    by (rule record_document_row[OF d]) (use z in auto)
  ultimately show ?thesis using rc z by blast
qed

section \<open>Closing a run again after a failure\<close>

text \<open>
  A store whose failing updates change no status: a close that failed half-way can be repeated with
  another outcome, and the last one counts.
\<close>

locale retryable_store = task_store sess tsk new_session new_task set_session set_task stored created queued
  for sess :: "'w \<Rightarrow> 'i \<Rightarrow> 's option" and tsk :: "'w \<Rightarrow> 'i \<Rightarrow> 's option"
    and new_session :: "'a \<Rightarrow> ('w, 'i) eff" and new_task :: "'i \<Rightarrow> 'b \<Rightarrow> ('w, 'i) eff"
    and set_session :: "'i \<Rightarrow> 'v \<Rightarrow> ('w, unit) eff" and set_task :: "'i \<Rightarrow> 'v \<Rightarrow> 'c \<Rightarrow> ('w, unit) eff"
    and stored :: "'v \<Rightarrow> 's" and created :: 's and queued :: 's +
  assumes set_session_err: "set_session s x w = (Inl e, w') \<Longrightarrow> sess w' = sess w \<and> tsk w' = tsk w"
    and set_task_err: "set_task t x c w = (Inl e, w') \<Longrightarrow> sess w' = sess w \<and> tsk w' = tsk w"
begin

lemma close_run_err:
  assumes "close_run s t x c y w = (Inl e, w')" and "tsk w t \<noteq> None"
  shows "sess w' = sess w" "tsk w' t \<noteq> None" "(tsk w')(t \<mapsto> z) = (tsk w)(t \<mapsto> z)"
  using assms unfolding close_run_def by (auto elim!: sbind_cases dest!: set_session_err set_task_err set_task_law simp: fun_eq_iff)

lemma close_again:
  assumes "close_run s t x c y w = (Inl e, w1)" and "close_run s t x' c' y' w1 = (Inr u, w')"
    and "sess w s \<noteq> None" and "tsk w t \<noteq> None"
  shows "sess w' = (sess w)(s \<mapsto> stored y')" "tsk w' = (tsk w)(t \<mapsto> stored x')"
  using close_run_final[OF assms(2)] close_run_err[OF assms(1,4)] assms(3) by auto

end

lemma status_of_dbs: "dbs w' = dbs w \<Longrightarrow> session_status w' = session_status w \<and> task_status w' = task_status w"
  by (intro conjI ext) (simp_all add: session_status_def task_status_def)

lemma exec_sql_Inl: "exec_sql f w = (Inl e, w') \<Longrightarrow> dbs w' = dbs w"
  by (simp add: exec_sql_def split: sum.splits)

interpretation repo: retryable_store session_status task_status
  "\<lambda>(src, rl). create_session out src rl [] PNone" "\<lambda>s (rl, i). create_task out s rl i"
  "update_session_status out" "\<lambda>t st (ou, e). finish_task out t st ou e"
  PStr "PStr (L ''created'')" "PStr (L ''queued'')" for out
proof
  fix s x w e w'
  assume "update_session_status out s x w = (Inl e, w')"
  then have "dbs w' = dbs w" unfolding update_session_status_def by (auto elim!: sbind_cases dest!: world_prims_db exec_sql_Inl)
  then show "session_status w' = session_status w \<and> task_status w' = task_status w" by (rule status_of_dbs)
next
  fix t x c w e w'
  assume "(case c of (ou, er) \<Rightarrow> finish_task out t x ou er) w = (Inl e, w')"
  then have "dbs w' = dbs w" unfolding finish_task_def by (auto elim!: sbind_cases dest!: world_prims_db exec_sql_Inl split: prod.splits)
  then show "session_status w' = session_status w \<and> task_status w' = task_status w" by (rule status_of_dbs)
qed

section \<open>The command that runs a job\<close>

lemma with_config_returns:
  assumes "with_config out sys root body w = (Inr code, w')"
  obtains (invalid) "code = 1" "session_status w' = session_status w" "task_status w' = task_status w"
        | (valid) config w1 where "body config w1 = (Inr code, w')" "session_status w1 = session_status w" "task_status w1 = task_status w"
proof -
  from assms obtain c w1 where
    c: "catch (sbind (load_validated_config sys root) (\<lambda>c. ret (Some c))) is_ValueError
              (\<lambda>e. sbind (print_stderr (L ''error: '' @ exc_msg e)) (\<lambda>_. ret None)) w = (Inr c, w1)"
    and r: "(case c of None \<Rightarrow> ret 1 | Some config \<Rightarrow> sbind (migrate out) (\<lambda>_. body config)) w1 = (Inr code, w')"
    unfolding with_config_def by (rule sbind_InrE)
  have "keeps (status_is (session_status w) (task_status w)) (load_validated_config sys root)"
    unfolding keeps_def using load_validated_config_pure by (metis prod.collapse)
  then have "keeps (status_is (session_status w) (task_status w)) (catch (sbind (load_validated_config sys root) (\<lambda>c. ret (Some c))) is_ValueError
              (\<lambda>e. sbind (print_stderr (L ''error: '' @ exc_msg e)) (\<lambda>_. ret None)))"
    by (intro keeps_intros)
  from keepsD[OF this _ c] have 1: "status_is (session_status w) (task_status w) w1" by (simp add: status_is_def)
  show thesis
  proof (cases c)
    case None
    with r 1 show thesis by (intro invalid) (simp_all add: status_is_def)
  next
    case (Some config)
    with r obtain u w2 where m: "migrate out w1 = (Inr u, w2)" and b: "body config w2 = (Inr code, w')" by (auto elim!: sbind_InrE)
    from keepsD[OF keeps_status_migrate 1 m] show thesis by (intro valid[OF b]) (simp_all add: status_is_def)
  qed
qed

text \<open>The \<^verbatim>\<open>try\<close> statement ends with both statuses final, whether the task, or closing it, failed or not.\<close>

lemma finalize_task_close:
  "finalize_task out task a p None = repo.close_run out (rt_session_id task) (rt_task_id task) a (p, PNone) (L ''stopped'')"
  "finalize_task out task a p (Some e) = repo.close_run out (rt_session_id task) (rt_task_id task) (L ''failed'') (PNone, error_record e) (L ''failed'')"
  by (simp_all add: finalize_task_def end_run_close)

lemma print_status: "print_out l w = (x, w') \<Longrightarrow> session_status w' = session_status w \<and> task_status w' = task_status w \<and> last (out_log w') = l"
  "print_stderr l w = (x, w') \<Longrightarrow> session_status w' = session_status w \<and> task_status w' = task_status w"
  by (auto simp: print_out_def print_stderr_def intro!: status_of_dbs[THEN conjunct1] status_of_dbs[THEN conjunct2])

lemma execute_and_report_closes:
  assumes er: "execute_and_report out task run w = (Inr code, w')" and k: "\<And>S T. keeps (status_is S T) run"
    and s: "session_status w (rt_session_id task) \<noteq> None" and t: "task_status w (rt_task_id task) \<noteq> None"
  shows "code = 0 \<and> session_status w' = (session_status w)(rt_session_id task \<mapsto> PStr (L ''stopped'')) \<and>
      task_status w' = (task_status w)(rt_task_id task \<mapsto> PStr (L ''succeeded'')) \<and>
      (\<exists>r v. run w = (Inr r, v) \<and> last (out_log w') = json_dumps_pretty (xr_payload r)) \<or>
    code = 1 \<and> session_status w' = (session_status w)(rt_session_id task \<mapsto> PStr (L ''failed'')) \<and>
      task_status w' = (task_status w)(rt_task_id task \<mapsto> PStr (L ''failed''))"
proof -
  let ?sid = "rt_session_id task" and ?tid = "rt_task_id task"
  let ?body = "sbind run (\<lambda>result. sbind (finalize_task out task (L ''succeeded'') (xr_payload result) None) (\<lambda>_.
     sbind (print_out (json_dumps_pretty (xr_payload result))) (\<lambda>_. ret (0::int))))"
  have kp: "session_status v' = session_status v \<and> task_status v' = task_status v" if "run v = (x, v')" for v x v'
    using keepsD[OF k _ that, of "session_status v" "task_status v"] by (simp add: status_is_def)
  consider (ended) "?body w = (Inr code, w')"
    | (failed) e v where "?body w = (Inl e, v)"
        "sbind (finalize_task out task (L ''failed'') PNone (Some e)) (\<lambda>_. sbind (print_stderr (L ''error: '' @ exc_msg e)) (\<lambda>_. ret 1)) v = (Inr code, w')"
    using er unfolding execute_and_report_def catch_def by (auto split: prod.splits sum.splits if_splits)
  then show ?thesis
  proof cases
    case ended
    then obtain r v1 v2 where 1: "run w = (Inr r, v1)" and 2: "finalize_task out task (L ''succeeded'') (xr_payload r) None v1 = (Inr (), v2)"
      and 3: "print_out (json_dumps_pretty (xr_payload r)) v2 = (Inr (), w')" and c: "code = 0"
      by (auto elim!: sbind_InrE)
    have "session_status v1 ?sid \<noteq> None" "task_status v1 ?tid \<noteq> None" using kp[OF 1] s t by simp_all
    from repo.close_run_final[OF 2[unfolded finalize_task_close] this] print_status(1)[OF 3] kp[OF 1] 1 c show ?thesis by auto
  next
    case failed
    from failed(2) obtain v1 where 2: "finalize_task out task (L ''failed'') PNone (Some e) v = (Inr (), v1)"
      and 3: "print_stderr (L ''error: '' @ exc_msg e) v1 = (Inr (), w')" and c: "code = 1"
      by (auto elim!: sbind_InrE)
    from failed(1) consider (run) "run w = (Inl e, v)"
      | (close) r v0 where "run w = (Inr r, v0)" "finalize_task out task (L ''succeeded'') (xr_payload r) None v0 = (Inl e, v)"
      by (auto elim!: sbind_cases simp: print_out_def)
    then have "session_status v1 = (session_status w)(?sid \<mapsto> PStr (L ''failed'')) \<and> task_status v1 = (task_status w)(?tid \<mapsto> PStr (L ''failed''))"
    proof cases
      case run
      with repo.close_run_final[OF 2[unfolded finalize_task_close]] s t kp[OF run] show ?thesis by simp
    next
      case close
      have "session_status v0 ?sid \<noteq> None" "task_status v0 ?tid \<noteq> None" using kp[OF close(1)] s t by simp_all
      from repo.close_again[OF close(2)[unfolded finalize_task_close] 2[unfolded finalize_task_close] this] kp[OF close(1)] show ?thesis by simp
    qed
    with print_status(2)[OF 3] c show ?thesis by simp
  qed
qed

end
