(* ===== verification/Progress.thy ===== *)
theory Progress
  imports Lifecycle
begin

text \<open>
  That the bookkeeping of the commands returns: on a database that can be opened and has its tables,
  statements with encodable texts do not raise, so a run that was opened can be closed.
\<close>

section \<open>Encodable texts\<close>

definition encodable :: "pystr \<Rightarrow> bool" where
  "encodable s = list_all (\<lambda>c. \<not> surrogate c) s"

named_theorems enc_simps \<open>texts that can be encoded\<close>

lemma encodable_iff: "list_ex surrogate s \<longleftrightarrow> \<not> encodable s"
  by (induction s) (auto simp: encodable_def)

lemma encodable_list [enc_simps]: "encodable []" "encodable (c # s) \<longleftrightarrow> \<not> surrogate c \<and> encodable s" "encodable (s @ t) \<longleftrightarrow> encodable s \<and> encodable t"
  by (simp_all add: encodable_def)

lemma encodable_L [enc_simps]: "encodable (L s)"
proof -
  have "\<not> surrogate (of_char c)" for c :: char
    using of_char_of[of "of_char c :: nat"] by (cases c) (simp add: surrogate_def)
  then show ?thesis by (simp add: encodable_def L_def list_all_iff)
qed

lemma dec_str_small: "c \<in> set (dec_str n) \<Longrightarrow> c < 58"
proof (cases "0 \<le> n")
  case False
  then show "c \<in> set (dec_str n) \<Longrightarrow> c < 58" by (subst (asm) dec_str.simps) simp
qed (use dec_str_digits in blast)

lemma encodable_dec [enc_simps]: "encodable (dec_str n)" "encodable (pad_str k n)"
  using dec_str_small[of _ n] by (force simp: encodable_def list_all_iff surrogate_def pad_str_def)+

lemma encodable_time [enc_simps]: "encodable (date_iso t)" "encodable (iso_seconds t)" "encodable (compact_stamp t)"
  by (simp_all add: date_iso_def iso_seconds_def compact_stamp_def enc_simps surrogate_def)

section \<open>Statements that succeed\<close>

lemma null_column_set_cols:
  assumes "table_ok t" and "row_wf t r"
    and "\<And>c v. c \<in> set (tab_cols t) \<Longrightarrow> col_notnull c \<Longrightarrow> map_of vals (col_name c) = Some v \<Longrightarrow> v \<noteq> PNone"
  shows "null_column t (set_cols t vals r) = None"
proof -
  have "cell (set_cols t vals r) (col_name c) \<noteq> PNone" if c: "c \<in> set (tab_cols t)" "col_notnull c" for c
  proof -
    have co: "coerce (col_aff c) v \<noteq> PNone" if "v \<noteq> PNone" for v
      using that by (cases "(col_aff c, v)" rule: coerce.cases) (auto split: option.splits)
    have "cell r (col_name c) \<noteq> PNone" using assms(2) c by (auto simp: row_wf_def null_column_def find_None_iff)
    moreover have "cell (set_cols t vals r) (col_name c) =
        (case map_of vals (col_name c) of None \<Rightarrow> cell r (col_name c) | Some v \<Rightarrow> coerce (col_aff c) v)"
      using assms(1) c(1) cell_cols[of "tab_cols t" c] by (simp add: table_ok_def set_cols_def)
    ultimately show ?thesis using assms(3)[OF c] co by (auto split: option.splits)
  qed
  then show ?thesis by (auto simp: null_column_def find_None_iff)
qed

lemma sql_update_returns:
  assumes "db_wf db" and t: "t \<in> set schema" and rows: "db (tab_name t) = Some rows"
    and b: "bind_values 1 params = Inr vals" "bind_value (Suc (length params)) key = Inr k"
    and n: "\<And>c v. c \<in> set (tab_cols t) \<Longrightarrow> col_notnull c \<Longrightarrow> map_of vals (col_name c) = Some v \<Longrightarrow> v \<noteq> PNone"
  shows "\<exists>rows'. sql_update t params key db = Inr (db(tab_name t \<mapsto> rows'))"
proof -
  let ?u = "\<lambda>r. if row_id r = coerce TextAff k \<and> k \<noteq> PNone then set_cols t vals r else r"
  have wf: "row_wf t r" if "r \<in> set rows" for r using assms(1) t rows that unfolding db_wf_def by blast
  have "null_column t (set_cols t vals r) = None" "null_column t r = None" if "r \<in> set rows" for r
    using null_column_set_cols[OF schema_table_ok[OF t] wf[OF that] n] wf[OF that] by (simp_all add: row_wf_def)
  then have "find (\<lambda>r. null_column t r \<noteq> None) (map ?u rows) = None" by (auto simp: find_None_iff)
  then show ?thesis using rows b by (auto simp: sql_update_def Let_def)
qed

text \<open>The database can be opened, is well formed and has its tables.\<close>

definition db_ready :: "outside \<Rightarrow> world \<Rightarrow> bool" where
  "db_ready out w \<longleftrightarrow> (\<forall>n. o_conn out n = None) \<and> world_wf w \<and> (\<forall>t \<in> set schema. dbs w (tab_name t) \<noteq> None)"

lemma db_only_ready [keeps_intros]: "db_only (db_ready out)"
  by (simp add: db_only_def db_ready_def world_wf_def)

lemma connect_returns: "db_ready out w \<Longrightarrow> connect out w = (Inr (), w\<lparr>conns := Suc (conns w)\<rparr>)"
  by (simp add: db_ready_def connect_def)

lemma iso_now_returns: "iso_now out w = (Inr (iso_seconds (o_now out (ticks w))), w\<lparr>ticks := Suc (ticks w)\<rparr>)"
  by (simp add: iso_now_def now_jst_def sbind_def)

lemma exec_update_returns:
  assumes r: "db_ready out w" and t: "t \<in> set schema"
    and b: "bind_values 1 params = Inr vals" "bind_value (Suc (length params)) key = Inr k"
    and n: "\<And>c v. c \<in> set (tab_cols t) \<Longrightarrow> col_notnull c \<Longrightarrow> map_of vals (col_name c) = Some v \<Longrightarrow> v \<noteq> PNone"
    and f: "fst ` set params \<inter> insert (L ''id'') (fst ` set (tab_fks t)) = {}"
  shows "\<exists>w'. exec_sql (sql_update t params key) w = (Inr (), w') \<and> db_ready out w'"
proof -
  from r t obtain rows where rows: "dbs w (tab_name t) = Some rows" by (auto simp: db_ready_def)
  have wf: "db_wf (dbs w)" using r by (simp add: db_ready_def world_wf_def)
  obtain rows' where u: "sql_update t params key (dbs w) = Inr ((dbs w)(tab_name t \<mapsto> rows'))"
    using sql_update_returns[OF wf t rows b] n by blast
  from sql_update_wf[OF wf t u f] r u show ?thesis by (auto simp: exec_sql_def db_ready_def world_wf_def)
qed

lemma ready_upd [simp]: "db_ready out (w\<lparr>conns := i\<rparr>) = db_ready out w" "db_ready out (w\<lparr>ticks := i\<rparr>) = db_ready out w"
  "db_ready out (w\<lparr>draws := i\<rparr>) = db_ready out w"
  by (simp_all add: db_ready_def world_wf_def)

lemma update_session_status_returns:
  assumes "db_ready out w" and "encodable sid" and "encodable st"
  shows "\<exists>w'. update_session_status out sid st w = (Inr (), w') \<and> db_ready out w'"
proof -
  let ?w = "w\<lparr>conns := Suc (conns w), ticks := Suc (Suc (ticks w))\<rparr>"
  have "\<exists>w'. exec_sql (sql_update sessions_def [(L ''status'', PStr st), (L ''updated_at'', PStr (iso_seconds a)), (L ''last_active_at'', PStr (iso_seconds b))]
      (PStr sid)) ?w = (Inr (), w') \<and> db_ready out w'" for a b
    by (rule exec_update_returns) (use assms in \<open>auto simp: enc_simps encodable_iff schema_def sessions_def_def need_col_def text_col_def split: if_splits\<close>)
  then show ?thesis using assms(1) by (simp add: update_session_status_def sbind_def connect_returns iso_now_returns)
qed

lemma finish_task_returns:
  assumes "db_ready out w" and "encodable tid" and "encodable st" and "encodable (json_dumps_raw ou)" and "encodable (json_dumps_raw e)"
  shows "\<exists>w'. finish_task out tid st ou e w = (Inr (), w') \<and> db_ready out w'"
proof -
  let ?w = "w\<lparr>conns := Suc (conns w), ticks := Suc (ticks w)\<rparr>"
  have j: "bind_value n (json_or_null v) = Inr (json_or_null v)" if "encodable (json_dumps_raw v)" for n v
    using that by (simp add: json_or_null_def encodable_iff)
  have "\<exists>w'. exec_sql (sql_update tasks_def [(L ''status'', PStr st), (L ''output_json'', json_or_null ou), (L ''error_json'', json_or_null e),
      (L ''finished_at'', PStr (iso_seconds a))] (PStr tid)) ?w = (Inr (), w') \<and> db_ready out w'" for a
    by (rule exec_update_returns) (use assms in \<open>auto simp: j enc_simps encodable_iff schema_def tasks_def_def need_col_def text_col_def split: if_splits\<close>)
  then show ?thesis using assms(1) by (simp add: finish_task_def sbind_def connect_returns iso_now_returns)
qed

lemma end_run_returns:
  assumes "db_ready out w" and "encodable sid" "encodable tid" "encodable a" "encodable b" "encodable (json_dumps_raw ou)" "encodable (json_dumps_raw e)"
  shows "\<exists>w'. end_run out sid tid a ou e b w = (Inr (), w') \<and> db_ready out w'"
  using finish_task_returns[OF assms(1,3,4,6,7)] update_session_status_returns[OF _ assms(2,5)]
  unfolding end_run_def sbind_def by force

lemma exec_insert_returns:
  assumes r: "db_ready out w" and t: "t \<in> set schema" and b: "bind_values 1 vals = Inr vals"
    and n: "null_column t (full_row t vals) = None" and i: "row_id (full_row t vals) \<notin> table_ids (dbs w) (tab_name t)"
    and f: "list_all (fk_ok (dbs w) (full_row t vals)) (tab_fks t)"
  shows "\<exists>w'. exec_sql (sql_insert t vals) w = (Inr (), w') \<and> db_ready out w'"
proof -
  from r t obtain rows where rows: "dbs w (tab_name t) = Some rows" by (auto simp: db_ready_def)
  have "\<not> list_ex (\<lambda>q. row_id q = row_id (full_row t vals)) rows" using i rows by (auto simp: table_ids_def list_ex_iff image_iff)
  then have u: "sql_insert t vals (dbs w) = Inr ((dbs w)(tab_name t \<mapsto> rows @ [full_row t vals]))"
    using rows b n f by (simp add: sql_insert_def Let_def)
  have wf: "db_wf (dbs w)" using r by (simp add: db_ready_def world_wf_def)
  from sql_insert_wf[OF wf t u] r u show ?thesis by (auto simp: exec_sql_def db_ready_def world_wf_def)
qed

lemma status_ids:
  "session_status w s = None \<longleftrightarrow> PStr s \<notin> table_ids (dbs w) (L ''sessions'')" "task_status w s = None \<longleftrightarrow> PStr s \<notin> table_ids (dbs w) (L ''tasks'')"
  by (auto simp: session_status_def task_status_def row_of_def table_ids_def sessions_def_def tasks_def_def find_None_iff image_iff split: option.splits)

definition fresh_id :: "outside \<Rightarrow> string \<Rightarrow> nat \<Rightarrow> nat \<Rightarrow> pystr" where
  "fresh_id out pre tick draw = L pre @ [95] @ compact_stamp (o_now out tick) @ [95] @ o_token out draw"

lemma new_id_returns: "new_id out pre w = (Inr (fresh_id out pre (ticks w) (draws w)), w\<lparr>ticks := Suc (ticks w), draws := Suc (draws w)\<rparr>)"
  by (simp add: new_id_def now_jst_def token_hex_def sbind_def fresh_id_def)

lemma encodable_fresh [enc_simps]: "encodable (fresh_id out pre i j) \<longleftrightarrow> encodable (o_token out j)"
  by (simp add: fresh_id_def enc_simps surrogate_def)

lemmas row_simps = full_row_def null_column_def cell_def row_id_def assoc_get_def sessions_def_def tasks_def_def need_col_def text_col_def

lemma create_session_returns:
  assumes "db_ready out w" and "encodable src" "encodable rl" "encodable path" "encodable (json_dumps_raw (py_or m empty_dict))"
    "encodable (o_token out (draws w))" and "session_status w (fresh_id out ''sess'' (ticks w) (draws w)) = None"
  shows "\<exists>w'. create_session out src (PStr rl) path m w = (Inr (fresh_id out ''sess'' (ticks w) (draws w)), w') \<and> db_ready out w'"
proof -
  let ?id = "fresh_id out ''sess'' (ticks w) (draws w)" and ?now = "iso_seconds (o_now out (Suc (ticks w)))"
    and ?w = "w\<lparr>draws := Suc (draws w), ticks := Suc (Suc (ticks w)), conns := Suc (conns w)\<rparr>"
  have "\<exists>w'. exec_sql (sql_insert sessions_def
       [(L ''id'', PStr ?id), (L ''source'', PStr src), (L ''role'', PStr rl), (L ''status'', PStr (L ''created'')),
        (L ''workspace_path'', PStr path), (L ''created_at'', PStr ?now), (L ''updated_at'', PStr ?now),
        (L ''last_active_at'', PStr ?now), (L ''metadata_json'', PStr (json_dumps_raw (py_or m empty_dict)))]) ?w = (Inr (), w') \<and> db_ready out w'"
    by (rule exec_insert_returns) (use assms in \<open>simp_all add: enc_simps encodable_iff row_simps schema_def status_ids\<close>)
  then show ?thesis using assms(1)
    by (auto simp: create_session_def sbind_def connect_returns iso_now_returns new_id_returns)
qed

lemma create_task_returns:
  assumes "db_ready out w" and "encodable sid" "encodable rl" "encodable (json_dumps_raw inp)" "encodable (o_token out (draws w))"
    and "session_status w sid \<noteq> None" and "task_status w (fresh_id out ''task'' (ticks w) (draws w)) = None"
  shows "\<exists>w'. create_task out sid (PStr rl) inp w = (Inr (fresh_id out ''task'' (ticks w) (draws w)), w') \<and> db_ready out w'"
proof -
  let ?id = "fresh_id out ''task'' (ticks w) (draws w)" and ?now = "iso_seconds (o_now out (Suc (ticks w)))"
    and ?w = "w\<lparr>draws := Suc (draws w), ticks := Suc (Suc (ticks w)), conns := Suc (conns w)\<rparr>"
  have "\<exists>w'. exec_sql (sql_insert tasks_def
       [(L ''id'', PStr ?id), (L ''session_id'', PStr sid), (L ''role'', PStr rl), (L ''status'', PStr (L ''queued'')),
        (L ''input_json'', PStr (json_dumps_raw inp)), (L ''created_at'', PStr ?now)]) ?w = (Inr (), w') \<and> db_ready out w'"
    by (rule exec_insert_returns) (use assms in \<open>simp_all add: enc_simps encodable_iff row_simps schema_def status_ids fk_ok_ids\<close>)
  then show ?thesis using assms(1)
    by (auto simp: create_task_def sbind_def connect_returns iso_now_returns new_id_returns)
qed

text \<open>Identifiers that have not been used.\<close>

definition ids_unused :: "outside \<Rightarrow> world \<Rightarrow> bool" where
  "ids_unused out w \<longleftrightarrow> (\<forall>i j. encodable (o_token out j) \<and> session_status w (fresh_id out ''sess'' i j) = None \<and> task_status w (fresh_id out ''task'' i j) = None)"

lemma begin_run_returns:
  assumes r: "db_ready out w" and u: "ids_unused out w" and e: "encodable rl" "encodable (json_dumps_raw inp)"
  shows "\<exists>sid tid w'. begin_run out src (PStr rl) inp w = (Inr (sid, tid), w') \<and> db_ready out w' \<and> encodable sid \<and> encodable tid"
proof -
  have "encodable (json_dumps_raw (PDict []))" by code_simp
  then obtain sid w1 where 1: "create_session out (L src) (PStr rl) [] PNone w = (Inr sid, w1)" "db_ready out w1" "encodable sid"
    using create_session_returns[OF r, of "L src" rl "[]" PNone] e(1) u
    by (auto simp: enc_simps ids_unused_def py_or_def)
  then obtain w2 where 2: "update_session_status out sid (L ''running'') w1 = (Inr (), w2)" "db_ready out w2"
    using update_session_status_returns by (metis encodable_L)
  note s = create_session_abs[OF 1(1)] update_session_status_abs[OF 2(1)]
  have "session_status w2 sid \<noteq> None" "task_status w2 = task_status w" using s by simp_all
  then obtain tid w3 where 3: "create_task out sid (PStr rl) inp w2 = (Inr tid, w3)" "db_ready out w3" "encodable tid"
    using create_task_returns[OF 2(2) 1(3) e] u by (auto simp: enc_simps ids_unused_def)
  show ?thesis using 1 2 3 by (simp add: begin_run_def sbind_def)
qed

lemma insert_other_table: "sql_insert t ps db = Inr db' \<Longrightarrow> n \<noteq> tab_name t \<Longrightarrow> db' n = db n"
  by (auto elim: sql_insert_row)

lemma begin_run_documents: "begin_run out src rl i w = (Inr u, w') \<Longrightarrow> dbs w' (L ''documents'') = dbs w (L ''documents'')"
proof -
  note dests = world_prims_db update_other_table[where n = "L ''documents''"] insert_other_table[where n = "L ''documents''"]
  have c: "dbs v' (L ''documents'') = dbs v (L ''documents'')" if "create_session out (L src) rl [] PNone v = (Inr x, v')" for v x v'
    using that unfolding create_session_def by (auto elim!: sbind_InrE dest!: dests simp: exec_sql_Inr sessions_def_def)
  have t: "dbs v' (L ''documents'') = dbs v (L ''documents'')" if "create_task out s rl i v = (Inr x, v')" for s v x v'
    using that unfolding create_task_def by (auto elim!: sbind_InrE dest!: dests simp: exec_sql_Inr tasks_def_def)
  have s: "dbs v' (L ''documents'') = dbs v (L ''documents'')" if "update_session_status out s y v = (Inr x, v')" for s y v x v'
    using that unfolding update_session_status_def by (auto elim!: sbind_InrE dest!: dests simp: exec_sql_Inr sessions_def_def)
  show "begin_run out src rl i w = (Inr u, w') \<Longrightarrow> dbs w' (L ''documents'') = dbs w (L ''documents'')"
    unfolding begin_run_def by (auto elim!: sbind_InrE dest!: c t s)
qed

lemma record_document_returns:
  assumes "db_ready out w" and "list_all encodable [path, title, ty, st, json_dumps_raw refs, json_dumps_raw (py_or m empty_dict), o_token out (draws w)]"
    and "pred_option encodable repo" "pred_option encodable sha"
    and "PStr (fresh_id out ''doc'' (ticks w) (draws w)) \<notin> table_ids (dbs w) (L ''documents'')"
  shows "\<exists>i w'. record_document out repo path title ty st refs sha m w = (Inr i, w') \<and> db_ready out w'"
proof -
  let ?id = "fresh_id out ''doc'' (ticks w) (draws w)" and ?now = "iso_seconds (o_now out (Suc (ticks w)))"
    and ?w = "w\<lparr>draws := Suc (draws w), ticks := Suc (Suc (ticks w)), conns := Suc (conns w)\<rparr>"
  have o: "bind_value n (opt_str x) = Inr (opt_str x)" if "pred_option encodable x" for n x
    using that by (cases x) (simp_all add: opt_str_def encodable_iff)
  have "\<exists>w'. exec_sql (sql_insert documents_def
       [(L ''id'', PStr ?id), (L ''repo'', opt_str repo), (L ''path'', PStr path), (L ''title'', PStr title),
        (L ''doc_type'', PStr ty), (L ''status'', PStr st), (L ''source_refs_json'', PStr (json_dumps_raw refs)),
        (L ''commit_sha'', opt_str sha), (L ''created_at'', PStr ?now), (L ''updated_at'', PStr ?now),
        (L ''metadata_json'', PStr (json_dumps_raw (py_or m empty_dict)))]) ?w = (Inr (), w') \<and> db_ready out w'"
    by (rule exec_insert_returns) (use assms in \<open>simp_all add: enc_simps encodable_iff row_simps documents_def_def schema_def o\<close>)
  then show ?thesis using assms(1)
    by (auto simp: record_document_def sbind_def connect_returns iso_now_returns new_id_returns)
qed

section \<open>A run that was opened is closed\<close>

lemma finalize_task_returns:
  assumes "db_ready out w" and "encodable (rt_session_id task)" "encodable (rt_task_id task)" "encodable a"
    and "case x of None \<Rightarrow> encodable (json_dumps_raw p) | Some e \<Rightarrow> encodable (json_dumps_raw (error_record e))"
  shows "\<exists>w'. finalize_task out task a p x w = (Inr (), w') \<and> db_ready out w'"
proof -
  have "encodable (json_dumps_raw PNone)" by code_simp
  then show ?thesis using assms end_run_returns[OF assms(1-3)] by (cases x) (simp_all add: finalize_task_def enc_simps)
qed

lemma execute_and_report_returns:
  assumes "db_ready out w" and "encodable (rt_session_id task)" and "encodable (rt_task_id task)"
    and "session_status w (rt_session_id task) \<noteq> None" and "task_status w (rt_task_id task) \<noteq> None"
    and "\<And>S T. keeps (status_is S T) run" and "keeps (db_ready out) run"
    and "case fst (run w) of Inl e \<Rightarrow> is_Exception e \<and> encodable (json_dumps_raw (error_record e)) | Inr r \<Rightarrow> encodable (json_dumps_raw (xr_payload r))"
  shows "\<exists>w'. execute_and_report out task run w = (Inr (if isl (fst (run w)) then 1 else 0), w') \<and>
    session_status w' (rt_session_id task) = Some (PStr (L (if isl (fst (run w)) then ''failed'' else ''stopped''))) \<and>
    task_status w' (rt_task_id task) = Some (PStr (L (if isl (fst (run w)) then ''failed'' else ''succeeded'')))"
proof -
  obtain x v where x: "run w = (x, v)" by (cases "run w")
  have v: "db_ready out v" by (rule keepsD[OF assms(7,1) x])
  have "\<exists>w'. execute_and_report out task run w = (Inr (if isl x then 1 else 0), w')"
  proof (cases x)
    case (Inl e)
    have f: "\<exists>w'. finalize_task out task (L ''failed'') PNone (Some e) v = (Inr (), w')"
      using finalize_task_returns[OF v assms(2,3) encodable_L, where x = "Some e" and p = PNone] assms(8) x Inl by auto
    then show ?thesis using x Inl assms(8) by (auto simp: execute_and_report_def sbind_def catch_def print_stderr_def)
  next
    case (Inr r)
    have "\<exists>w'. finalize_task out task (L ''succeeded'') (xr_payload r) None v = (Inr (), w')"
      using finalize_task_returns[OF v assms(2,3) encodable_L, where x = None and p = "xr_payload r"] assms(8) x Inr by auto
    then show ?thesis using x Inr by (auto simp: execute_and_report_def sbind_def catch_def print_out_def)
  qed
  then obtain w' where w': "execute_and_report out task run w = (Inr (if isl x then 1 else 0), w')" by blast
  from execute_and_report_closes[OF w' assms(6,4,5)] x w' show ?thesis by (auto split: if_splits)
qed

end
