(* ===== verification/CommandRuns.thy ===== *)
theory CommandRuns
  imports Progress
begin

text \<open>
  Runs of the program as a whole: what a returning executor of the digest means for the notes repository and
  the database, how a job run from the command line ends, and complete runs of both on concrete data.
\<close>

section \<open>The scheduled digest\<close>


section \<open>A job run from the command line\<close>


text \<open>C8. Every task that is executed is also ended: if the database is open to the process, then for every
  backend that raises ordinary exceptions at most, the command reports the outcome, with exit code 0 for a
  result and 1 for an exception, and the task is no longer queued and its session no longer running.\<close>

theorem executed_task_ends:
  assumes "db_ready out w" and "encodable (rt_session_id task)" and "encodable (rt_task_id task)"
    and "session_status w (rt_session_id task) \<noteq> None" and "task_status w (rt_task_id task) \<noteq> None"
    and "\<And>S T. keeps (status_is S T) run" and "keeps (db_ready out) run"
    and "case fst (run w) of Inl e \<Rightarrow> is_Exception e \<and> encodable (json_dumps_raw (error_record e)) | Inr r \<Rightarrow> encodable (json_dumps_raw (xr_payload r))"
  shows "\<exists>w'. execute_and_report out task run w = (Inr (if isl (fst (run w)) then 1 else 0), w') \<and>
    session_status w' (rt_session_id task) = Some (PStr (L (if isl (fst (run w)) then ''failed'' else ''stopped''))) \<and>
    task_status w' (rt_task_id task) = Some (PStr (L (if isl (fst (run w)) then ''failed'' else ''succeeded'')))"
  using assms by (rule execute_and_report_returns)

section \<open>Runs on concrete data\<close>

text \<open>The service issues a token, docker and git end with code 0, docker prints an empty JSON object, and the
  clone has the file of the day.\<close>

definition demo_answers :: outside where
  "demo_answers = demo_out\<lparr>o_now := (\<lambda>_. 0), o_token := (\<lambda>_. L ''0''),
     o_http := (\<lambda>w r. (HttpOk 200 (Inr (L ''{ \"token\": \"t\", \"ttl_seconds\": 60}'')), files w)),
     o_proc := (\<lambda>w c. (Inr \<lparr>proc_code = 0, proc_out = (if take 1 (proc_argv c) = [L ''docker''] then L ''{}'' else []), proc_err = []\<rparr>,
        case proc_argv c of
          [_, _, _, _, _, dir] \<Rightarrow> (files w)(path_join dir (digest_path 0) \<mapsto> [12354])
        | _ \<Rightarrow> files w))\<rparr>"

definition demo_sys :: sys_env where
  "demo_sys = \<lparr>sys_cwd = L ''/p'', sys_resolve = (\<lambda>_ p. p), sys_yaml = (\<lambda>_. Inr (PDict []))\<rparr>"

definition demo_env_world :: world where
  "demo_env_world = demo_start_world\<lparr>environ := map (\<lambda>k. (L k, L ''v'')) required_env\<rparr>"

definition demo_digest :: "unit result \<times> world" where
  "demo_digest = run_ai_it_x_daily_digest 0 demo_answers demo_sys demo_config (PDict [(L ''role'', PStr (L ''r''))]) demo_env_world"

text \<open>The run on this data succeeds.\<close>

definition demo_at :: "database \<Rightarrow> world \<Rightarrow> bool" where
  "demo_at D w \<longleftrightarrow> environ w = environ demo_env_world \<and> dbs w = D"

lemma demo_env_of: "demo_at D w \<Longrightarrow> getenv w k = getenv demo_env_world k" "demo_at D w \<Longrightarrow> getenv_set w k = getenv_set demo_env_world k"
  by (simp_all add: demo_at_def getenv_def getenv_set_def)

lemma map_of_L: "map_of (map (\<lambda>k. (L k, v)) ks) (L k) = (if k \<in> set ks then Some v else None)"
  by (induction ks) auto

lemma demo_getenv:
  "getenv demo_env_world k = (if k \<in> set required_env then Some (L ''v'') else None)"
  "getenv_set demo_env_world k = (if k \<in> set required_env then Some (L ''v'') else None)"
  by (simp_all add: getenv_set_def getenv_def demo_env_world_def map_of_L)

lemma demo_json: "json_loads (L ''{ \"token\": \"t\", \"ttl_seconds\": 60}'') = Inr (PDict [(L ''token'', PStr (L ''t'')), (L ''ttl_seconds'', PInt 60)])"
  by code_simp

lemma demo_at_upd:
  "demo_at D (w\<lparr>http_log := a\<rparr>) = demo_at D w" "demo_at D (w\<lparr>proc_log := b\<rparr>) = demo_at D w" "demo_at D (w\<lparr>files := c\<rparr>) = demo_at D w"
  "demo_at D (w\<lparr>draws := d\<rparr>) = demo_at D w" "demo_at D (w\<lparr>ticks := d\<rparr>) = demo_at D w" "demo_at D (w\<lparr>conns := d\<rparr>) = demo_at D w"
  by (simp_all add: demo_at_def)

lemmas demo_steps = sbind_def env_set_val_def env_val_def env_default_def demo_env_of demo_getenv required_env_def demo_at_upd assoc_get_def

definition demo_mcp :: pyval where
  "demo_mcp = PDict [(L ''mcpServers'', PDict [(L ''x7mimi'', PDict
       [(L ''type'', PStr (L ''http'')), (L ''url'', PStr (L ''http://host.docker.internal:18081/mcp'')),
        (L ''headers'', PDict [(L ''Authorization'', PStr (L ''Bearer t''))])])])]"

lemma demo_mcp_encodes: "\<exists>n. utf8_len (json_dumps_pretty demo_mcp) = Inr n"
proof -
  have "\<not> isl (utf8_len (json_dumps_pretty demo_mcp))" by code_simp
  then show ?thesis by (metis isl_def sum.exhaust)
qed

lemma demo_issue: "demo_at D w \<Longrightarrow> \<exists>w'. issue_mcp_config demo_answers rl what w = (Inr demo_mcp, w') \<and> demo_at D w'"
  by (simp add: issue_mcp_config_def env_pair_def issue_session_def build_direct_mcp_config_def direct_mcp_server_url_def urlopen_def demo_answers_def demo_mcp_def demo_json demo_steps L_append[symmetric])

lemma demo_strip: "py_strip [] = []"
  by code_simp

lemma demo_verify: "demo_at D w \<Longrightarrow> \<exists>w'. verify_published demo_answers repo (digest_path 0) w = (Inr (True, Some []), w') \<and> demo_at D w'"
  using demo_strip by (simp add: verify_published_def verify_digest_in_repo_def rev_parse_def all_environ_def temp_dir_def clone_call_def run_proc_def path_exists_def read_text_def is_ascii_def demo_answers_def Let_def catch_def demo_steps)

lemma demo_claude: "demo_at D w \<Longrightarrow> opt_docker_bin opts = L ''docker'' \<Longrightarrow> \<exists>w'. run_claude fuel demo_answers sys root ws sid rl p opts tools True demo_mcp w = (Inr (0, L ''{}'', []), w') \<and> demo_at D w'"
  using demo_mcp_encodes
  by (auto simp: run_claude_def build_docker_command_def build_claude_invocation_def env_pair_def pids_limit_of_def text_limit_of_def docker_network_def write_text_def run_proc_def demo_answers_def Let_def demo_steps)

lemma demo_auth: "demo_at D w \<Longrightarrow> \<exists>a. auth_client_init (cfg_policy demo_config) w = (Inr a, w)"
  by (simp add: auth_client_init_def demo_config_def demo_secure_policy_def policy_engine_init_def demo_steps)

lemma demo_ready: "demo_at (dbs demo_env_world) w \<Longrightarrow> db_ready demo_answers w" "demo_at (dbs demo_env_world) w \<Longrightarrow> ids_unused demo_answers w"
proof -
  have "db_wf (dbs demo_env_world)" using demo_start_wf by (simp add: world_wf_def demo_env_world_def)
  moreover have "\<forall>t \<in> set schema. dbs demo_env_world (tab_name t) \<noteq> None"
    by (auto simp: demo_env_world_def demo_start_world_def create_tables_def list_ex_iff)
  ultimately show "demo_at (dbs demo_env_world) w \<Longrightarrow> db_ready demo_answers w"
    by (simp add: db_ready_def world_wf_def demo_at_def demo_answers_def demo_out_def)
  show "demo_at (dbs demo_env_world) w \<Longrightarrow> ids_unused demo_answers w"
    by (simp add: ids_unused_def demo_at_def demo_answers_def status_ids table_ids_def demo_env_world_def demo_start_world_def create_tables_def
        enc_simps split: option.splits)
qed

lemma keeps_environ:
  "keeps (\<lambda>v. environ v = E) (connect out)" "keeps (\<lambda>v. environ v = E) (iso_now out)" "keeps (\<lambda>v. environ v = E) (new_id out pre)"
  "keeps (\<lambda>v. environ v = E) (exec_sql f)"
  by (simp_all add: keeps_def connect_def iso_now_returns new_id_returns exec_sql_def split: option.split sum.split)

lemma demo_begin:
  assumes "demo_at (dbs demo_env_world) w" and "encodable rl" "encodable (json_dumps_raw inp)"
  shows "\<exists>sid tid w'. begin_run demo_answers src (PStr rl) inp w = (Inr (sid, tid), w') \<and> db_ready demo_answers w' \<and> encodable sid \<and> encodable tid \<and>
     demo_at (dbs w') w' \<and> dbs w' (L ''documents'') = Some []"
proof -
  obtain sid tid w' where b: "begin_run demo_answers src (PStr rl) inp w = (Inr (sid, tid), w')" "db_ready demo_answers w'" "encodable sid" "encodable tid"
    using begin_run_returns[OF demo_ready[OF assms(1)] assms(2,3)] by blast
  have "dbs w' (L ''documents'') = Some []" using begin_run_documents[OF b(1)] assms(1)
    by (simp add: demo_at_def demo_env_world_def demo_start_world_def create_tables_def schema_def documents_def_def)
  moreover have k: "keeps (\<lambda>v. environ v = environ demo_env_world) (begin_run demo_answers src (PStr rl) inp)"
    unfolding begin_run_def create_session_def create_task_def update_session_status_def by (intro keeps_intros keeps_environ)
  moreover have "environ w' = environ demo_env_world" by (rule keepsD[OF k _ b(1)]) (use assms(1) in \<open>simp add: demo_at_def\<close>)
  ultimately show ?thesis using b unfolding demo_at_def by blast
qed

lemma demo_finishes:
  assumes "demo_at D w" and "db_ready demo_answers w" and "D (L ''documents'') = Some []"
  shows "\<exists>r w'. finish_digest demo_answers (ClaudeDigestOptions\<lparr>opt_model := m\<rparr>) ws 0 (0, L ''{}'', []) w = (Inr r, w') \<and> db_ready demo_answers w' \<and>
     dr_exit_code r = 0 \<and> dr_verified_path r = Some (digest_path 0) \<and> dr_commit_sha r = Some []"
proof -
  let ?m = "PDict [(L ''target_repo'', PStr DEFAULT_NOTES_REPO), (L ''target_path'', PStr (digest_path 0)),
                 (L ''verified'', PBool True), (L ''exit_code'', PInt 0), (L ''error'', PNone)]"
  from demo_verify[OF assms(1)] obtain w1 where v: "verify_published demo_answers DEFAULT_NOTES_REPO (digest_path 0) w = (Inr (True, Some []), w1)"
    and a: "demo_at D w1" by blast
  have r: "db_ready demo_answers w1" using assms(1,2) a by (simp add: demo_at_def db_ready_def world_wf_def)
  have e: "encodable (json_dumps_raw ?m)" "encodable (json_dumps_raw (PList []))" "encodable DEFAULT_NOTES_REPO" "encodable (digest_path 0)"
    by code_simp+
  have "\<exists>i w'. record_document demo_answers (Some DEFAULT_NOTES_REPO) (digest_path 0) (L ''Daily AI/IT Digest - '' @ date_iso 0)
      (L ''ai_it_daily_digest'') (L ''published'') (PList []) (Some []) ?m w1 = (Inr i, w') \<and> db_ready demo_answers w'"
    by (rule record_document_returns[OF r])
      (use e assms(3) a in \<open>simp_all add: enc_simps py_or_def demo_answers_def demo_at_def table_ids_def\<close>)
  then show ?thesis using v
    by (auto simp: finish_digest_def ClaudeDigestOptions_def excerpt_for_def final_code_def sbind_def Let_def)
qed

lemma demo_digest_returns: "fst demo_digest = Inr ()"
proof -
  let ?job = "PDict [(L ''role'', PStr (L ''r''))]"
  let ?payload = "PDict [(L ''path'', PStr (digest_path 0)), (L ''commit_sha'', PStr [])]"
  have e: "encodable (json_dumps_raw (PDict [(L ''job'', ?job)]))" "encodable (json_dumps_raw ?payload)" "encodable (json_dumps_raw PNone)"
    by code_simp+
  have st: "demo_at (dbs demo_env_world) demo_env_world" by (simp add: demo_at_def)
  obtain s t w1 where b: "begin_run demo_answers ''scheduler'' (PStr (L ''r'')) (PDict [(L ''job'', ?job)]) demo_env_world = (Inr (s, t), w1)"
    and w1: "db_ready demo_answers w1" "encodable s" "encodable t" "demo_at (dbs w1) w1" "dbs w1 (L ''documents'') = Some []"
    using demo_begin[OF st encodable_L e(1)] by blast
  from demo_issue[OF w1(4)] obtain w2 where i: "issue_mcp_config demo_answers ai_it_role ''claude-digest'' w1 = (Inr demo_mcp, w2)"
    and a2: "demo_at (dbs w1) w2" by blast
  obtain a where au: "auth_client_init (cfg_policy demo_config) w1 = (Inr a, w1)" using demo_auth[OF w1(4)] by blast
  have "\<not> isl (role_model demo_config (PStr (L ''r'')))" by code_simp
  then obtain m where m: "role_model demo_config (PStr (L ''r'')) = Inr m" by (metis isl_def sum.exhaust)
  let ?opts = "ClaudeDigestOptions\<lparr>opt_model := m\<rparr>" and ?ws = "create_workspace (cfg_root demo_config) s"
    and ?w2 = "w2\<lparr>ticks := Suc (ticks w2)\<rparr>"
  have a2': "demo_at (dbs w1) ?w2" using a2 by (simp add: demo_at_upd)
  have o: "opt_docker_bin ?opts = L ''docker''" "opt_notes_repo ?opts = DEFAULT_NOTES_REPO" by (simp_all add: ClaudeDigestOptions_def)
  obtain w3 where c: "run_claude 0 demo_answers demo_sys (cfg_root demo_config) ?ws s ai_it_role
      (build_digest_prompt DEFAULT_NOTES_REPO (digest_path 0) (L ''v'')) ?opts DIRECT_MCP_ALLOWED_TOOLS True demo_mcp ?w2 = (Inr (0, L ''{}'', []), w3)"
    and a3: "demo_at (dbs w1) w3" using demo_claude[OF a2' o(1)] by blast
  have "db_ready demo_answers w3" using w1(1) a3 by (simp add: demo_at_def db_ready_def world_wf_def)
  from demo_finishes[OF a3 this w1(5)] obtain r w4 where f: "finish_digest demo_answers ?opts ?ws 0 (0, L ''{}'', []) w3 = (Inr r, w4)"
    "db_ready demo_answers w4" "dr_exit_code r = 0" "dr_verified_path r = Some (digest_path 0)" "dr_commit_sha r = Some []" by blast
  obtain w5 where x: "end_run demo_answers s t (L ''succeeded'') ?payload PNone (L ''stopped'') w4 = (Inr (), w5)"
    using end_run_returns[OF f(2) w1(2,3) encodable_L encodable_L e(2,3)] by blast
  have g: "env_set_val ''GIT_PROXY_URL'' ?w2 = (Inr (Some (L ''v'')), ?w2)" using a2' by (simp add: demo_steps)
  have n: "now_jst demo_answers w2 = (Inr 0, ?w2)" by (simp add: now_jst_def demo_answers_def)
  have re: "require_env required_env demo_env_world = (Inr (), demo_env_world)" by (simp add: require_env_def demo_getenv)
  have d: "digest_run 0 demo_answers demo_sys demo_config ''scheduler'' (PStr (L ''r'')) ?job ?opts demo_env_world = (Inr r, w5)"
    using b au i c f(1,3-5) x g n o(2) by (simp add: digest_run_def run_claude_digest_def close_digest_def sbind_def Let_def opt_str_def)
  show ?thesis using d re m f(3) unfolding demo_digest_def run_ai_it_x_daily_digest_def by (simp add: sbind_def)
qed


text \<open>A project with one job, which the container backend runs.\<close>

definition demo_collector_job :: pyval where
  "demo_collector_job = PDict [(L ''name'', PStr (L ''x-signal-collector'')), (L ''role'', PStr (L ''r'')), (L ''cron'', PStr (L ''* * * * *''))]"

definition demo_job_file :: pyval where
  "demo_job_file = PDict [(L ''jobs'', PList [demo_collector_job])]"

definition demo_yaml :: "pystr \<Rightarrow> pyval result" where
  "demo_yaml t = (if t = L ''r'' then Inr (cfg_roles demo_config) else if t = L ''p'' then Inr demo_secure_policy
     else Inr demo_job_file)"

definition demo_project :: world where
  "demo_project = demo_env_world\<lparr>files := [config_file (L ''/p'') ''roles.yaml'' \<mapsto> L ''r'', config_file (L ''/p'') ''policy.yaml'' \<mapsto> L ''p'',
     config_file (L ''/p'') ''schedules.yaml'' \<mapsto> L ''s'']\<rparr>"

definition demo_machine :: sys_env where
  "demo_machine = \<lparr>sys_cwd = L ''/p'', sys_resolve = (\<lambda>_ p. p), sys_yaml = demo_yaml\<rparr>"

definition demo_args :: run_job_args where
  "demo_args = \<lparr>ra_name = L ''x-signal-collector'', ra_runner = L ''container'', ra_image = L ''i'', ra_network = L ''n'', ra_memory = L ''1g'', ra_pids_limit = 9\<rparr>"

definition demo_loaded :: "app_config result" where
  "demo_loaded = fst (load_validated_config demo_machine None demo_project)"

lemma demo_load:
  obtains config where "load_validated_config demo_machine None demo_project = (Inr config, demo_project)"
    "find_job config (L ''x-signal-collector'') = Inr demo_collector_job" "cfg_schedules config = demo_job_file"
proof -
  have "(case demo_loaded of Inl e \<Rightarrow> False | Inr c \<Rightarrow> find_job c (L ''x-signal-collector'') = Inr demo_collector_job \<and> cfg_schedules c = demo_job_file)"
    by code_simp
  then obtain c where c: "demo_loaded = Inr c" "find_job c (L ''x-signal-collector'') = Inr demo_collector_job" "cfg_schedules c = demo_job_file"
    by (auto split: sum.splits)
  obtain w' where "load_validated_config demo_machine None demo_project = (Inr c, w')"
    using c(1) unfolding demo_loaded_def by (metis prod.collapse)
  with load_validated_config_pure that c(2,3) show thesis by metis
qed

lemma demo_container:
  assumes "demo_at D w" and "co_docker_bin opts = L ''docker''"
  shows "\<exists>s v. container_run_task demo_answers opts root task w = (Inr \<lparr>xr_status = s, xr_payload = PDict []\<rparr>, v)"
proof -
  have "json_loads (L ''{}'') = Inr (PDict [])" by code_simp
  then show ?thesis using assms
    by (simp add: container_run_task_def container_env_def add_tokens_def add_token_def container_result_def container_command_def result_of_payload_def
        run_proc_def demo_answers_def demo_steps)
qed

text \<open>What the command asks of the backend.\<close>

lemma demo_backend:
  fixes config :: app_config and task :: runner_task
  assumes "demo_at D w" and "co_docker_bin opts = L ''docker''"
  defines "run \<equiv> run_task 0 demo_answers demo_machine config (ContainerBackend opts) task"
  shows "case fst (run w) of Inl e \<Rightarrow> is_Exception e \<and> encodable (json_dumps_raw (error_record e)) | Inr r \<Rightarrow> encodable (json_dumps_raw (xr_payload r))"
    "keeps (db_ready demo_answers) run" "\<not> isl (fst (run w))"
proof -
  obtain s v where r: "run w = (Inr \<lparr>xr_status = s, xr_payload = PDict []\<rparr>, v)"
    using demo_container[OF assms(1,2)] by (fastforce simp: run_task_def run_def)
  have "encodable (json_dumps_raw (PDict []))" by code_simp
  then show "case fst (run w) of Inl e \<Rightarrow> is_Exception e \<and> encodable (json_dumps_raw (error_record e)) | Inr r \<Rightarrow> encodable (json_dumps_raw (xr_payload r))"
    by (simp add: r)
  show "\<not> isl (fst (run w))" by (simp add: r)
  show "keeps (db_ready demo_answers) run"
    using keeps_container_run_task[OF db_only_ready] unfolding run_task_def run_def keeps_def by simp
qed

theorem executed_task_ends_witness:
  "\<exists>task w w'. execute_and_report demo_answers task (run_task 0 demo_answers demo_machine demo_config (ContainerBackend ContainerRunnerOptions) task) w = (Inr 0, w') \<and>
    task_status w' (rt_task_id task) = Some (PStr (L ''succeeded''))"
proof -
  have a: "demo_at (dbs demo_env_world) demo_env_world" by (simp add: demo_at_def)
  have e: "encodable (json_dumps_raw (PDict []))" by code_simp
  from demo_begin[OF a encodable_L e] obtain sid tid w where b: "begin_run demo_answers ''cli'' (PStr (L ''r'')) (PDict []) demo_env_world = (Inr (sid, tid), w)"
    and w: "db_ready demo_answers w" "encodable sid" "encodable tid" "demo_at (dbs w) w" by blast
  define task where "task = \<lparr>rt_job_name = [], rt_job = PNone, rt_session_id = sid, rt_task_id = tid, rt_role = PNone, rt_dry_run = True\<rparr>"
  note f = repo.open_run_fresh[OF b[unfolded begin_run_open]]
  have s: "session_status w (rt_session_id task) \<noteq> None" "task_status w (rt_task_id task) \<noteq> None" "encodable (rt_session_id task)" "encodable (rt_task_id task)"
    using f w by (simp_all add: task_def)
  have "co_docker_bin ContainerRunnerOptions = L ''docker''" by (simp add: ContainerRunnerOptions_def)
  note d = demo_backend[OF w(4) this, of demo_config task]
  from executed_task_ends[OF w(1) s(3,4,1,2) keeps_status_run_task d(2,1)] d(3) show ?thesis by auto
qed

definition demo_run_job :: "int result \<times> world" where
  "demo_run_job = cmd_run_job 0 demo_answers demo_machine None demo_args demo_project"

lemma demo_run_job_returns: "fst demo_run_job = Inr 0"
proof -
  let ?inp = "PDict [(L ''job'', demo_collector_job), (L ''dry_run'', PBool True)]"
  obtain config where l: "load_validated_config demo_machine None demo_project = (Inr config, demo_project)" and j: "find_job config (L ''x-signal-collector'') = Inr demo_collector_job"
    by (rule demo_load)
  define w1 where "w1 = snd (migrate demo_answers demo_project)"
  have "create_tables (dbs demo_env_world) = dbs demo_env_world"
    by (auto simp: demo_env_world_def demo_start_world_def create_tables_def fun_eq_iff split: option.splits)
  then have m: "migrate demo_answers demo_project = (Inr (), w1)" "demo_at (dbs demo_env_world) w1"
    by (simp_all add: w1_def migrate_def sbind_def connect_def exec_sql_def demo_answers_def demo_out_def demo_project_def demo_at_def)
  have "encodable (json_dumps_raw ?inp)" by code_simp
  from demo_begin[OF m(2) encodable_L this] obtain sid tid w2 where b: "begin_run demo_answers ''cli'' (PStr (L ''r'')) ?inp w1 = (Inr (sid, tid), w2)"
    and w2: "db_ready demo_answers w2" "encodable sid" "encodable tid" "demo_at (dbs w2) w2" by blast
  let ?task = "\<lparr>rt_job_name = L ''x-signal-collector'', rt_job = demo_collector_job, rt_session_id = sid, rt_task_id = tid, rt_role = PStr (L ''r''), rt_dry_run = True\<rparr>"
  have p: "prepare_task demo_answers config (L ''x-signal-collector'') True ''cli'' w1 = (Inr ?task, w2)"
    using j b by (simp add: prepare_task_def sbind_def demo_collector_job_def)
  obtain opts where o: "choose_backend demo_args w2 = (Inr (ContainerBackend opts), w2)" "co_docker_bin opts = L ''docker''"
    by (simp add: choose_backend_def demo_args_def ContainerRunnerOptions_def)
  note f = repo.open_run_fresh[OF b[unfolded begin_run_open]]
  have s: "session_status w2 (rt_session_id ?task) \<noteq> None" "task_status w2 (rt_task_id ?task) \<noteq> None" "encodable (rt_session_id ?task)" "encodable (rt_task_id ?task)"
    using f w2 by simp_all
  note d = demo_backend[OF w2(4) o(2), of config ?task]
  have "\<exists>w'. execute_and_report demo_answers ?task (run_task 0 demo_answers demo_machine config (ContainerBackend opts) ?task) w2 = (Inr 0, w')"
    using execute_and_report_returns[OF w2(1) s(3,4,1,2) keeps_status_run_task d(2,1)] d(3) by auto
  then show ?thesis using l m(1) p o(1)
    by (auto simp: demo_run_job_def cmd_run_job_def with_config_def sbind_def catch_def demo_args_def)
qed


end
