(* ===== verification/Argparse.thy ===== *)
theory Argparse
  imports PyValue
begin

text \<open>
  The part of \<^verbatim>\<open>argparse\<close> (Python 3.11) that \<^verbatim>\<open>build_parser\<close> uses: options that store a text, a number, one of
  some choices or a truth value, at most one positional argument, and nested commands.  Abbreviated options,
  \<^verbatim>\<open>--option=value\<close>, \<^verbatim>\<open>--\<close>, numbers with a sign and unknown arguments are treated as there.  Usage errors and
  \<^verbatim>\<open>--help\<close> are \<^verbatim>\<open>SystemExit\<close> with the exit code as its message; the text that is printed before is not modelled.
\<close>

section \<open>Parsers\<close>

datatype arg_kind = Store | StoreInt | StoreChoice "pystr list" | StoreTrue | Help

record arg_option =
  ao_flag :: pystr
  ao_dest :: pystr
  ao_kind :: arg_kind
  ao_required :: bool
  ao_default :: pyval

text \<open>
  A parser without commands has at most one positional argument and the function of \<^verbatim>\<open>set_defaults\<close>; a parser
  with commands stores the name of the chosen one.
\<close>

datatype 'f arg_parser =
    Leaf "arg_option list" "pystr option" 'f
  | Node "arg_option list" pystr "(pystr \<times> 'f arg_parser) list"

definition usage_error :: pyexc where
  "usage_error = Exc SystemExit (L ''2'')"

definition help_exit :: pyexc where
  "help_exit = Exc SystemExit (L ''0'')"

section \<open>Options and other arguments\<close>

text \<open>
  What an argument is for a parser: an option with the value after \<^verbatim>\<open>=\<close>, the short help option with what is
  written after it, an unknown option, the separator, or a plain argument.
\<close>

datatype token = Plain | Separator | Known arg_option "pystr option" | ShortHelp pystr | Unknown

definition all_digits :: "pystr \<Rightarrow> bool" where
  "all_digits s = (s \<noteq> [] \<and> list_all (\<lambda>c. py_digit c \<noteq> None) s)"

text \<open>The expression \<^verbatim>\<open>^-\d+$|^-\d*\.\d+$\<close>, whose \<^verbatim>\<open>$\<close> also matches before a final line feed.\<close>

definition negative_number :: "pystr \<Rightarrow> bool" where
  "negative_number s =
     (let t = tl (if s \<noteq> [] \<and> last s = 10 then butlast s else s); a = takeWhile (\<lambda>c. c \<noteq> 46) t; b = dropWhile (\<lambda>c. c \<noteq> 46) t
      in s \<noteq> [] \<and> hd s = 45 \<and> (all_digits t \<or> (b \<noteq> [] \<and> (a = [] \<or> all_digits a) \<and> all_digits (tl b))))"

definition parse_optional :: "arg_option list \<Rightarrow> pystr \<Rightarrow> token result" where
  "parse_optional opts s =
     (if s = [] \<or> hd s \<noteq> 45 then Inr Plain
      else case find (\<lambda>p. ao_flag p = s) opts of
        Some p \<Rightarrow> Inr (Known p None)
      | None \<Rightarrow>
          if length s = 1 then Inr Plain
          else
            let option_string = takeWhile (\<lambda>c. c \<noteq> 61) s; sep = dropWhile (\<lambda>c. c \<noteq> 61) s;
                explicit_arg = (if sep = [] then None else Some (tl sep));
                other = (if negative_number s \<or> List.member s 32 then Plain else Unknown)
            in case (if sep = [] then None else find (\<lambda>p. ao_flag p = option_string) opts) of
                 Some p \<Rightarrow> Inr (Known p explicit_arg)
               | None \<Rightarrow>
                   if s ! 1 = 45 then
                     (case filter (\<lambda>p. py_startswith (ao_flag p) option_string) opts of
                        [] \<Rightarrow> Inr other | [p] \<Rightarrow> Inr (Known p explicit_arg) | _ \<Rightarrow> Inl usage_error)
                   else if list_ex (\<lambda>p. ao_flag p = take 2 s) opts then Inr (ShortHelp (drop 2 s))
                   else Inr other)"

text \<open>The pattern of the arguments: after \<^verbatim>\<open>--\<close> all are plain.\<close>

fun tokens :: "arg_option list \<Rightarrow> pystr list \<Rightarrow> (pystr \<times> token) list result" where
  "tokens opts [] = Inr []"
| "tokens opts (s # ss) =
     (if s = L ''--'' then Inr ((s, Separator) # map (\<lambda>t. (t, Plain)) ss)
      else ebind (parse_optional opts s) (\<lambda>k. ebind (tokens opts ss) (\<lambda>ts. Inr ((s, k) # ts))))"

section \<open>Consuming the arguments\<close>

record arg_state =
  as_namespace :: "(pystr \<times> pyval) list"
  as_seen :: "pystr list"
  as_extras :: "pystr list"

definition store :: "pystr \<Rightarrow> pyval \<Rightarrow> arg_state \<Rightarrow> arg_state" where
  "store d v st = st\<lparr>as_namespace := dict_set d v (as_namespace st), as_seen := d # as_seen st\<rparr>"

definition extra :: "pystr \<Rightarrow> arg_state \<Rightarrow> arg_state" where
  "extra s st = st\<lparr>as_extras := as_extras st @ [s]\<rparr>"

text \<open>The value of an option, with its conversion and the check of the choices.\<close>

fun arg_value :: "arg_kind \<Rightarrow> pystr \<Rightarrow> pyval result" where
  "arg_value StoreInt s = (case py_int s of Some i \<Rightarrow> Inr (PInt i) | None \<Rightarrow> Inl usage_error)"
| "arg_value (StoreChoice cs) s = (if List.member cs s then Inr (PStr s) else Inl usage_error)"
| "arg_value _ s = Inr (PStr s)"

text \<open>
  The letters after \<^verbatim>\<open>-h\<close>: each may be a further \<^verbatim>\<open>-h\<close>; another letter is left over, but the help is printed
  before that matters.  A hyphen, or a value after \<^verbatim>\<open>=\<close>, is an error.
\<close>

fun help_tail :: "pystr \<Rightarrow> bool" where
  "help_tail [] = True"
| "help_tail (c # s) = (if c = 45 then False else if c = 104 \<and> s \<noteq> [] then hd s \<noteq> 61 \<and> help_tail s else True)"

definition consume_optional ::
    "arg_option \<Rightarrow> pystr option \<Rightarrow> (pystr \<times> token) list \<Rightarrow> arg_state \<Rightarrow> ((pystr \<times> token) list \<times> arg_state) result" where
  "consume_optional p explicit_arg ts st =
     (case ao_kind p of
        Help \<Rightarrow> Inl (if explicit_arg = None then help_exit else usage_error)
      | StoreTrue \<Rightarrow> if explicit_arg = None then Inr (ts, store (ao_dest p) (PBool True) st) else Inl usage_error
      | k \<Rightarrow>
          (case explicit_arg of
             Some s \<Rightarrow> ebind (arg_value k s) (\<lambda>v. Inr (ts, store (ao_dest p) v st))
           | None \<Rightarrow>
               (case ts of
                  (s, Plain) # ts' \<Rightarrow> ebind (arg_value k s) (\<lambda>v. Inr (ts', store (ao_dest p) v st))
                | _ \<Rightarrow> Inl usage_error)))"

lemma consume_optional_length: "consume_optional p e ts st = Inr (ts', st') \<Longrightarrow> length ts' \<le> length ts"
  by (auto simp: consume_optional_def split: arg_kind.splits option.splits list.splits token.splits if_splits)

text \<open>
  The positional argument that is still expected: none, one, or a command, which takes all arguments that
  follow.  The separator before or after a positional argument is dropped, but a command takes it as its name.
\<close>

datatype expected = Nothing | Positional pystr | Command

function consume ::
    "expected \<Rightarrow> (pystr \<times> token) list \<Rightarrow> arg_state \<Rightarrow> (arg_state \<times> (pystr \<times> pystr list) option) result" where
  "consume want [] st = Inr (st, None)"
| "consume want ((s, k) # ts) st =
     (case k of
        Known p e \<Rightarrow> ebind (consume_optional p e ts st) (\<lambda>(ts', st'). consume want ts' st')
      | ShortHelp t \<Rightarrow> Inl (if help_tail t then help_exit else usage_error)
      | Unknown \<Rightarrow> consume want ts (extra s st)
      | Plain \<Rightarrow>
          (case want of
             Nothing \<Rightarrow> consume want ts (extra s st)
           | Positional d \<Rightarrow> consume Nothing (if ts \<noteq> [] \<and> snd (hd ts) = Separator then tl ts else ts) (store d (PStr s) st)
           | Command \<Rightarrow> Inr (st, Some (s, map fst ts)))
      | Separator \<Rightarrow>
          (case (want, ts) of
             (Positional d, (t, _) # ts') \<Rightarrow> consume Nothing ts' (store d (PStr t) st)
           | (Command, _ # _) \<Rightarrow> Inr (st, Some (s, map fst ts))
           | _ \<Rightarrow> consume want ts (extra s st)))"
  by pat_completeness auto
termination
  by (relation "measure (\<lambda>(want, ts, st). length ts)") (auto dest!: consume_optional_length)

section \<open>Parsing\<close>

text \<open>The namespace before the arguments are read: the defaults.\<close>

definition defaults :: "arg_option list \<Rightarrow> (pystr \<times> pyval) list" where
  "defaults opts = map (\<lambda>p. (ao_dest p, ao_default p)) (filter (\<lambda>p. ao_kind p \<noteq> Help) opts)"

definition start_state :: "arg_option list \<Rightarrow> pystr option \<Rightarrow> arg_state" where
  "start_state opts pos =
     \<lparr>as_namespace = defaults opts @ (case pos of None \<Rightarrow> [] | Some d \<Rightarrow> [(d, PNone)]), as_seen = [], as_extras = []\<rparr>"

definition all_required :: "arg_option list \<Rightarrow> pystr option \<Rightarrow> arg_state \<Rightarrow> bool" where
  "all_required opts pos st =
     (list_all (\<lambda>p. ao_required p \<longrightarrow> List.member (as_seen st) (ao_dest p)) opts
      \<and> (case pos of None \<Rightarrow> True | Some d \<Rightarrow> List.member (as_seen st) d))"

lemma size_map_of: "map_of ps c = Some p \<Longrightarrow> size p < Suc (size_list (size_prod (\<lambda>_. 0) size) ps)"
  by (induction ps) (auto split: if_splits)

function parse_known_args :: "'f arg_parser \<Rightarrow> pystr list \<Rightarrow> ((pystr \<times> pyval) list \<times> 'f \<times> pystr list) result" where
  "parse_known_args (Leaf opts pos f) args =
     ebind (tokens opts args) (\<lambda>ts.
     ebind (consume (case pos of None \<Rightarrow> Nothing | Some d \<Rightarrow> Positional d) ts (start_state opts pos)) (\<lambda>(st, _).
     if all_required opts pos st then Inr (as_namespace st, f, as_extras st) else Inl usage_error))"
| "parse_known_args (Node opts dest cmds) args =
     ebind (tokens opts args) (\<lambda>ts.
     ebind (consume Command ts (start_state opts (Some dest))) (\<lambda>(st, chosen).
     case chosen of
       None \<Rightarrow> Inl usage_error
     | Some (c, rest) \<Rightarrow>
         (case map_of cmds c of
            None \<Rightarrow> Inl usage_error
          | Some p \<Rightarrow>
              ebind (parse_known_args p rest) (\<lambda>(ns, f, extras).
              let st' = store dest (PStr c) st in
              if all_required opts (Some dest) st'
              then Inr (dict_update (as_namespace st') ns, f, as_extras st @ extras) else Inl usage_error))))"
  by pat_completeness auto
termination
  by (relation "measure (\<lambda>(p, args). size p)") (auto dest: size_map_of)

definition parse_args :: "'f arg_parser \<Rightarrow> pystr list \<Rightarrow> ((pystr \<times> pyval) list \<times> 'f) result" where
  "parse_args p args =
     ebind (parse_known_args p args) (\<lambda>(ns, f, extras). if extras = [] then Inr (ns, f) else Inl usage_error)"

text \<open>\<^verbatim>\<open>args.k\<close> as the text, the optional text, the number or the truth value that the code takes it for.\<close>

definition no_attribute :: "string \<Rightarrow> pyexc" where
  "no_attribute k = Exc AttributeError ([39] @ L ''Namespace'' @ [39] @ L '' object has no attribute '' @ [39] @ L k @ [39])"

definition arg_str :: "(pystr \<times> pyval) list \<Rightarrow> string \<Rightarrow> pystr result" where
  "arg_str ns k = (case map_of ns (L k) of Some (PStr s) \<Rightarrow> Inr s | _ \<Rightarrow> Inl (no_attribute k))"

definition arg_opt :: "(pystr \<times> pyval) list \<Rightarrow> string \<Rightarrow> pystr option result" where
  "arg_opt ns k = (case map_of ns (L k) of Some (PStr s) \<Rightarrow> Inr (Some s) | Some PNone \<Rightarrow> Inr None | _ \<Rightarrow> Inl (no_attribute k))"

definition arg_int :: "(pystr \<times> pyval) list \<Rightarrow> string \<Rightarrow> int result" where
  "arg_int ns k = (case map_of ns (L k) of Some (PInt i) \<Rightarrow> Inr i | _ \<Rightarrow> Inl (no_attribute k))"

definition arg_bool :: "(pystr \<times> pyval) list \<Rightarrow> string \<Rightarrow> bool result" where
  "arg_bool ns k = (case map_of ns (L k) of Some (PBool b) \<Rightarrow> Inr b | _ \<Rightarrow> Inl (no_attribute k))"

section \<open>What parsing ends with\<close>

text \<open>The only exceptions are the exits with code 0 and 2.\<close>

definition exits :: "'a result \<Rightarrow> bool" where
  "exits r \<longleftrightarrow> (\<forall>e. r = Inl e \<longrightarrow> e = usage_error \<or> e = help_exit)"

named_theorems exits_intros \<open>code that ends by itself or with an exit\<close>

lemma exits_basic [exits_intros]: "exits (Inr x)" "exits (Inl usage_error)" "exits (Inl help_exit)"
  by (simp_all add: exits_def)

lemma exits_ebind [exits_intros]: "exits m \<Longrightarrow> (\<And>x. m = Inr x \<Longrightarrow> exits (f x)) \<Longrightarrow> exits (ebind m f)"
  by (cases m) (auto simp: exits_def)

lemma exits_cases [exits_intros]:
  "exits a \<Longrightarrow> exits b \<Longrightarrow> exits (if c then a else b)"
  "exits a \<Longrightarrow> (\<And>x. exits (f x)) \<Longrightarrow> exits (case y of None \<Rightarrow> a | Some x \<Rightarrow> f x)"
  "exits a \<Longrightarrow> (\<And>x xs. exits (g x xs)) \<Longrightarrow> exits (case ys of [] \<Rightarrow> a | x # xs \<Rightarrow> g x xs)"
  by (auto split: option.split list.split)

lemma exits_parse_optional [exits_intros]: "exits (parse_optional opts s)"
  unfolding parse_optional_def Let_def by (intro exits_intros)

lemma exits_tokens [exits_intros]: "exits (tokens opts ss)"
  by (induction ss) (auto intro!: exits_intros)

lemma exits_arg_value [exits_intros]: "exits (arg_value k s)"
  by (cases k) (auto intro: exits_intros split: option.splits)

lemma exits_consume_optional [exits_intros]: "exits (consume_optional p e ts st)"
  unfolding consume_optional_def
  by (auto intro!: exits_intros split: arg_kind.splits option.splits list.splits token.splits)

lemma exits_consume [exits_intros]: "exits (consume want ts st)"
proof (induction want ts st rule: consume.induct)
  case (2 want s k ts st)
  have "exits (ebind (consume_optional p e ts st) (\<lambda>(ts', st'). consume want ts' st'))" if "k = Known p e" for p e
    using 2 that by (auto intro!: exits_intros)
  with 2 show ?case by (cases k; cases want; cases ts) (auto intro!: exits_intros)
qed (simp add: exits_intros)

lemma exits_parse_known_args [exits_intros]: "exits (parse_known_args p args)"
  by (induction p args rule: parse_known_args.induct)
    (auto intro!: exits_basic exits_ebind exits_tokens exits_consume simp: Let_def split: option.split prod.splits)

lemma exits_parse_args: "exits (parse_args p args)"
  by (auto simp: parse_args_def intro!: exits_intros)

text \<open>
  The namespace: an attribute that was given has a value of its option's kind; every other attribute has its
  default, and is not required.
\<close>

fun kind_value :: "arg_kind \<Rightarrow> pyval \<Rightarrow> bool" where
  "kind_value Store v = is_str v"
| "kind_value (StoreChoice cs) v = (\<exists>s \<in> set cs. v = PStr s)"
| "kind_value StoreInt v = (\<exists>i. v = PInt i)"
| "kind_value StoreTrue v = (v = PBool True)"
| "kind_value Help v = False"

definition given :: "arg_option list \<Rightarrow> pystr option \<Rightarrow> pystr \<Rightarrow> pyval \<Rightarrow> bool" where
  "given opts pos d v \<longleftrightarrow> (\<exists>p \<in> set opts. ao_dest p = d \<and> kind_value (ao_kind p) v) \<or> (pos = Some d \<and> is_str v)"

definition namespace_ok :: "arg_option list \<Rightarrow> pystr option \<Rightarrow> arg_state \<Rightarrow> bool" where
  "namespace_ok opts pos st \<longleftrightarrow> distinct (map fst (as_namespace st)) \<and>
     (\<forall>d. if d \<in> set (as_seen st) then \<exists>v. map_of (as_namespace st) d = Some v \<and> given opts pos d v
          else map_of (as_namespace st) d = map_of (as_namespace (start_state opts pos)) d)"

lemma namespace_ok_store: "namespace_ok opts pos st \<Longrightarrow> given opts pos d v \<Longrightarrow> namespace_ok opts pos (store d v st)"
  unfolding namespace_ok_def store_def by (auto simp: distinct_dict_set simp del: map_of_eq_Some_iff)

lemma namespace_ok_extra: "namespace_ok opts pos (extra s st) = namespace_ok opts pos st"
  by (simp add: namespace_ok_def extra_def)

lemma arg_value_kind: "arg_value k s = Inr v \<Longrightarrow> k \<noteq> StoreTrue \<Longrightarrow> k \<noteq> Help \<Longrightarrow> kind_value k v"
  by (cases k) (auto split: option.splits if_splits)

text \<open>The options among the tokens are options of the parser.\<close>

definition tokens_of :: "arg_option list \<Rightarrow> (pystr \<times> token) list \<Rightarrow> bool" where
  "tokens_of opts ts \<longleftrightarrow> (\<forall>s p e. (s, Known p e) \<in> set ts \<longrightarrow> p \<in> set opts)"

lemma parse_optional_known: "parse_optional opts s = Inr (Known p e) \<Longrightarrow> p \<in> set opts"
proof -
  have f: "find P xs = Some x \<Longrightarrow> x \<in> set xs" for P and xs :: "arg_option list" and x by (auto simp: find_Some_iff)
  have g: "filter P xs = [x] \<Longrightarrow> x \<in> set xs" for P and xs :: "arg_option list" and x
    using filter_is_subset[of P xs] by simp
  show "parse_optional opts s = Inr (Known p e) \<Longrightarrow> p \<in> set opts"
    unfolding parse_optional_def Let_def by (auto split: if_splits option.splits list.splits dest: f g)
qed

lemma tokens_known: "tokens opts ss = Inr ts \<Longrightarrow> tokens_of opts ts"
  by (induction ss arbitrary: ts) (fastforce simp: tokens_of_def split: if_splits dest: parse_optional_known)+

lemma consume_optional_stores:
  "consume_optional p e ts st = Inr (ts', st') \<Longrightarrow>
   \<exists>v. st' = store (ao_dest p) v st \<and> kind_value (ao_kind p) v \<and> set ts' \<subseteq> set ts"
  by (cases "ao_kind p") (auto simp: consume_optional_def split: option.splits list.splits token.splits if_splits dest: arg_value_kind, blast)

lemma consume_optional_ok:
  assumes "consume_optional p e ts st = Inr (ts', st')" "namespace_ok opts pos st" "p \<in> set opts" "tokens_of opts ts"
  shows "namespace_ok opts pos st' \<and> tokens_of opts ts'"
proof -
  obtain v where v: "st' = store (ao_dest p) v st" "kind_value (ao_kind p) v" "set ts' \<subseteq> set ts"
    using consume_optional_stores[OF assms(1)] by blast
  moreover have "given opts pos (ao_dest p) v" using v(2) assms(3) by (auto simp: given_def)
  ultimately show ?thesis using assms(2,4) namespace_ok_store unfolding tokens_of_def by blast
qed

lemma consume_ok:
  "consume want ts st = Inr (st', chosen) \<Longrightarrow> namespace_ok opts pos st \<Longrightarrow> tokens_of opts ts \<Longrightarrow>
   (\<And>d. want = Positional d \<Longrightarrow> pos = Some d) \<Longrightarrow> namespace_ok opts pos st'"
proof (induction want ts st rule: consume.induct)
  case (2 want s k ts st)
  have t: "tokens_of opts ts" and k: "k = Known p e \<Longrightarrow> p \<in> set opts" for p e using "2.prems"(3) by (auto simp: tokens_of_def)
  have s: "namespace_ok opts pos (store d (PStr x) st)" if "want = Positional d" for d x
    using "2.prems"(2,4) that by (auto intro: namespace_ok_store simp: given_def)
  have tl: "tokens_of opts (tl ts)" using t by (cases ts) (auto simp: tokens_of_def)
  show ?case
  proof (cases k)
    case (Known p e)
    with "2.prems"(1) obtain ts' st1 where c: "consume_optional p e ts st = Inr (ts', st1)" "consume want ts' st1 = Inr (st', chosen)"
      by auto
    with consume_optional_ok[OF c(1) "2.prems"(2) k[OF Known] t] "2.prems"(4) show ?thesis
      by (intro "2.IH"(7)[OF Known c(1) refl c(2)]) auto
  next
    case Plain
    show ?thesis
    proof (cases want)
      case Nothing
      with Plain "2.prems" show ?thesis by (intro "2.IH"(1)) (simp_all add: namespace_ok_extra t)
    next
      case (Positional d)
      with Plain "2.prems"(1) s[OF Positional, of s] t tl show ?thesis by (intro "2.IH"(2)[OF Plain Positional]) simp_all
    qed (use Plain "2.prems" in simp)
  next
    case Separator
    show ?thesis
    proof (cases want)
      case Nothing
      with Separator "2.prems" show ?thesis by (intro "2.IH"(3)[of want ts]) (simp_all add: namespace_ok_extra t)
    next
      case (Positional d)
      show ?thesis
      proof (cases ts)
        case Nil
        with Separator Positional "2.prems"(1,2) show ?thesis by (auto simp: namespace_ok_extra)
      next
        case (Cons x ts')
        with Separator Positional "2.prems"(1) s[OF Positional, of "fst x"] tl show ?thesis
          by (intro "2.IH"(5)[of want ts d x ts' "fst x" "snd x"]) (simp_all split: prod.splits)
      qed
    next
      case Command
      with Separator "2.prems" show ?thesis
        by (cases ts) (auto simp: namespace_ok_extra)
    qed
  next
    case Unknown
    with "2.prems" show ?thesis by (intro "2.IH"(8)) (simp_all add: namespace_ok_extra t)
  qed (use "2.prems" in simp)
qed simp

lemma namespace_ok_start: "distinct (map fst (as_namespace (start_state opts pos))) \<Longrightarrow> namespace_ok opts pos (start_state opts pos)"
  by (simp add: namespace_ok_def) (simp add: start_state_def)

text \<open>What an attribute can be after parsing without commands.\<close>

lemma leaf_namespace:
  assumes "parse_known_args (Leaf opts pos f) args = Inr (ns, f', extras)" "distinct (map fst (as_namespace (start_state opts pos)))"
  obtains st where "ns = as_namespace st" "f' = f" "namespace_ok opts pos st" "all_required opts pos st"
proof -
  from assms(1) obtain ts st c where r: "tokens opts args = Inr ts"
    "consume (case pos of None \<Rightarrow> Nothing | Some d \<Rightarrow> Positional d) ts (start_state opts pos) = Inr (st, c)"
    "all_required opts pos st" "ns = as_namespace st" "f' = f"
    by (auto split: if_splits prod.splits)
  have "namespace_ok opts pos st"
    by (rule consume_ok[OF r(2) namespace_ok_start[OF assms(2)] tokens_known[OF r(1)]]) (auto split: option.splits)
  with r that show thesis by blast
qed

text \<open>An attribute that every namespace of the parser has.\<close>

definition is_required :: "arg_option list \<Rightarrow> pystr option \<Rightarrow> pystr \<Rightarrow> bool" where
  "is_required opts pos d \<longleftrightarrow> pos = Some d \<or> (\<exists>p \<in> set opts. ao_dest p = d \<and> ao_required p)"

lemma attribute_cases:
  assumes "namespace_ok opts pos st" "all_required opts pos st"
  obtains (given) v where "map_of (as_namespace st) d = Some v" "given opts pos d v"
        | (default) "map_of (as_namespace st) d = map_of (as_namespace (start_state opts pos)) d" "\<not> is_required opts pos d"
proof (cases "d \<in> set (as_seen st)")
  case True
  then show ?thesis using assms(1) given unfolding namespace_ok_def by meson
next
  case False
  then have "\<not> is_required opts pos d" using assms(2) by (auto simp: all_required_def is_required_def list_all_iff)
  then show ?thesis using assms(1) default False unfolding namespace_ok_def by meson
qed

lemma attributes_ok:
  assumes "namespace_ok opts pos st" "all_required opts pos st"
  shows arg_str_ok: "\<forall>v. given opts pos (L k) v \<longrightarrow> is_str v \<Longrightarrow>
      is_required opts pos (L k) \<or> (\<exists>s. map_of (as_namespace (start_state opts pos)) (L k) = Some (PStr s)) \<Longrightarrow> \<exists>s. arg_str (as_namespace st) k = Inr s"
    and arg_opt_ok: "\<forall>v. given opts pos (L k) v \<longrightarrow> is_str v \<Longrightarrow>
      map_of (as_namespace (start_state opts pos)) (L k) = Some PNone \<Longrightarrow> \<exists>s. arg_opt (as_namespace st) k = Inr s"
    and arg_int_ok: "\<forall>v. given opts pos (L k) v \<longrightarrow> (\<exists>i. v = PInt i) \<Longrightarrow>
      \<exists>i. map_of (as_namespace (start_state opts pos)) (L k) = Some (PInt i) \<Longrightarrow> \<exists>i. arg_int (as_namespace st) k = Inr i"
    and arg_bool_ok: "\<forall>v. given opts pos (L k) v \<longrightarrow> (\<exists>b. v = PBool b) \<Longrightarrow>
      \<exists>b. map_of (as_namespace (start_state opts pos)) (L k) = Some (PBool b) \<Longrightarrow> \<exists>b. arg_bool (as_namespace st) k = Inr b"
  by (rule attribute_cases[OF assms, of "L k"];
      auto simp: arg_str_def arg_opt_def arg_int_def arg_bool_def split: pyval.splits simp del: map_of_eq_Some_iff)+

text \<open>A namespace that has more attributes reads the same.\<close>

lemma attributes_mono:
  assumes "map_of ns \<subseteq>\<^sub>m map_of ns'"
  shows "arg_str ns k = Inr a \<Longrightarrow> arg_str ns' k = Inr a" "arg_opt ns k = Inr b \<Longrightarrow> arg_opt ns' k = Inr b"
    "arg_int ns k = Inr c \<Longrightarrow> arg_int ns' k = Inr c" "arg_bool ns k = Inr d \<Longrightarrow> arg_bool ns' k = Inr d"
proof -
  have "map_of ns (L k) = None \<or> map_of ns' (L k) = map_of ns (L k)" using assms unfolding map_le_def by (metis domIff)
  then show "arg_str ns k = Inr a \<Longrightarrow> arg_str ns' k = Inr a" "arg_opt ns k = Inr b \<Longrightarrow> arg_opt ns' k = Inr b"
    "arg_int ns k = Inr c \<Longrightarrow> arg_int ns' k = Inr c" "arg_bool ns k = Inr d \<Longrightarrow> arg_bool ns' k = Inr d"
    unfolding arg_str_def arg_opt_def arg_int_def arg_bool_def by (auto simp del: map_of_eq_None_iff)
qed

lemma node_namespace:
  assumes "parse_known_args (Node opts dest cmds) args = Inr (ns, f, extras)" "distinct (map fst (as_namespace (start_state opts (Some dest))))"
  obtains c rest p ns' ex' st where "map_of cmds c = Some p" "parse_known_args p rest = Inr (ns', f, ex')" "ns = dict_update (as_namespace st) ns'"
    "namespace_ok opts (Some dest) st" "all_required opts (Some dest) st"
proof -
  from assms(1) obtain ts st chosen where t: "tokens opts args = Inr ts" "consume Command ts (start_state opts (Some dest)) = Inr (st, chosen)"
    by auto
  with assms(1) obtain c rest where c: "chosen = Some (c, rest)" by (cases chosen) auto
  with t assms(1) obtain p where p: "map_of cmds c = Some p" by (cases "map_of cmds c") auto
  with t c assms(1) obtain ns' ex' where
    "parse_known_args p rest = Inr (ns', f, ex')" "all_required opts (Some dest) (store dest (PStr c) st)"
    "ns = dict_update (as_namespace (store dest (PStr c) st)) ns'"
    by (auto simp: Let_def split: if_splits)
  note r = t(1) t(2)[unfolded c] p this
  have "namespace_ok opts (Some dest) st"
    by (rule consume_ok[OF r(2) namespace_ok_start[OF assms(2)] tokens_known[OF r(1)]]) simp
  then have "namespace_ok opts (Some dest) (store dest (PStr c) st)" by (rule namespace_ok_store) (simp add: given_def)
  with r that show thesis by blast
qed

end
