(* ===== verification/Entry.thy ===== *)
theory Entry
  imports CommandRuns Argparse
begin

text \<open>
  The entry of the program (\<^verbatim>\<open>build_parser\<close> and \<^verbatim>\<open>main\<close> of \<^verbatim>\<open>cli.py\<close>, \<^verbatim>\<open>__main__.py\<close>): the parser of the command
  line, the command that its result selects, and that the command lines which the runner backends build are
  read back as the tasks they were built from.
\<close>

section \<open>The parser\<close>

datatype cmd_func =
    CConfigValidate | CDbInit | CScheduleList | CScheduleRun | CRunJob | CRunnerExecute | CClaudeSmoke | CXSmoke
  | CClaudeDigest | CInvestDigest | CResearchStock | CCollectX

definition help_options :: "arg_option list" where
  "help_options =
     [\<lparr>ao_flag = L ''-h'', ao_dest = L ''help'', ao_kind = Help, ao_required = False, ao_default = PNone\<rparr>,
      \<lparr>ao_flag = L ''--help'', ao_dest = L ''help'', ao_kind = Help, ao_required = False, ao_default = PNone\<rparr>]"

text \<open>\<^verbatim>\<open>add_argument("--...", ...)\<close>; \<^verbatim>\<open>argparse\<close> derives the attribute, here written out, from the option.\<close>

definition option :: "string \<Rightarrow> string \<Rightarrow> arg_kind \<Rightarrow> pyval \<Rightarrow> arg_option" where
  "option flag d k v = \<lparr>ao_flag = L flag, ao_dest = L d, ao_kind = k, ao_required = False, ao_default = v\<rparr>"

definition required_option :: "string \<Rightarrow> string \<Rightarrow> arg_option" where
  "required_option flag d = (option flag d Store PNone)\<lparr>ao_required := True\<rparr>"

definition runner_image :: pyval where
  "runner_image = PStr (L ''7mimi-agent-runner:latest'')"

definition runner_choices :: "pystr list" where
  "runner_choices = [L ''local'', L ''container'', L ''kubernetes'']"

definition schedule_run_parser :: "cmd_func arg_parser" where
  "schedule_run_parser = Leaf (help_options @ [option ''--once'' ''once'' StoreTrue (PBool False)]) None CScheduleRun"

text \<open>The argument is the default of \<^verbatim>\<open>--runner\<close>: the variable \<^verbatim>\<open>RUNNER_BACKEND\<close>, or \<^verbatim>\<open>local\<close>.\<close>

definition run_job_parser :: "pystr \<Rightarrow> cmd_func arg_parser" where
  "run_job_parser backend = Leaf
     (help_options @
      [option ''--dry-run'' ''dry_run'' StoreTrue (PBool False),
       option ''--runner'' ''runner'' (StoreChoice runner_choices) (PStr backend),
       option ''--image'' ''image'' Store runner_image,
       option ''--network'' ''network'' Store (PStr (L ''none'')),
       option ''--memory'' ''memory'' Store (PStr (L ''2g'')),
       option ''--pids-limit'' ''pids_limit'' StoreInt (PInt 256)])
     (Some (L ''name'')) CRunJob"

definition runner_execute_parser :: "cmd_func arg_parser" where
  "runner_execute_parser = Leaf
     (help_options @
      [required_option ''--session-id'' ''session_id'',
       required_option ''--task-id'' ''task_id'',
       option ''--runner-root'' ''runner_root'' Store PNone,
       option ''--dry-run'' ''dry_run'' StoreTrue (PBool False)])
     (Some (L ''name'')) CRunnerExecute"

definition claude_smoke_parser :: "cmd_func arg_parser" where
  "claude_smoke_parser = Leaf
     (help_options @
      [option ''--prompt'' ''prompt'' Store PNone,
       option ''--image'' ''image'' Store runner_image,
       option ''--network'' ''network'' Store (PStr (L ''bridge'')),
       option ''--model'' ''model'' Store (PStr (L ''claude-haiku-4-5''))])
     None CClaudeSmoke"

definition x_smoke_parser :: "cmd_func arg_parser" where
  "x_smoke_parser = Leaf
     (help_options @
      [option ''--query'' ''query'' Store (PStr (L ''MCP server'')),
       option ''--max-results'' ''max_results'' StoreInt (PInt 10),
       option ''--mcp-url'' ''mcp_url'' Store PNone])
     None CXSmoke"

text \<open>\<^verbatim>\<open>claude-digest\<close> and \<^verbatim>\<open>invest-digest\<close> differ in the default of the job.\<close>

definition digest_parser :: "string \<Rightarrow> cmd_func \<Rightarrow> cmd_func arg_parser" where
  "digest_parser job f = Leaf
     (help_options @
      [option ''--job'' ''job'' Store (PStr (L job)),
       option ''--model'' ''model'' Store PNone,
       option ''--max-turns'' ''max_turns'' StoreInt (PInt 40)])
     None f"

definition collect_x_parser :: "cmd_func arg_parser" where
  "collect_x_parser = Leaf
     (help_options @ [option ''--max-results'' ''max_results'' StoreInt (PInt 20)]) (Some (L ''query'')) CCollectX"

definition plain_command :: "cmd_func \<Rightarrow> cmd_func arg_parser" where
  "plain_command f = Leaf help_options None f"

definition build_parser :: "pystr \<Rightarrow> cmd_func arg_parser" where
  "build_parser backend = Node
     (help_options @ [option ''--root'' ''root'' Store PNone]) (L ''command'')
     [(L ''config'', Node help_options (L ''config_command'') [(L ''validate'', plain_command CConfigValidate)]),
      (L ''db'', Node help_options (L ''db_command'') [(L ''init'', plain_command CDbInit), (L ''migrate'', plain_command CDbInit)]),
      (L ''schedule'', Node help_options (L ''schedule_command'')
         [(L ''list'', plain_command CScheduleList), (L ''run'', schedule_run_parser)]),
      (L ''run-job'', run_job_parser backend),
      (L ''runner-execute'', runner_execute_parser),
      (L ''claude-smoke'', claude_smoke_parser),
      (L ''x-smoke'', x_smoke_parser),
      (L ''claude-digest'', digest_parser ''ai-it-x-daily-digest'' CClaudeDigest),
      (L ''invest-digest'', digest_parser ''invest-x-daily-digest'' CInvestDigest),
      (L ''research'', Node help_options (L ''research_command'') [(L ''stock'', Leaf help_options (Some (L ''code'')) CResearchStock)]),
      (L ''collect'', Node help_options (L ''collect_command'') [(L ''x'', collect_x_parser)])]"

section \<open>The entry point\<close>

text \<open>What the commands depend on besides their arguments.\<close>

record machine =
  m_turns :: nat
  m_fuel :: nat
  m_out :: outside
  m_sys :: sys_env
  m_giveup :: thread_cut
  m_listing :: "files \<Rightarrow> pystr \<Rightarrow> pystr list"

text \<open>\<^verbatim>\<open>args.func(args)\<close>: each command with the attributes that it reads.\<close>

definition run_job_args_of :: "(pystr \<times> pyval) list \<Rightarrow> run_job_args result" where
  "run_job_args_of ns =
     ebind (arg_str ns ''name'') (\<lambda>nm. ebind (arg_str ns ''runner'') (\<lambda>r. ebind (arg_str ns ''image'') (\<lambda>i.
     ebind (arg_str ns ''network'') (\<lambda>n. ebind (arg_str ns ''memory'') (\<lambda>m. ebind (arg_int ns ''pids_limit'') (\<lambda>p.
     Inr \<lparr>ra_name = nm, ra_runner = r, ra_image = i, ra_network = n, ra_memory = m, ra_pids_limit = p\<rparr>))))))"

fun command_of :: "machine \<Rightarrow> (pystr \<times> pyval) list \<Rightarrow> cmd_func \<Rightarrow> pystr option \<Rightarrow> (world, int) eff result" where
  "command_of m ns CConfigValidate root = Inr (cmd_config_validate (m_sys m) root)"
| "command_of m ns CDbInit root = Inr (cmd_db_init (m_out m) (m_sys m) root)"
| "command_of m ns CScheduleList root = Inr (cmd_schedule_list (m_sys m) root)"
| "command_of m ns CScheduleRun root =
     ebind (arg_bool ns ''once'') (\<lambda>b. Inr (cmd_schedule_run (m_turns m) (m_fuel m) (m_out m) (m_sys m) (m_giveup m) root b))"
| "command_of m ns CRunJob root = ebind (run_job_args_of ns) (\<lambda>a. Inr (cmd_run_job (m_fuel m) (m_out m) (m_sys m) root a))"
| "command_of m ns CRunnerExecute root =
     ebind (arg_opt ns ''runner_root'') (\<lambda>rr. ebind (arg_str ns ''name'') (\<lambda>nm. ebind (arg_str ns ''session_id'') (\<lambda>sid.
     ebind (arg_str ns ''task_id'') (\<lambda>tid. ebind (arg_bool ns ''dry_run'') (\<lambda>d.
     Inr (cmd_runner_execute (m_out m) (m_sys m) rr root nm sid tid d))))))"
| "command_of m ns CClaudeSmoke root =
     ebind (arg_opt ns ''prompt'') (\<lambda>p. ebind (arg_str ns ''image'') (\<lambda>i. ebind (arg_str ns ''network'') (\<lambda>n.
     ebind (arg_str ns ''model'') (\<lambda>md. Inr (cmd_claude_smoke (m_out m) (m_sys m) (m_listing m) root p i n md)))))"
| "command_of m ns CXSmoke root =
     ebind (arg_str ns ''query'') (\<lambda>q. ebind (arg_int ns ''max_results'') (\<lambda>n. ebind (arg_opt ns ''mcp_url'') (\<lambda>u.
     Inr (cmd_x_smoke (m_out m) (m_sys m) root q n u))))"
| "command_of m ns CClaudeDigest root =
     ebind (arg_str ns ''job'') (\<lambda>j. ebind (arg_opt ns ''model'') (\<lambda>md. ebind (arg_int ns ''max_turns'') (\<lambda>t.
     Inr (cmd_claude_digest (m_fuel m) (m_out m) (m_sys m) root j md t))))"
| "command_of m ns CInvestDigest root =
     ebind (arg_str ns ''job'') (\<lambda>j. ebind (arg_opt ns ''model'') (\<lambda>md. ebind (arg_int ns ''max_turns'') (\<lambda>t.
     Inr (cmd_invest_digest (m_fuel m) (m_out m) (m_sys m) root j md t))))"
| "command_of m ns CResearchStock root =
     ebind (arg_str ns ''code'') (\<lambda>c. Inr (cmd_research_stock (m_out m) (m_sys m) root c))"
| "command_of m ns CCollectX root =
     ebind (arg_str ns ''query'') (\<lambda>q. ebind (arg_int ns ''max_results'') (\<lambda>n. Inr (cmd_collect_x (m_out m) (m_sys m) root q n)))"

definition main_command :: "machine \<Rightarrow> pystr \<Rightarrow> pystr list \<Rightarrow> (world, int) eff result" where
  "main_command m backend argv =
     ebind (parse_args (build_parser backend) argv) (\<lambda>(ns, f).
     ebind (arg_opt ns ''root'') (\<lambda>root. command_of m ns f root))"

definition main :: "machine \<Rightarrow> pystr list \<Rightarrow> (world, int) eff" where
  "main m argv =
     sbind (env_default ''RUNNER_BACKEND'' (L ''local'')) (\<lambda>backend.
     sbind (lift_res (main_command m backend argv)) (\<lambda>run. run))"

text \<open>\<^verbatim>\<open>raise SystemExit(main())\<close> of \<^verbatim>\<open>__main__.py\<close>.\<close>

definition run_module :: "machine \<Rightarrow> pystr list \<Rightarrow> (world, unit) eff" where
  "run_module m argv = sbind (main m argv) (\<lambda>code. raise_exc SystemExit (int_str code))"

section \<open>Command lines of the runner backends\<close>

text \<open>An argument that is plain for every parser.\<close>

definition plain_arg :: "pystr \<Rightarrow> bool" where
  "plain_arg s \<longleftrightarrow> s = [] \<or> hd s \<noteq> 45"

lemma parse_optional_plain: "plain_arg s \<Longrightarrow> parse_optional opts s = Inr Plain"
  by (auto simp: plain_arg_def parse_optional_def)

lemma tokens_plain: "plain_arg s \<Longrightarrow> tokens opts (s # ss) = ebind (tokens opts ss) (\<lambda>ts. Inr ((s, Plain) # ts))"
  by (auto simp: parse_optional_plain plain_arg_def L_def)

definition runner_execute_line :: "pystr \<Rightarrow> pystr \<Rightarrow> pystr \<Rightarrow> pystr \<Rightarrow> bool \<Rightarrow> pystr list" where
  "runner_execute_line nm sid tid root dry =
     [nm, L ''--session-id'', sid, L ''--task-id'', tid, L ''--runner-root'', root] @ (if dry then [L ''--dry-run''] else [])"

lemma of_char_hyphen [simp]: "of_char c = (45 :: int) \<longleftrightarrow> c = CHR ''-''"
proof -
  have "(45 :: int) = of_char (CHR ''-'')" by simp
  then show ?thesis by (metis of_char_eq_iff)
qed

lemma hd_L: "s \<noteq> [] \<Longrightarrow> hd (L s) = of_char (hd s)"
  by (cases s) (auto simp: L_def)

lemma tokens_flag:
  "find (\<lambda>p. ao_flag p = L f) opts = Some p \<Longrightarrow> f \<noteq> [] \<Longrightarrow> hd f = CHR ''-'' \<Longrightarrow> f \<noteq> ''--'' \<Longrightarrow>
   tokens opts (L f # ss) = ebind (tokens opts ss) (\<lambda>ts. Inr ((L f, Known p None) # ts))"
  by (simp add: parse_optional_def hd_L)

lemma top_flags:
  "parse_optional (help_options @ [option ''--root'' ''root'' Store PNone]) (L ''--session-id'') = Inr Unknown"
  "parse_optional (help_options @ [option ''--root'' ''root'' Store PNone]) (L ''--task-id'') = Inr Unknown"
  "parse_optional (help_options @ [option ''--root'' ''root'' Store PNone]) (L ''--runner-root'') = Inr Unknown"
  "parse_optional (help_options @ [option ''--root'' ''root'' Store PNone]) (L ''--dry-run'') = Inr Unknown"
  "parse_optional (help_options @ [option ''--root'' ''root'' Store PNone]) (L ''--runner'') = Inr Unknown"
  by code_simp+

lemma plain_names: "plain_arg (L ''runner-execute'')" "plain_arg (L ''run-job'')"
  by code_simp+

lemma tokens_unknown:
  "parse_optional opts (L f) = Inr Unknown \<Longrightarrow> f \<noteq> ''--'' \<Longrightarrow>
   tokens opts (L f # ss) = ebind (tokens opts ss) (\<lambda>ts. Inr ((L f, Unknown) # ts))"
  by simp

lemmas parser_defs = runner_execute_parser_def run_job_parser_def help_options_def option_def required_option_def

lemmas consume_defs = start_state_def defaults_def all_required_def store_def consume_optional_def

lemma parse_runner_execute:
  assumes "plain_arg nm" "plain_arg sid" "plain_arg tid" "plain_arg root"
  shows "parse_known_args runner_execute_parser (runner_execute_line nm sid tid root dry) =
    Inr ([(L ''session_id'', PStr sid), (L ''task_id'', PStr tid), (L ''runner_root'', PStr root), (L ''dry_run'', PBool dry), (L ''name'', PStr nm)],
         CRunnerExecute, [])"
  by (simp add: parser_defs runner_execute_line_def tokens_plain tokens_flag assms consume_defs del: ebind_Inr_iff tokens.simps(2))

abbreviation root_options :: "arg_option list" where
  "root_options \<equiv> help_options @ [option ''--root'' ''root'' Store PNone]"

lemma tokens_length: "tokens opts ss = Inr ts \<Longrightarrow> map fst ts = ss"
  by (induction ss arbitrary: ts) (auto simp: comp_def split: if_splits)

lemma parse_leaf:
  assumes "plain_arg c" "tokens root_options args = Inr ts"
    and "map_of [(L ''run-job'', run_job_parser backend), (L ''runner-execute'', runner_execute_parser)] c = Some p"
  shows "parse_args (build_parser backend) (c # args) =
    ebind (parse_known_args p args) (\<lambda>(ns, f, extras).
      if extras = [] then Inr (dict_update [(L ''root'', PNone), (L ''command'', PStr c)] ns, f) else Inl usage_error)"
proof -
  have t: "tokens root_options (c # args) = Inr ((c, Plain) # ts)" unfolding tokens_plain[OF assms(1)] assms(2) by simp
  have d: "parse_args (build_parser backend) (c # args) =
     ebind (parse_known_args p args) (\<lambda>(ns, f, extras). if extras = [] then Inr (dict_update [(L ''root'', PNone), (L ''command'', PStr c)] ns, f) else Inl usage_error)"
    if "map_of cmds c = Some p" "build_parser backend = Node root_options (L ''command'') cmds" for cmds
    unfolding parse_args_def that(2) parse_known_args.simps t
    using that(1) tokens_length[OF assms(2)]
    by (cases "parse_known_args p args") (auto simp: start_state_def defaults_def help_options_def option_def all_required_def store_def split: prod.splits)
  show ?thesis by (rule d[OF _ build_parser_def]) (use assms(3) in \<open>auto split: if_splits\<close>)
qed

lemma main_runner_execute:
  assumes "plain_arg nm" "plain_arg sid" "plain_arg tid" "plain_arg root"
  shows "main m (L ''runner-execute'' # runner_execute_line nm sid tid root dry) =
    cmd_runner_execute (m_out m) (m_sys m) (Some root) None nm sid tid dry"
proof -
  have t: "tokens root_options (runner_execute_line nm sid tid root dry) =
     Inr (map (\<lambda>s. (s, if plain_arg s then Plain else Unknown)) (runner_execute_line nm sid tid root dry))"
    using assms by (simp add: runner_execute_line_def tokens_plain tokens_unknown top_flags plain_arg_def hd_L del: tokens.simps(2))
  have "main_command m b (L ''runner-execute'' # runner_execute_line nm sid tid root dry) =
     Inr (cmd_runner_execute (m_out m) (m_sys m) (Some root) None nm sid tid dry)" for b
    using parse_leaf[OF plain_names(1) t, of b runner_execute_parser] unfolding main_command_def parse_runner_execute[OF assms]
    by (simp add: dict_update_def arg_opt_def arg_str_def arg_bool_def del: ebind_Inr_iff)
  then show ?thesis by (simp add: main_def fun_eq_iff sbind_def env_default_run)
qed

lemma plain_new_id: "new_id out pre w = (Inr i, w') \<Longrightarrow> pre \<noteq> [] \<Longrightarrow> hd pre \<noteq> CHR ''-'' \<Longrightarrow> plain_arg i"
  by (auto simp: new_id_returns fresh_id_def plain_arg_def hd_L hd_append)

lemma prepare_task_plain:
  assumes "prepare_task out config nm dry src w = (Inr task, w')"
  shows "plain_arg (rt_session_id task)" "plain_arg (rt_task_id task)" "rt_job_name task = nm" "rt_dry_run task = dry"
    "find_job config nm = Inr (rt_job task)" "py_index (rt_job task) ''role'' = Inr (rt_role task)"
  using assms
  by (auto simp: prepare_task_def begin_run_def create_session_def create_task_def elim!: sbind_InrE dest!: plain_new_id)

lemma find_job_schedules: "cfg_schedules c = cfg_schedules c' \<Longrightarrow> find_job c = find_job c'"
  by (simp add: find_job_def config_jobs_def fun_eq_iff)

text \<open>The command line that the container and Kubernetes backends build for a task, read by \<^verbatim>\<open>main\<close> inside the
  runner, runs that task: with a configuration that has the same schedules, \<^verbatim>\<open>main\<close> executes a task with the
  job, role, session, task and dry-run flag of the task which the host prepared.  The name of the job must not
  begin with a hyphen; the generated identifiers never do.
\<close>

lemma main_runs_task:
  assumes "prepare_task out config nm dry src w0 = (Inr task, w0')"
    and "plain_arg nm" and "root \<noteq> []" and "hd root \<noteq> CHR ''-''"
    and "load_validated_config (m_sys m) (Some (L root)) w = (Inr config', w1)" and "cfg_schedules config' = cfg_schedules config"
  shows "main m (drop 2 (execute_args task root)) w =
    sbind (migrate (m_out m)) (\<lambda>_. execute_and_publish (m_out m) config' task) w1"
proof -
  note t = prepare_task_plain[OF assms(1)]
  have "plain_arg (L root)" using assms(3,4) by (simp add: plain_arg_def hd_L)
  with main_runner_execute[OF assms(2) t(1,2)] have
    "main m (drop 2 (execute_args task root)) = cmd_runner_execute (m_out m) (m_sys m) (Some (L root)) None nm (rt_session_id task) (rt_task_id task) dry"
    by (simp add: execute_args_def runner_execute_line_def t(3,4))
  moreover have "\<lparr>rt_job_name = nm, rt_job = rt_job task, rt_session_id = rt_session_id task, rt_task_id = rt_task_id task,
      rt_role = rt_role task, rt_dry_run = dry\<rparr> = task" using t(3,4) by (cases task) simp
  ultimately show ?thesis using assms(3,5,6) t(5,6) find_job_schedules[of config' config]
    by (simp add: cmd_runner_execute_def if_set_def sbind_def catch_def)
qed

definition demo_entry :: machine where
  "demo_entry = \<lparr>m_turns = 0, m_fuel = 0, m_out = demo_answers, m_sys = demo_machine, m_giveup = (\<lambda>_ _ _. None), m_listing = (\<lambda>_ _. [])\<rparr>"

lemma demo_load_root:
  obtains c where "load_validated_config demo_machine (Some (L ''/p'')) demo_project = (Inr c, demo_project)" "cfg_schedules c = demo_job_file"
proof -
  have "(case fst (load_validated_config demo_machine (Some (L ''/p'')) demo_project) of Inl e \<Rightarrow> False | Inr c \<Rightarrow> cfg_schedules c = demo_job_file)"
    by code_simp
  then obtain c w' where "load_validated_config demo_machine (Some (L ''/p'')) demo_project = (Inr c, w')" "cfg_schedules c = demo_job_file"
    by (auto split: sum.splits simp: prod_eq_iff)
  with load_validated_config_pure that show thesis by metis
qed

lemma demo_prepared:
  obtains c task w' where "prepare_task demo_answers c (L ''x-signal-collector'') True ''cli'' demo_project = (Inr task, w')"
    "load_validated_config demo_machine (Some (L ''/p'')) demo_project = (Inr c, demo_project)" "rt_role task = PStr (L ''r'')"
proof -
  let ?inp = "PDict [(L ''job'', demo_collector_job), (L ''dry_run'', PBool True)]"
  obtain c where c: "load_validated_config demo_machine (Some (L ''/p'')) demo_project = (Inr c, demo_project)" "cfg_schedules c = demo_job_file"
    by (rule demo_load_root)
  have j: "find_job c (L ''x-signal-collector'') = Inr demo_collector_job"
    using c(2) by (simp add: find_job_def config_jobs_def demo_job_file_def demo_collector_job_def py_or_def assoc_get_def)
  have a: "demo_at (dbs demo_env_world) demo_project" by (simp add: demo_at_def demo_project_def)
  have "encodable (json_dumps_raw ?inp)" by code_simp
  from demo_begin[OF a encodable_L this] obtain sid tid w2 where b: "begin_run demo_answers ''cli'' (PStr (L ''r'')) ?inp demo_project = (Inr (sid, tid), w2)"
    by blast
  let ?task = "\<lparr>rt_job_name = L ''x-signal-collector'', rt_job = demo_collector_job, rt_session_id = sid, rt_task_id = tid, rt_role = PStr (L ''r''), rt_dry_run = True\<rparr>"
  have "prepare_task demo_answers c (L ''x-signal-collector'') True ''cli'' demo_project = (Inr ?task, w2)"
    using j b by (simp add: prepare_task_def sbind_def demo_collector_job_def)
  with c(1) that show thesis by force
qed

section \<open>The choice of the backend\<close>

lemma parse_run_job:
  assumes "plain_arg nm"
  shows "parse_known_args (run_job_parser b) [nm] =
    Inr ([(L ''dry_run'', PBool False), (L ''runner'', PStr b), (L ''image'', runner_image), (L ''network'', PStr (L ''none'')),
          (L ''memory'', PStr (L ''2g'')), (L ''pids_limit'', PInt 256), (L ''name'', PStr nm)], CRunJob, [])"
  by (simp add: parser_defs tokens_plain assms consume_defs del: ebind_Inr_iff tokens.simps(2))

lemma parse_run_job_choice:
  assumes "plain_arg nm" "plain_arg r" "r \<notin> set runner_choices"
  shows "parse_known_args (run_job_parser b) [nm, L ''--runner'', r] = Inl usage_error"
  using assms(3)
  by (simp add: parser_defs tokens_plain tokens_flag assms(1,2) consume_defs del: ebind_Inr_iff tokens.simps(2))

definition default_run_job :: "pystr \<Rightarrow> pystr \<Rightarrow> run_job_args" where
  "default_run_job nm r = \<lparr>ra_name = nm, ra_runner = r, ra_image = L ''7mimi-agent-runner:latest'', ra_network = L ''none'', ra_memory = L ''2g'', ra_pids_limit = 256\<rparr>"

lemma main_run_job:
  assumes "plain_arg nm" "getenv w ''RUNNER_BACKEND'' = Some b"
  shows "main m [L ''run-job'', nm] w = cmd_run_job (m_fuel m) (m_out m) (m_sys m) None (default_run_job nm b) w"
proof -
  have t: "tokens root_options [nm] = Inr [(nm, Plain)]" unfolding tokens_plain[OF assms(1)] by simp
  have "main_command m b [L ''run-job'', nm] = Inr (cmd_run_job (m_fuel m) (m_out m) (m_sys m) None (default_run_job nm b))"
    using parse_leaf[OF plain_names(2) t, of b "run_job_parser b"] unfolding main_command_def parse_run_job[OF assms(1)]
    by (simp add: dict_update_def arg_opt_def arg_str_def arg_int_def run_job_args_of_def default_run_job_def runner_image_def del: ebind_Inr_iff)
  then show ?thesis using assms(2) by (simp add: main_def sbind_def env_default_run)
qed

lemma main_run_job_choice:
  assumes "plain_arg nm" "plain_arg r" "r \<notin> set runner_choices"
  shows "main m [L ''run-job'', nm, L ''--runner'', r] w = (Inl usage_error, w)"
proof -
  have t: "tokens root_options [nm, L ''--runner'', r] = Inr [(nm, Plain), (L ''--runner'', Unknown), (r, Plain)]"
    using assms by (simp add: tokens_plain tokens_unknown top_flags del: tokens.simps(2))
  have "main_command m b [L ''run-job'', nm, L ''--runner'', r] = Inl usage_error" for b
    using parse_leaf[OF plain_names(2) t, of b "run_job_parser b"] unfolding main_command_def parse_run_job_choice[OF assms] by simp
  then show ?thesis by (simp add: main_def sbind_def env_default_run)
qed

lemma unknown_backend:
  "b \<notin> set runner_choices \<Longrightarrow>
   cmd_run_job fuel out sys root (default_run_job nm b) = cmd_run_job fuel out sys root (default_run_job nm (L ''container''))"
  by (simp add: cmd_run_job_def choose_backend_def default_run_job_def runner_choices_def)

text \<open>C17. A backend that is not one of the choices is refused on the command line: \<^verbatim>\<open>--runner\<close> with it ends with exit
  code 2 before anything is done.  From the variable \<^verbatim>\<open>RUNNER_BACKEND\<close>, whose value is a default and so is not
  checked, it is accepted and the job runs on the container backend.
\<close>

theorem backend_checked_on_command_line_only:
  assumes "plain_arg nm" "plain_arg b" "b \<notin> set runner_choices" "getenv w ''RUNNER_BACKEND'' = Some b"
  shows "main m [L ''run-job'', nm, L ''--runner'', b] w = (Inl usage_error, w) \<and>
    main m [L ''run-job'', nm] w = cmd_run_job (m_fuel m) (m_out m) (m_sys m) None (default_run_job nm (L ''container'')) w"
  using assms main_run_job_choice main_run_job unknown_backend by metis

theorem backend_checked_on_command_line_only_witness:
  "\<exists>w. main demo_entry [L ''run-job'', L ''x'', L ''--runner'', L ''kubernets''] w = (Inl usage_error, w) \<and>
    main demo_entry [L ''run-job'', L ''x''] w = cmd_run_job 0 demo_answers demo_machine None (default_run_job (L ''x'') (L ''container'')) w"
proof -
  have p: "plain_arg (L ''x'')" "plain_arg (L ''kubernets'')" "L ''kubernets'' \<notin> set runner_choices" by code_simp+
  have "getenv (demo_project\<lparr>environ := [(L ''RUNNER_BACKEND'', L ''kubernets'')]\<rparr>) ''RUNNER_BACKEND'' = Some (L ''kubernets'')"
    by (simp add: getenv_def)
  from backend_checked_on_command_line_only[OF p this, of demo_entry] show ?thesis by (auto simp: demo_entry_def)
qed

section \<open>Every command line selects a command or exits\<close>

text \<open>A parser below the top whose every namespace has the attributes that the chosen command reads, and no \<^verbatim>\<open>root\<close>.\<close>

definition served :: "cmd_func arg_parser \<Rightarrow> bool" where
  "served p \<longleftrightarrow> (\<forall>args ns f extras. parse_known_args p args = Inr (ns, f, extras) \<longrightarrow>
     distinct (map fst ns) \<and> map_of ns (L ''root'') = None \<and> (\<forall>m root. \<exists>run. command_of m ns f root = Inr run))"

lemma ex_ebind: "\<exists>x. m = Inr x \<Longrightarrow> (\<And>x. \<exists>y. f x = Inr y) \<Longrightarrow> \<exists>y. ebind m f = Inr y"
  by auto

lemma ex_Inr: "\<exists>y. Inr x = Inr y"
  by simp

lemma command_mono:
  assumes "map_of ns \<subseteq>\<^sub>m map_of ns'" "command_of m ns f root = Inr run"
  shows "command_of m ns' f root = Inr run"
  using assms(2) by (cases f) (auto simp: run_job_args_of_def dest!: attributes_mono[OF assms(1)])

lemma no_root:
  assumes "namespace_ok opts pos st" "all_required opts pos st" "\<forall>v. \<not> given opts pos (L ''root'') v"
    "map_of (as_namespace (start_state opts pos)) (L ''root'') = None"
  shows "map_of (as_namespace st) (L ''root'') = None"
  by (rule attribute_cases[OF assms(1,2), of "L ''root''"]) (use assms(3,4) in auto)

lemma served_Leaf:
  assumes "distinct (map fst (as_namespace (start_state opts pos)))"
    and "\<forall>v. \<not> given opts pos (L ''root'') v" "map_of (as_namespace (start_state opts pos)) (L ''root'') = None"
    and "\<And>st m root. namespace_ok opts pos st \<Longrightarrow> all_required opts pos st \<Longrightarrow> \<exists>run. command_of m (as_namespace st) f root = Inr run"
  shows "served (Leaf opts pos f)"
  unfolding served_def
proof (intro allI impI)
  fix args ns f' extras
  assume "parse_known_args (Leaf opts pos f) args = Inr (ns, f', extras)"
  from leaf_namespace[OF this assms(1)] obtain st where "ns = as_namespace st" "f' = f" "namespace_ok opts pos st" "all_required opts pos st"
    by blast
  with assms no_root[OF this(3,4) assms(2,3)] show "distinct (map fst ns) \<and> map_of ns (L ''root'') = None \<and> (\<forall>m root. \<exists>run. command_of m ns f' root = Inr run)"
    by (auto simp: namespace_ok_def)
qed

lemma dict_update_above: "distinct (map fst ns) \<Longrightarrow> map_of (dict_update a ns) = map_of a ++ map_of ns"
  using map_of_inject_set[of "rev ns" ns] by (simp add: map_of_dict_update rev_map[symmetric])

lemma served_Node:
  assumes "\<forall>(c, p) \<in> set cmds. served p" and "d \<noteq> L ''root''"
  shows "served (Node help_options d cmds)"
  unfolding served_def
proof (intro allI impI)
  fix args ns f extras
  assume p: "parse_known_args (Node help_options d cmds) args = Inr (ns, f, extras)"
  have "distinct (map fst (as_namespace (start_state help_options (Some d))))" by (simp add: start_state_def defaults_def help_options_def)
  then obtain c rest p ns' ex' st where n: "map_of cmds c = Some p" "parse_known_args p rest = Inr (ns', f, ex')"
    "ns = dict_update (as_namespace st) ns'" "namespace_ok help_options (Some d) st" "all_required help_options (Some d) st"
    by (rule node_namespace[OF p])
  have "served p" using assms(1) map_of_SomeD[OF n(1)] by auto
  then have s: "distinct (map fst ns')" "map_of ns' (L ''root'') = None" "\<forall>m root. \<exists>run. command_of m ns' f root = Inr run"
    using n(2) unfolding served_def by blast+
  have "map_of (as_namespace st) (L ''root'') = None"
    using assms(2) by (intro no_root[OF n(4,5)]) (auto simp: given_def help_options_def start_state_def defaults_def)
  moreover have m: "map_of ns = map_of (as_namespace st) ++ map_of ns'" using n(3) s(1) by (simp add: dict_update_above)
  moreover have "distinct (map fst ns)" using n(3,4) by (simp add: namespace_ok_def distinct_dict_update)
  moreover have "\<exists>run. command_of m ns f root = Inr run" for m root
    using s(3) command_mono[of ns' ns] m by (metis map_le_map_add)
  ultimately show "distinct (map fst ns) \<and> map_of ns (L ''root'') = None \<and> (\<forall>m root. \<exists>run. command_of m ns f root = Inr run)"
    using s(2) by (simp add: map_add_None)
qed

lemmas leaf_defs = given_def is_required_def start_state_def defaults_def help_options_def option_def required_option_def
  runner_image_def run_job_args_of_def

lemma served_plain: "f \<in> {CConfigValidate, CDbInit, CScheduleList} \<Longrightarrow> served (plain_command f)"
  unfolding plain_command_def by (rule served_Leaf) (auto simp: leaf_defs)

lemma served_leaves:
  "served (run_job_parser b)" "served runner_execute_parser" "served claude_smoke_parser" "served x_smoke_parser" "served collect_x_parser"
  "served schedule_run_parser" "served (digest_parser job CClaudeDigest)" "served (digest_parser job CInvestDigest)"
  "served (Leaf help_options (Some (L ''code'')) CResearchStock)"
  unfolding run_job_parser_def runner_execute_parser_def claude_smoke_parser_def x_smoke_parser_def collect_x_parser_def schedule_run_parser_def digest_parser_def
  by (rule served_Leaf; (unfold command_of.simps run_job_args_of_def)?;
      (rule ex_ebind ex_Inr | (erule (1) arg_str_ok; auto simp: leaf_defs) | (erule (1) arg_opt_ok; auto simp: leaf_defs)
       | (erule (1) arg_int_ok; auto simp: leaf_defs) | (erule (1) arg_bool_ok; auto simp: leaf_defs) | (auto simp: leaf_defs; fail))+)+

text \<open>C11. Every command line either selects a command with all the attributes that this command reads, each of the
  type it is used at, or ends the program with exit code 0 (help) or 2 (usage error); \<^verbatim>\<open>main\<close> never fails on a
  missing attribute, whatever the variable \<^verbatim>\<open>RUNNER_BACKEND\<close> is.
\<close>

theorem main_selects_or_exits:
  "(\<exists>run. main_command m backend argv = Inr run) \<or> main_command m backend argv = Inl usage_error \<or> main_command m backend argv = Inl help_exit"
proof (cases "parse_args (build_parser backend) argv")
  case (Inl e)
  then show ?thesis using exits_parse_args[of "build_parser backend" argv] by (auto simp: main_command_def exits_def)
next
  case (Inr r)
  then obtain ns f extras where p: "parse_known_args (build_parser backend) argv = Inr (ns, f, extras)" "r = (ns, f)"
    by (auto simp: parse_args_def split: if_splits)
  have d: "distinct (map fst (as_namespace (start_state root_options (Some (L ''command'')))))" by (simp add: leaf_defs)
  obtain cmds where b: "build_parser backend = Node root_options (L ''command'') cmds" and s: "\<forall>(c, p) \<in> set cmds. served p"
    by (rule that[OF build_parser_def]) (simp add: served_leaves served_Node served_plain)
  obtain c rest p ns' ex' st where n: "map_of cmds c = Some p" "parse_known_args p rest = Inr (ns', f, ex')"
    "ns = dict_update (as_namespace st) ns'" "namespace_ok root_options (Some (L ''command'')) st" "all_required root_options (Some (L ''command'')) st"
    by (rule node_namespace[OF p(1)[unfolded b] d])
  have "served p" using s map_of_SomeD[OF n(1)] by auto
  then have v: "distinct (map fst ns')" "map_of ns' (L ''root'') = None" "\<forall>m root. \<exists>run. command_of m ns' f root = Inr run"
    using n(2) unfolding served_def by blast+
  have u: "map_of ns = map_of (as_namespace st) ++ map_of ns'" using n(3) v(1) by (simp add: dict_update_above)
  have "\<exists>root. arg_opt (as_namespace st) ''root'' = Inr root"
    by (rule arg_opt_ok[OF n(4,5)]) (auto simp: leaf_defs)
  then obtain root where "arg_opt ns ''root'' = Inr root" using u v(2) by (auto simp: arg_opt_def map_add_def)
  moreover obtain run where "command_of m ns f root = Inr run"
    using v(3) command_mono[of ns' ns] u by (metis map_le_map_add)
  ultimately show ?thesis using Inr p(2) by (simp add: main_command_def)
qed

end
