(* ===== verification/ResultFile.thy ===== *)
theory ResultFile
  imports Commands
begin

text \<open>
  The file through which a runner Job reports: the command inside the Job writes it, the backend that
  started the Job reads it.
\<close>

lemma publish_result_run:
  assumes "publish_result config sid payload code w = (r, w')"
  shows "(\<exists>e. r = Inl e) \<or> r = Inr code \<and> files w' (result_path (cfg_root config) sid) = Some (json_dumps_raw payload) \<and>
    out_log w' = out_log w @ [json_dumps_raw payload]"
proof (cases "utf8_len (json_dumps_raw payload)")
  case (Inl e)
  then show ?thesis using assms by (simp add: publish_result_def write_result_file_def sbind_def print_out_def write_text_def) (metis)
next
  case (Inr n)
  then show ?thesis using assms by (auto simp: publish_result_def write_result_file_def sbind_def print_out_def write_text_def)
qed

text \<open>The task, or reporting its result, raises.\<close>

definition run_raises :: "outside \<Rightarrow> app_config \<Rightarrow> runner_task \<Rightarrow> world \<Rightarrow> pyexc \<Rightarrow> bool" where
  "run_raises out config task w e \<longleftrightarrow>
     (case execute_runner_task out config task w of
        (Inl e', v) \<Rightarrow> e' = e
      | (Inr r, v) \<Rightarrow> fst (publish_result config (rt_session_id task) (xr_payload r) 0 v) = Inl e)"

lemma execute_and_publish_returns:
  assumes "execute_and_publish out config task w = (Inr code, w')"
  obtains (result) r v where "execute_runner_task out config task w = (Inr r, v)" "code = 0"
      "publish_result config (rt_session_id task) (xr_payload r) 0 v = (Inr 0, w')"
    | (failure) e v where "run_raises out config task w e" "code = 1" "publish_result config (rt_session_id task) (failed_payload e) 1 v = (Inr 1, w')"
proof -
  let ?body = "sbind (execute_runner_task out config task) (\<lambda>result. publish_result config (rt_session_id task) (xr_payload result) 0)"
  show thesis
  proof (cases "fst (?body w)")
    case (Inl e)
    then obtain v where v: "?body w = (Inl e, v)" by (metis prod.collapse)
    then have x: "run_raises out config task w e" by (auto elim!: sbind_cases simp: run_raises_def)
    from v assms have p: "publish_result config (rt_session_id task) (failed_payload e) 1 v = (Inr code, w')"
      by (auto simp: execute_and_publish_def split: if_splits)
    with publish_result_run[OF p] x show thesis using failure by auto
  next
    case (Inr c)
    then have "?body w = (Inr code, w')" using assms by (auto simp: execute_and_publish_def catch_def split: prod.splits)
    then obtain r v where r: "execute_runner_task out config task w = (Inr r, v)" "publish_result config (rt_session_id task) (xr_payload r) 0 v = (Inr code, w')"
      by (rule sbind_InrE)
    with publish_result_run[OF r(2)] show thesis using result by auto
  qed
qed

lemma read_result:
  assumes "files w (result_path root sid) = Some (json_dumps_raw payload)" and "json_ok False payload"
  shows "collect_runner_result root sid w = (result_of_payload payload, w)"
    "augment_with_result_error root sid msg w = (Inr (reported_error msg payload), w)"
proof -
  have "json_loads (json_dumps_raw payload) = Inr payload" unfolding json_dumps_raw_def by (rule json_roundtrip_enc[OF assms(2)])
  then show "collect_runner_result root sid w = (result_of_payload payload, w)"
    "augment_with_result_error root sid msg w = (Inr (reported_error msg payload), w)"
    using assms(1) by (simp_all add: collect_runner_result_def augment_with_result_error_def path_exists_def read_text_def sbind_def lift_res_def)
qed

text \<open>C9. Round trip between the runner and the backend that started it: when the command inside the runner
  returns, the result file and the last line of output hold the same JSON text.  It is the payload of the
  task with exit code 0, and what the backend collects from the file is this payload; or it is the report
  of an exception with exit code 1, and then the backend's error message ends with the type and the
  message of that exception.  (The payload must be text that JSON can carry.)\<close>

theorem result_file_roundtrip:
  assumes "execute_and_publish out config task w = (Inr code, w')"
  shows "\<exists>payload. files w' (result_path (cfg_root config) (rt_session_id task)) = Some (json_dumps_raw payload) \<and>
     last (out_log w') = json_dumps_raw payload \<and>
     ((\<exists>r v. execute_runner_task out config task w = (Inr r, v) \<and> payload = xr_payload r \<and> code = 0 \<and>
         (json_ok False payload \<longrightarrow> collect_runner_result (cfg_root config) (rt_session_id task) w' = (result_of_payload payload, w'))) \<or>
      (\<exists>e. run_raises out config task w e \<and> payload = failed_payload e \<and> code = 1 \<and>
         (json_ok False payload \<longrightarrow> augment_with_result_error (cfg_root config) (rt_session_id task) msg w' =
           (Inr (msg @ L ''; runner-execute reported '' @ exc_type_name (exc_type e) @ L '': '' @ exc_msg e), w'))))"
  using assms
proof (cases rule: execute_and_publish_returns)
  case (result r v)
  with publish_result_run[OF result(3)] read_result(1) show ?thesis by (intro exI[of _ "xr_payload r"]) auto
next
  case (failure e v)
  have "reported_error msg (failed_payload e) = msg @ L ''; runner-execute reported '' @ exc_type_name (exc_type e) @ L '': '' @ exc_msg e"
    by (simp add: reported_error_def failed_payload_def error_record_def assoc_get_def Let_def)
  with publish_result_run[OF failure(3)] read_result(2)[of w'] failure(1,2) show ?thesis by (intro exI[of _ "failed_payload e"]) auto
qed

definition demo_runner_task :: runner_task where
  "demo_runner_task = \<lparr>rt_job_name = L ''j'', rt_job = PNone, rt_session_id = L ''s'', rt_task_id = L ''t'', rt_role = PStr (L ''r''), rt_dry_run = True\<rparr>"

definition demo_published :: "int result \<times> world" where
  "demo_published = execute_and_publish demo_out demo_config demo_runner_task demo_start_world"

theorem result_file_roundtrip_witness:
  "augment_with_result_error (cfg_root demo_config) (L ''s'') (L ''failed'') (snd demo_published) =
     (Inr (L ''failed; runner-execute reported NotImplementedError: runner currently supports ai_it_topic_runner only, got r''), snd demo_published)"
proof -
  have "fst demo_published = Inr 1" by code_simp
  then have e: "execute_and_publish demo_out demo_config demo_runner_task demo_start_world = (Inr 1, snd demo_published)"
    unfolding demo_published_def by (metis prod.collapse)
  let ?e = "Exc NotImplementedError (L ''runner currently supports ai_it_topic_runner only, got r'')"
  have r: "run_raises demo_out demo_config demo_runner_task demo_start_world x \<longleftrightarrow> x = ?e" for x
    by (auto simp: run_raises_def execute_runner_task_def demo_runner_task_def topic_role_def L_append[symmetric])
  have "json_ok False (failed_payload ?e)" by code_simp
  with result_file_roundtrip[OF e, of "L ''failed''", unfolded r] have
    "augment_with_result_error (cfg_root demo_config) (rt_session_id demo_runner_task) (L ''failed'') (snd demo_published) =
       (Inr (L ''failed'' @ L ''; runner-execute reported '' @ exc_type_name (exc_type ?e) @ L '': '' @ exc_msg ?e), snd demo_published)"
    by auto
  then show ?thesis by (simp add: demo_runner_task_def L_append[symmetric])
qed

end
