(* ===== verification/Executors.thy ===== *)
theory Executors
  imports Commands
begin

text \<open>
  The executors that the command line gives to the scheduler raise ordinary exceptions only, when the
  outside world does and the clock runs, so that no scheduled job can end the scheduler.
\<close>

section \<open>Shared steps\<close>

lemma roe_handled:
  "raises_only_Exception m \<Longrightarrow> (\<And>e. is_Exception e \<Longrightarrow> raises_only_Exception (h e)) \<Longrightarrow> raises_only_Exception (catch m p h)"
  unfolding raises_only_Exception_def catch_def by (fastforce split: prod.splits sum.splits if_splits)

lemma roe_let [tame_intros]: "raises_only_Exception (f x) \<Longrightarrow> raises_only_Exception (let y = x in f y)"
  by simp

lemma tame_res_let [tame_intros]: "tame_res (f x) \<Longrightarrow> tame_res (let y = x in f y)"
  by simp

lemma tame_efold [tame_intros]: "(\<And>a x. tame_res (f a x)) \<Longrightarrow> tame_res (efold f a xs)"
  by (induction xs arbitrary: a) (auto intro: tame_intros)

lemma roe_reads [tame_intros]: "raises_only_Exception all_environ" "raises_only_Exception (env_int k d)" "raises_only_Exception (read_optional p)"
  "raises_only_Exception (require_env ks)" "raises_only_Exception (namespace_of opts cache)"
  subgoal by (simp add: raises_only_Exception_def all_environ_def)
  subgoal unfolding env_int_def by (intro tame_intros)
  subgoal unfolding read_optional_def by (intro tame_intros)
  subgoal by (auto simp: raises_only_Exception_def require_env_def Let_def is_Exception_def)
  subgoal unfolding namespace_of_def by (intro tame_intros)
  done

lemma roe_env_pair [tame_intros]: "raises_only_Exception (env_pair a b c)"
  unfolding env_pair_def by (auto intro!: tame_intros)

lemma roe_auth_client_init [tame_intros]: "raises_only_Exception (auth_client_init p)"
  unfolding auth_client_init_def by (intro tame_intros)

lemma roe_issue_session [tame_intros]:
  assumes "tame_outside out"
  shows "raises_only_Exception (issue_session out u t r)"
  unfolding issue_session_def
proof (rule roe_request[OF assms])
  fix x assume "tame_outcome x"
  then show "raises_only_Exception (case x of
       HttpFail code m b \<Rightarrow> raise_exc McpSessionError (L ''session/issue failed: HTTP '' @ int_str code)
     | UrlFail r \<Rightarrow> raise_exc McpSessionError (L ''session/issue failed: '' @ r)
     | HttpRaise e \<Rightarrow> lift_res (Inl e)
     | HttpOk code b \<Rightarrow>
         sbind (lift_res b) (\<lambda>t.
         sbind (catch (lift_res (json_loads t)) (\<lambda>e. exc_type e = JSONDecodeError)
                  (\<lambda>e. raise_exc McpSessionError (L ''session/issue returned invalid JSON: '' @ exc_msg e))) (\<lambda>payload.
         sbind (lift_res (py_get payload (L ''token''))) (\<lambda>tok.
         sbind (lift_res (py_get payload (L ''ttl_seconds''))) (\<lambda>ttl.
         case int_payload ttl of
           None \<Rightarrow> raise_exc McpSessionError (L ''session/issue returned unexpected payload: '' @ py_str payload)
         | Some n \<Rightarrow> if \<not> truthy tok then raise_exc McpSessionError (L ''session/issue returned unexpected payload: '' @ py_str payload)
                      else ret \<lparr>is_token = tok, is_ttl = n\<rparr>)))))"
    by (cases x) (auto simp: tame_outcome_def tame_res_def intro!: tame_intros)
qed

lemma roe_issue_mcp_config [tame_intros]: "tame_outside out \<Longrightarrow> raises_only_Exception (issue_mcp_config out rl what)"
  unfolding issue_mcp_config_def build_direct_mcp_config_def direct_mcp_server_url_def by (intro tame_intros)

lemma roe_begin_run [tame_intros]: "tame_outside out \<Longrightarrow> raises_only_Exception (begin_run out src rl i)"
  unfolding begin_run_def by (intro tame_intros)

lemma roe_end_run [tame_intros]: "tame_outside out \<Longrightarrow> raises_only_Exception (end_run out s t a ou e b)"
  unfolding end_run_def by (intro tame_intros)

section \<open>Claude runs\<close>

lemma roe_build_claude_invocation [tame_intros]: "raises_only_Exception (build_claude_invocation ws sid rl p opts tools git mcp)"
  unfolding build_claude_invocation_def by (intro tame_intros)

lemma roe_build_docker_command [tame_intros]:
  "raises_only_Exception (build_docker_command resolve ws sid rl p opts tools git mcp None None None)"
  unfolding build_docker_command_def text_limit_of_def pids_limit_of_def docker_network_def by (intro tame_intros)

text \<open>The polls of a Job: the options fix the interval at five seconds, and the fuel covers the timeout.\<close>

lemma roe_wait_for_completion:
  assumes "tame_outside out" and "clock_runs out 5000000" and "k_poll_interval opts = 5" and "0 \<le> timeout" and "nat (timeout div 5) + 2 \<le> fuel"
  shows "raises_only_Exception (wait_for_completion fuel out opts ns jn (Some timeout))"
proof -
  have "tame_res (fst (wait_for_completion fuel out opts ns jn (Some timeout) w))" for w
    by (rule wait_for_completion_tame) (use assms in simp_all)
  then show ?thesis unfolding raises_only_Exception_def tame_res_def by (metis fst_conv)
qed

lemma launcher_options_fixed:
  "KubernetesClaudeLauncherOptions w = (Inr opts, w') \<Longrightarrow> k_poll_interval opts = 5 \<and> l_poll_timeout_buffer opts = 60"
  unfolding KubernetesClaudeLauncherOptions_def by (auto elim!: sbind_InrE)

lemma roe_launcher_options [tame_intros]: "raises_only_Exception KubernetesClaudeLauncherOptions"
  unfolding KubernetesClaudeLauncherOptions_def by (intro tame_intros)

lemma roe_launcher_run:
  assumes "tame_outside out" and "clock_runs out 5000000" and "k_poll_interval opts = 5" and "l_poll_timeout_buffer opts = 60"
    and "0 \<le> timeout" and "nat ((timeout + 60) div 5) + 2 \<le> fuel"
  shows "raises_only_Exception (launcher_run fuel out opts cache ws sid rl ci timeout)"
  unfolding launcher_run_def launcher_env_def assms(4)
  by (intro tame_intros assms(1) roe_wait_for_completion[OF assms(1-3)]) (use assms in simp_all)

text \<open>A step whose result is restricted.\<close>

lemma roe_sbind_if:
  "raises_only_Exception m \<Longrightarrow> (\<And>w x w'. m w = (Inr x, w') \<Longrightarrow> raises_only_Exception (f x)) \<Longrightarrow> raises_only_Exception (sbind m f)"
  unfolding raises_only_Exception_def by (metis sbind_cases sum.inject(1))

lemma roe_run_claude:
  assumes "tame_outside out" and "clock_runs out 5000000" and "0 \<le> opt_timeout opts" and "nat ((opt_timeout opts + 60) div 5) + 2 \<le> fuel"
  shows "raises_only_Exception (run_claude fuel out sys root ws sid rl p opts tools git mcp)"
proof -
  have "raises_only_Exception (\<lambda>w. build_docker_command (sys_resolve sys w) ws sid rl p opts tools git (Some mcp) None None None w)"
    using roe_build_docker_command unfolding raises_only_Exception_def by blast
  moreover have "raises_only_Exception (run_claude_via_kubernetes fuel out ws sid rl p opts tools git (Some mcp))"
    unfolding run_claude_via_kubernetes_def
    by (intro roe_sbind[OF roe_build_claude_invocation] roe_sbind_if[OF roe_launcher_options] roe_launcher_run assms)
      (auto dest: launcher_options_fixed)
  ultimately show ?thesis unfolding run_claude_def by (intro tame_intros assms(1))
qed

lemma roe_verify_published [tame_intros]: "tame_outside out \<Longrightarrow> raises_only_Exception (verify_published out repo rel)"
  unfolding verify_published_def verify_digest_in_repo_def rev_parse_def
  by (auto intro!: tame_intros split: option.splits)

lemma roe_run_claude_digest:
  assumes "tame_outside out" and "clock_runs out 5000000" and "0 \<le> opt_timeout opts" and "nat ((opt_timeout opts + 60) div 5) + 2 \<le> fuel"
  shows "raises_only_Exception (run_claude_digest fuel out sys config sid ws (Some opts) None)"
  unfolding run_claude_digest_def finish_digest_def option.case
  by (intro tame_intros roe_run_claude assms) simp_all

lemma roe_run_invest_digest:
  assumes "tame_outside out" and "clock_runs out 5000000" and "0 \<le> opt_timeout opts" and "nat ((opt_timeout opts + 60) div 5) + 2 \<le> fuel"
  shows "raises_only_Exception (run_invest_digest fuel out sys config sid tid ws (Some opts) None None)"
  unfolding run_invest_digest_def finish_invest_def publish_digest_def slack_client_init_def read_digest_def option.case
  by (intro tame_intros roe_run_claude roe_never[OF never_run_pre_tool_use] roe_never[OF never_run_post_tool_use] assms)

section \<open>The collector\<close>

lemma tame_add_item_urls [tame_intros]: "tame_res (add_item_urls urls item)" "tame_res (set_add u urls)" "tame_res (post_item q at u p)"
proof -
  show s: "tame_res (set_add u urls)" for u urls unfolding set_add_def by (intro tame_intros)
  then show "tame_res (add_item_urls urls item)" unfolding add_item_urls_def add_ref_url_def by (intro tame_intros)
  show "tame_res (post_item q at u p)" unfolding post_item_def by (intro tame_intros)
qed

lemma tame_load_column [tame_intros]: "tame_res (load_column a b c r)"
  unfolding load_column_def by (auto intro!: tame_intros split: pyval.split)

lemma roe_list_research_queue [tame_intros]: "tame_outside out \<Longrightarrow> raises_only_Exception (list_research_queue out st)"
proof -
  assume o: "tame_outside out"
  have "tame_res (emap queue_entry rs)" for rs unfolding queue_entry_def by (intro tame_intros)
  then have "raises_only_Exception (\<lambda>w. case dbs w (L ''research_queue'') of
       None \<Rightarrow> (Inl (no_table (L ''research_queue'')), w)
     | Some rows \<Rightarrow>
         (emap queue_entry (order_rows (filter (\<lambda>r. case st of None \<Rightarrow> True | Some s \<Rightarrow> cell r (L ''status'') = PStr s) rows)), w))"
    by (auto simp: raises_only_Exception_def tame_res_def no_table_def is_Exception_def split: option.splits)
  then show ?thesis unfolding list_research_queue_def by (intro tame_intros o)
qed

lemma tame_py_get_key [tame_intros]: "tame_res (py_get_key v k)"
  by (cases v) (auto intro!: tame_intros)

lemma roe_collect_posts [tame_intros]: "tame_outside out \<Longrightarrow> raises_only_Exception (collect_posts out q at urls ids ps)"
  by (induction ps arbitrary: urls ids) (auto intro!: tame_intros)

lemma roe_collect_body [tame_intros]: "tame_outside out \<Longrightarrow> raises_only_Exception (collect_body out auth q n sid tid)"
  unfolding collect_body_def existing_urls_def tool_json_def by (intro tame_intros) simp_all

lemma roe_run_collect_x [tame_intros]: "tame_outside out \<Longrightarrow> raises_only_Exception (run_collect_x out policy q n None None None)"
proof -
  assume o: "tame_outside out"
  have f: "raises_only_Exception (sbind (fail_run out sid tid e) (\<lambda>_. lift_res (Inl e)))" if "is_Exception e" for sid tid e
    unfolding fail_run_def by (intro tame_intros o) (use that in \<open>simp add: tame_res_def\<close>)
  show ?thesis unfolding run_collect_x_def collect_rest_def or_else_def option.case
    by (intro tame_intros roe_handled roe_collect_body o f)
qed

lemma tame_collector_inputs [tame_intros]: "tame_res (collector_inputs config job)"
  unfolding collector_inputs_def by (intro tame_intros) simp_all

lemma tame_role_model [tame_intros]: "tame_res (role_model config rl)"
  unfolding role_model_def by (intro tame_intros)

section \<open>The contract of the scheduler\<close>

text \<open>Enough fuel for the polls of the longest Job that the scheduled digests start.\<close>

lemma scheduled_timeouts:
  "opt_timeout (ClaudeDigestOptions\<lparr>opt_model := m\<rparr>) = 1200" "opt_timeout (InvestDigestOptions\<lparr>opt_model := m\<rparr>) = 1200"
  by (simp_all add: ClaudeDigestOptions_def InvestDigestOptions_def)

lemma executors_raise_Exceptions:
  assumes "tame_outside out" and "clock_runs out 5000000" and "254 \<le> fuel"
  shows "raises_only_Exception (run_ai_it_x_daily_digest fuel out sys config job)" "raises_only_Exception (run_invest_x_daily_digest fuel out sys config job)"
    "raises_only_Exception (run_x_signal_collector out config job)"
proof -
  have d: "raises_only_Exception (digest_run fuel out sys config src rl j (ClaudeDigestOptions\<lparr>opt_model := m\<rparr>))" for src rl j m
    unfolding digest_run_def close_digest_def by (intro tame_intros roe_run_claude_digest assms) (use assms in \<open>simp_all add: scheduled_timeouts\<close>)
  have i: "raises_only_Exception (invest_run fuel out sys config src rl j (InvestDigestOptions\<lparr>opt_model := m\<rparr>))" for src rl j m
    unfolding invest_run_def close_invest_def by (intro tame_intros roe_run_invest_digest assms) (use assms in \<open>simp_all add: scheduled_timeouts\<close>)
  show "raises_only_Exception (run_ai_it_x_daily_digest fuel out sys config job)"
    unfolding run_ai_it_x_daily_digest_def by (intro tame_intros d) simp_all
  show "raises_only_Exception (run_invest_x_daily_digest fuel out sys config job)"
    unfolding run_invest_x_daily_digest_def by (intro tame_intros i) simp_all
  show "raises_only_Exception (run_x_signal_collector out config job)"
    unfolding run_x_signal_collector_def by (intro tame_intros assms)
qed

lemma tame_as_executor:
  assumes "\<And>job. raises_only_Exception (f job)"
  shows "tame_executor (as_executor giveup f)"
  using assms unfolding tame_executor_def raises_only_Exception_def as_executor_def run_with_deadline_def
  by (auto simp: is_Exception_def split: option.splits prod.splits)

lemma tame_scheduler_env:
  assumes "tame_outside out" and "clock_runs out 5000000" and "254 \<le> fuel"
  shows "tame_env (scheduler_env fuel out sys giveup config w)"
  unfolding tame_env_def
proof (intro conjI ballI allI impI)
  fix ex assume "ex \<in> ran (executors (scheduler_env fuel out sys giveup config w))"
  then consider "ex = as_executor giveup (run_x_signal_collector out config)" | "ex = as_executor giveup (run_ai_it_x_daily_digest fuel out sys config)"
    | "ex = as_executor giveup (run_invest_x_daily_digest fuel out sys config)"
    by (auto simp: scheduler_env_def build_scheduler_executors_def ran_def split: if_splits)
  then show "tame_executor ex" using tame_as_executor executors_raise_Exceptions[OF assms] by metis
next
  fix f r assume "notifier (scheduler_env fuel out sys giveup config w) = Some f"
  then obtain url token where "f = syslog_notifier out url token"
    by (auto simp: scheduler_env_def build_scheduler_notifier_def split: option.splits)
  then show "never_raises (f r)" using never_syslog_notifier[OF assms(1)] by simp
qed

end
