(* ===== verification/Regex.thy ===== *)
theory Regex
  imports PyValue
begin

text \<open>
  The regular expressions of \<^verbatim>\<open>re\<close>, as far as the redaction patterns use them: characters and sets of
  characters, sequence, alternation, groups, the greedy quantifiers \<^verbatim>\<open>* + ?\<close>, white space, and the flag
  \<^verbatim>\<open>(?i)\<close> on ASCII characters.  \<open>re_parse\<close> reads the text of an expression and gives \<open>None\<close> outside this
  fragment; in particular a star over an expression that matches the empty text is outside.
\<close>

section \<open>Expressions and their language\<close>

datatype set_item = Single int | Range int int | Space | NonSpace

datatype rx =
    REmpty
  | RSet bool "set_item list"
  | RFold bool "int list"
  | RDot
  | RSeq rx rx
  | RAlt rx rx
  | RStar rx

fun in_item :: "int \<Rightarrow> set_item \<Rightarrow> bool" where
  "in_item c (Single a) = (c = a)"
| "in_item c (Range a b) = (a \<le> c \<and> c \<le> b)"
| "in_item c Space = py_isspace c"
| "in_item c NonSpace = (\<not> py_isspace c)"

text \<open>
  The characters that \<^verbatim>\<open>re.IGNORECASE\<close> identifies with ASCII characters: besides the capital letters, the
  dotted capital and the dotless small i, the long s and the Kelvin sign.
\<close>

definition fold_case :: "int \<Rightarrow> int" where
  "fold_case c = (if 65 \<le> c \<and> c \<le> 90 then c + 32 else if c = 0x130 \<or> c = 0x131 then 105
     else if c = 0x17f then 115 else if c = 0x212a then 107 else c)"

fun char_match :: "rx \<Rightarrow> int \<Rightarrow> bool" where
  "char_match (RSet neg items) c = (list_ex (in_item c) items \<noteq> neg)"
| "char_match (RFold neg cs) c = (List.member cs (fold_case c) \<noteq> neg)"
| "char_match RDot c = (c \<noteq> 10)"
| "char_match _ c = False"

text \<open>What is left of a text after a match at its beginning, in the order in which backtracking tries them.\<close>

function rests :: "rx \<Rightarrow> pystr \<Rightarrow> pystr list" where
  "rests REmpty s = [s]"
| "rests (RSet neg items) s = (case s of [] \<Rightarrow> [] | c # t \<Rightarrow> if char_match (RSet neg items) c then [t] else [])"
| "rests (RFold neg cs) s = (case s of [] \<Rightarrow> [] | c # t \<Rightarrow> if char_match (RFold neg cs) c then [t] else [])"
| "rests RDot s = (case s of [] \<Rightarrow> [] | c # t \<Rightarrow> if char_match RDot c then [t] else [])"
| "rests (RSeq a b) s = concat (map (rests b) (rests a s))"
| "rests (RAlt a b) s = rests a s @ rests b s"
| "rests (RStar a) s = concat (map (\<lambda>t. if length t < length s then rests (RStar a) t else []) (rests a s)) @ [s]"
  by pat_completeness auto
termination
  by (relation "inv_image (less_than <*lex*> less_than) (\<lambda>(r, s). (size r, length s))") auto

declare rests.simps(7) [simp del]

lemma rests_star:
  "t \<in> set (rests (RStar a) s) \<longleftrightarrow> t = s \<or> (\<exists>m \<in> set (rests a s). length m < length s \<and> t \<in> set (rests (RStar a) m))"
  by (subst rests.simps(7)) (auto split: if_splits)

section \<open>Agreement of backtracking and language\<close>

inductive_set star_of :: "pystr set \<Rightarrow> pystr set" for A :: "pystr set" where
  star_Nil: "[] \<in> star_of A"
| star_step: "u \<in> A \<Longrightarrow> v \<in> star_of A \<Longrightarrow> u @ v \<in> star_of A"

fun rx_lang :: "rx \<Rightarrow> pystr set" where
  "rx_lang REmpty = {[]}"
| "rx_lang (RSeq a b) = {u @ v |u v. u \<in> rx_lang a \<and> v \<in> rx_lang b}"
| "rx_lang (RAlt a b) = rx_lang a \<union> rx_lang b"
| "rx_lang (RStar a) = star_of (rx_lang a)"
| "rx_lang r = {[c] |c. char_match r c}"

lemma rests_sound: "t \<in> set (rests r s) \<Longrightarrow> \<exists>u \<in> rx_lang r. s = u @ t"
proof (induction r s arbitrary: t rule: rests.induct)
  case (5 a b s)
  then obtain m where m: "m \<in> set (rests a s)" "t \<in> set (rests b m)" by auto
  from "5.IH"(1)[OF m(1)] "5.IH"(2)[OF m] show ?case by fastforce
next
  case (7 a s)
  show ?case
  proof (cases "t = s")
    case True
    then show ?thesis by (auto intro: star_of.intros)
  next
    case False
    with "7.prems" obtain m where m: "m \<in> set (rests a s)" "length m < length s" "t \<in> set (rests (RStar a) m)"
      using rests_star by blast
    obtain u v where "u \<in> rx_lang a" "s = u @ m" "v \<in> rx_lang (RStar a)" "m = v @ t"
      using "7.IH"(1)[OF m(1)] "7.IH"(2)[OF m] by blast
    then show ?thesis using star_step[of u "rx_lang a" v] by (intro bexI[of _ "u @ v"]) auto
  qed
qed (auto split: list.splits if_splits)

lemma star_of_nonempty:
  "w \<in> star_of A \<Longrightarrow> w \<noteq> [] \<Longrightarrow> \<exists>u v. w = u @ v \<and> u \<in> A \<and> u \<noteq> [] \<and> v \<in> star_of A"
proof (induction rule: star_of.induct)
  case (star_step u v)
  then show ?case by (cases "u = []") auto
qed simp

lemma rests_complete: "u \<in> rx_lang r \<Longrightarrow> s = u @ t \<Longrightarrow> t \<in> set (rests r s)"
proof (induction r s arbitrary: u t rule: rests.induct)
  case (5 a b s)
  then obtain x y where xy: "u = x @ y" "x \<in> rx_lang a" "y \<in> rx_lang b" by auto
  then have r: "y @ t \<in> set (rests a s)" using "5.IH"(1)[of x "y @ t"] "5.prems"(2) by simp
  with "5.IH"(2)[OF r xy(3) refl] show ?case by auto
next
  case (7 a s)
  show ?case
  proof (cases "u = []")
    case True
    with "7.prems" show ?thesis by (subst rests_star) simp
  next
    case False
    with star_of_nonempty[of u "rx_lang a"] "7.prems"(1)
    obtain x y where xy: "u = x @ y" "x \<in> rx_lang a" "x \<noteq> []" "y \<in> star_of (rx_lang a)" by auto
    then have r: "y @ t \<in> set (rests a s)" and l: "length (y @ t) < length s"
      using "7.IH"(1)[of x "y @ t"] "7.prems"(2) by simp_all
    have "t \<in> set (rests (RStar a) (y @ t))" using "7.IH"(2)[OF r l, of y t] xy(4) by simp
    with r l show ?thesis using iffD2[OF rests_star, of t s a] by meson
  qed
qed (auto split: list.splits)

lemma rests_iff: "t \<in> set (rests r s) \<longleftrightarrow> (\<exists>u \<in> rx_lang r. s = u @ t)"
  using rests_sound rests_complete by blast

section \<open>Matching, searching and substituting\<close>

lemma rests_length: "t \<in> set (rests r s) \<Longrightarrow> length t \<le> length s"
  by (auto simp: rests_iff)

text \<open>
  The match at the beginning of a text: what follows it.  With \<^verbatim>\<open>must_advance\<close>, which \<^verbatim>\<open>sub\<close> sets after an
  empty match, the empty match is not tried again.
\<close>

definition match_at :: "bool \<Rightarrow> rx \<Rightarrow> pystr \<Rightarrow> pystr option" where
  "match_at must_advance r s = find (\<lambda>t. must_advance \<longrightarrow> length t < length s) (rests r s)"

fun re_search :: "rx \<Rightarrow> pystr \<Rightarrow> bool" where
  "re_search r [] = (match_at False r [] \<noteq> None)"
| "re_search r (c # s) = (match_at False r (c # s) \<noteq> None \<or> re_search r s)"

lemma match_at_Some:
  "match_at must r s = Some t \<Longrightarrow> t \<in> set (rests r s) \<and> length t \<le> length s \<and> (must \<longrightarrow> length t < length s)"
  unfolding match_at_def by (metis (mono_tags, lifting) find_Some_iff nth_mem rests_length)

function re_sub :: "bool \<Rightarrow> rx \<Rightarrow> pystr \<Rightarrow> pystr \<Rightarrow> pystr" where
  "re_sub must_advance r new s =
     (case match_at must_advance r s of
        Some t \<Rightarrow> new @ re_sub (length t = length s) r new t
      | None \<Rightarrow> (case s of [] \<Rightarrow> [] | c # t \<Rightarrow> c # re_sub False r new t))"
  by pat_completeness auto
termination
proof (relation "measure (\<lambda>(must, r, new, s). 2 * length s + (if must then 0 else 1))", goal_cases)
  case (3 must r new s t)
  then show ?case using match_at_Some[of must r s t] by auto
qed auto

declare re_sub.simps [simp del]

section \<open>What a search finds and a substitution leaves\<close>

lemma match_at_None: "match_at must r s = None \<longleftrightarrow> (\<forall>u \<in> rx_lang r. \<forall>t. s = u @ t \<longrightarrow> must \<and> u = [])"
  unfolding match_at_def find_None_iff by (fastforce simp: rests_iff)

lemma re_search_iff: "re_search r s \<longleftrightarrow> (\<exists>u \<in> rx_lang r. sublist u s)"
proof (induction s)
  case Nil
  have "match_at False r [] \<noteq> None \<longleftrightarrow> [] \<in> rx_lang r" unfolding match_at_None by auto
  then show ?case by auto
next
  case (Cons c s)
  have "match_at False r (c # s) \<noteq> None \<longleftrightarrow> (\<exists>u \<in> rx_lang r. prefix u (c # s))"
    unfolding match_at_None by (auto simp: prefix_def)
  with Cons show ?case by (auto simp: sublist_Cons_right)
qed

lemma re_sub_clean: "\<not> re_search r s \<Longrightarrow> re_sub must r new s = s"
proof (induction s arbitrary: must)
  case Nil
  then have "match_at must r [] = None" by (auto simp: re_search_iff match_at_None)
  then show ?case by (simp add: re_sub.simps)
next
  case (Cons c s)
  then have "\<forall>u \<in> rx_lang r. \<not> prefix u (c # s)" by (auto simp: re_search_iff sublist_Cons_right)
  then have "match_at must r (c # s) = None" unfolding match_at_None by (metis prefixI)
  with Cons show ?case by (simp add: re_sub.simps[of must r new "c # s"])
qed

text \<open>
  A text without a separator lies on one side of each separator.  So a text that has no bracket and is not
  inside the marker occurs in the result of a substitution only where it occurred before.
\<close>

lemma sublist_separator: "c \<notin> set u \<Longrightarrow> sublist u (x @ c # y) \<Longrightarrow> sublist u x \<or> sublist u y"
proof (induction x)
  case Nil
  then show ?case by (cases u) (auto simp: sublist_Cons_right)
next
  case (Cons d x)
  have "prefix u (d # x)" if "prefix u (d # x @ c # y)"
    using that Cons.prems(1) prefix_append[of u "d # x" "c # y"] by (auto simp: prefix_Cons)
  with Cons show ?case by (auto simp: sublist_Cons_right)
qed

definition marker :: "pystr \<Rightarrow> pystr" where
  "marker body = [91] @ body @ [93]"

lemma sublist_marker:
  assumes "91 \<notin> set u" "93 \<notin> set u" "sublist u (marker body @ y)"
  shows "sublist u body \<or> sublist u y"
proof -
  have "sublist u ([] @ 91 # (body @ 93 # y))" using assms(3) by (simp add: marker_def)
  from sublist_separator[OF assms(1) this] have "sublist u (body @ 93 # y)"
    by (auto intro: sublist_Nil_left)
  from sublist_separator[OF assms(2) this] show ?thesis .
qed

lemma re_sub_prefix:
  "91 \<notin> set u \<Longrightarrow> prefix u (re_sub must r (marker body) s) \<Longrightarrow> prefix u s"
proof (induction must r "marker body" s arbitrary: u rule: re_sub.induct)
  case (1 must r s)
  show ?case
  proof (cases "match_at must r s")
    case None
    with 1 show ?thesis by (cases u) (auto simp: re_sub.simps[of must r _ s] split: list.splits)
  next
    case (Some t)
    with "1.prems" show ?thesis by (cases u) (auto simp: re_sub.simps[of must r _ s] marker_def)
  qed
qed

lemma re_sub_sublist:
  assumes "91 \<notin> set u" "93 \<notin> set u" "\<not> sublist u body"
  shows "sublist u (re_sub must r (marker body) s) \<Longrightarrow> sublist u s"
proof (induction must r "marker body" s rule: re_sub.induct)
  case (1 must r s)
  show ?case
  proof (cases "match_at must r s")
    case None
    show ?thesis
    proof (cases s)
      case (Cons c t)
      with None "1.prems" have "prefix u (c # re_sub False r (marker body) t) \<or> sublist u (re_sub False r (marker body) t)"
        by (simp add: re_sub.simps[of must r _ "c # t"] sublist_Cons_right)
      moreover have "prefix u s" if "prefix u (c # re_sub False r (marker body) t)"
        using re_sub_prefix[of u must r body s] that assms(1) None Cons by (simp add: re_sub.simps[of must r _ "c # t"])
      ultimately show ?thesis using "1.hyps"(1)[OF None Cons] Cons by (auto simp: sublist_Cons_right)
    qed (use None "1.prems" in \<open>simp add: re_sub.simps\<close>)
  next
    case (Some t)
    with "1.prems" have "sublist u (re_sub (length t = length s) r (marker body) t)"
      using sublist_marker[OF assms(1,2), of body] assms(3) by (auto simp: re_sub.simps[of must r _ s])
    with "1.hyps"(2)[OF Some] have "sublist u t" by blast
    moreover have "sublist t s" using match_at_Some[OF Some] by (auto simp: rests_iff)
    ultimately show ?thesis by (rule sublist_order.order.trans)
  qed
qed

lemma re_sub_removes:
  assumes "91 \<notin> set u" "93 \<notin> set u" "\<not> sublist u body" "u \<noteq> []"
  shows "u \<in> rx_lang r \<Longrightarrow> \<not> sublist u (re_sub must r (marker body) s)"
proof (induction must r "marker body" s rule: re_sub.induct)
  case (1 must r s)
  show ?case
  proof (cases "match_at must r s")
    case None
    have "\<not> prefix u s" using None "1.prems" assms(4) unfolding match_at_None by (auto simp: prefix_def)
    then have "\<not> prefix u (re_sub must r (marker body) s)" using re_sub_prefix assms(1) by blast
    with 1 None assms(4) show ?thesis
      by (auto simp: re_sub.simps[of must r _ s] sublist_Cons_right split: list.splits)
  next
    case (Some t)
    with 1 assms show ?thesis by (auto simp: re_sub.simps[of must r _ s] dest: sublist_marker)
  qed
qed

section \<open>Reading expressions\<close>

fun nullable :: "rx \<Rightarrow> bool" where
  "nullable REmpty = True"
| "nullable (RSeq a b) = (nullable a \<and> nullable b)"
| "nullable (RAlt a b) = (nullable a \<or> nullable b)"
| "nullable (RStar a) = True"
| "nullable r = False"

lemma nullable_lang: "nullable r \<longleftrightarrow> [] \<in> rx_lang r"
  by (induction r) (auto intro: star_of.intros)

text \<open>A set of characters, with and without \<^verbatim>\<open>(?i)\<close>.\<close>

definition is_alnum :: "int \<Rightarrow> bool" where
  "is_alnum c \<longleftrightarrow> (48 \<le> c \<and> c \<le> 57) \<or> (65 \<le> c \<and> c \<le> 90) \<or> (97 \<le> c \<and> c \<le> 122)"

fun rx_items :: "bool \<Rightarrow> bool \<Rightarrow> set_item list \<Rightarrow> rx option" where
  "rx_items False neg items = Some (RSet neg items)"
| "rx_items True neg items =
     (if items = [Space] \<or> items = [NonSpace] then Some (RSet neg items)
      else if list_all (\<lambda>i. case i of Single c \<Rightarrow> 0 \<le> c \<and> c < 128 | _ \<Rightarrow> False) items
      then Some (RFold neg (map (\<lambda>i. case i of Single c \<Rightarrow> fold_case c | _ \<Rightarrow> 0) items)) else None)"

text \<open>An escaped character: white space, or a character that is neither a letter nor a digit.\<close>

definition re_escape :: "int \<Rightarrow> set_item option" where
  "re_escape c = (if c = 115 then Some Space else if c = 83 then Some NonSpace else if is_alnum c then None else Some (Single c))"

text \<open>
  The characters of a class up to its closing bracket, a bracket that comes first being one of them; the flag
  tells a hyphen that may make a range.
\<close>

fun class_chars :: "bool \<Rightarrow> pystr \<Rightarrow> ((bool \<times> set_item) list \<times> pystr) option" where
  "class_chars first [] = None"
| "class_chars first (c # s) =
     (if c = 93 \<and> \<not> first then Some ([], s)
      else if c = 92 then
        (case s of [] \<Rightarrow> None
         | d # t \<Rightarrow> (case (re_escape d, class_chars False t) of
             (Some i, Some (is, u)) \<Rightarrow> Some ((False, i) # is, u) | _ \<Rightarrow> None))
      else (case class_chars False s of None \<Rightarrow> None | Some (is, u) \<Rightarrow> Some ((c = 45, Single c) # is, u)))"

fun class_items :: "(bool \<times> set_item) list \<Rightarrow> set_item list option" where
  "class_items ((h, i) # (True, j) # (h', k) # is) =
     (case (i, k) of
        (Single a, Single b) \<Rightarrow> if a \<le> b then map_option ((#) (Range a b)) (class_items is) else None
      | _ \<Rightarrow> None)"
| "class_items ((h, i) # is) = map_option ((#) i) (class_items is)"
| "class_items [] = Some []"

definition re_class :: "bool \<Rightarrow> pystr \<Rightarrow> (rx \<times> pystr) option" where
  "re_class icase s =
     (let neg = (s \<noteq> [] \<and> hd s = 94) in
      case class_chars True (if neg then tl s else s) of None \<Rightarrow> None
      | Some (cs, t) \<Rightarrow> (case class_items cs of None \<Rightarrow> None
          | Some is \<Rightarrow> map_option (\<lambda>r. (r, t)) (rx_items icase neg is)))"

text \<open>The quantifier after an expression; two of them in a row (lazy, possessive) are outside the fragment.\<close>

definition re_quantify :: "rx \<Rightarrow> pystr \<Rightarrow> (rx \<times> pystr) option" where
  "re_quantify r s =
     (case s of [] \<Rightarrow> Some (r, s)
      | c # t \<Rightarrow>
          if c = 123 then None
          else if c \<noteq> 42 \<and> c \<noteq> 43 \<and> c \<noteq> 63 then Some (r, s)
          else if nullable r \<or> (t \<noteq> [] \<and> List.member [42, 43, 63, 123] (hd t)) then None
          else Some (if c = 42 then RStar r else if c = 43 then RSeq r (RStar r) else RAlt r REmpty, t))"

text \<open>
  Alternatives, sequences and single expressions.  \<open>n\<close> only bounds the recursion: every call reads a character or
  is one of at most two in a row that do not (\<open>re_parse_bound\<close>).
\<close>

fun re_alt :: "nat \<Rightarrow> bool \<Rightarrow> pystr \<Rightarrow> (rx \<times> pystr) option"
  and re_seq :: "nat \<Rightarrow> bool \<Rightarrow> pystr \<Rightarrow> (rx \<times> pystr) option"
  and re_item :: "nat \<Rightarrow> bool \<Rightarrow> pystr \<Rightarrow> (rx \<times> pystr) option" where
  "re_alt 0 icase s = None"
| "re_alt (Suc n) icase s =
     (case re_seq n icase s of
        Some (a, c # t) \<Rightarrow> if c = 124 then map_option (\<lambda>(b, u). (RAlt a b, u)) (re_alt n icase t) else Some (a, c # t)
      | x \<Rightarrow> x)"
| "re_seq 0 icase s = None"
| "re_seq (Suc n) icase s =
     (if s = [] \<or> hd s = 124 \<or> hd s = 41 then Some (REmpty, s)
      else (case re_item n icase s of None \<Rightarrow> None
        | Some (a, t) \<Rightarrow> (case re_quantify a t of None \<Rightarrow> None
            | Some (b, u) \<Rightarrow> map_option (\<lambda>(c, v). (if c = REmpty then b else RSeq b c, v)) (re_seq n icase u))))"
| "re_item 0 icase s = None"
| "re_item (Suc n) icase s =
     (case s of [] \<Rightarrow> None
      | c # t \<Rightarrow>
          if c = 46 then Some (RDot, t)
          else if c = 91 then re_class icase t
          else if c = 92 then
            (case t of [] \<Rightarrow> None
             | d # u \<Rightarrow> (case re_escape d of None \<Rightarrow> None
                 | Some i \<Rightarrow> map_option (\<lambda>r. (r, u)) (rx_items icase False [i])))
          else if c = 40 then
            (if t \<noteq> [] \<and> hd t = 63 \<and> take 2 t \<noteq> [63, 58] then None
             else (case re_alt n icase (if take 2 t = [63, 58] then drop 2 t else t) of
                     Some (r, d # u) \<Rightarrow> if d = 41 then Some (r, u) else None | _ \<Rightarrow> None))
          else if List.member [42, 43, 63, 123, 94, 36, 41, 124] c then None
          else map_option (\<lambda>r. (r, t)) (rx_items icase False [Single c]))"

definition re_parse :: "pystr \<Rightarrow> rx option" where
  "re_parse s =
     (let icase = py_startswith s (L ''(?i)''); body = (if icase then drop 4 s else s) in
      case re_alt (3 * length body + 3) icase body of Some (r, []) \<Rightarrow> Some r | _ \<Rightarrow> None)"

lemma class_chars_length: "class_chars first s = Some (is, t) \<Longrightarrow> length t < length s"
  by (induction first s arbitrary: "is" t rule: class_chars.induct)
    (fastforce split: if_splits list.splits option.splits)+

lemma re_class_length: "re_class icase s = Some (r, t) \<Longrightarrow> length t \<le> length s"
  by (cases s) (auto simp: re_class_def Let_def simp del: class_chars.simps split: option.splits if_splits dest!: class_chars_length)

lemma re_quantify_length: "re_quantify r s = Some (q, t) \<Longrightarrow> length t \<le> length s"
  by (auto simp: re_quantify_def split: list.splits if_splits)

lemma re_parse_length:
  "re_alt n icase s = Some (r, t) \<Longrightarrow> length t \<le> length s"
  "re_seq n icase s = Some (r, t) \<Longrightarrow> length t \<le> length s"
  "re_item n icase s = Some (r, t) \<Longrightarrow> length t < length s"
proof (induction n icase s and n icase s and n icase s arbitrary: r t and r t and r t rule: re_alt_re_seq_re_item.induct)
  case (2 n icase s)
  then show ?case by (fastforce split: option.splits list.splits if_splits)
next
  case (4 n icase s)
  then show ?case by (fastforce split: option.splits if_splits dest: re_quantify_length)
next
  case (6 n icase s)
  then show ?case by (fastforce split: option.splits list.splits if_splits dest: re_class_length)
qed auto

lemma re_parse_step:
  "(3 * length s + 3 \<le> n \<longrightarrow> re_alt (Suc n) icase s = re_alt n icase s) \<and>
   (3 * length s + 2 \<le> n \<longrightarrow> re_seq (Suc n) icase s = re_seq n icase s) \<and>
   (3 * length s + 1 \<le> n \<longrightarrow> re_item (Suc n) icase s = re_item n icase s)"
proof (induction n arbitrary: s)
  case (Suc n)
  have a: "re_alt (Suc (Suc n)) icase s = re_alt (Suc n) icase s" if "3 * length s + 3 \<le> Suc n"
  proof -
    have "re_seq (Suc n) icase s = re_seq n icase s" using Suc that by auto
    moreover have "re_alt (Suc n) icase t = re_alt n icase t" if "re_seq n icase s = Some (a, c # t)" for a c t
      using Suc[of t] re_parse_length(2)[OF that] \<open>3 * length s + 3 \<le> Suc n\<close> by auto
    ultimately show ?thesis
      by (simp del: re_seq.simps split: option.split list.split prod.split)
  qed
  have b: "re_seq (Suc (Suc n)) icase s = re_seq (Suc n) icase s" if "3 * length s + 2 \<le> Suc n"
  proof -
    have "re_item (Suc n) icase s = re_item n icase s" using Suc that by auto
    moreover have "re_seq (Suc n) icase u = re_seq n icase u" if "re_item n icase s = Some (a, t)" "re_quantify a t = Some (b, u)" for a t b u
      using Suc[of u] re_parse_length(3)[OF that(1)] re_quantify_length[OF that(2)] \<open>3 * length s + 2 \<le> Suc n\<close> by auto
    ultimately show ?thesis
      by (simp del: re_item.simps split: option.split prod.split)
  qed
  have c: "re_item (Suc (Suc n)) icase s = re_item (Suc n) icase s" if "3 * length s + 1 \<le> Suc n"
  proof -
    have "re_alt (Suc n) icase t = re_alt n icase t" if "length t < length s" for t
      using Suc[of t] that \<open>3 * length s + 1 \<le> Suc n\<close> by auto
    then show ?thesis by (cases s) (simp_all del: re_alt.simps)
  qed
  from a b c show ?case by blast
qed simp

lemma re_parse_bound: "3 * length s + 3 \<le> n \<Longrightarrow> re_alt n icase s = re_alt (3 * length s + 3) icase s"
  by (induction rule: dec_induct) (use re_parse_step in metis)+

end
