(* ===== verification/Redaction.thy ===== *)
theory Redaction
  imports Regex
begin

text \<open>
  The redaction of secrets (\<^verbatim>\<open>hooks/redaction.py\<close>).  An expression outside the fragment of \<open>re_parse\<close>, and a
  replacement with a backslash, which \<^verbatim>\<open>re.sub\<close> would read as a template, are not modelled: their value is the
  marker \<open>Diverged\<close>.  The patterns of \<^verbatim>\<open>config/policy.yaml\<close> are inside the fragment.
\<close>

section \<open>The redactor\<close>

record redaction_finding =
  rf_name :: pyval
  rf_pattern :: pystr

text \<open>An entry of \<^verbatim>\<open>self.patterns\<close>: the name and the compiled expression with its \<^verbatim>\<open>pattern\<close> attribute.\<close>

record redaction_pattern =
  rp_name :: pyval
  rp_regex :: pystr
  rp_rx :: rx

definition re_compile :: "pyval \<Rightarrow> (pystr \<times> rx) result" where
  "re_compile v =
     (case v of
        PStr s \<Rightarrow> (case re_parse s of None \<Rightarrow> Inl (Exc Diverged (L ''expression outside the model'')) | Some r \<Rightarrow> Inr (s, r))
      | _ \<Rightarrow> if hashable v then Inl (Exc TypeError (L ''first argument must be string or compiled pattern''))
            else Inl (unhashable_error v))"

definition add_pattern :: "redaction_pattern list \<Rightarrow> pyval \<Rightarrow> redaction_pattern list result" where
  "add_pattern ps item =
     ebind (py_get_def item (L ''name'') (PStr (L ''unnamed''))) (\<lambda>nm.
     ebind (py_get item (L ''regex'')) (\<lambda>regex.
     if truthy regex then ebind (re_compile regex) (\<lambda>(s, r). Inr (ps @ [\<lparr>rp_name = nm, rp_regex = s, rp_rx = r\<rparr>]))
     else Inr ps))"

definition Redactor_init :: "pyval \<Rightarrow> redaction_pattern list result" where
  "Redactor_init patterns = ebind (py_iter (py_or patterns empty_list)) (efold add_pattern [])"

definition find_secrets :: "redaction_pattern list \<Rightarrow> pystr \<Rightarrow> redaction_finding list" where
  "find_secrets ps text' =
     map (\<lambda>p. \<lparr>rf_name = rp_name p, rf_pattern = rp_regex p\<rparr>) (filter (\<lambda>p. re_search (rp_rx p) text') ps)"

definition marker_body :: "redaction_pattern \<Rightarrow> pystr" where
  "marker_body p = L ''REDACTED:'' @ py_str (rp_name p)"

definition redact_one :: "pystr \<Rightarrow> redaction_pattern \<Rightarrow> pystr result" where
  "redact_one s p =
     (if List.member (marker_body p) 92 then Inl (Exc Diverged (L ''replacement outside the model''))
      else Inr (re_sub False (rp_rx p) (marker (marker_body p)) s))"

definition redact :: "redaction_pattern list \<Rightarrow> pystr \<Rightarrow> pystr result" where
  "redact ps s = efold redact_one s ps"

lemma emap_cong [fundef_cong]: "xs = ys \<Longrightarrow> (\<And>x. x \<in> set ys \<Longrightarrow> f x = g x) \<Longrightarrow> emap f xs = emap g ys"
proof (induction xs arbitrary: ys)
  case (Cons x xs)
  then show ?case by (cases ys) (auto intro!: ebind_cong)
qed auto

fun redact_obj :: "redaction_pattern list \<Rightarrow> pyval \<Rightarrow> pyval result" where
  "redact_obj ps (PStr s) = ebind (redact ps s) (\<lambda>t. Inr (PStr t))"
| "redact_obj ps (PList vs) = ebind (emap (redact_obj ps) vs) (\<lambda>ws. Inr (PList ws))"
| "redact_obj ps (PDict kvs) =
     ebind (emap (\<lambda>(k, v). ebind (redact_obj ps v) (\<lambda>w. Inr (k, w))) kvs) (\<lambda>kws. Inr (PDict kws))"
| "redact_obj ps v = Inr v"

section \<open>Searching is exact\<close>

text \<open>
  \<^verbatim>\<open>find\<close> reports a pattern, in the order of the configuration, exactly when some part of the text is in the
  language of its expression.  The language is defined from the syntax of the expression, without positions,
  order of alternatives or backtracking; the search is the backtracking one.
\<close>

lemma find_exact:
  "find_secrets ps s =
     map (\<lambda>p. \<lparr>rf_name = rp_name p, rf_pattern = rp_regex p\<rparr>) (filter (\<lambda>p. \<exists>u \<in> rx_lang (rp_rx p). sublist u s) ps)"
  by (simp add: find_secrets_def re_search_iff)

section \<open>Redaction is complete\<close>

text \<open>The expression matches no text with a bracket in it: no set of characters has one.\<close>

fun avoids :: "int \<Rightarrow> rx \<Rightarrow> bool" where
  "avoids c REmpty = True"
| "avoids c (RSeq a b) = (avoids c a \<and> avoids c b)"
| "avoids c (RAlt a b) = (avoids c a \<and> avoids c b)"
| "avoids c (RStar a) = avoids c a"
| "avoids c r = (\<not> char_match r c)"

lemma avoids_star: "u \<in> star_of A \<Longrightarrow> \<forall>v \<in> A. c \<notin> set v \<Longrightarrow> c \<notin> set u"
  by (induction rule: star_of.induct) auto

lemma avoids_lang: "avoids c r \<Longrightarrow> u \<in> rx_lang r \<Longrightarrow> c \<notin> set u"
  by (induction r arbitrary: u) (auto dest: avoids_star)

text \<open>
  Patterns for which redaction is complete: none matches the empty text or a text with a bracket, and none
  matches inside the text between the brackets of a marker, which has no backslash.
\<close>

definition sound_patterns :: "redaction_pattern list \<Rightarrow> bool" where
  "sound_patterns ps \<longleftrightarrow>
     list_all (\<lambda>p. \<not> nullable (rp_rx p) \<and> avoids 91 (rp_rx p) \<and> avoids 93 (rp_rx p)
       \<and> list_all (\<lambda>q. \<not> re_search (rp_rx p) (marker_body q)) ps \<and> \<not> List.member (marker_body p) 92) ps"

lemma redact_one_finds:
  assumes p: "\<not> nullable (rp_rx p)" "avoids 91 (rp_rx p)" "avoids 93 (rp_rx p)" "\<not> re_search (rp_rx p) (marker_body q)"
    and s: "redact_one s q = Inr t" "rp_rx p = rp_rx q \<or> \<not> re_search (rp_rx p) s"
  shows "\<not> re_search (rp_rx p) t"
proof
  assume "re_search (rp_rx p) t"
  then obtain u where u: "u \<in> rx_lang (rp_rx p)" "sublist u t" by (auto simp: re_search_iff)
  from s(1) have t: "t = re_sub False (rp_rx q) (marker (marker_body q)) s" by (auto simp: redact_one_def split: if_splits)
  have b: "91 \<notin> set u" "93 \<notin> set u" using u p avoids_lang by blast+
  have m: "\<not> sublist u (marker_body q)" using u p by (auto simp: re_search_iff)
  have n: "u \<noteq> []" using u p by (auto simp: nullable_lang)
  from s(2) show False
    using re_sub_removes[OF b m n] re_sub_sublist[OF b m] u t by (auto simp: re_search_iff)
qed

lemma redact_finds:
  assumes "sound_patterns ps" "set qs \<subseteq> set ps" "efold redact_one s qs = Inr t" "p \<in> set ps"
    "p \<in> set qs \<or> \<not> re_search (rp_rx p) s"
  shows "\<not> re_search (rp_rx p) t"
  using assms(2,3,5)
proof (induction qs arbitrary: s)
  case (Cons q qs)
  then obtain s' where s': "redact_one s q = Inr s'" "efold redact_one s' qs = Inr t" by auto
  have "p \<in> set qs \<or> \<not> re_search (rp_rx p) s'"
    using redact_one_finds[OF _ _ _ _ s'(1), of p] Cons.prems assms(1,4) by (auto simp: sound_patterns_def list_all_iff)
  with Cons.IH[OF _ s'(2)] Cons.prems show ?case by simp
qed simp

lemma redact_returns: "sound_patterns ps \<Longrightarrow> set qs \<subseteq> set ps \<Longrightarrow> \<exists>t. efold redact_one s qs = Inr t"
  by (induction qs arbitrary: s) (auto simp: redact_one_def sound_patterns_def list_all_iff)

lemma redact_clean:
  assumes "sound_patterns ps" "set qs \<subseteq> set ps" "\<forall>p \<in> set ps. \<not> re_search (rp_rx p) s"
  shows "efold redact_one s qs = Inr s"
  using assms(2)
proof (induction qs)
  case (Cons q qs)
  then have "redact_one s q = Inr s"
    using assms(1,3) by (auto simp: redact_one_def re_sub_clean sound_patterns_def list_all_iff)
  with Cons show ?case by simp
qed simp

lemma find_secrets_Nil: "find_secrets ps s = [] \<longleftrightarrow> (\<forall>p \<in> set ps. \<not> re_search (rp_rx p) s)"
  by (auto simp: find_secrets_def filter_empty_conv)

text \<open>The texts in a value, keys aside.\<close>

fun texts :: "pyval \<Rightarrow> pystr list" where
  "texts (PStr s) = [s]"
| "texts (PList vs) = concat (map texts vs)"
| "texts (PDict kvs) = concat (map (\<lambda>(k, v). texts v) kvs)"
| "texts v = []"

lemma redact_text:
  assumes "sound_patterns ps"
  shows "\<exists>t. redact ps s = Inr t \<and> find_secrets ps t = [] \<and> redact ps t = Inr t"
proof -
  obtain t where t: "efold redact_one s ps = Inr t" using redact_returns[OF assms order_refl] by blast
  then have c: "\<forall>p \<in> set ps. \<not> re_search (rp_rx p) t" using redact_finds[OF assms order_refl t] by blast
  then show ?thesis using t redact_clean[OF assms order_refl c] by (simp add: redact_def find_secrets_Nil)
qed

lemma emap_all:
  "(\<And>x. x \<in> set xs \<Longrightarrow> \<exists>y. f x = Inr y \<and> P x y) \<Longrightarrow> \<exists>ys. emap f xs = Inr ys \<and> list_all2 P xs ys"
  by (induction xs) fastforce+

lemma emap_fixed: "(\<And>x. x \<in> set xs \<Longrightarrow> f x = Inr x) \<Longrightarrow> emap f xs = Inr xs"
  by (induction xs) auto

definition redacted :: "redaction_pattern list \<Rightarrow> pyval \<Rightarrow> bool" where
  "redacted ps w \<longleftrightarrow> list_all (\<lambda>t. find_secrets ps t = []) (texts w)"

lemma emap_redact:
  assumes "\<And>x. x \<in> set xs \<Longrightarrow> \<exists>y. f x = Inr y \<and> R y \<and> f y = Inr y"
  shows "\<exists>ys. emap f xs = Inr ys \<and> (\<forall>y \<in> set ys. R y) \<and> emap f ys = Inr ys"
proof -
  from emap_all[of xs f "\<lambda>x y. R y \<and> f y = Inr y"] assms
  obtain ys where ys: "emap f xs = Inr ys" "list_all2 (\<lambda>x y. R y \<and> f y = Inr y) xs ys" by blast
  then have "\<forall>y \<in> set ys. R y \<and> f y = Inr y" by (auto simp: list_all2_conv_all_nth in_set_conv_nth)
  with ys emap_fixed[of ys f] show ?thesis by blast
qed


text \<open>The patterns of \<^verbatim>\<open>config/policy.yaml\<close>.\<close>

definition policy_entry :: "string \<Rightarrow> pystr \<Rightarrow> pyval" where
  "policy_entry n r = PDict [(L ''name'', PStr (L n)), (L ''regex'', PStr r)]"

definition policy_patterns :: pyval where
  "policy_patterns = PList
     [policy_entry ''env_assignment'' (L ''(?i)(api[_-]?key|secret|token|password)'' @ [92] @ L ''s*=''),
      policy_entry ''private_key'' (L ''-----BEGIN [A-Z ]*PRIVATE KEY-----''),
      policy_entry ''bearer_token'' (L ''Bearer'' @ [92] @ L ''s+[A-Za-z0-9._~+/-]+=*''),
      policy_entry ''anthropic_key'' (L ''sk-ant-[A-Za-z0-9._-]+''),
      policy_entry ''claude_proxy_session_token'' (L ''cp_sess_[A-Za-z0-9._-]+'')]"

lemma policy_sound: "case Redactor_init policy_patterns of Inl _ \<Rightarrow> False | Inr ps \<Rightarrow> length ps = 5 \<and> sound_patterns ps"
  by code_simp

definition leaky_log :: pyval where
  "leaky_log = PDict [(L ''token='', PInt 1), (L ''log'', PList [PStr (L ''Api_Key = Bearer ab.c== and cp_sess_x1''), PNone])]"

definition safe_log :: pyval where
  "safe_log = PDict [(L ''token='', PInt 1), (L ''log'', PList [PStr (L ''[REDACTED:env_assignment] [REDACTED:bearer_token] and [REDACTED:claude_proxy_session_token]''), PNone])]"

lemma policy_redacts: "case Redactor_init policy_patterns of Inl _ \<Rightarrow> False | Inr ps \<Rightarrow> redact_obj ps leaky_log = Inr safe_log"
  by code_simp


end
