(* ===== verification/Spec2Isabelle.thy ===== *)
theory Spec2Isabelle
  imports Entry ResultFile Executors Redaction
begin

text \<open>
  A verification development for the agent platform \<^verbatim>\<open>shichimimi_agent\<close> (Python, under
  \<^verbatim>\<open>src/src/shichimimi_agent\<close>).

  \<^bold>\<open>The program.\<close>  A scheduler (\<^verbatim>\<open>scheduler/\<close>) starts jobs by cron expressions.  Its executors, defined in
  \<^verbatim>\<open>cli.py\<close>, run Claude Code in a container or as a Kubernetes Job to write digests (\<^verbatim>\<open>runner/claude_digest.py\<close>,
  \<^verbatim>\<open>runner/invest_digest.py\<close>) or collect posts over MCP (\<^verbatim>\<open>runner/collect_x.py\<close>).  Further commands run a topic
  runner through one of three backends (\<^verbatim>\<open>runner/*_runner.py\<close>, \<^verbatim>\<open>roles/\<close>), write stock memos, publish documents
  with git (\<^verbatim>\<open>documents/\<close>) and test the connections.  Every tool call passes a gate (\<^verbatim>\<open>hooks/\<close>,
  \<^verbatim>\<open>proxies/auth_proxy_client.py\<close>) that falls back to a policy engine (\<^verbatim>\<open>security/\<close>); sessions, tasks, events and
  documents are recorded in SQLite (\<^verbatim>\<open>db/\<close>); the configuration is loaded and validated first (\<^verbatim>\<open>config/\<close>).

  \<^bold>\<open>The model.\<close>  A computation has type \<open>(world, 'a) eff\<close>: it takes the state of the world and returns a result or
  an exception (\<open>Inl\<close>) and the new state, so every raise, every \<^verbatim>\<open>except\<close> and every early return is a branch of a
  definition.  Strings are lists of code points, dynamic values are the datatype \<open>pyval\<close>, dictionaries are
  association lists in insertion order, integers are unbounded as in Python.  What the process cannot know is a
  parameter: \<open>outside\<close> (clocks, random identifiers, the answers of servers and programs, depending on all that
  happened before), \<open>sys_env\<close> (working directory, resolution of links, the YAML parser), \<open>fs_view\<close> (directories),
  \<open>giveup\<close> (when a thread is abandoned) and \<open>listing\<close> (the files of a workspace).

  \<^bold>\<open>Theories, in the order of their imports.\<close>

  \<^item> \<open>PyPrelude\<close>, \<open>PyValue\<close>, \<open>Json\<close>, \<open>PyTime\<close>, \<open>Fnmatch\<close>: what the sources use of Python and its library, with the
    effects, the collections of rules for exceptions (\<open>tame_intros\<close>) and the round trip of JSON; \<^verbatim>\<open>util/time.py\<close>.
  \<^item> \<open>Regex\<close>, \<open>Redaction\<close>: the fragment of \<^verbatim>\<open>re\<close> that the redaction patterns use, with its backtracking search proved
    equal to the language of an expression, and \<^verbatim>\<open>hooks/redaction.py\<close>.  After redaction no pattern matches any more.
  \<^item> \<open>PathPolicy\<close>, \<open>PolicyEngine\<close>: \<^verbatim>\<open>security/path_policy.py\<close>, \<^verbatim>\<open>security/policy_engine.py\<close>.  An allowed path stays in
    its directory and is decided exactly by the patterns; the engine refines an abstract specification.
  \<^item> \<open>Cron\<close>, \<open>Scheduler\<close>, \<open>Notify\<close>: \<^verbatim>\<open>scheduler/\<close>.  Parsing against a specification of cron, the earliest next run,
    retries, at most one run per minute, isolation of jobs, notifications, the resident loop and the reachable
    states of the table of last runs.
  \<^item> \<open>Database\<close>, \<open>World\<close>, \<open>Repository\<close>: \<^verbatim>\<open>db/\<close>, \<^verbatim>\<open>util/ids.py\<close> and the state of the world.  Every operation keeps
    the constraints of the schema; seen through the statuses the repository refines two maps (locale
    \<open>task_store\<close>); the research queue is read as it was written.
  \<^item> \<open>Config\<close>: \<^verbatim>\<open>config/\<close>.  What a validated configuration guarantees.
  \<^item> \<open>Proxies\<close>, \<open>CollectX\<close>, \<open>StockResearch\<close>: \<^verbatim>\<open>proxies/\<close>, \<^verbatim>\<open>hooks/\<close>, \<^verbatim>\<open>mcp/client.py\<close>, \<^verbatim>\<open>runner/mcp_session.py\<close>,
    \<^verbatim>\<open>runner/collect_x.py\<close>, \<^verbatim>\<open>runner/stock_research.py\<close>.  The gate fails closed, a refused call is not made, each URL is
    queued once, a returned memo is saved.
  \<^item> \<open>Prompts\<close>, \<open>Invocation\<close>, \<open>Kubernetes\<close>, \<open>ClaudeDigest\<close>, \<open>InvestDigest\<close>: \<^verbatim>\<open>runner/claude_digest.py\<close>,
    \<^verbatim>\<open>runner/git_relay_env.py\<close>, \<^verbatim>\<open>runner/k8s_*.py\<close>, \<^verbatim>\<open>runner/invest_digest.py\<close>.  What reaches a container, quoting of
    its command, the end of polling, and what success and a post to Slack mean.
  \<^item> \<open>Documents\<close>, \<open>TopicRunner\<close>, \<open>Runners\<close>, \<open>Smoke\<close>: \<^verbatim>\<open>documents/\<close>, \<^verbatim>\<open>research/\<close>, \<^verbatim>\<open>roles/\<close>, the backends and
    \<^verbatim>\<open>runner/claude_smoke.py\<close>.  No credentials in errors, confined publication, dry runs, bounded summaries, equal
    hardening and one allowlist of variables for both kinds of runners.
  \<^item> \<open>Cli\<close>, \<open>Commands\<close>: \<^verbatim>\<open>cli.py\<close>, \<^verbatim>\<open>sessions/workspace.py\<close>, \<^verbatim>\<open>util/logging.py\<close>: all commands, the executors and the
    notifier of the scheduler.
  \<^item> \<open>Lifecycle\<close>, \<open>Progress\<close>, \<open>CommandRuns\<close>, \<open>ResultFile\<close>, \<open>Executors\<close>, and this theory: the commands as a whole.  The
    locales \<open>bracketed_run\<close> and \<open>retryable_store\<close> extend \<open>task_store\<close> and are interpreted on the digests and on the
    repository; with them, what each run leaves in the database, that a run which was opened can be closed, that
    the result file is read as it was written, and that the executors meet the contract of the scheduler.
  \<^item> \<open>Argparse\<close>, \<open>Entry\<close>: what \<^verbatim>\<open>build_parser\<close> uses of \<^verbatim>\<open>argparse\<close>, and \<^verbatim>\<open>build_parser\<close>, \<^verbatim>\<open>main\<close> and \<^verbatim>\<open>__main__.py\<close>.  Every
    command line selects a command with all its attributes or exits; the command lines that the backends build
    for a runner are read back as the tasks they were built from.  With the result file this gives, in this theory,
    that a runner reports the outcome of the local backend.

  \<^bold>\<open>Fuel and bounds.\<close>  The only loop with fuel is the polling of a Kubernetes Job (\<open>wait_loop\<close>); running out of fuel is
  the exception \<open>Diverged\<close>, which no handler of the program catches.  With a clock that advances by the polling
  interval between polls, \<open>timeout div interval + 2\<close> units are enough (\<open>Kubernetes\<close>); the scheduled digests wait at
  most 1260 seconds at intervals of 5 seconds, so 254 are.  \<^verbatim>\<open>run_forever\<close> is given by its turns
  (\<open>forever_turns\<close>).  The parser of regular expressions has a bound of three times the length of the text, and a larger
  one gives the same result (\<open>re_parse_bound\<close>).  All other recursions end structurally or by a measure.

  \<^bold>\<open>Not modelled.\<close>  The texts of usage and help messages, regular expressions outside the fragment of \<open>Regex\<close> (the
  patterns of \<^verbatim>\<open>config/policy.yaml\<close> are inside), the creation of directories, HTTP timeouts and TLS settings as such,
  the functions replaced in tests (client factories, which are fixed to their defaults), and everything that is
  not the Python program: the Go services, deployment files and documents.
\<close>

section \<open>The scheduler with its executors\<close>

lemma print_lines: "for_each (\<lambda>r. print_out (g r)) rs w = (Inr (), w\<lparr>out_log := out_log w @ map g rs\<rparr>)"
  by (induction rs arbitrary: w) (simp_all add: sbind_def print_out_def)

lemma run_engine_returns: "m \<lparr>last_fired = Map.empty, stderr = [], outer = w\<rparr> = (Inr x, st) \<Longrightarrow> \<exists>w'. run_engine m w = (Inr x, w')"
  by (simp add: run_engine_def)


definition demo_services :: outside where
  "demo_services = demo_answers\<lparr>o_mono := (\<lambda>n. 5000000 * int n)\<rparr>"


section \<open>A task in a runner\<close>

lemma publish_result_ok:
  assumes "encodable (json_dumps_raw payload)"
  shows "\<exists>w'. publish_result config sid payload code w = (Inr code, w') \<and> files w' (result_path (cfg_root config) sid) = Some (json_dumps_raw payload)"
  using assms by (auto simp: publish_result_def write_result_file_def sbind_def print_out_def write_text_def utf8_len_def encodable_def list_ex_iff list_all_iff)

lemma runner_result_payload: "execute_runner_task out config task w = (Inr r, w') \<Longrightarrow> result_of_payload (xr_payload r) = Inr r"
  by (auto simp: execute_runner_task_def runner_payload_def result_of_payload_def assoc_get_def elim!: sbind_InrE split: if_splits)

text \<open>What the backend can know of the outcome of a task from the result file.\<close>

definition reported :: "pystr \<Rightarrow> pystr \<Rightarrow> pystr \<Rightarrow> exec_result result \<Rightarrow> int \<Rightarrow> world \<Rightarrow> bool" where
  "reported root sid msg outcome code w =
     (case outcome of
        Inr r \<Rightarrow> code = 0 \<and> collect_runner_result root sid w = (Inr r, w)
      | Inl e \<Rightarrow> code = 1 \<and> augment_with_result_error root sid msg w =
          (Inr (msg @ L ''; runner-execute reported '' @ exc_type_name (exc_type e) @ L '': '' @ exc_msg e), w))"

definition reportable :: "exec_result result \<Rightarrow> bool" where
  "reportable outcome =
     (let payload = (case outcome of Inr r \<Rightarrow> xr_payload r | Inl e \<Rightarrow> failed_payload e) in
      json_ok False payload \<and> encodable (json_dumps_raw payload) \<and> (case outcome of Inr r \<Rightarrow> True | Inl e \<Rightarrow> is_Exception e))"

lemma execute_and_publish_reports:
  assumes "execute_runner_task out config task w = (outcome, v)" and "reportable outcome"
  shows "\<exists>code w'. execute_and_publish out config task w = (Inr code, w') \<and> reported (cfg_root config) (rt_session_id task) msg outcome code w'"
proof (cases outcome)
  case (Inr r)
  with assms(2) have p: "json_ok False (xr_payload r)" "encodable (json_dumps_raw (xr_payload r))" by (simp_all add: reportable_def Let_def)
  from publish_result_ok[OF p(2)] obtain w' where w': "publish_result config (rt_session_id task) (xr_payload r) 0 v = (Inr 0, w')"
    "files w' (result_path (cfg_root config) (rt_session_id task)) = Some (json_dumps_raw (xr_payload r))" by blast
  with assms(1) Inr read_result(1)[OF w'(2) p(1)] runner_result_payload show ?thesis
    by (intro exI[of _ 0] exI[of _ w']) (simp add: execute_and_publish_def reported_def)
next
  case (Inl e)
  with assms(2) have p: "json_ok False (failed_payload e)" "encodable (json_dumps_raw (failed_payload e))" "is_Exception e" by (simp_all add: reportable_def Let_def)
  from publish_result_ok[OF p(2)] obtain w' where w': "publish_result config (rt_session_id task) (failed_payload e) 1 v = (Inr 1, w')"
    "files w' (result_path (cfg_root config) (rt_session_id task)) = Some (json_dumps_raw (failed_payload e))" by blast
  with assms(1) Inl p(3) read_result(2)[OF w'(2) p(1)] show ?thesis
    by (intro exI[of _ 1] exI[of _ w']) (simp add: execute_and_publish_def reported_def reported_error_def failed_payload_def error_record_def assoc_get_def Let_def)
qed

text \<open>C10. A runner is as good as a local run: the command line that the container and Kubernetes backends build for a
  prepared task, given to \<^verbatim>\<open>main\<close> in the runner, with a configuration that has the same schedules, ends with the
  outcome that the local backend has on this task there.  When the local run returns a result, the exit code is 0
  and the backend collects this result from the result file; when it raises, the exit code is 1 and the
  backend's message ends with the type and the message of the exception.  (The name of the job must not begin
  with a hyphen, and the outcome must be text that JSON and UTF-8 can carry.)\<close>

theorem remote_run_matches_local:
  assumes "prepare_task out config nm dry src w0 = (Inr task, w0')"
    and "plain_arg nm" and "root \<noteq> []" and "hd root \<noteq> CHR ''-''"
    and "load_validated_config (m_sys m) (Some (L root)) w = (Inr config', w1)" and "cfg_schedules config' = cfg_schedules config"
    and "migrate (m_out m) w1 = (Inr (), w2)"
    and "local_run_task (m_out m) config' task w2 = (outcome, w3)" and "reportable outcome"
  shows "\<exists>code w4. main m (drop 2 (execute_args task root)) w = (Inr code, w4) \<and>
    reported (cfg_root config') (rt_session_id task) msg outcome code w4"
  using main_runs_task[OF assms(1-6)] execute_and_publish_reports[OF assms(8)[unfolded local_run_task_def] assms(9), of msg] assms(7)
  by simp

theorem remote_run_matches_local_witness:
  "\<exists>c task w' w4. prepare_task demo_answers c (L ''x-signal-collector'') True ''cli'' demo_project = (Inr task, w') \<and>
     main demo_entry (drop 2 (execute_args task ''/p'')) demo_project = (Inr 1, w4) \<and>
     augment_with_result_error (cfg_root c) (rt_session_id task) (L ''failed'') w4 =
       (Inr (L ''failed; runner-execute reported NotImplementedError: runner currently supports ai_it_topic_runner only, got r''), w4)"
proof -
  let ?e = "Exc NotImplementedError (L ''runner currently supports ai_it_topic_runner only, got r'')"
  obtain c task w' where p: "prepare_task demo_answers c (L ''x-signal-collector'') True ''cli'' demo_project = (Inr task, w')"
    and c: "load_validated_config demo_machine (Some (L ''/p'')) demo_project = (Inr c, demo_project)" and r: "rt_role task = PStr (L ''r'')"
    by (rule demo_prepared)
  obtain w2 where m: "migrate demo_answers demo_project = (Inr (), w2)"
    by (simp add: migrate_def sbind_def connect_def exec_sql_def demo_answers_def demo_out_def)
  have l: "local_run_task demo_answers c task w2 = (Inl ?e, w2)"
    using r by (simp add: local_run_task_def execute_runner_task_def topic_role_def L_append[symmetric])
  have "plain_arg (L ''x-signal-collector'')" "reportable (Inl ?e)" by code_simp+
  from remote_run_matches_local[OF p this(1), of "''/p''" demo_entry demo_project c demo_project w2 "Inl ?e" w2 "L ''failed''"] this(2) c m l show ?thesis
    using p by (auto simp: demo_entry_def reported_def L_append[symmetric])
qed

end
